(* ===== verification/Prelude.thy ===== *)
theory Prelude
  imports Main "HOL-Library.Word" "HOL-Library.List_Lexorder" "HOL-Library.Char_ord"
begin

text \<open>
  Shared vocabulary of the development: the machine types of the crate, the result type of
  fallible code with its bind, and the functions of the Rust standard library on strings,
  slices and iterators that the crate calls, with the lemmas the component theories share.

  A Rust \<open>&str\<close> is UTF-8, so it is modelled by \<^typ>\<open>string\<close> read as its UTF-8 byte
  sequence (an Isabelle \<^typ>\<open>char\<close> is one byte). A byte slice is a list of 8-bit words and
  \<open>as_bytes\<close> goes from the first to the second. A \<open>Result<T, E>\<close> is the sum \<open>'e + 'a\<close>
  with the error on the left.
\<close>

section \<open>Machine types\<close>

type_synonym u8 = "8 word"
type_synonym u16 = "16 word"
type_synonym u32 = "32 word"
type_synonym u64 = "64 word"
type_synonym bytes = "u8 list"

text \<open>\<open>named_theorems\<close> of the development: inversion of fallible code, and the
  equations that evaluate the standard-library string functions on concrete input.\<close>

named_theorems res_inv \<comment> \<open>inversion of a successful result\<close>
named_theorems std_eval \<comment> \<open>definitions that witnesses unfold\<close>

section \<open>Results: the \<open>?\<close> operator and its relatives\<close>

definition res_bind :: "'e + 'a \<Rightarrow> ('a \<Rightarrow> 'e + 'b) \<Rightarrow> 'e + 'b" where
  "res_bind m f = (case m of Inl e \<Rightarrow> Inl e | Inr x \<Rightarrow> f x)"

definition map_err :: "('e \<Rightarrow> 'f) \<Rightarrow> 'e + 'a \<Rightarrow> 'f + 'a" where
  "map_err g m = (case m of Inl e \<Rightarrow> Inl (g e) | Inr x \<Rightarrow> Inr x)"

definition ok_or :: "'e \<Rightarrow> 'a option \<Rightarrow> 'e + 'a" where
  "ok_or e x = (case x of None \<Rightarrow> Inl e | Some a \<Rightarrow> Inr a)"

text \<open>\<open>Option::map(f).transpose()\<close>.\<close>

definition opt_transpose :: "('a \<Rightarrow> 'e + 'b) \<Rightarrow> 'a option \<Rightarrow> 'e + 'b option" where
  "opt_transpose f x = (case x of None \<Rightarrow> Inr None
     | Some a \<Rightarrow> res_bind (f a) (\<lambda>b. Inr (Some b)))"

text \<open>\<open>iter.map(f).collect::<Result<Vec<_>, _>>()\<close>: stops at the first error.\<close>

fun collect_results :: "('a \<Rightarrow> 'e + 'b) \<Rightarrow> 'a list \<Rightarrow> 'e + 'b list" where
  "collect_results f [] = Inr []"
| "collect_results f (x # xs) =
     res_bind (f x) (\<lambda>y. res_bind (collect_results f xs) (\<lambda>ys. Inr (y # ys)))"

text \<open>\<open><[T; 1]>::try_from(v)\<close> with an error that reports the length.\<close>

definition exactly_one :: "(nat \<Rightarrow> 'e) \<Rightarrow> 'a list \<Rightarrow> 'e + 'a" where
  "exactly_one err xs = (if length xs = 1 then Inr (hd xs) else Inl (err (length xs)))"

definition is_ok :: "'e + 'a \<Rightarrow> bool" where
  "is_ok m = (case m of Inl _ \<Rightarrow> False | Inr _ \<Rightarrow> True)"

lemma res_bind_Inl [simp, std_eval]: "res_bind (Inl e) f = Inl e"
  by (simp add: res_bind_def)

lemma res_bind_Inr [simp, std_eval]: "res_bind (Inr x) f = f x"
  by (simp add: res_bind_def)

lemma res_bind_eq_Inr [simp]: "res_bind m f = Inr y \<longleftrightarrow> (\<exists>x. m = Inr x \<and> f x = Inr y)"
  by (cases m) auto

lemma res_bind_eq_Inl: "res_bind m f = Inl e \<longleftrightarrow> m = Inl e \<or> (\<exists>x. m = Inr x \<and> f x = Inl e)"
  by (cases m) auto

text \<open>An early return: \<open>if c { return Err(e) }\<close> in front of the rest of a body.\<close>

lemma guard_eq_Inr [simp]:
  "(if c then Inl e else m) = Inr y \<longleftrightarrow> \<not> c \<and> m = Inr y"
  "(if c then m else Inl e) = Inr y \<longleftrightarrow> c \<and> m = Inr y"
  by simp_all

lemma guard_eq_Inl:
  "(if c then Inl e else m) = Inl e' \<longleftrightarrow> (c \<and> e' = e) \<or> (\<not> c \<and> m = Inl e')"
  by auto

lemma res_bind_assoc: "res_bind (res_bind m f) g = res_bind m (\<lambda>x. res_bind (f x) g)"
  by (cases m) simp_all

lemma res_bind_cong [fundef_cong]:
  "m = m' \<Longrightarrow> (\<And>x. m' = Inr x \<Longrightarrow> f x = f' x) \<Longrightarrow> res_bind m f = res_bind m' f'"
  by (cases m') auto

lemma res_bindE [elim, consumes 1, case_names Inr]:
  assumes "res_bind m f = Inr y"
  obtains x where "m = Inr x" "f x = Inr y"
  using assms by auto

lemma map_err_simps [simp, std_eval]:
  "map_err g (Inl e) = Inl (g e)" "map_err g (Inr x) = Inr x"
  by (simp_all add: map_err_def)

lemma map_err_eq_Inr [simp]: "map_err g m = Inr x \<longleftrightarrow> m = Inr x"
  by (cases m) auto

lemma map_err_eq_Inl: "map_err g m = Inl e \<longleftrightarrow> (\<exists>e'. m = Inl e' \<and> e = g e')"
  by (cases m) auto

lemma ok_or_simps [simp, std_eval]: "ok_or e None = Inl e" "ok_or e (Some x) = Inr x"
  by (simp_all add: ok_or_def)

lemma ok_or_eq_Inr [simp]: "ok_or e m = Inr x \<longleftrightarrow> m = Some x"
  by (cases m) auto

lemma ok_or_eq_Inl: "ok_or e m = Inl e' \<longleftrightarrow> m = None \<and> e' = e"
  by (cases m) auto

lemma opt_transpose_simps [simp, std_eval]:
  "opt_transpose f None = Inr None"
  "opt_transpose f (Some x) = res_bind (f x) (\<lambda>b. Inr (Some b))"
  by (simp_all add: opt_transpose_def)

lemma is_ok_simps [simp, std_eval]: "is_ok (Inl e) = False" "is_ok (Inr x) = True"
  by (simp_all add: is_ok_def)

lemma is_ok_iff: "is_ok m \<longleftrightarrow> (\<exists>x. m = Inr x)"
  by (cases m) auto

lemma exactly_one_Inr [simp]: "exactly_one err xs = Inr x \<longleftrightarrow> xs = [x]"
  by (cases xs) (auto simp: exactly_one_def)

lemma exactly_one_singleton [simp, std_eval]: "exactly_one err [x] = Inr x"
  by simp

lemma exactly_one_Inl: "length xs \<noteq> 1 \<Longrightarrow> exactly_one err xs = Inl (err (length xs))"
  by (simp add: exactly_one_def)

lemma collect_results_eq_Inr:
  "collect_results f xs = Inr ys \<longleftrightarrow> list_all2 (\<lambda>x y. f x = Inr y) xs ys"
  by (induction xs arbitrary: ys) (auto simp: list_all2_Cons1)

lemma collect_results_length [res_inv]:
  "collect_results f xs = Inr ys \<Longrightarrow> length ys = length xs"
  by (simp add: collect_results_eq_Inr list_all2_lengthD)

lemma collect_results_mem [res_inv]:
  assumes "collect_results f xs = Inr ys" and "y \<in> set ys"
  shows "\<exists>x \<in> set xs. f x = Inr y"
  using assms by (induction xs arbitrary: ys) auto

lemma collect_results_prefix:
  "\<forall>u \<in> set us. is_ok (f u) \<Longrightarrow> f x = Inl e \<Longrightarrow> collect_results f (us @ x # vs) = Inl e"
  by (induction us) (auto simp: is_ok_iff)

lemma collect_results_split:
  "collect_results f xs = Inl e \<Longrightarrow>
     \<exists>us x vs. xs = us @ x # vs \<and> f x = Inl e \<and> (\<forall>u \<in> set us. is_ok (f u))"
proof (induction xs)
  case Nil
  then show ?case by simp
next
  case (Cons a xs)
  show ?case
  proof (cases "f a")
    case (Inl e')
    with Cons.prems show ?thesis by (intro exI [of _ "[]"]) auto
  next
    case (Inr y)
    with Cons.prems have "collect_results f xs = Inl e" by (auto simp: res_bind_eq_Inl)
    then obtain us x vs where "xs = us @ x # vs" "f x = Inl e" "\<forall>u \<in> set us. is_ok (f u)"
      using Cons.IH by blast
    with Inr show ?thesis by (intro exI [of _ "a # us"]) auto
  qed
qed

lemma collect_results_first_error:
  "collect_results f xs = Inl e \<longleftrightarrow>
     (\<exists>us x vs. xs = us @ x # vs \<and> f x = Inl e \<and> (\<forall>u \<in> set us. is_ok (f u)))"
  using collect_results_split [of f xs e] collect_results_prefix [of _ f _ e] by blast

section \<open>Iterators\<close>

text \<open>\<open>iter.find(p)\<close> is the first element satisfying the predicate.\<close>

lemma find_prefix: "\<forall>u \<in> set us. \<not> P u \<Longrightarrow> P x \<Longrightarrow> find P (us @ x # vs) = Some x"
  by (induction us) auto

lemma find_split:
  "find P xs = Some x \<Longrightarrow> \<exists>us vs. xs = us @ x # vs \<and> P x \<and> (\<forall>u \<in> set us. \<not> P u)"
proof (induction xs)
  case Nil
  then show ?case by simp
next
  case (Cons a xs)
  show ?case
  proof (cases "P a")
    case True
    with Cons.prems have "a # xs = [] @ x # xs \<and> P x \<and> (\<forall>u \<in> set []. \<not> P u)" by simp
    then show ?thesis by blast
  next
    case False
    with Cons obtain us vs where "xs = us @ x # vs" "P x" "\<forall>u \<in> set us. \<not> P u" by auto
    with False have "a # xs = (a # us) @ x # vs \<and> P x \<and> (\<forall>u \<in> set (a # us). \<not> P u)" by simp
    then show ?thesis by blast
  qed
qed

lemma find_Some_first:
  "find P xs = Some x \<longleftrightarrow> (\<exists>us vs. xs = us @ x # vs \<and> P x \<and> (\<forall>u \<in> set us. \<not> P u))"
  using find_split [of P xs x] find_prefix [of _ P x] by blast

section \<open>Fields and separators\<close>

text \<open>A field that cannot contain the separator is determined by the text up to it.\<close>

lemma sep_append_eq:
  "c \<notin> set a \<Longrightarrow> c \<notin> set b \<Longrightarrow> a @ c # xs = b @ c # ys \<longleftrightarrow> a = b \<and> xs = ys"
proof (induction a arbitrary: b)
  case Nil
  then show ?case by (cases b) auto
next
  case (Cons x a)
  then show ?case by (cases b) auto
qed

end
