(* ===== verification/Errors.thy ===== *)
theory Errors
  imports Std_Lib
begin

text \<open>
  The error taxonomy of \<open>src/src/error.rs\<close> (one datatype per enum, the constructors and
  payloads of the source; the \<open>Display\<close> texts are in theory Error_Text) and
  the resource limits of \<open>src/src/limits.rs\<close>.
\<close>

section \<open>Error taxonomy (error.rs)\<close>

datatype parse_error =
    Json string
  | Base64 string string \<comment> \<open>field, reason\<close>
  | Hex string string \<comment> \<open>field, reason\<close>
  | MalformedDigest string
  | NotAnInteger string string \<comment> \<open>field, value\<close>
  | DsseSignatureCount nat
  | MissingField string
  | EmptyContainer string
  | MalformedSubject string
  | Rfc3339 string string \<comment> \<open>field, reason\<close>
  | Checkpoint string

datatype unsupported_error =
    MediaType string
  | BundlesNotInline
  | TlogEntryKindVersion string string \<comment> \<open>kind, version\<close>
  | DssePayloadType string
  | StatementType string
  | PredicateType string
  | MultipleTlogEntries nat

datatype trust_error = UnknownKeyId | NoTrustedKeyValidAt

datatype certificate_error =
    InvalidDer string
  | UnsupportedKeyAlgorithm
  | UnsupportedSignatureAlgorithm
  | UntrustedCertificate
  | SignatureInvalid
  | IssuerNameMismatch
  | OutsideCertificateValidity
  | OutsideCaValidity
  | InvalidBasicConstraints
  | PathLengthExceeded
  | MissingKeyUsage
  | MissingCodeSigningEku
  | UnknownCriticalExtension
  | DuplicateExtension
  | SctMissing
  | SctInvalid
  | UnknownCtLog
  | SctOutsideKeyValidity

datatype transparency_error =
    InclusionProofInvalid
  | NoTlogEntries
  | UnknownLogKey
  | SetMissing
  | SetInvalid
  | InclusionProofMissing
  | CheckpointTreeSizeMismatch
  | CheckpointRootHashMismatch
  | CheckpointSignatureInvalid
  | CheckpointOriginMismatch

datatype timestamp_error =
    TimestampInvalid
  | IntegratedTimeOutsideLogKeyValidity
  | IntegratedTimeOutsideCertificateValidity

datatype content_binding_error =
    SubjectNotFound
  | DsseSignatureInvalid
  | TlogEntryKindVersionMismatch
  | TlogEntrySignatureMismatch
  | TlogEntryCertificateMismatch
  | TlogEntryPayloadHashMismatch
  | TlogEntryEnvelopeHashMismatch

datatype policy_error =
    InvalidConfiguration string
  | MissingIdentityClaim string
  | MalformedIdentityClaim string string \<comment> \<open>claim, reason\<close>
  | IssuerMismatch string string \<comment> \<open>expected, found\<close>
  | SourceRepositoryMismatch string string
  | SourceOwnerIdMismatch string string
  | SourceRepositoryIdMismatch string string
  | SourceRefMismatch string string
  | SourceCommitMismatch string string
  | SignerRepositoryMismatch string string
  | SignerWorkflowPathMismatch string string
  | SignerRevisionMismatch string string

datatype resource_limit_error =
    InputTooLarge nat nat \<comment> \<open>actual, limit\<close>
  | TooManyJsonNodes nat
  | TooManyTlogEntries nat nat
  | TooManySubjects nat nat
  | TooManyBundles nat nat
  | TooManyCertificates nat nat
  | TooManyCheckpointSignatures nat nat

datatype error =
    Parse parse_error
  | Unsupported unsupported_error
  | Trust trust_error
  | Certificate certificate_error
  | Transparency transparency_error
  | Timestamp timestamp_error
  | ContentBinding content_binding_error
  | Policy policy_error
  | ResourceLimit resource_limit_error

section \<open>Resource limits (limits.rs)\<close>

definition MAX_INPUT_BYTES :: nat where
  "MAX_INPUT_BYTES = 8 * 1024 * 1024"

definition MAX_JSON_NODES :: nat where
  "MAX_JSON_NODES = 262144"

definition MAX_TLOG_ENTRIES :: nat where
  "MAX_TLOG_ENTRIES = 32"

definition MAX_STATEMENT_SUBJECTS :: nat where
  "MAX_STATEMENT_SUBJECTS = 1024"

definition MAX_BUNDLES_PER_SET :: nat where
  "MAX_BUNDLES_PER_SET = 64"

definition MAX_CERTIFICATES_PER_CHAIN :: nat where
  "MAX_CERTIFICATES_PER_CHAIN = 128"

definition MAX_CHECKPOINT_SIGNATURES :: nat where
  "MAX_CHECKPOINT_SIGNATURES = 32"

end
