(* ===== verification/Wire_Types.thy ===== *)
theory Wire_Types
  imports Errors
begin

text \<open>
  The data at the boundary with third-party code: JSON values and the calls a JSON
  deserializer makes on a visitor, the raw mirrors of the wire formats that serde fills in
  (\<open>RawBundle\<close>, \<open>RawTrustedRoot\<close>, \<open>RawStatement\<close>, \<open>RawTlogEntryBody\<close> and their parts), and
  the views of a parsed X.509 certificate that the crate reads through accessor methods.
\<close>

section \<open>JSON\<close>

text \<open>\<open>serde_json::Value\<close>. A 64-bit float is its bit pattern; an object is the key-ordered
  entry list of the \<open>BTreeMap\<close> behind \<open>serde_json::Map\<close>.\<close>

datatype jnumber = PosInt u64 | NegInt int | Float u64

datatype jvalue =
    JNull
  | JBool bool
  | JNumber jnumber
  | JString string
  | JArray "jvalue list"
  | JObject "(string \<times> jvalue) list"

text \<open>What a deserializer makes of an input: the \<open>visit_*\<close> call for each value, with the
  elements of an array or the members of an object as they are asked for, and the point
  where the input stops being JSON. \<open>DErr\<close> is an error instead of a value; the last argument
  of \<open>DSeq\<close>/\<open>DMap\<close> is the error (if any) of asking for the next element or key after the
  listed ones.\<close>

datatype jdrive =
    DUnit
  | DBool bool
  | DI64 int
  | DU64 u64
  | DF64 u64
  | DStr string
  | DErr string
  | DSeq "jdrive list" "string option"
  | DMap "(string \<times> jdrive) list" "string option"

section \<open>Raw mirrors of the bundle format (bundle.rs)\<close>

record raw_certificate =
  rc_raw_bytes :: string

record raw_log_id =
  rl_key_id :: string

record raw_kind_version =
  rk_kind :: string
  rk_version :: string

record raw_inclusion_promise =
  rip_signed_entry_timestamp :: string

record raw_checkpoint =
  rcp_envelope :: string

record raw_inclusion_proof =
  rpf_log_index :: string
  rpf_root_hash :: string
  rpf_tree_size :: string
  rpf_hashes :: "string list"
  rpf_checkpoint :: raw_checkpoint

record raw_tlog_entry =
  rt_log_index :: string
  rt_log_id :: raw_log_id
  rt_kind_version :: raw_kind_version
  rt_integrated_time :: string
  rt_inclusion_promise :: "raw_inclusion_promise option"
  rt_inclusion_proof :: "raw_inclusion_proof option"
  rt_canonicalized_body :: string

record raw_rfc3161_timestamp =
  rts_signed_timestamp :: string

record raw_timestamp_verification_data =
  rtv_rfc3161_timestamps :: "raw_rfc3161_timestamp list"

record raw_verification_material =
  rv_certificate :: raw_certificate
  rv_tlog_entries :: "raw_tlog_entry list"
  rv_timestamp_verification_data :: raw_timestamp_verification_data

record raw_dsse_signature =
  rds_sig :: string
  rds_keyid :: "string option"

record raw_dsse_envelope =
  rd_payload :: string
  rd_payload_type :: string
  rd_signatures :: "raw_dsse_signature list"

record raw_bundle =
  rb_media_type :: string
  rb_verification_material :: raw_verification_material
  rb_dsse_envelope :: raw_dsse_envelope

record raw_attestation_entry =
  ra_initiator :: string
  ra_repository_id :: "u64 option"
  ra_bundle_url :: "string option"
  ra_bundle :: "jvalue option"

record raw_github_response =
  rg_attestations :: "raw_attestation_entry list"

section \<open>Raw mirror of the in-toto statement (statement.rs)\<close>

record raw_statement_subject =
  rss_name :: "string option"
  rss_digest :: "(string \<times> string) list"

record raw_statement =
  rs_type :: string
  rs_subject :: "raw_statement_subject list"
  rs_predicate_type :: string
  rs_predicate :: jvalue

section \<open>Raw mirror of the trusted root (trust.rs)\<close>

record raw_valid_for =
  rvf_start :: string
  rvf_end :: "string option"

record raw_public_key =
  rpk_raw_bytes :: string
  rpk_key_details :: string
  rpk_valid_for :: raw_valid_for

record raw_tlog =
  rtl_base_url :: string
  rtl_hash_algorithm :: string
  rtl_public_key :: raw_public_key
  rtl_log_id :: raw_log_id
  rtl_checkpoint_key_id :: "string option"

record raw_ca_subject =
  rcs_organization :: string
  rcs_common_name :: string

record raw_cert_entry =
  rce_raw_bytes :: string

record raw_cert_chain =
  rcc_certificates :: "raw_cert_entry list"

record raw_certificate_authority =
  rca_subject :: raw_ca_subject
  rca_uri :: string
  rca_cert_chain :: raw_cert_chain
  rca_valid_for :: raw_valid_for

record raw_trusted_root =
  rtr_media_type :: string
  rtr_tlogs :: "raw_tlog list"
  rtr_ctlogs :: "raw_tlog list"
  rtr_certificate_authorities :: "raw_certificate_authority list"
  rtr_timestamp_authorities :: "raw_certificate_authority list"

section \<open>Raw mirror of the Rekor entry body (rekor.rs)\<close>

record raw_hash =
  rh_algorithm :: string
  rh_value :: string

record raw_dsse_spec_signature =
  rsp_signature :: string
  rsp_verifier :: string

record raw_dsse_spec =
  rsd_envelope_hash :: raw_hash
  rsd_payload_hash :: raw_hash
  rsd_signatures :: "raw_dsse_spec_signature list"

record raw_tlog_entry_body =
  rtb_api_version :: string
  rtb_kind :: string
  rtb_spec :: raw_dsse_spec

section \<open>Views of parsed DER\<close>

text \<open>An object identifier is its dotted decimal form. A parsed certificate is what its
  accessor methods return: names of an abstract type \<open>'n\<close>, the validity bounds as seconds
  since the epoch (\<open>Duration::as_secs\<close>), the optional extension list, and the results of
  the fallible re-encodings.\<close>

record x509_extension =
  extn_id :: string
  critical :: bool
  extn_value :: bytes

record 'n x509_cert =
  cert_subject :: 'n
  cert_issuer :: 'n
  cert_not_before :: u64
  cert_not_after :: u64
  cert_extensions :: "x509_extension list option"
  cert_spki_to_der :: "string + bytes"
  cert_tbs_to_der :: "string + bytes"
  cert_signature_algorithm :: string
  cert_signature :: bytes

record basic_constraints =
  bc_ca :: bool
  bc_path_len_constraint :: "u8 option"

record key_usage =
  ku_digital_signature :: bool
  ku_key_cert_sign :: bool

datatype general_name = UniformResourceIdentifier string | OtherGeneralName

datatype der_tag = ContextSpecific bool nat | UniversalTag nat

end
