(* ===== verification/Crates.thy ===== *)
theory Crates
  imports Wire_Types
begin

text \<open>
  The third-party crates, as a parameter. Every definition of the model that calls one of
  them takes an argument \<open>E\<close> of the record below; each field is one function (or one
  composition of constructor and method that the source always uses together) of a crate
  that is not part of this repository. Nothing is assumed about them here: the laws a
  property needs are the named predicates of the second section, each of them documented
  behaviour of the crate. The type parameters are the P-256 and P-384 verifying keys, the
  parsed DER signatures and the X.509 names.
\<close>

section \<open>The functions\<close>

record ('p, 'q, 's, 'n) crates =
  \<comment> \<open>\<open>sha2\<close>: \<open>Sha256::digest\<close>\<close>
  sha256 :: "bytes \<Rightarrow> bytes"
  \<comment> \<open>\<open>base64\<close>: the STANDARD engine; a failed decode gives the error's text\<close>
  b64_encode :: "bytes \<Rightarrow> string"
  b64_decode :: "string \<Rightarrow> string + bytes"
  \<comment> \<open>\<open>hex\<close>: \<open>encode\<close>, and \<open>decode_to_slice\<close> into an array of the given length\<close>
  hex_encode :: "bytes \<Rightarrow> string"
  hex_decode_to_slice :: "nat \<Rightarrow> string \<Rightarrow> string + bytes"
  \<comment> \<open>\<open>core::fmt\<close>: the \<open>Debug\<close> form of a string (used in messages only)\<close>
  debug_str :: "string \<Rightarrow> string"
  \<comment> \<open>\<open>serde_json\<close>: \<open>Value::String(s).to_string()\<close>, the deserializer as the visitor sees
     it with the outcome of \<open>Deserializer::end\<close>, and the text of a custom error\<close>
  json_string_display :: "string \<Rightarrow> string"
  json_drive :: "bytes \<Rightarrow> jdrive \<times> string option"
  json_error_text :: "bytes \<Rightarrow> string \<Rightarrow> string"
  \<comment> \<open>\<open>serde_json::from_value\<close> at the raw mirrors\<close>
  bundle_from_value :: "jvalue \<Rightarrow> string + raw_bundle"
  github_response_from_value :: "jvalue \<Rightarrow> string + raw_github_response"
  statement_from_value :: "jvalue \<Rightarrow> string + raw_statement"
  trusted_root_from_value :: "jvalue \<Rightarrow> string + raw_trusted_root"
  tlog_body_from_value :: "jvalue \<Rightarrow> string + raw_tlog_entry_body"
  \<comment> \<open>\<open>p256\<close>, \<open>p384\<close>: \<open>VerifyingKey::from_public_key_der\<close>, \<open>DerSignature::from_bytes\<close>
     and \<open>Verifier::verify\<close>\<close>
  p256_key_from_der :: "bytes \<Rightarrow> 'p option"
  p256_sig_from_bytes :: "bytes \<Rightarrow> 's option"
  p256_verify :: "'p \<Rightarrow> bytes \<Rightarrow> 's \<Rightarrow> bool"
  p384_key_from_der :: "bytes \<Rightarrow> 'q option"
  p384_sig_from_bytes :: "bytes \<Rightarrow> 's option"
  p384_verify :: "'q \<Rightarrow> bytes \<Rightarrow> 's \<Rightarrow> bool"
  \<comment> \<open>\<open>x509-cert\<close> and \<open>der\<close>: \<open>Certificate::from_der\<close>, the extension payloads, and the
     untyped TLV sequences of the SCT code\<close>
  x509_from_der :: "bytes \<Rightarrow> string + 'n x509_cert"
  basic_constraints_from_der :: "bytes \<Rightarrow> string + basic_constraints"
  key_usage_from_der :: "bytes \<Rightarrow> string + key_usage"
  ext_key_usage_from_der :: "bytes \<Rightarrow> string + string list"
  subject_alt_name_from_der :: "bytes \<Rightarrow> string + general_name list"
  utf8_string_from_der :: "bytes \<Rightarrow> string + string"
  octet_string_from_der :: "bytes \<Rightarrow> string + bytes"
  any_seq_from_der :: "bytes \<Rightarrow> string + (der_tag \<times> bytes) list"
  any_seq_to_der :: "(der_tag \<times> bytes) list \<Rightarrow> string + bytes"
  any_new :: "der_tag \<Rightarrow> bytes \<Rightarrow> string + (der_tag \<times> bytes)"
  extensions_from_der :: "bytes \<Rightarrow> string + x509_extension list"
  extensions_to_der :: "x509_extension list \<Rightarrow> string + bytes"
  \<comment> \<open>the bytes of \<open>assets/trusted_root_public_good.json\<close>, embedded at build time\<close>
  embedded_trusted_root :: bytes

section \<open>Documented behaviour used as hypotheses\<close>

text \<open>SHA-256 has 32 bytes of output.\<close>

definition sha256_len :: "('p, 'q, 's, 'n) crates \<Rightarrow> bool" where
  "sha256_len E \<longleftrightarrow> (\<forall>m. length (sha256 E m) = 32)"

text \<open>The standard base64 alphabet with its padding character, and the round trip of
  the engine.\<close>

definition is_b64_char :: "char \<Rightarrow> bool" where
  "is_b64_char c \<longleftrightarrow> (let n = (of_char c :: nat) in
     (65 \<le> n \<and> n \<le> 90) \<or> (97 \<le> n \<and> n \<le> 122) \<or> (48 \<le> n \<and> n \<le> 57) \<or> n = 43 \<or> n = 47 \<or> n = 61)"

definition b64_roundtrip :: "('p, 'q, 's, 'n) crates \<Rightarrow> bool" where
  "b64_roundtrip E \<longleftrightarrow> (\<forall>b. b64_decode E (b64_encode E b) = Inr b)"

definition b64_alphabet :: "('p, 'q, 's, 'n) crates \<Rightarrow> bool" where
  "b64_alphabet E \<longleftrightarrow> (\<forall>b. list_all is_b64_char (b64_encode E b))"

text \<open>Hex: encoding is injective, two characters per byte, and never uses the double
  quote; a decode into an \<open>n\<close>-byte array yields \<open>n\<close> bytes.\<close>

definition hex_injective :: "('p, 'q, 's, 'n) crates \<Rightarrow> bool" where
  "hex_injective E \<longleftrightarrow> inj (hex_encode E)"

definition hex_alphabet :: "('p, 'q, 's, 'n) crates \<Rightarrow> bool" where
  "hex_alphabet E \<longleftrightarrow>
     (\<forall>b. list_all (\<lambda>c. is_ascii_digit c \<or> (97 \<le> (of_char c :: nat) \<and> (of_char c :: nat) \<le> 102))
            (hex_encode E b))"

definition hex_decode_len :: "('p, 'q, 's, 'n) crates \<Rightarrow> bool" where
  "hex_decode_len E \<longleftrightarrow> (\<forall>n s b. hex_decode_to_slice E n s = Inr b \<longrightarrow> length b = n)"

definition hex_roundtrip :: "('p, 'q, 's, 'n) crates \<Rightarrow> bool" where
  "hex_roundtrip E \<longleftrightarrow> (\<forall>b. hex_decode_to_slice E (length b) (hex_encode E b) = Inr b)"

lemma b64_roundtripD [simp]: "b64_roundtrip E \<Longrightarrow> b64_decode E (b64_encode E b) = Inr b"
  by (simp add: b64_roundtrip_def)

lemma b64_encode_inject: "b64_roundtrip E \<Longrightarrow> b64_encode E a = b64_encode E b \<longleftrightarrow> a = b"
  by (metis b64_roundtripD sum.inject(2))

lemma not_is_b64_char [simp]:
  "\<not> is_b64_char CHR 0x0A" "\<not> is_b64_char CHR 0x0D" "\<not> is_b64_char CHR '' ''"
  "\<not> is_b64_char CHR 0x22" "\<not> is_b64_char CHR ''-''"
  by (simp_all add: is_b64_char_def)

lemma b64_not_mem: "b64_alphabet E \<Longrightarrow> \<not> is_b64_char c \<Longrightarrow> c \<notin> set (b64_encode E b)"
  by (auto simp: b64_alphabet_def list_all_iff)

lemma hex_not_quote: "hex_alphabet E \<Longrightarrow> CHR 0x22 \<notin> set (hex_encode E b)"
  by (fastforce simp: hex_alphabet_def list_all_iff is_ascii_digit_def)

lemma sha256_lenD [simp]: "sha256_len E \<Longrightarrow> length (sha256 E m) = 32"
  by (simp add: sha256_len_def)

end
