(* ===== verification/Parse_Util.thy ===== *)
theory Parse_Util
  imports Crates
begin

text \<open>
  \<open>src/src/parse_util.rs\<close>: the strict decoders and the two resource checks shared by every
  parser of the crate, and \<open>src/src/subject.rs\<close>, the artifact digest.
\<close>

section \<open>Strict decoders\<close>

definition strict_base64 ::
  "('p, 'q, 's, 'n) crates \<Rightarrow> string \<Rightarrow> string \<Rightarrow> parse_error + bytes" where
  "strict_base64 E field s = map_err (\<lambda>e. Base64 field e) (b64_decode E s)"

definition strict_hex ::
  "('p, 'q, 's, 'n) crates \<Rightarrow> nat \<Rightarrow> string \<Rightarrow> string \<Rightarrow> parse_error + bytes" where
  "strict_hex E n field s = map_err (\<lambda>e. Hex field e) (hex_decode_to_slice E n s)"

definition strict_stringified_u64 :: "string \<Rightarrow> string \<Rightarrow> parse_error + u64" where
  "strict_stringified_u64 field s = ok_or (NotAnInteger field s) (parse_u64 s)"

definition pem_begin :: "string \<Rightarrow> string" where
  "pem_begin label = ''-----BEGIN '' @ label @ ''-----''"

definition pem_end :: "string \<Rightarrow> string" where
  "pem_end label = ''-----END '' @ label @ ''-----''"

definition strict_pem ::
  "('p, 'q, 's, 'n) crates \<Rightarrow> string \<Rightarrow> string \<Rightarrow> string \<Rightarrow> parse_error + bytes" where
  "strict_pem E field label s =
     (let begin_marker = pem_begin label; end_marker = pem_end label; trimmed = trim_str s in
      res_bind (ok_or (Base64 field (''missing '' @ [CHR 0x22] @ begin_marker @ [CHR 0x22] @ '' marker''))
                 (strip_prefix begin_marker trimmed)) (\<lambda>body0.
      res_bind (ok_or (Base64 field (''missing '' @ [CHR 0x22] @ end_marker @ [CHR 0x22] @ '' marker''))
                 (strip_suffix end_marker body0)) (\<lambda>body.
      strict_base64 E field (remove_ws body))))"

section \<open>Resource checks\<close>

definition check_input_size :: "bytes \<Rightarrow> resource_limit_error + unit" where
  "check_input_size b =
     (if length b > MAX_INPUT_BYTES then Inl (InputTooLarge (length b) MAX_INPUT_BYTES) else Inr ())"

definition check_count ::
  "'a list \<Rightarrow> nat \<Rightarrow> (nat \<Rightarrow> nat \<Rightarrow> resource_limit_error) \<Rightarrow> resource_limit_error + unit" where
  "check_count items limit make_err =
     (if length items > limit then Inl (make_err (length items) limit) else Inr ())"

lemma check_count_ok [simp]: "check_count xs n f = Inr u \<longleftrightarrow> length xs \<le> n"
  by (auto simp: check_count_def)

lemma check_input_size_ok [simp]: "check_input_size b = Inr u \<longleftrightarrow> length b \<le> MAX_INPUT_BYTES"
  by (auto simp: check_input_size_def)

section \<open>Subject (subject.rs)\<close>

record subject_digest =
  subject_bytes :: bytes

definition sha256_of :: "('p, 'q, 's, 'n) crates \<Rightarrow> bytes \<Rightarrow> subject_digest" where
  "sha256_of E b = \<lparr>subject_bytes = sha256 E b\<rparr>"

definition from_digest_hex ::
  "('p, 'q, 's, 'n) crates \<Rightarrow> string \<Rightarrow> error + subject_digest" where
  "from_digest_hex E s =
     map_err (\<lambda>e. Parse (MalformedDigest (''expected 64 hex characters (sha256): '' @ e)))
       (res_bind (hex_decode_to_slice E 32 s) (\<lambda>out. Inr \<lparr>subject_bytes = out\<rparr>))"

definition subject_to_hex :: "('p, 'q, 's, 'n) crates \<Rightarrow> subject_digest \<Rightarrow> string" where
  "subject_to_hex E s = hex_encode E (subject_bytes s)"

text \<open>A subject always holds 32 bytes, whichever constructor made it.\<close>

lemma sha256_of_len: "sha256_len E \<Longrightarrow> length (subject_bytes (sha256_of E b)) = 32"
  by (simp add: sha256_of_def)

lemma from_digest_hex_len:
  "hex_decode_len E \<Longrightarrow> from_digest_hex E s = Inr d \<Longrightarrow> length (subject_bytes d) = 32"
  by (auto simp: from_digest_hex_def hex_decode_len_def)

lemma subject_hex_roundtrip:
  assumes "hex_roundtrip E" and "length (subject_bytes d) = 32"
  shows "from_digest_hex E (subject_to_hex E d) = Inr d"
proof -
  have "hex_decode_to_slice E 32 (hex_encode E (subject_bytes d)) = Inr (subject_bytes d)"
    using assms by (metis hex_roundtrip_def)
  then show ?thesis by (simp add: from_digest_hex_def subject_to_hex_def)
qed

end
