(* ===== verification/Sample_Crates.thy ===== *)
theory Sample_Crates
  imports Crates "HOL-Library.Code_Target_Numeral"
begin

text \<open>
  A concrete instance of the third-party functions, small enough to evaluate: it shows that the
  documented behaviour the properties assume can hold together, and the witnesses of the
  properties run on it. Its digest pads with zeros, its text encodings spell each byte with two
  characters, a signature verifies when it equals the key, and its parsers know a handful of
  inputs.
\<close>

section \<open>Digest and text encodings\<close>

definition sample_sha256 :: "bytes \<Rightarrow> bytes" where
  "sample_sha256 m = take 32 (m @ replicate 32 0)"

text \<open>Two characters per byte, over sixteen characters.\<close>

definition spell_byte :: "string \<Rightarrow> u8 \<Rightarrow> string" where
  "spell_byte alphabet b = [alphabet ! (unat b div 16), alphabet ! (unat b mod 16)]"

definition spell :: "string \<Rightarrow> bytes \<Rightarrow> string" where
  "spell alphabet bs = concat (map (spell_byte alphabet) bs)"

fun index_of :: "char \<Rightarrow> string \<Rightarrow> nat option" where
  "index_of c [] = None"
| "index_of c (x # xs) = (if c = x then Some 0 else map_option Suc (index_of c xs))"

fun unspell :: "string \<Rightarrow> string \<Rightarrow> string + bytes" where
  "unspell alphabet [] = Inr []"
| "unspell alphabet [c] = Inl ''odd length''"
| "unspell alphabet (c # d # cs) = (case (index_of c alphabet, index_of d alphabet) of
     (Some i, Some j) \<Rightarrow> res_bind (unspell alphabet cs) (\<lambda>bs. Inr (word_of_nat (16 * i + j) # bs))
   | _ \<Rightarrow> Inl ''invalid character'')"

definition b64_letters :: string where "b64_letters = ''ABCDEFGHIJKLMNOP''"
definition hex_letters :: string where "hex_letters = ''0123456789abcdef''"

definition sample_hex_decode :: "nat \<Rightarrow> string \<Rightarrow> string + bytes" where
  "sample_hex_decode n s = res_bind (unspell hex_letters s) (\<lambda>bs.
     if length bs = n then Inr bs else Inl ''invalid length'')"

lemma index_of_nth: "distinct xs \<Longrightarrow> i < length xs \<Longrightarrow> index_of (xs ! i) xs = Some i"
proof (induction xs arbitrary: i)
  case (Cons x xs)
  then show ?case by (cases i) auto
qed simp

lemma spell_simps [simp]:
  "spell a [] = []" "spell a (b # bs) = a ! (unat b div 16) # a ! (unat b mod 16) # spell a bs"
  by (simp_all add: spell_def spell_byte_def)

lemma unspell_spell:
  assumes "distinct a" "length a = 16"
  shows "unspell a (spell a bs) = Inr bs"
proof (induction bs)
  case (Cons b bs)
  have "unat b div 16 < length a" "unat b mod 16 < length a"
    using unat_byte_less [of b] assms(2) by simp_all
  with Cons assms(1) show ?case by (simp add: index_of_nth)
qed simp

lemma b64_letters_ok: "distinct b64_letters" "length b64_letters = 16"
  by (simp_all add: b64_letters_def)

lemma hex_letters_ok: "distinct hex_letters" "length hex_letters = 16"
  by (simp_all add: hex_letters_def)

lemma spell_letters: "length a = 16 \<Longrightarrow> list_all P a \<Longrightarrow> list_all P (spell a bs)"
proof (induction bs)
  case (Cons b bs)
  have "unat b div 16 < length a" "unat b mod 16 < length a"
    using unat_byte_less [of b] Cons.prems by simp_all
  with Cons show ?case by (simp add: list_all_iff)
qed simp

section \<open>Documents\<close>

text \<open>One attestation: payload \<open>{\<close>, certificate \<open>1\<close> issued by \<open>2\<close>, log key \<open>7\<close>, CT log key \<open>8\<close>.\<close>

definition sample_quoted :: "string \<Rightarrow> string" where
  "sample_quoted s = [CHR 0x22] @ s @ [CHR 0x22]"

definition sample_b64 :: "bytes \<Rightarrow> string" where "sample_b64 = spell b64_letters"
definition sample_hex :: "bytes \<Rightarrow> string" where "sample_hex = spell hex_letters"

definition sample_raw_statement :: raw_statement where
  "sample_raw_statement = \<lparr>rs_type = ''https://in-toto.io/Statement/v1'',
     rs_subject = [\<lparr>rss_name = Some ''artifact'', rss_digest = [(''sha256'', sample_hex (replicate 32 0))]\<rparr>],
     rs_predicate_type = ''https://slsa.dev/provenance/v1'', rs_predicate = JNull\<rparr>"

text \<open>The first 32 bytes of the envelope's JSON are its digest here.\<close>

definition sample_raw_body :: raw_tlog_entry_body where
  "sample_raw_body = \<lparr>rtb_api_version = ''0.0.1'', rtb_kind = ''dsse'',
     rtb_spec = \<lparr>
       rsd_envelope_hash = \<lparr>rh_algorithm = ''sha256'', rh_value = sample_hex (as_bytes
          (''{'' @ sample_quoted ''payload'' @ '':'' @ sample_quoted ''HL'' @ '','' @ sample_quoted ''payloadType'' @ '':''
           @ [CHR 0x22] @ ''a''))\<rparr>,
       rsd_payload_hash = \<lparr>rh_algorithm = ''sha256'', rh_value = sample_hex (0x7B # replicate 31 0)\<rparr>,
       rsd_signatures = [\<lparr>rsp_signature = sample_b64 [1],
          rsp_verifier = sample_b64 (as_bytes (''-----BEGIN CERTIFICATE-----'' @ sample_b64 [1]
            @ ''-----END CERTIFICATE-----''))\<rparr>]\<rparr>\<rparr>"

definition sample_checkpoint_text :: string where
  "sample_checkpoint_text = ''log'' @ [CHR 0x0A] @ ''1'' @ [CHR 0x0A] @ sample_b64 (0 # 0x7B # replicate 30 0)
     @ [CHR 0x0A, CHR 0x0A] @ [CHR 0xE2, CHR 0x80, CHR 0x94]
     @ '' log '' @ sample_b64 [7, 0, 0, 0, 7] @ [CHR 0x0A]"

definition sample_raw_bundle :: raw_bundle where
  "sample_raw_bundle = \<lparr>rb_media_type = ''application/vnd.dev.sigstore.bundle.v0.3+json'',
     rb_verification_material = \<lparr>rv_certificate = \<lparr>rc_raw_bytes = sample_b64 [1]\<rparr>,
       rv_tlog_entries = [\<lparr>rt_log_index = ''0'', rt_log_id = \<lparr>rl_key_id = sample_b64 (7 # replicate 31 0)\<rparr>,
          rt_kind_version = \<lparr>rk_kind = ''dsse'', rk_version = ''0.0.1''\<rparr>, rt_integrated_time = ''5'',
          rt_inclusion_promise = Some \<lparr>rip_signed_entry_timestamp = sample_b64 [7]\<rparr>,
          rt_inclusion_proof = Some \<lparr>rpf_log_index = ''0'', rpf_root_hash = sample_b64 (0 # 0x7B # replicate 30 0),
            rpf_tree_size = ''1'', rpf_hashes = [],
            rpf_checkpoint = \<lparr>rcp_envelope = sample_checkpoint_text\<rparr>\<rparr>,
          rt_canonicalized_body = sample_b64 [0x7B]\<rparr>],
       rv_timestamp_verification_data = \<lparr>rtv_rfc3161_timestamps = []\<rparr>\<rparr>,
     rb_dsse_envelope = \<lparr>rd_payload = sample_b64 [0x7B], rd_payload_type = ''application/vnd.in-toto+json'',
       rd_signatures = [\<lparr>rds_sig = sample_b64 [1], rds_keyid = None\<rparr>]\<rparr>\<rparr>"

definition sample_raw_log :: "u8 \<Rightarrow> raw_tlog" where
  "sample_raw_log k = \<lparr>rtl_base_url = ''https://log'', rtl_hash_algorithm = ''SHA2_256'',
     rtl_public_key = \<lparr>rpk_raw_bytes = sample_b64 [k], rpk_key_details = ''PKIX_ECDSA_P256_SHA_256'',
       rpk_valid_for = \<lparr>rvf_start = ''1970-01-01T00:00:00Z'', rvf_end = None\<rparr>\<rparr>,
     rtl_log_id = \<lparr>rl_key_id = sample_b64 (k # replicate 31 0)\<rparr>, rtl_checkpoint_key_id = None\<rparr>"

definition sample_raw_trusted_root :: raw_trusted_root where
  "sample_raw_trusted_root = \<lparr>rtr_media_type = ''application/vnd.dev.sigstore.trustedroot+json;version=0.1'',
     rtr_tlogs = [sample_raw_log 7], rtr_ctlogs = [sample_raw_log 8],
     rtr_certificate_authorities = [\<lparr>rca_subject = \<lparr>rcs_organization = ''o'', rcs_common_name = ''c''\<rparr>,
       rca_uri = ''https://ca'', rca_cert_chain = \<lparr>rcc_certificates = [\<lparr>rce_raw_bytes = sample_b64 [2]\<rparr>]\<rparr>,
       rca_valid_for = \<lparr>rvf_start = ''1970-01-01T00:00:00Z'', rvf_end = Some ''1970-01-01T00:00:10Z''\<rparr>\<rparr>],
     rtr_timestamp_authorities = []\<rparr>"

section \<open>Certificates\<close>

text \<open>An SCT list with one SCT of CT log \<open>8\<close> at second 5, as its bytes.\<close>

definition sample_sct_bytes :: bytes where
  "sample_sct_bytes = [0] @ (8 # replicate 31 0) @ [0, 0, 0, 0, 0, 0, 0x13, 0x88] @ [0, 0] @ [4] @ [3] @ [0, 1] @ [8]"

definition sample_sct_list :: bytes where
  "sample_sct_list = [0, 50] @ [0, 48] @ sample_sct_bytes"

definition sample_extension :: "string \<Rightarrow> bytes \<Rightarrow> x509_extension" where
  "sample_extension oid v = \<lparr>extn_id = oid, critical = False, extn_value = v\<rparr>"

definition sample_claim :: "string \<Rightarrow> string \<Rightarrow> x509_extension" where
  "sample_claim n v = sample_extension (''1.3.6.1.4.1.57264.1.'' @ n) (as_bytes v)"

definition sample_leaf :: "nat x509_cert" where
  "sample_leaf = \<lparr>cert_subject = 1, cert_issuer = 2, cert_not_before = 0, cert_not_after = 10,
     cert_extensions = Some [sample_extension ''2.5.29.15'' [], sample_extension ''2.5.29.37'' [],
       sample_extension ''2.5.29.17''
         (as_bytes ''https://github.com/acme/tool/.github/workflows/release.yml@refs/heads/main''),
       sample_extension ''1.3.6.1.4.1.11129.2.4.2'' sample_sct_list,
       sample_claim ''8'' ''https://token.actions.githubusercontent.com'',
       sample_claim ''12'' ''https://github.com/acme/tool'',
       sample_claim ''14'' ''refs/heads/main'', sample_claim ''17'' ''42''],
     cert_spki_to_der = Inr [1], cert_tbs_to_der = Inr [9],
     cert_signature_algorithm = ''1.2.840.10045.4.3.2'', cert_signature = [2]\<rparr>"

definition sample_ca :: "nat x509_cert" where
  "sample_ca = \<lparr>cert_subject = 2, cert_issuer = 2, cert_not_before = 0, cert_not_after = 10,
     cert_extensions = Some [sample_extension ''2.5.29.19'' [], sample_extension ''2.5.29.15'' []],
     cert_spki_to_der = Inr [2], cert_tbs_to_der = Inr [10],
     cert_signature_algorithm = ''1.2.840.10045.4.3.2'', cert_signature = [2]\<rparr>"

section \<open>The instance\<close>

definition sample :: "(bytes, unit, bytes, nat) crates" where
  "sample = \<lparr>
     sha256 = sample_sha256,
     b64_encode = sample_b64,
     b64_decode = unspell b64_letters,
     hex_encode = sample_hex,
     hex_decode_to_slice = sample_hex_decode,
     debug_str = sample_quoted,
     json_string_display = sample_quoted,
     json_drive = (\<lambda>bs. (if bs = [0x5B] then DSeq (replicate 262144 DUnit) None
        else if bs = [0x7D] then DMap [(''a'', DUnit), (''b'', DSeq [DBool True, DStr ''x''] None)] None
        else DStr (of_bytes bs), None)),
     json_error_text = (\<lambda>_ s. s),
     bundle_from_value = (\<lambda>_. Inr sample_raw_bundle),
     github_response_from_value = (\<lambda>_. Inr \<lparr>rg_attestations = [\<lparr>ra_initiator = ''user'',
        ra_repository_id = Some 1, ra_bundle_url = None, ra_bundle = Some JNull\<rparr>]\<rparr>),
     statement_from_value = (\<lambda>_. Inr sample_raw_statement),
     trusted_root_from_value = (\<lambda>_. Inr sample_raw_trusted_root),
     tlog_body_from_value = (\<lambda>_. Inr sample_raw_body),
     p256_key_from_der = Some, p256_sig_from_bytes = Some,
     p256_verify = (\<lambda>key _ sig. sig = key),
     p384_key_from_der = (\<lambda>_. None), p384_sig_from_bytes = Some,
     p384_verify = (\<lambda>_ _ _. False),
     x509_from_der = (\<lambda>bs. if bs = [1] then Inr sample_leaf else if bs = [2] then Inr sample_ca
        else Inl ''unexpected''),
     basic_constraints_from_der = (\<lambda>_. Inr \<lparr>bc_ca = True, bc_path_len_constraint = Some 0\<rparr>),
     key_usage_from_der = (\<lambda>_. Inr \<lparr>ku_digital_signature = True, ku_key_cert_sign = True\<rparr>),
     ext_key_usage_from_der = (\<lambda>_. Inr [''1.3.6.1.5.5.7.3.3'']),
     subject_alt_name_from_der = (\<lambda>bs. Inr [UniformResourceIdentifier (of_bytes bs)]),
     utf8_string_from_der = (\<lambda>bs. Inr (of_bytes bs)),
     octet_string_from_der = Inr,
     any_seq_from_der = (\<lambda>bs. Inr [(ContextSpecific True 3, bs)]),
     any_seq_to_der = (\<lambda>fields. Inr (concat (map snd fields))),
     any_new = (\<lambda>tg bs. Inr (tg, bs)),
     extensions_from_der = (\<lambda>_. Inr []),
     extensions_to_der = (\<lambda>exts. Inr (concat (map extn_value exts))),
     embedded_trusted_root = [0x7B]\<rparr>"

lemma sample_simps [simp]:
  "sha256 sample = sample_sha256" "b64_encode sample = sample_b64" "b64_decode sample = unspell b64_letters"
  "hex_encode sample = sample_hex" "hex_decode_to_slice sample = sample_hex_decode"
  "json_string_display sample = sample_quoted" "p256_key_from_der sample = Some"
  "p256_sig_from_bytes sample = Some" "p256_verify sample key m sig = (sig = key)"
  "p384_key_from_der sample der = None" "octet_string_from_der sample = Inr"
  by (simp_all add: sample_def)

text \<open>The documented behaviour holds of the instance.\<close>

lemma sample_sha256_len: "sha256_len sample"
  by (auto simp: sha256_len_def sample_sha256_def min_def)

lemma sample_b64_roundtrip: "b64_roundtrip sample"
  by (simp add: b64_roundtrip_def sample_b64_def unspell_spell b64_letters_ok)

lemma sample_b64_alphabet: "b64_alphabet sample"
  unfolding b64_alphabet_def sample_simps sample_b64_def
  by (intro allI spell_letters) (simp_all add: b64_letters_def is_b64_char_def)

lemma sample_hex_injective: "hex_injective sample"
proof -
  have "a = b" if "spell hex_letters a = spell hex_letters b" for a b
    using arg_cong [OF that, of "unspell hex_letters"] unfolding unspell_spell [OF hex_letters_ok] by simp
  then show ?thesis unfolding hex_injective_def sample_simps sample_hex_def inj_def by blast
qed

lemma sample_hex_alphabet: "hex_alphabet sample"
  unfolding hex_alphabet_def sample_simps sample_hex_def
  by (intro allI spell_letters) (simp_all add: hex_letters_def is_ascii_digit_def)

lemma sample_hex_decode_len: "hex_decode_len sample"
  by (auto simp: hex_decode_len_def sample_hex_decode_def split: if_splits)

lemma sample_hex_roundtrip: "hex_roundtrip sample"
  by (simp add: hex_roundtrip_def sample_hex_decode_def sample_hex_def unspell_spell hex_letters_ok)

end
