(* ===== verification/Strict_Json.thy ===== *)
theory Strict_Json
  imports Parse_Util Sample_Crates
begin

text \<open>
  \<open>src/src/strict_json.rs\<close>: the visitor that rebuilds a JSON value while it rejects duplicate
  keys and charges every produced value against a node budget. The deserializer itself is
  \<open>serde_json\<close>; \<^const>\<open>json_drive\<close> says which visitor calls it makes on an input. The
  mutable cell \<open>nodes\<close> is threaded through the visitor as a counter that survives errors.
\<close>

section \<open>The visitor\<close>

definition usize_saturating_add :: "nat \<Rightarrow> nat \<Rightarrow> nat" where
  "usize_saturating_add a b = min (a + b) (2 ^ 64 - 1)"

definition charge :: "(string \<Rightarrow> string) \<Rightarrow> nat \<Rightarrow> nat \<times> (string + unit)" where
  "charge custom nodes =
     (let used = usize_saturating_add nodes 1 in
      (used, if used > MAX_JSON_NODES
             then Inl (custom (''JSON document exceeds the limit of '' @ dec MAX_JSON_NODES @ '' value nodes''))
             else Inr ()))"

text \<open>A 64-bit float is finite unless its eleven exponent bits are all set.\<close>

definition f64_is_finite :: "u64 \<Rightarrow> bool" where
  "f64_is_finite w \<longleftrightarrow> unat w div 2 ^ 52 mod 2 ^ 11 \<noteq> 2047"

definition number_from_i64 :: "int \<Rightarrow> jnumber" where
  "number_from_i64 i = (if i < 0 then NegInt i else PosInt (word_of_int i))"

text \<open>\<open>serde_json::Map\<close> is a \<open>BTreeMap\<close>: entries in the byte order of their keys, an insert
  at an existing key replaces the value.\<close>

fun btree_insert :: "string \<Rightarrow> 'v \<Rightarrow> (string \<times> 'v) list \<Rightarrow> (string \<times> 'v) list" where
  "btree_insert k v [] = [(k, v)]"
| "btree_insert k v ((k', v') # es) =
     (if as_bytes k = as_bytes k' then (k, v) # es
      else if as_bytes k < as_bytes k' then (k, v) # (k', v') # es
      else (k', v') # btree_insert k v es)"

definition btree_contains_key :: "string \<Rightarrow> (string \<times> 'v) list \<Rightarrow> bool" where
  "btree_contains_key k es \<longleftrightarrow> k \<in> fst ` set es"

definition scalar :: "(string \<Rightarrow> string) \<Rightarrow> nat \<Rightarrow> (string + jvalue) \<Rightarrow> nat \<times> (string + jvalue)" where
  "scalar custom nodes r = (let (used, c) = charge custom nodes in (used, res_bind c (\<lambda>_. r)))"

fun visit :: "(string \<Rightarrow> string) \<Rightarrow> jdrive \<Rightarrow> nat \<Rightarrow> nat \<times> (string + jvalue)"
and visit_seq :: "(string \<Rightarrow> string) \<Rightarrow> jdrive list \<Rightarrow> string option \<Rightarrow> jvalue list \<Rightarrow> nat
      \<Rightarrow> nat \<times> (string + jvalue list)"
and visit_map :: "(string \<Rightarrow> string) \<Rightarrow> (string \<times> jdrive) list \<Rightarrow> string option
      \<Rightarrow> (string \<times> jvalue) list \<Rightarrow> nat \<Rightarrow> nat \<times> (string + (string \<times> jvalue) list)" where
  "visit custom DUnit n = scalar custom n (Inr JNull)"
| "visit custom (DBool b) n = scalar custom n (Inr (JBool b))"
| "visit custom (DI64 i) n = scalar custom n (Inr (JNumber (number_from_i64 i)))"
| "visit custom (DU64 w) n = scalar custom n (Inr (JNumber (PosInt w)))"
| "visit custom (DF64 w) n = scalar custom n
     (if f64_is_finite w then Inr (JNumber (Float w)) else Inl (custom ''JSON number is not finite''))"
| "visit custom (DStr s) n = scalar custom n (Inr (JString s))"
| "visit custom (DErr e) n = (n, Inl e)"
| "visit custom (DSeq ds end) n =
     (case charge custom n of
        (n1, Inl e) \<Rightarrow> (n1, Inl e)
      | (n1, Inr _) \<Rightarrow>
          (case visit_seq custom ds end [] n1 of
             (n2, Inl e) \<Rightarrow> (n2, Inl e)
           | (n2, Inr vs) \<Rightarrow> (n2, Inr (JArray vs))))"
| "visit custom (DMap ms end) n =
     (case charge custom n of
        (n1, Inl e) \<Rightarrow> (n1, Inl e)
      | (n1, Inr _) \<Rightarrow>
          (case visit_map custom ms end [] n1 of
             (n2, Inl e) \<Rightarrow> (n2, Inl e)
           | (n2, Inr es) \<Rightarrow> (n2, Inr (JObject es))))"
| "visit_seq custom [] end out n = (n, case end of None \<Rightarrow> Inr out | Some e \<Rightarrow> Inl e)"
| "visit_seq custom (d # ds) end out n =
     (case visit custom d n of
        (n1, Inl e) \<Rightarrow> (n1, Inl e)
      | (n1, Inr v) \<Rightarrow> visit_seq custom ds end (out @ [v]) n1)"
| "visit_map custom [] end out n = (n, case end of None \<Rightarrow> Inr out | Some e \<Rightarrow> Inl e)"
| "visit_map custom ((k, d) # ms) end out n =
     (if btree_contains_key k out
      then (n, Inl (custom (''duplicate JSON object key '' @ [CHR 0x60] @ k @ [CHR 0x60])))
      else (case visit custom d n of
        (n1, Inl e) \<Rightarrow> (n1, Inl e)
      | (n1, Inr v) \<Rightarrow> visit_map custom ms end (btree_insert k v out) n1))"

definition parse_strict :: "('p, 'q, 's, 'n) crates \<Rightarrow> bytes \<Rightarrow> error + jvalue" where
  "parse_strict E bs =
     (let (d, trailing) = json_drive E bs; (nodes, r) = visit (json_error_text E bs) d 0 in
      res_bind (map_err (\<lambda>e. if nodes > MAX_JSON_NODES
                             then ResourceLimit (TooManyJsonNodes MAX_JSON_NODES)
                             else Parse (Json e)) r) (\<lambda>value.
      case trailing of Some e \<Rightarrow> Inl (Parse (Json e)) | None \<Rightarrow> Inr value))"

section \<open>What the visitor accepts\<close>

text \<open>The number of values a document announces, whether it is free of syntax errors and of
  repeated keys, and the value it denotes.\<close>

fun drive_nodes :: "jdrive \<Rightarrow> nat" where
  "drive_nodes (DErr e) = 0"
| "drive_nodes (DSeq ds end) = 1 + (\<Sum>d\<leftarrow>ds. drive_nodes d)"
| "drive_nodes (DMap ms end) = 1 + (\<Sum>m\<leftarrow>ms. drive_nodes (snd m))"
| "drive_nodes _ = 1"

fun drive_clean :: "jdrive \<Rightarrow> bool" where
  "drive_clean (DErr e) = False"
| "drive_clean (DF64 w) = f64_is_finite w"
| "drive_clean (DSeq ds end) \<longleftrightarrow> end = None \<and> (\<forall>d \<in> set ds. drive_clean d)"
| "drive_clean (DMap ms end) \<longleftrightarrow> end = None \<and> distinct (map fst ms) \<and> list_all (\<lambda>m. drive_clean (snd m)) ms"
| "drive_clean _ = True"

fun drive_value :: "jdrive \<Rightarrow> jvalue" where
  "drive_value DUnit = JNull"
| "drive_value (DBool b) = JBool b"
| "drive_value (DI64 i) = JNumber (number_from_i64 i)"
| "drive_value (DU64 w) = JNumber (PosInt w)"
| "drive_value (DF64 w) = JNumber (Float w)"
| "drive_value (DStr s) = JString s"
| "drive_value (DErr e) = JNull"
| "drive_value (DSeq ds end) = JArray (map drive_value ds)"
| "drive_value (DMap ms end) = JObject (fold (\<lambda>m es. btree_insert (fst m) (drive_value (snd m)) es) ms [])"

lemma charge_ok:
  "n \<le> MAX_JSON_NODES \<Longrightarrow> charge c n = (n', Inr u) \<longleftrightarrow> n' = n + 1 \<and> n + 1 \<le> MAX_JSON_NODES"
  by (auto simp: charge_def usize_saturating_add_def MAX_JSON_NODES_def)

lemma charge_fst: "n \<le> MAX_JSON_NODES \<Longrightarrow> fst (charge c n) = n + 1"
  by (simp add: charge_def usize_saturating_add_def MAX_JSON_NODES_def)

lemma charge_err:
  "n \<le> MAX_JSON_NODES \<Longrightarrow> charge c n = (n', Inl e) \<Longrightarrow> n' = n + 1 \<and> n' > MAX_JSON_NODES"
  by (auto simp: charge_def usize_saturating_add_def MAX_JSON_NODES_def split: if_splits)

lemma scalar_ok:
  "n \<le> MAX_JSON_NODES \<Longrightarrow> scalar c n r = (n', Inr v) \<longleftrightarrow>
     n' = n + 1 \<and> n + 1 \<le> MAX_JSON_NODES \<and> r = Inr v"
  by (cases "charge c n"; cases "snd (charge c n)")
    (auto simp: scalar_def charge_def usize_saturating_add_def MAX_JSON_NODES_def split: if_splits)

lemma scalar_fst: "n \<le> MAX_JSON_NODES \<Longrightarrow> fst (scalar c n r) = n + 1"
  using charge_fst [of n c] by (cases "charge c n") (simp add: scalar_def)

lemma btree_insert_keys [simp]: "fst ` set (btree_insert k v es) = insert k (fst ` set es)"
  by (induction es) (force simp: as_bytes_inject)+

lemma pair_case_Inr:
  "(case p of (n1, Inl e) \<Rightarrow> (n1, Inl e) | (n1, Inr x) \<Rightarrow> f n1 x) = (n', Inr y) \<longleftrightarrow>
     (\<exists>n1 x. p = (n1, Inr x) \<and> f n1 x = (n', Inr y))"
  by (auto split: prod.split sum.split)

lemma nat_bound_conj:
  "(P \<and> (n :: nat) + k \<le> l \<and> Q \<and> R \<and> n' = n + (k + j) \<and> n' \<le> l \<and> S) \<longleftrightarrow>
   (Q \<and> P \<and> R \<and> n' = n + (k + j) \<and> n' \<le> l \<and> S)"
  by auto

definition visit_correct :: "(string \<Rightarrow> string) \<Rightarrow> jdrive \<Rightarrow> bool" where
  "visit_correct c d \<longleftrightarrow> (\<forall>n n' v. n \<le> MAX_JSON_NODES \<longrightarrow> (visit c d n = (n', Inr v) \<longleftrightarrow>
     drive_clean d \<and> n' = n + drive_nodes d \<and> n' \<le> MAX_JSON_NODES \<and> v = drive_value d))"

lemma visit_correctD:
  "visit_correct c d \<Longrightarrow> n \<le> MAX_JSON_NODES \<Longrightarrow> visit c d n = (n', Inr v) \<longleftrightarrow>
     drive_clean d \<and> n' = n + drive_nodes d \<and> n' \<le> MAX_JSON_NODES \<and> v = drive_value d"
  by (simp add: visit_correct_def)

lemma visit_seq_ok:
  "\<forall>d \<in> set ds. visit_correct c d \<Longrightarrow> n \<le> MAX_JSON_NODES \<Longrightarrow>
   visit_seq c ds end out n = (n', Inr vs) \<longleftrightarrow>
     end = None \<and> (\<forall>d \<in> set ds. drive_clean d) \<and> n' = n + (\<Sum>d\<leftarrow>ds. drive_nodes d)
     \<and> n' \<le> MAX_JSON_NODES \<and> vs = out @ map drive_value ds"
proof (induction ds arbitrary: out n)
  case Nil
  then show ?case by (auto split: option.splits)
next
  case (Cons d ds)
  have step: "visit_seq c (d # ds) end out n = (n', Inr vs) \<longleftrightarrow>
    (\<exists>n1 v. visit c d n = (n1, Inr v) \<and> visit_seq c ds end (out @ [v]) n1 = (n', Inr vs))"
    by (simp only: visit_seq.simps pair_case_Inr)
  have "visit_correct c d" "\<forall>d \<in> set ds. visit_correct c d" using Cons.prems by simp_all
  then show ?case unfolding step using Cons.IH Cons.prems(2)
    by (auto simp: visit_correctD)
qed

lemma visit_map_ok:
  "\<forall>m \<in> set ms. visit_correct c (snd m) \<Longrightarrow> n \<le> MAX_JSON_NODES \<Longrightarrow>
   visit_map c ms end es n = (n', Inr es') \<longleftrightarrow>
     end = None \<and> list_all (\<lambda>m. drive_clean (snd m)) ms \<and> n' = n + (\<Sum>m\<leftarrow>ms. drive_nodes (snd m))
     \<and> n' \<le> MAX_JSON_NODES \<and> distinct (map fst ms) \<and> set (map fst ms) \<inter> fst ` set es = {}
     \<and> es' = fold (\<lambda>m es. btree_insert (fst m) (drive_value (snd m)) es) ms es"
proof (induction ms arbitrary: es n)
  case Nil
  then show ?case by (auto split: option.splits)
next
  case (Cons m ms)
  obtain k d where m: "m = (k, d)" by fastforce
  have step: "visit_map c (m # ms) end es n = (n', Inr es') \<longleftrightarrow> k \<notin> fst ` set es \<and>
    (\<exists>n1 v. visit c d n = (n1, Inr v) \<and> visit_map c ms end (btree_insert k v es) n1 = (n', Inr es'))"
    by (simp add: m pair_case_Inr btree_contains_key_def del: split_paired_Ex)
  have "visit_correct c d" "\<forall>m \<in> set ms. visit_correct c (snd m)" using Cons.prems m by simp_all
  note d = this
  show ?case
  proof (cases "k \<in> fst ` set es")
    case True
    then show ?thesis unfolding step by (simp add: m)
  next
    case False
    let ?n1 = "n + drive_nodes d"
    have ih: "?n1 \<le> MAX_JSON_NODES \<Longrightarrow>
        visit_map c ms end (btree_insert k (drive_value d) es) ?n1 = (n', Inr es') \<longleftrightarrow> end = None
      \<and> list_all (\<lambda>m. drive_clean (snd m)) ms \<and> n' = ?n1 + (\<Sum>m\<leftarrow>ms. drive_nodes (snd m))
      \<and> n' \<le> MAX_JSON_NODES \<and> distinct (map fst ms)
      \<and> set (map fst ms) \<inter> insert k (fst ` set es) = {}
      \<and> es' = fold (\<lambda>m es. btree_insert (fst m) (drive_value (snd m))  es) ms
                (btree_insert k (drive_value d) es)"
      by (rule Cons.IH [OF d(2), where es = "btree_insert k (drive_value d) es",
            unfolded btree_insert_keys])
    have "visit_map c (m # ms) end es n = (n', Inr es') \<longleftrightarrow> drive_clean d \<and> ?n1 \<le> MAX_JSON_NODES
      \<and> visit_map c ms end (btree_insert k (drive_value d) es) ?n1 = (n', Inr es')"
      unfolding step visit_correctD [OF d(1) Cons.prems(2)] using False by blast
    also have "\<dots> \<longleftrightarrow> drive_clean d \<and> ?n1 \<le> MAX_JSON_NODES \<and> (end = None
      \<and> list_all (\<lambda>m. drive_clean (snd m)) ms \<and> n' = ?n1 + (\<Sum>m\<leftarrow>ms. drive_nodes (snd m))
      \<and> n' \<le> MAX_JSON_NODES \<and> distinct (map fst ms)
      \<and> set (map fst ms) \<inter> insert k (fst ` set es) = {}
      \<and> es' = fold (\<lambda>m es. btree_insert (fst m) (drive_value (snd m))  es) ms
                (btree_insert k (drive_value d) es))"
      using ih by blast
    also have "\<dots> \<longleftrightarrow> (end = None \<and> list_all (\<lambda>m. drive_clean (snd m)) (m # ms)
      \<and> n' = n + (\<Sum>m\<leftarrow>m # ms. drive_nodes (snd m))
      \<and> n' \<le> MAX_JSON_NODES \<and> distinct (map fst (m # ms)) \<and> set (map fst (m # ms)) \<inter> fst ` set es = {}
      \<and> es' = fold (\<lambda>m es. btree_insert (fst m) (drive_value (snd m)) es) (m # ms) es)" using False
      by (simp add: m Int_insert_right) (simp add: add.assoc nat_bound_conj)
    finally show ?thesis .
  qed
qed

lemma visit_ok: "visit_correct c d"
proof (induction d)
  case (DSeq ds e)
  then have "\<forall>d \<in> set ds. visit_correct c d" by blast
  note ok = visit_seq_ok [OF this]
  show ?case unfolding visit_correct_def by (auto simp: pair_case_Inr charge_ok ok)
next
  case (DMap ms e)
  then have "\<forall>m \<in> set ms. visit_correct c (snd m)" by (auto intro: snds.intros)
  note ok = visit_map_ok [OF this]
  show ?case unfolding visit_correct_def by (auto simp: pair_case_Inr charge_ok ok)
qed (auto simp: visit_correct_def scalar_ok)

section \<open>The budget\<close>

text \<open>The counter never runs ahead of the document, and a document that is clean can only be
  refused by the budget.\<close>

lemma pair_case_Inl:
  "(case p of (n1, Inl e) \<Rightarrow> (n1, Inl e) | (n1, Inr x) \<Rightarrow> f n1 x) = (n', Inl e') \<longleftrightarrow>
     p = (n', Inl e') \<or> (\<exists>n1 x. p = (n1, Inr x) \<and> f n1 x = (n', Inl e'))"
  by (auto split: prod.split sum.split)

definition visit_errs :: "(string \<Rightarrow> string) \<Rightarrow> jdrive \<Rightarrow> bool" where
  "visit_errs c d \<longleftrightarrow> (\<forall>n n' e. n \<le> MAX_JSON_NODES \<longrightarrow> visit c d n = (n', Inl e) \<longrightarrow>
     n' \<le> n + drive_nodes d \<and> (drive_clean d \<longrightarrow> n' > MAX_JSON_NODES))"

lemma visit_errsD:
  "visit_errs c d \<Longrightarrow> n \<le> MAX_JSON_NODES \<Longrightarrow> visit c d n = (n', Inl e) \<Longrightarrow>
     n' \<le> n + drive_nodes d \<and> (drive_clean d \<longrightarrow> n' > MAX_JSON_NODES)"
  by (simp add: visit_errs_def)

lemmas visit_okD = visit_correctD [OF visit_ok]

lemma visit_seq_errs:
  "\<forall>d \<in> set ds. visit_errs c d \<Longrightarrow> n \<le> MAX_JSON_NODES \<Longrightarrow>
   visit_seq c ds end out n = (n', Inl e) \<Longrightarrow>
     n' \<le> n + (\<Sum>d\<leftarrow>ds. drive_nodes d)
     \<and> (end = None \<and> (\<forall>d \<in> set ds. drive_clean d) \<longrightarrow> n' > MAX_JSON_NODES)"
proof (induction ds arbitrary: out n)
  case Nil
  then show ?case by (auto split: option.splits)
next
  case (Cons d ds)
  then have h: "visit_errs c d" "\<forall>d \<in> set ds. visit_errs c d" by simp_all
  from Cons.prems(3) consider "visit c d n = (n', Inl e)"
    | n1 v where "visit c d n = (n1, Inr v)" "visit_seq c ds end (out @ [v]) n1 = (n', Inl e)"
    by (auto simp: pair_case_Inl)
  then show ?case
  proof cases
    case 1
    with visit_errsD [OF h(1) Cons.prems(2)] show ?thesis by fastforce
  next
    case 2
    then have "drive_clean d" "n1 = n + drive_nodes d" "n1 \<le> MAX_JSON_NODES"
      using visit_okD [OF Cons.prems(2)] by blast+
    with Cons.IH [OF h(2) _ 2(2)] show ?thesis by simp
  qed
qed

lemma visit_map_errs:
  "\<forall>m \<in> set ms. visit_errs c (snd m) \<Longrightarrow> n \<le> MAX_JSON_NODES \<Longrightarrow>
   visit_map c ms end es n = (n', Inl e) \<Longrightarrow>
     n' \<le> n + (\<Sum>m\<leftarrow>ms. drive_nodes (snd m))
     \<and> (end = None \<and> list_all (\<lambda>m. drive_clean (snd m)) ms \<and> distinct (map fst ms)
         \<and> set (map fst ms) \<inter> fst ` set es = {} \<longrightarrow> n' > MAX_JSON_NODES)"
proof (induction ms arbitrary: es n)
  case Nil
  then show ?case by (auto split: option.splits)
next
  case (Cons m ms)
  obtain k d where m: "m = (k, d)" by fastforce
  from Cons.prems m have h: "visit_errs c d" "\<forall>m \<in> set ms. visit_errs c (snd m)" by simp_all
  show ?case
  proof (cases "k \<in> fst ` set es")
    case True
    with Cons.prems(3) show ?thesis by (auto simp: m btree_contains_key_def)
  next
    case False
    with Cons.prems(3) consider "visit c d n = (n', Inl e)"
      | n1 v where "visit c d n = (n1, Inr v)"
        "visit_map c ms end (btree_insert k v es) n1 = (n', Inl e)"
      by (auto simp: m pair_case_Inl btree_contains_key_def)
    then show ?thesis
    proof cases
      case 1
      with visit_errsD [OF h(1) Cons.prems(2)] show ?thesis by (fastforce simp: m)
    next
      case 2
      then have "drive_clean d" "n1 = n + drive_nodes d" "n1 \<le> MAX_JSON_NODES"
        using visit_okD [OF Cons.prems(2)] by blast+
      with Cons.IH [OF h(2) _ 2(2)] show ?thesis by (auto simp: m)
    qed
  qed
qed

lemma scalar_errs:
  "n \<le> MAX_JSON_NODES \<Longrightarrow> scalar c n (Inr v) = (n', Inl e) \<Longrightarrow> n' = n + 1 \<and> n' > MAX_JSON_NODES"
  using scalar_fst [of n c "Inr v"] scalar_ok [of n c "Inr v" "n + 1" v]
  by (cases "n + 1 \<le> MAX_JSON_NODES") auto

lemma visit_errs_all: "visit_errs c d"
proof (induction d)
  case (DF64 w)
  show ?case using scalar_fst scalar_errs unfolding visit_errs_def
    by (auto split: if_splits) (metis add.commute fst_conv order_refl plus_1_eq_Suc)
next
  case (DSeq ds e)
  then have "\<forall>d \<in> set ds. visit_errs c d" by blast
  note err = visit_seq_errs [OF this]
  show ?case unfolding visit_errs_def
  proof (intro allI impI)
    fix n n' e'
    assume n: "n \<le> MAX_JSON_NODES" and v: "visit c (DSeq ds e) n = (n', Inl e')"
    then consider "charge c n = (n', Inl e')"
      | "n + 1 \<le> MAX_JSON_NODES" "visit_seq c ds e [] (n + 1) = (n', Inl e')"
      by (auto simp: pair_case_Inl charge_ok)
    then show "n' \<le> n + drive_nodes (DSeq ds e) \<and> (drive_clean (DSeq ds e) \<longrightarrow> n' > MAX_JSON_NODES)"
      by cases (use charge_err [OF n] err in fastforce)+
  qed
next
  case (DMap ms e)
  then have "\<forall>m \<in> set ms. visit_errs c (snd m)" by (auto intro: snds.intros)
  note err = visit_map_errs [OF this]
  show ?case unfolding visit_errs_def
  proof (intro allI impI)
    fix n n' e'
    assume n: "n \<le> MAX_JSON_NODES" and v: "visit c (DMap ms e) n = (n', Inl e')"
    then consider "charge c n = (n', Inl e')"
      | "n + 1 \<le> MAX_JSON_NODES" "visit_map c ms e [] (n + 1) = (n', Inl e')"
      by (auto simp: pair_case_Inl charge_ok)
    then show "n' \<le> n + drive_nodes (DMap ms e) \<and> (drive_clean (DMap ms e) \<longrightarrow> n' > MAX_JSON_NODES)"
      by cases (use charge_err [OF n] err in fastforce)+
  qed
qed (auto simp: visit_errs_def dest!: scalar_errs)

section \<open>The parsed value\<close>

fun jnodes :: "jvalue \<Rightarrow> nat" where
  "jnodes (JArray vs) = 1 + (\<Sum>v\<leftarrow>vs. jnodes v)"
| "jnodes (JObject es) = 1 + (\<Sum>e\<leftarrow>es. jnodes (snd e))"
| "jnodes _ = 1"

definition sorted_keys :: "(string \<times> 'v) list \<Rightarrow> bool" where
  "sorted_keys es \<longleftrightarrow> sorted_wrt (<) (map (as_bytes \<circ> fst) es)"

fun json_wf :: "jvalue \<Rightarrow> bool" where
  "json_wf (JArray vs) \<longleftrightarrow> (\<forall>v \<in> set vs. json_wf v)"
| "json_wf (JObject es) \<longleftrightarrow> sorted_keys es \<and> (\<forall>v \<in> snd ` set es. json_wf v)"
| "json_wf _ = True"

lemma btree_insert_sorted: "sorted_keys es \<Longrightarrow> sorted_keys (btree_insert k v es)"
proof (induction es)
  case Nil
  then show ?case by (simp add: sorted_keys_def)
next
  case (Cons e es)
  obtain k' v' where e: "e = (k', v')" by fastforce
  have tl: "sorted_keys es" and hd: "\<forall>x \<in> fst ` set es. as_bytes k' < as_bytes x"
    using Cons.prems by (auto simp: sorted_keys_def e)
  consider "k = k'" | "as_bytes k < as_bytes k'" | "as_bytes k' < as_bytes k"
    by (metis as_bytes_inject linorder_less_linear)
  then show ?case
  proof cases
    case 1
    then show ?thesis using Cons.prems by (simp add: sorted_keys_def e)
  next
    case 2
    then show ?thesis using Cons.prems hd by (fastforce simp: sorted_keys_def e)
  next
    case 3
    then have "\<forall>x \<in> fst ` set (btree_insert k v es). as_bytes k' < as_bytes x"
      unfolding btree_insert_keys using hd by blast
    then have "\<forall>x \<in> set (btree_insert k v es). as_bytes k' < as_bytes (fst x)" by blast
    moreover have "sorted_keys (btree_insert k v es)" using Cons.IH tl by simp
    moreover have "k \<noteq> k'" "\<not> as_bytes k < as_bytes k'" using 3 by auto
    ultimately show ?thesis using 3 by (simp add: sorted_keys_def e)
  qed
qed

lemma btree_insert_values: "snd ` set (btree_insert k v es) \<subseteq> insert v (snd ` set es)"
proof -
  have "set (btree_insert k v es) \<subseteq> insert (k, v) (set es)"
    by (induction es) (auto split: if_splits)
  then show ?thesis by (auto dest!: subsetD)
qed

lemma btree_insert_nodes:
  "k \<notin> fst ` set es \<Longrightarrow>
     (\<Sum>e\<leftarrow>btree_insert k v es. jnodes (snd e)) = jnodes v + (\<Sum>e\<leftarrow>es. jnodes (snd e))"
  by (induction es) (auto simp: as_bytes_inject)

lemma btree_insert_map_of: "map_of (btree_insert k v es) = (map_of es)(k \<mapsto> v)"
  by (induction es) (auto simp: as_bytes_inject)

lemma btree_step:
  assumes "distinct (map fst (m # ms))" "set (map fst (m # ms)) \<inter> fst ` set es = {}"
    "sorted_keys es"
  shows "distinct (map fst ms)" "set (map fst ms) \<inter> fst ` set (btree_insert (fst m) v es) = {}"
    "sorted_keys (btree_insert (fst m) v es)"
proof -
  show "distinct (map fst ms)" using assms(1) by simp
  show "set (map fst ms) \<inter> fst ` set (btree_insert (fst m) v es) = {}"
    unfolding btree_insert_keys using assms(1,2) by (simp add: Int_insert_right)
  show "sorted_keys (btree_insert (fst m) v es)" using assms(3) by (rule btree_insert_sorted)
qed

lemma fold_btree:
  assumes "distinct (map fst ms)" "set (map fst ms) \<inter> fst ` set es = {}" "sorted_keys es"
  shows "sorted_keys (fold (\<lambda>m es. btree_insert (fst m) (f (snd m)) es) ms es)"
    "snd ` set (fold (\<lambda>m es. btree_insert (fst m) (f (snd m)) es) ms es)
       \<subseteq> f ` snd ` set ms \<union> snd ` set es"
    "(\<Sum>e\<leftarrow>fold (\<lambda>m es. btree_insert (fst m) (f (snd m)) es) ms es. jnodes (snd e))
       = (\<Sum>m\<leftarrow>ms. jnodes (f (snd m))) + (\<Sum>e\<leftarrow>es. jnodes (snd e))"
    "map_of (fold (\<lambda>m es. btree_insert (fst m) (f (snd m)) es) ms es)
       = map_of es ++ (\<lambda>k. map_option f (map_of ms k))"
  using assms
proof (induction ms arbitrary: es)
  case Nil
  { case 1 then show ?case by simp }
  { case 2 then show ?case by simp }
  { case 3 then show ?case by simp }
  { case 4 then show ?case by (simp add: map_add_def) }
next
  case (Cons m ms)
  let ?es = "btree_insert (fst m) (f (snd m)) es"
  { case p: 1
    note d = btree_step(1) [OF p] btree_step(2,3) [OF p, where v = "f (snd m)"]
    from Cons.IH(1) [OF d] show ?case by simp }
  { case p: 2
    note d = btree_step(1) [OF p] btree_step(2,3) [OF p, where v = "f (snd m)"]
    show ?case
      using subset_trans [OF Cons.IH(2) [OF d] Un_mono [OF order_refl btree_insert_values]] by simp }
  { case p: 3
    note d = btree_step(1) [OF p] btree_step(2,3) [OF p, where v = "f (snd m)"]
    from Cons.IH(3) [OF d] p show ?case by (simp add: btree_insert_nodes) }
  { case p: 4
    note d = btree_step(1) [OF p] btree_step(2,3) [OF p, where v = "f (snd m)"]
    have "map_of ms (fst m) = None" using p by (simp add: map_of_eq_None_iff)
    with Cons.IH(4) [OF d] show ?case
      by (auto simp: btree_insert_map_of map_add_def fun_eq_iff split: option.split) }
qed

lemma drive_value_wf:
  "drive_clean d \<Longrightarrow> json_wf (drive_value d) \<and> jnodes (drive_value d) = drive_nodes d"
proof (induction d)
  case (DSeq ds e)
  then have "(\<Sum>d\<leftarrow>ds. jnodes (drive_value d)) = (\<Sum>d\<leftarrow>ds. drive_nodes d)"
    by (intro arg_cong [of _ _ sum_list] map_cong) auto
  with DSeq show ?case by (auto simp: comp_def)
next
  case (DMap ms e)
  have ih: "json_wf (drive_value (snd m)) \<and> jnodes (drive_value (snd m)) = drive_nodes (snd m)"
    if "m \<in> set ms" for m
    using DMap.IH [of m "snd m"] DMap.prems that by (auto intro: snds.intros simp: list_all_iff)
  have d: "distinct (map fst ms)" "set (map fst ms) \<inter> fst ` set [] = {}" "sorted_keys []"
    using DMap.prems by (simp_all add: sorted_keys_def)
  note f = fold_btree [OF d, of drive_value]
  have "(\<Sum>m\<leftarrow>ms. jnodes (drive_value (snd m))) = (\<Sum>m\<leftarrow>ms. drive_nodes (snd m))"
    using ih by (intro arg_cong [of _ _ sum_list] map_cong) auto
  moreover have "\<forall>v \<in> drive_value ` snd ` set ms. json_wf v" using ih by blast
  ultimately show ?case using f(1-3) by fastforce
qed auto

text \<open>The outcome of \<open>parse_strict\<close>, from the announced document.\<close>

lemma parse_strict_ok:
  "parse_strict E bs = Inr v \<longleftrightarrow>
     (\<exists>d. json_drive E bs = (d, None) \<and> drive_clean d \<and> drive_nodes d \<le> MAX_JSON_NODES
          \<and> v = drive_value d)"
proof -
  obtain d tr where d: "json_drive E bs = (d, tr)" by fastforce
  obtain n r where v: "visit (json_error_text E bs) d 0 = (n, r)" by fastforce
  show ?thesis
    using visit_okD [of 0 "json_error_text E bs" d n] v
      visit_okD [of 0 "json_error_text E bs" d "drive_nodes d" "drive_value d"]
    by (cases r) (auto simp: parse_strict_def d split: option.splits)
qed

lemma parse_strict_over_budget:
  "parse_strict E bs = Inl (ResourceLimit e) \<Longrightarrow>
     e = TooManyJsonNodes MAX_JSON_NODES \<and> MAX_JSON_NODES < drive_nodes (fst (json_drive E bs))"
proof -
  assume a: "parse_strict E bs = Inl (ResourceLimit e)"
  obtain d tr where d: "json_drive E bs = (d, tr)" by fastforce
  obtain n r where v: "visit (json_error_text E bs) d 0 = (n, r)" by fastforce
  from a v obtain m where "r = Inl m" "MAX_JSON_NODES < n" "e = TooManyJsonNodes MAX_JSON_NODES"
    by (cases r) (auto simp: parse_strict_def d split: option.splits if_splits)
  with visit_errsD [OF visit_errs_all _ v [unfolded \<open>r = Inl m\<close>]] show ?thesis by (simp add: d)
qed

lemma parse_strict_clean_over_budget:
  assumes "json_drive E bs = (d, tr)" "drive_clean d" "MAX_JSON_NODES < drive_nodes d"
  shows "parse_strict E bs = Inl (ResourceLimit (TooManyJsonNodes MAX_JSON_NODES))"
proof -
  obtain n r where v: "visit (json_error_text E bs) d 0 = (n, r)" by fastforce
  obtain m where m: "r = Inl m"
  proof (cases r)
    case (Inr b)
    then show ?thesis using visit_okD [of 0 "json_error_text E bs" d n b] v assms(3) by simp
  qed
  with visit_errsD [OF visit_errs_all _ v [unfolded m]] assms(2)
  have "MAX_JSON_NODES < n" by simp
  then show ?thesis using v m by (simp add: parse_strict_def assms(1))
qed

section \<open>The interface of a hardened document parser\<close>

text \<open>Every public entry point that takes raw bytes of one document keeps the same contract:
  the size check comes first, then the strict parse, whose error it reports unchanged.\<close>

locale strict_document =
  fixes E :: "('p, 'q, 's, 'n) crates"
    and parse :: "bytes \<Rightarrow> error + 'a"
  assumes oversized: "MAX_INPUT_BYTES < length bs \<Longrightarrow>
      parse bs = Inl (ResourceLimit (InputTooLarge (length bs) MAX_INPUT_BYTES))"
    and strict_error: "length bs \<le> MAX_INPUT_BYTES \<Longrightarrow> parse_strict E bs = Inl e \<Longrightarrow> parse bs = Inl e"
begin

lemma size_bounded: "parse bs = Inr x \<Longrightarrow> length bs \<le> MAX_INPUT_BYTES"
  using oversized [of bs] by (cases "MAX_INPUT_BYTES < length bs") auto

lemma parsed_strictly: "parse bs = Inr x \<Longrightarrow> \<exists>v. parse_strict E bs = Inr v"
  using strict_error [OF size_bounded] by (cases "parse_strict E bs") auto

text \<open>What an accepted document is known to satisfy.\<close>

lemma hardened:
  "parse bs = Inr x \<Longrightarrow> length bs \<le> MAX_INPUT_BYTES \<and>
     (\<exists>d. json_drive E bs = (d, None) \<and> drive_clean d \<and> drive_nodes d \<le> MAX_JSON_NODES)"
  using size_bounded parsed_strictly unfolding parse_strict_ok by blast

text \<open>A clean document over the node budget is refused with the budget's error.\<close>

lemma over_budget:
  "length bs \<le> MAX_INPUT_BYTES \<Longrightarrow> json_drive E bs = (d, tr) \<Longrightarrow> drive_clean d \<Longrightarrow>
     MAX_JSON_NODES < drive_nodes d \<Longrightarrow>
     parse bs = Inl (ResourceLimit (TooManyJsonNodes MAX_JSON_NODES))"
  by (rule strict_error [OF _ parse_strict_clean_over_budget])

end

section \<open>Properties\<close>

text \<open>C15. The strict parser accepts exactly the documents that the deserializer can read to their
  end, without a repeated key in any object, without a non-finite number and within the node
  budget; the value is the one the document denotes.\<close>

theorem parse_strict_accepts:
  "parse_strict E bs = Inr v \<longleftrightarrow>
     (\<exists>d. json_drive E bs = (d, None) \<and> drive_clean d \<and> drive_nodes d \<le> MAX_JSON_NODES
          \<and> v = drive_value d)"
  by (rule parse_strict_ok)

text \<open>C37. The result is well formed: the keys of every object are strictly increasing, and the
  number of its nodes is within the budget.\<close>

theorem parse_strict_well_formed:
  assumes "parse_strict E bs = Inr v"
  shows "json_wf v \<and> jnodes v \<le> MAX_JSON_NODES"
  using assms drive_value_wf unfolding parse_strict_ok by fastforce

theorem parse_strict_well_formed_witness:
  "json_wf (JObject [(''a'', JNull), (''b'', JArray [JBool True, JString ''x''])])
     \<and> jnodes (JObject [(''a'', JNull), (''b'', JArray [JBool True, JString ''x''])]) \<le> MAX_JSON_NODES"
  by (rule parse_strict_well_formed [of sample "[0x7D]"]) code_simp

text \<open>C38. A document that exceeds the node budget and has no other flaw is refused with the
  budget's own error, whatever its size.\<close>

theorem parse_strict_budget_error:
  assumes "json_drive E bs = (d, tr)" and "drive_clean d" and "MAX_JSON_NODES < drive_nodes d"
  shows "parse_strict E bs = Inl (ResourceLimit (TooManyJsonNodes MAX_JSON_NODES))"
  using assms by (rule parse_strict_clean_over_budget)

lemma wide_array: "drive_clean (DSeq (replicate n DUnit) None)" "drive_nodes (DSeq (replicate n DUnit) None) = 1 + n"
  by (simp_all add: sum_list_replicate)

theorem parse_strict_budget_error_witness:
  "parse_strict sample [0x5B] = Inl (ResourceLimit (TooManyJsonNodes MAX_JSON_NODES))"
proof (rule parse_strict_budget_error [OF _ wide_array(1)])
  show "json_drive sample [0x5B] = (DSeq (replicate 262144 DUnit) None, None)" by (simp add: sample_def)
  show "MAX_JSON_NODES < drive_nodes (DSeq (replicate 262144 DUnit) None)"
    unfolding wide_array(2) by (simp add: MAX_JSON_NODES_def)
qed

end
