(* ===== verification/Statement.thy ===== *)
theory Statement
  imports Strict_Json
begin

text \<open>
  \<open>src/src/statement.rs\<close>: the in-toto statement inside the DSSE payload, its subjects, and
  the lookup of a digest among them.
\<close>

section \<open>Data and parsing\<close>

definition STATEMENT_TYPE :: string where
  "STATEMENT_TYPE = ''https://in-toto.io/Statement/v1''"

record statement_subject =
  ss_name :: "string option"
  ss_sha256 :: "subject_digest option"

record statement =
  subjects :: "statement_subject list"
  predicate_type :: string
  predicate :: jvalue

definition statement_subject_from_raw ::
  "('p, 'q, 's, 'n) crates \<Rightarrow> nat \<Rightarrow> raw_statement_subject \<Rightarrow> error + statement_subject" where
  "statement_subject_from_raw E index raw =
     (if rss_digest raw = []
      then Inl (Parse (MalformedSubject (''subject['' @ dec index @ ''] has an empty digest map'')))
      else
        res_bind
          (case map_of (rss_digest raw) ''sha256'' of
             Some hex \<Rightarrow>
               res_bind (map_err (\<lambda>_. Parse (MalformedSubject
                   (''subject['' @ dec index @ ''] has a malformed sha256 digest'')))
                 (from_digest_hex E hex)) (\<lambda>subject. Inr (Some subject))
           | None \<Rightarrow> Inr None)
          (\<lambda>sha. Inr \<lparr>ss_name = rss_name raw, ss_sha256 = sha\<rparr>))"

definition statement_from_raw :: "('p, 'q, 's, 'n) crates \<Rightarrow> raw_statement \<Rightarrow> error + statement" where
  "statement_from_raw E raw =
     (if rs_type raw \<noteq> STATEMENT_TYPE then Inl (Unsupported (StatementType (rs_type raw))) else
      res_bind (map_err ResourceLimit (check_count (rs_subject raw) MAX_STATEMENT_SUBJECTS TooManySubjects)) (\<lambda>_.
      res_bind (collect_results (\<lambda>(index, raw_subject). statement_subject_from_raw E index raw_subject)
                  (enumerate 0 (rs_subject raw))) (\<lambda>subs.
      Inr \<lparr>subjects = subs, predicate_type = rs_predicate_type raw, predicate = rs_predicate raw\<rparr>)))"

definition from_payload :: "('p, 'q, 's, 'n) crates \<Rightarrow> bytes \<Rightarrow> error + statement" where
  "from_payload E bs =
     res_bind (map_err ResourceLimit (check_input_size bs)) (\<lambda>_.
     res_bind (parse_strict E bs) (\<lambda>value.
     res_bind (map_err (\<lambda>e. Parse (Json e)) (statement_from_value E value)) (\<lambda>raw.
     statement_from_raw E raw)))"

definition find_subject :: "statement \<Rightarrow> subject_digest \<Rightarrow> statement_subject option" where
  "find_subject st subject = find (\<lambda>s. ss_sha256 s = Some subject) (subjects st)"

definition contains_subject :: "statement \<Rightarrow> subject_digest \<Rightarrow> bool" where
  "contains_subject st subject \<longleftrightarrow> find_subject st subject \<noteq> None"

section \<open>Lookup\<close>

lemma find_subject_first:
  "find_subject st d = Some s \<longleftrightarrow> (\<exists>us vs. subjects st = us @ s # vs \<and> ss_sha256 s = Some d
     \<and> (\<forall>u \<in> set us. ss_sha256 u \<noteq> Some d))"
  by (simp add: find_subject_def find_Some_first)

lemma contains_subject_iff: "contains_subject st d \<longleftrightarrow> (\<exists>s \<in> set (subjects st). ss_sha256 s = Some d)"
  by (auto simp: contains_subject_def find_subject_def find_None_iff)

section \<open>What parsing establishes\<close>

lemma statement_subject_len:
  "hex_decode_len E \<Longrightarrow> statement_subject_from_raw E i raw = Inr s \<Longrightarrow> ss_sha256 s = Some d \<Longrightarrow>
     length (subject_bytes d) = 32"
  by (auto simp: statement_subject_from_raw_def dest: from_digest_hex_len split: option.splits)

lemma statement_from_raw_subjects:
  assumes "statement_from_raw E raw = Inr st"
  shows "length (subjects st) = length (rs_subject raw)" "length (subjects st) \<le> MAX_STATEMENT_SUBJECTS"
    "\<forall>s \<in> set (subjects st). \<exists>i raw_s. raw_s \<in> set (rs_subject raw)
       \<and> statement_subject_from_raw E i raw_s = Inr s"
proof -
  have c: "collect_results (\<lambda>(index, raw_subject). statement_subject_from_raw E index raw_subject)
                  (enumerate 0 (rs_subject raw)) = Inr (subjects st)"
    and l: "length (rs_subject raw) \<le> MAX_STATEMENT_SUBJECTS"
    using assms by (auto simp: statement_from_raw_def)
  show "length (subjects st) = length (rs_subject raw)"
    using collect_results_length [OF c] by simp
  with l show "length (subjects st) \<le> MAX_STATEMENT_SUBJECTS" by simp
  show "\<forall>s \<in> set (subjects st). \<exists>i raw_s. raw_s \<in> set (rs_subject raw)
       \<and> statement_subject_from_raw E i raw_s = Inr s"
    using collect_results_mem [OF c] by (fastforce simp: enumerate_eq_zip dest: set_zip_rightD)
qed

interpretation statement_doc: strict_document E "from_payload E" for E
  by unfold_locales (simp_all add: from_payload_def check_input_size_def)

text \<open>What a subject of the document becomes: its digest map is not empty, its name is kept, and its
  sha256 entry, if it has one, is read as 64 hexadecimal digits.\<close>

definition subject_of_raw ::
  "('p, 'q, 's, 'n) crates \<Rightarrow> raw_statement_subject \<Rightarrow> statement_subject \<Rightarrow> bool" where
  "subject_of_raw E a s \<longleftrightarrow> rss_digest a \<noteq> [] \<and> ss_name s = rss_name a
     \<and> (case map_of (rss_digest a) ''sha256'' of
          None \<Rightarrow> ss_sha256 s = None
        | Some hex \<Rightarrow> \<exists>d. hex_decode_to_slice E 32 hex = Inr (subject_bytes d) \<and> ss_sha256 s = Some d)"

lemma from_digest_hex_iff: "from_digest_hex E h = Inr d \<longleftrightarrow> hex_decode_to_slice E 32 h = Inr (subject_bytes d)"
  by (cases d) (auto simp: from_digest_hex_def)

lemma statement_subject_from_raw_iff: "statement_subject_from_raw E i a = Inr s \<longleftrightarrow> subject_of_raw E a s"
  by (cases "map_of (rss_digest a) ''sha256''"; cases s)
    (auto simp: statement_subject_from_raw_def subject_of_raw_def from_digest_hex_iff)

lemma statement_from_raw_iff:
  "statement_from_raw E raw = Inr st \<longleftrightarrow>
     rs_type raw = ''https://in-toto.io/Statement/v1'' \<and> length (rs_subject raw) \<le> MAX_STATEMENT_SUBJECTS
     \<and> list_all2 (subject_of_raw E) (rs_subject raw) (subjects st)
     \<and> predicate_type st = rs_predicate_type raw \<and> predicate st = rs_predicate raw"
proof -
  have "collect_results (\<lambda>(index, raw_subject). statement_subject_from_raw E index raw_subject)
      (enumerate 0 (rs_subject raw)) = Inr ss \<longleftrightarrow> list_all2 (subject_of_raw E) (rs_subject raw) ss" for ss
    by (simp add: collect_results_eq_Inr list_all2_conv_all_nth nth_enumerate_eq statement_subject_from_raw_iff)
  then show ?thesis
    by (cases st) (auto simp: statement_from_raw_def STATEMENT_TYPE_def)
qed

section \<open>Properties\<close>

text \<open>C30. A payload is accepted if and only if it is a bounded, strictly parsed document of the in-toto
  statement type with at most 1024 subjects, each with a digest map that is not empty; the
  statement has its subjects in order, its predicate type and its predicate, and every sha256
  digest among them has 32 bytes.\<close>

theorem from_payload_sound:
  assumes "hex_decode_len E"
  shows "from_payload E bs = Inr st \<longleftrightarrow> length bs \<le> MAX_INPUT_BYTES
    \<and> (\<exists>v raw. parse_strict E bs = Inr v \<and> statement_from_value E v = Inr raw
         \<and> rs_type raw = ''https://in-toto.io/Statement/v1''
         \<and> list_all2 (subject_of_raw E) (rs_subject raw) (subjects st)
         \<and> predicate_type st = rs_predicate_type raw \<and> predicate st = rs_predicate raw)
    \<and> length (subjects st) \<le> MAX_STATEMENT_SUBJECTS
    \<and> list_all (\<lambda>s. pred_option (\<lambda>d. length (subject_bytes d) = 32) (ss_sha256 s)) (subjects st)"
proof -
  have digests: "list_all (\<lambda>s. pred_option (\<lambda>d. length (subject_bytes d) = 32) (ss_sha256 s)) ss"
    if "list_all2 (subject_of_raw E) rs ss" for rs ss
    using that
    by (induction rule: list_all2_induct)
      (use assms in \<open>auto simp: subject_of_raw_def hex_decode_len_def option.pred_set split: option.splits\<close>)
  have count: "length rs \<le> n \<longleftrightarrow> length ss \<le> n" if "list_all2 (subject_of_raw E) rs ss" for rs ss n
    using list_all2_lengthD [OF that] by simp
  show ?thesis
    by (auto simp: from_payload_def statement_from_raw_iff intro: digests dest: count [THEN iffD1] count [THEN iffD2])
qed

theorem from_payload_sound_witness:
  "\<exists>st (raw :: raw_statement). from_payload sample [0x7B] = Inr st \<and> rs_type raw = ''https://in-toto.io/Statement/v1''
     \<and> list_all2 (subject_of_raw sample) (rs_subject raw) (subjects st)
     \<and> list_all (\<lambda>s. pred_option (\<lambda>d. length (subject_bytes d) = 32) (ss_sha256 s)) (subjects st)"
proof -
  have "is_ok (from_payload sample [0x7B])" by code_simp
  then obtain st where st: "from_payload sample [0x7B] = Inr st" by (auto simp: is_ok_iff)
  with st [unfolded from_payload_sound [OF sample_hex_decode_len]] show ?thesis by blast
qed

end
