(* ===== verification/Bundle.thy ===== *)
theory Bundle
  imports Statement
begin

text \<open>
  \<open>src/src/bundle.rs\<close>: the hardened bundle model, its conversion from the raw mirrors, and
  the two container shapes. A single DSSE signature is the only shape the type can hold.
\<close>

section \<open>The hardened data model\<close>

definition BUNDLE_MEDIA_TYPE :: string where
  "BUNDLE_MEDIA_TYPE = ''application/vnd.dev.sigstore.bundle.v0.3+json''"

record certificate =
  cert_raw_bytes :: bytes

record checkpoint =
  cp_envelope :: string

record inclusion_promise =
  signed_entry_timestamp :: bytes

record inclusion_proof =
  ip_log_index :: u64
  ip_root_hash :: bytes
  ip_tree_size :: u64
  ip_hashes :: "bytes list"
  ip_checkpoint :: checkpoint

record tlog_entry =
  te_log_index :: u64
  te_log_id_key_id :: bytes
  te_kind :: string
  te_version :: string
  te_integrated_time :: u64
  te_inclusion_promise :: "inclusion_promise option"
  te_inclusion_proof :: "inclusion_proof option"
  te_canonicalized_body :: bytes

record rfc3161_timestamp =
  signed_timestamp :: bytes

record timestamp_verification_data =
  rfc3161_timestamps :: "rfc3161_timestamp list"

record verification_material =
  vm_certificate :: certificate
  vm_tlog_entries :: "tlog_entry list"
  vm_timestamp_verification_data :: timestamp_verification_data

record dsse_signature =
  ds_sig :: bytes
  ds_keyid :: "string option"

record dsse_envelope =
  de_payload :: bytes
  de_payload_type :: string
  de_signature :: dsse_signature

record sigstore_bundle =
  bundle_media_type :: string
  bundle_verification_material :: verification_material
  bundle_dsse_envelope :: dsse_envelope

section \<open>Conversion from the raw mirrors\<close>

definition decode_b64 ::
  "('p, 'q, 's, 'n) crates \<Rightarrow> string \<Rightarrow> string \<Rightarrow> error + bytes" where
  "decode_b64 E field s = map_err Parse (strict_base64 E field s)"

definition decode_u64 :: "string \<Rightarrow> string \<Rightarrow> error + u64" where
  "decode_u64 field s = map_err Parse (strict_stringified_u64 field s)"

definition certificate_from_raw :: "('p, 'q, 's, 'n) crates \<Rightarrow> raw_certificate \<Rightarrow> error + certificate" where
  "certificate_from_raw E raw =
     res_bind (decode_b64 E ''certificate.rawBytes'' (rc_raw_bytes raw)) (\<lambda>b.
     Inr \<lparr>cert_raw_bytes = b\<rparr>)"

definition inclusion_promise_from_raw ::
  "('p, 'q, 's, 'n) crates \<Rightarrow> raw_inclusion_promise \<Rightarrow> error + inclusion_promise" where
  "inclusion_promise_from_raw E raw =
     res_bind (decode_b64 E ''inclusionPromise.signedEntryTimestamp'' (rip_signed_entry_timestamp raw)) (\<lambda>b.
     Inr \<lparr>signed_entry_timestamp = b\<rparr>)"

definition inclusion_proof_from_raw ::
  "('p, 'q, 's, 'n) crates \<Rightarrow> raw_inclusion_proof \<Rightarrow> error + inclusion_proof" where
  "inclusion_proof_from_raw E raw =
     res_bind (decode_u64 ''inclusionProof.logIndex'' (rpf_log_index raw)) (\<lambda>log_index.
     res_bind (decode_b64 E ''inclusionProof.rootHash'' (rpf_root_hash raw)) (\<lambda>root_hash.
     res_bind (decode_u64 ''inclusionProof.treeSize'' (rpf_tree_size raw)) (\<lambda>tree_size.
     res_bind (collect_results (decode_b64 E ''inclusionProof.hashes[]'') (rpf_hashes raw)) (\<lambda>hashes.
     Inr \<lparr>ip_log_index = log_index, ip_root_hash = root_hash, ip_tree_size = tree_size,
          ip_hashes = hashes, ip_checkpoint = \<lparr>cp_envelope = rcp_envelope (rpf_checkpoint raw)\<rparr>\<rparr>))))"

definition tlog_entry_from_raw ::
  "('p, 'q, 's, 'n) crates \<Rightarrow> raw_tlog_entry \<Rightarrow> error + tlog_entry" where
  "tlog_entry_from_raw E raw =
     res_bind (decode_u64 ''tlogEntries[].logIndex'' (rt_log_index raw)) (\<lambda>log_index.
     res_bind (decode_b64 E ''tlogEntries[].logId.keyId'' (rl_key_id (rt_log_id raw))) (\<lambda>log_id_key_id.
     res_bind (decode_u64 ''tlogEntries[].integratedTime'' (rt_integrated_time raw)) (\<lambda>integrated_time.
     res_bind (opt_transpose (inclusion_promise_from_raw E) (rt_inclusion_promise raw)) (\<lambda>promise.
     res_bind (opt_transpose (inclusion_proof_from_raw E) (rt_inclusion_proof raw)) (\<lambda>proof'.
     res_bind (decode_b64 E ''tlogEntries[].canonicalizedBody'' (rt_canonicalized_body raw)) (\<lambda>body.
     Inr \<lparr>te_log_index = log_index, te_log_id_key_id = log_id_key_id,
          te_kind = rk_kind (rt_kind_version raw), te_version = rk_version (rt_kind_version raw),
          te_integrated_time = integrated_time, te_inclusion_promise = promise,
          te_inclusion_proof = proof', te_canonicalized_body = body\<rparr>))))))"

definition rfc3161_timestamp_from_raw ::
  "('p, 'q, 's, 'n) crates \<Rightarrow> raw_rfc3161_timestamp \<Rightarrow> error + rfc3161_timestamp" where
  "rfc3161_timestamp_from_raw E raw =
     res_bind (decode_b64 E ''rfc3161Timestamps[].signedTimestamp'' (rts_signed_timestamp raw)) (\<lambda>b.
     Inr \<lparr>signed_timestamp = b\<rparr>)"

definition timestamp_verification_data_from_raw ::
  "('p, 'q, 's, 'n) crates \<Rightarrow> raw_timestamp_verification_data \<Rightarrow> error + timestamp_verification_data" where
  "timestamp_verification_data_from_raw E raw =
     res_bind (collect_results (rfc3161_timestamp_from_raw E) (rtv_rfc3161_timestamps raw)) (\<lambda>ts.
     Inr \<lparr>rfc3161_timestamps = ts\<rparr>)"

definition verification_material_from_raw ::
  "('p, 'q, 's, 'n) crates \<Rightarrow> raw_verification_material \<Rightarrow> error + verification_material" where
  "verification_material_from_raw E raw =
     res_bind (map_err ResourceLimit (check_count (rv_tlog_entries raw) MAX_TLOG_ENTRIES TooManyTlogEntries)) (\<lambda>_.
     res_bind (certificate_from_raw E (rv_certificate raw)) (\<lambda>cert.
     res_bind (collect_results (tlog_entry_from_raw E) (rv_tlog_entries raw)) (\<lambda>entries.
     res_bind (timestamp_verification_data_from_raw E (rv_timestamp_verification_data raw)) (\<lambda>tsd.
     Inr \<lparr>vm_certificate = cert, vm_tlog_entries = entries, vm_timestamp_verification_data = tsd\<rparr>))))"

definition dsse_signature_from_raw ::
  "('p, 'q, 's, 'n) crates \<Rightarrow> raw_dsse_signature \<Rightarrow> error + dsse_signature" where
  "dsse_signature_from_raw E raw =
     res_bind (decode_b64 E ''dsseEnvelope.signatures[].sig'' (rds_sig raw)) (\<lambda>sig.
     Inr \<lparr>ds_sig = sig, ds_keyid = rds_keyid raw\<rparr>)"

definition dsse_envelope_from_raw ::
  "('p, 'q, 's, 'n) crates \<Rightarrow> raw_dsse_envelope \<Rightarrow> error + dsse_envelope" where
  "dsse_envelope_from_raw E raw =
     res_bind (exactly_one (\<lambda>count. Parse (DsseSignatureCount count)) (rd_signatures raw)) (\<lambda>raw_signature.
     res_bind (decode_b64 E ''dsseEnvelope.payload'' (rd_payload raw)) (\<lambda>payload.
     res_bind (dsse_signature_from_raw E raw_signature) (\<lambda>signature.
     Inr \<lparr>de_payload = payload, de_payload_type = rd_payload_type raw, de_signature = signature\<rparr>)))"

definition bundle_from_raw :: "('p, 'q, 's, 'n) crates \<Rightarrow> raw_bundle \<Rightarrow> error + sigstore_bundle" where
  "bundle_from_raw E raw =
     (if rb_media_type raw \<noteq> BUNDLE_MEDIA_TYPE
      then Inl (Unsupported (MediaType (rb_media_type raw))) else
      res_bind (verification_material_from_raw E (rb_verification_material raw)) (\<lambda>vm.
      res_bind (dsse_envelope_from_raw E (rb_dsse_envelope raw)) (\<lambda>env.
      Inr \<lparr>bundle_media_type = rb_media_type raw, bundle_verification_material = vm,
           bundle_dsse_envelope = env\<rparr>)))"

definition bundle_from_json :: "('p, 'q, 's, 'n) crates \<Rightarrow> bytes \<Rightarrow> error + sigstore_bundle" where
  "bundle_from_json E bs =
     res_bind (map_err ResourceLimit (check_input_size bs)) (\<lambda>_.
     res_bind (parse_strict E bs) (\<lambda>value.
     res_bind (map_err (\<lambda>e. Parse (Json e)) (bundle_from_value E value)) (\<lambda>raw.
     bundle_from_raw E raw)))"

definition bundle_statement :: "('p, 'q, 's, 'n) crates \<Rightarrow> sigstore_bundle \<Rightarrow> error + statement" where
  "bundle_statement E b = from_payload E (de_payload (bundle_dsse_envelope b))"

interpretation bundle_doc: strict_document E "bundle_from_json E" for E
  by unfold_locales (simp_all add: bundle_from_json_def check_input_size_def)

section \<open>Bundle sets\<close>

record attestation_entry =
  ae_initiator :: string
  ae_repository_id :: "u64 option"
  ae_bundle_url :: "string option"
  ae_bundle :: "sigstore_bundle option"

record bundle_set =
  bs_bundles :: "sigstore_bundle list"
  bs_entries :: "attestation_entry list"

text \<open>The loop over the lines of the JSONL input: blank lines are skipped, the first error
  ends the loop.\<close>

fun json_lines_loop :: "('p, 'q, 's, 'n) crates \<Rightarrow> bytes list \<Rightarrow> error + sigstore_bundle list" where
  "json_lines_loop E [] = Inr []"
| "json_lines_loop E (line # ls) =
     (let trimmed = trim_ascii line in
      if trimmed = [] then json_lines_loop E ls else
      res_bind (parse_strict E trimmed) (\<lambda>value.
      res_bind (map_err (\<lambda>e. Parse (Json e)) (bundle_from_value E value)) (\<lambda>raw.
      res_bind (bundle_from_raw E raw) (\<lambda>b.
      res_bind (json_lines_loop E ls) (\<lambda>bs. Inr (b # bs))))))"

definition from_json_lines :: "('p, 'q, 's, 'n) crates \<Rightarrow> bytes \<Rightarrow> error + bundle_set" where
  "from_json_lines E bs =
     res_bind (map_err ResourceLimit (check_input_size bs)) (\<lambda>_.
     res_bind (json_lines_loop E (split_bytes 0x0A bs)) (\<lambda>bundles.
     if bundles = [] then Inl (Parse (EmptyContainer ''BundleSet: no bundle lines in JSONL input'')) else
     res_bind (map_err ResourceLimit (check_count bundles MAX_BUNDLES_PER_SET TooManyBundles)) (\<lambda>_.
     Inr \<lparr>bs_bundles = bundles, bs_entries = []\<rparr>)))"

definition attestation_entry_from_raw ::
  "('p, 'q, 's, 'n) crates \<Rightarrow> raw_attestation_entry \<Rightarrow> error + attestation_entry" where
  "attestation_entry_from_raw E raw =
     res_bind (opt_transpose (\<lambda>v. res_bind (map_err (\<lambda>e. Parse (Json e)) (bundle_from_value E v))
                                    (bundle_from_raw E)) (ra_bundle raw)) (\<lambda>b.
     Inr \<lparr>ae_initiator = ra_initiator raw, ae_repository_id = ra_repository_id raw,
          ae_bundle_url = ra_bundle_url raw, ae_bundle = b\<rparr>)"

definition from_github_response :: "('p, 'q, 's, 'n) crates \<Rightarrow> bytes \<Rightarrow> error + bundle_set" where
  "from_github_response E bs =
     res_bind (map_err ResourceLimit (check_input_size bs)) (\<lambda>_.
     res_bind (parse_strict E bs) (\<lambda>value.
     res_bind (map_err (\<lambda>e. Parse (Json e)) (github_response_from_value E value)) (\<lambda>raw.
     if rg_attestations raw = []
     then Inl (Parse (EmptyContainer ''attestations API response: no attestation entries'')) else
     res_bind (map_err ResourceLimit
        (check_count (rg_attestations raw) MAX_BUNDLES_PER_SET TooManyBundles)) (\<lambda>_.
     res_bind (collect_results (attestation_entry_from_raw E) (rg_attestations raw)) (\<lambda>entries.
     (let bundles = List.map_filter ae_bundle entries in
      if bundles = [] then Inl (Unsupported BundlesNotInline)
      else Inr \<lparr>bs_bundles = bundles, bs_entries = entries\<rparr>))))))"

interpretation github_doc: strict_document E "from_github_response E" for E
  by unfold_locales (simp_all add: from_github_response_def check_input_size_def)

section \<open>What a parsed bundle satisfies\<close>

definition bundle_wf :: "sigstore_bundle \<Rightarrow> bool" where
  "bundle_wf b \<longleftrightarrow> bundle_media_type b = BUNDLE_MEDIA_TYPE
     \<and> length (vm_tlog_entries (bundle_verification_material b)) \<le> MAX_TLOG_ENTRIES"

lemma bundle_from_raw_wf: "bundle_from_raw E raw = Inr b \<Longrightarrow> bundle_wf b"
  by (auto simp: bundle_from_raw_def bundle_wf_def verification_material_from_raw_def
      dest!: collect_results_length)

lemma bundle_from_raw_one_signature:
  "bundle_from_raw E raw = Inr b \<Longrightarrow> length (rd_signatures (rb_dsse_envelope raw)) = 1"
  by (auto simp: bundle_from_raw_def dsse_envelope_from_raw_def)

lemma dsse_signature_count:
  "length (rd_signatures raw) \<noteq> 1 \<Longrightarrow>
     dsse_envelope_from_raw E raw = Inl (Parse (DsseSignatureCount (length (rd_signatures raw))))"
  by (simp add: dsse_envelope_from_raw_def exactly_one_Inl)

lemma bundle_from_json_wf: "bundle_from_json E bs = Inr b \<Longrightarrow> bundle_wf b"
  by (auto simp: bundle_from_json_def bundle_from_raw_wf)

lemma json_lines_loop_wf: "json_lines_loop E ls = Inr bs \<Longrightarrow> b \<in> set bs \<Longrightarrow> bundle_wf b"
  by (induction ls arbitrary: bs)
    (auto simp: Let_def bundle_from_raw_wf split: if_splits)

text \<open>A line parser that makes the per-line work of the loop explicit.\<close>

definition parse_line :: "('p, 'q, 's, 'n) crates \<Rightarrow> bytes \<Rightarrow> error + sigstore_bundle" where
  "parse_line E line = res_bind (parse_strict E line) (\<lambda>value.
     res_bind (map_err (\<lambda>e. Parse (Json e)) (bundle_from_value E value)) (bundle_from_raw E))"

lemma json_lines_loop_collect:
  "json_lines_loop E ls = collect_results (parse_line E) (filter (\<lambda>l. l \<noteq> []) (map trim_ascii ls))"
proof (induction ls)
  case (Cons l ls)
  show ?case
  proof (cases "trim_ascii l = []")
    case False
    show ?thesis using False Cons by (simp add: parse_line_def res_bind_assoc)
  qed (use Cons in simp)
qed simp

lemma from_json_lines_sound:
  assumes "from_json_lines E bs = Inr r"
  shows "bs_bundles r \<noteq> [] \<and> length (bs_bundles r) \<le> MAX_BUNDLES_PER_SET \<and> bs_entries r = []
    \<and> (\<forall>b \<in> set (bs_bundles r). bundle_wf b)"
  using assms json_lines_loop_wf by (auto simp: from_json_lines_def split: if_splits)

text \<open>What an entry of the attestations response becomes: its fields are kept, and its bundle is
  there if and only if the entry has one inline, converted like any other.\<close>

definition entry_of_raw ::
  "('p, 'q, 's, 'n) crates \<Rightarrow> raw_attestation_entry \<Rightarrow> attestation_entry \<Rightarrow> bool" where
  "entry_of_raw E a e \<longleftrightarrow> ae_initiator e = ra_initiator a \<and> ae_repository_id e = ra_repository_id a
     \<and> ae_bundle_url e = ra_bundle_url a
     \<and> (case ra_bundle a of
          None \<Rightarrow> ae_bundle e = None
        | Some v \<Rightarrow> \<exists>raw b. bundle_from_value E v = Inr raw \<and> bundle_from_raw E raw = Inr b
             \<and> ae_bundle e = Some b)"

lemma attestation_entry_from_raw_iff: "attestation_entry_from_raw E a = Inr e \<longleftrightarrow> entry_of_raw E a e"
  by (cases "ra_bundle a"; cases e) (auto simp: attestation_entry_from_raw_def entry_of_raw_def)

lemma entry_of_raw_wf: "entry_of_raw E a e \<Longrightarrow> ae_bundle e = Some b \<Longrightarrow> bundle_wf b"
  by (auto simp: entry_of_raw_def bundle_from_raw_wf split: option.splits)

text \<open>The bundles of a list of entries, in order: each stands for one entry that has one.\<close>

lemma map_filter_iff: "ys = List.map_filter f xs \<longleftrightarrow> map Some ys = filter (\<lambda>m. m \<noteq> None) (map f xs)"
proof (induction xs arbitrary: ys)
  case (Cons x xs)
  then show ?case by (cases ys; cases "f x") (auto simp: List.map_filter_simps)
qed (simp add: List.map_filter_simps)

lemma from_github_response_iff:
  "from_github_response E bs = Inr r \<longleftrightarrow> length bs \<le> MAX_INPUT_BYTES
     \<and> (\<exists>v raw. parse_strict E bs = Inr v \<and> github_response_from_value E v = Inr raw
          \<and> length (rg_attestations raw) \<le> MAX_BUNDLES_PER_SET
          \<and> list_all2 (entry_of_raw E) (rg_attestations raw) (bs_entries r))
     \<and> map Some (bs_bundles r) = filter (\<lambda>m. m \<noteq> None) (map ae_bundle (bs_entries r))
     \<and> bs_bundles r \<noteq> []"
  unfolding map_filter_iff [symmetric]
  by (cases r)
    (auto simp: from_github_response_def Let_def collect_results_eq_Inr attestation_entry_from_raw_iff
      List.map_filter_simps)

section \<open>Properties\<close>

text \<open>C28. An accepted bundle is a bounded, strictly parsed document of the supported media type with
  at most 32 transparency-log entries.\<close>

theorem bundle_from_json_sound:
  assumes "bundle_from_json E bs = Inr b"
  shows "bundle_wf b \<and> length bs \<le> MAX_INPUT_BYTES
    \<and> (\<exists>d. json_drive E bs = (d, None) \<and> drive_clean d \<and> drive_nodes d \<le> MAX_JSON_NODES)"
  using assms bundle_from_json_wf bundle_doc.hardened by blast

theorem bundle_from_json_sound_witness:
  "\<exists>b. bundle_from_json sample [0x7B] = Inr b \<and> bundle_wf b"
proof -
  have "is_ok (bundle_from_json sample [0x7B])" by code_simp
  then obtain b where b: "bundle_from_json sample [0x7B] = Inr b" by (auto simp: is_ok_iff)
  show ?thesis using b bundle_from_json_sound [OF b] by blast
qed

text \<open>A JSON-lines input is read as the sequence of its nonblank trimmed lines: it is accepted
  if and only if each of them parses as a bundle and their number is between 1 and 64, and the
  bundles come in the order of the lines.\<close>

theorem from_json_lines_collects:
  "from_json_lines E bs = Inr r \<longleftrightarrow> length bs \<le> MAX_INPUT_BYTES
     \<and> collect_results (parse_line E) (filter (\<lambda>l. l \<noteq> []) (map trim_ascii (split_bytes 0x0A bs)))
         = Inr (bs_bundles r)
     \<and> 1 \<le> length (bs_bundles r) \<and> length (bs_bundles r) \<le> MAX_BUNDLES_PER_SET \<and> bs_entries r = []"
  by (cases r) (auto simp: from_json_lines_def json_lines_loop_collect Suc_le_eq)

text \<open>C39. An attestations response is accepted if and only if it is a bounded, strictly parsed document
  with at most 64 entries, every inline bundle among them converts, and there is at least one: the
  result has one entry for each entry of the response, in order, and its bundles are those of the
  entries that carry one inline, in order, each of them well formed.\<close>

theorem from_github_response_bundles:
  "from_github_response E bs = Inr r \<longleftrightarrow> length bs \<le> MAX_INPUT_BYTES
     \<and> (\<exists>v raw. parse_strict E bs = Inr v \<and> github_response_from_value E v = Inr raw
          \<and> length (rg_attestations raw) \<le> MAX_BUNDLES_PER_SET
          \<and> list_all2 (entry_of_raw E) (rg_attestations raw) (bs_entries r))
     \<and> map Some (bs_bundles r) = filter (\<lambda>m. m \<noteq> None) (map ae_bundle (bs_entries r))
     \<and> bs_bundles r \<noteq> [] \<and> list_all bundle_wf (bs_bundles r)"
proof -
  have wf: "list_all bundle_wf bundles"
    if "list_all2 (entry_of_raw E) as es" "map Some bundles = filter (\<lambda>m. m \<noteq> None) (map ae_bundle es)"
    for as es bundles
  proof -
    have "bundle_wf b" if b: "b \<in> set bundles" for b
    proof -
      have "Some b \<in> set (filter (\<lambda>m. m \<noteq> None) (map ae_bundle es))"
        using b \<open>map Some bundles = _\<close> by (metis image_eqI set_map)
      then obtain e where "e \<in> set es" "ae_bundle e = Some b" by auto
      then show ?thesis
        using \<open>list_all2 _ as es\<close> entry_of_raw_wf by (metis in_set_conv_nth list_all2_conv_all_nth)
    qed
    then show ?thesis by (simp add: list_all_iff)
  qed
  then show ?thesis unfolding from_github_response_iff by blast
qed

end
