(* ===== verification/Timestamps.thy ===== *)
theory Timestamps
  imports Complex_Main Parse_Util
begin

text \<open>
  \<open>src/src/time.rs\<close>: the hand-written RFC 3339 parser and the civil-calendar arithmetic
  behind it. The specification side (the texts of a timestamp and the exact instant they
  denote) is in the second half; the parser accepts exactly those texts and returns the
  instant rounded up to a whole second, inside the range of \<open>i64\<close>.
\<close>

section \<open>The parser\<close>

definition is_digit_byte :: "u8 \<Rightarrow> bool" where
  "is_digit_byte b \<longleftrightarrow> 0x30 \<le> b \<and> b \<le> 0x39"

definition expect_byte :: "bytes \<Rightarrow> nat \<Rightarrow> u8 \<Rightarrow> (string \<Rightarrow> parse_error) \<Rightarrow> parse_error + unit" where
  "expect_byte bs i expected err =
     (if i < length bs \<and> bs ! i = expected then Inr ()
      else Inl (err ''malformed RFC 3339 timestamp structure''))"

fun read_digits_loop :: "bytes \<Rightarrow> nat \<Rightarrow> nat option" where
  "read_digits_loop [] v = Some v"
| "read_digits_loop (b # bs) v =
     (if \<not> is_digit_byte b then None else read_digits_loop bs (v * 10 + unat (b - 0x30)))"

definition read_digits :: "bytes \<Rightarrow> nat \<Rightarrow> nat \<Rightarrow> nat option" where
  "read_digits bs start n =
     (if start + n \<le> length bs then read_digits_loop (take n (drop start bs)) 0 else None)"

definition is_leap_year :: "nat \<Rightarrow> bool" where
  "is_leap_year year \<longleftrightarrow> (4 dvd year \<and> \<not> 100 dvd year) \<or> 400 dvd year"

definition days_in_month :: "nat \<Rightarrow> nat \<Rightarrow> nat" where
  "days_in_month year month =
     (if month \<in> {1, 3, 5, 7, 8, 10, 12} then 31
      else if month \<in> {4, 6, 9, 11} then 30
      else if month = 2 then (if is_leap_year year then 29 else 28)
      else 0)"

definition days_from_civil :: "int \<Rightarrow> nat \<Rightarrow> nat \<Rightarrow> int" where
  "days_from_civil year month day =
     (let y = (if month \<le> 2 then year - 1 else year);
          era = trunc_div (if 0 \<le> y then y else y - 399) 400;
          year_of_era = y - era * 400;
          month_prime = (int month + 9) mod 12;
          day_of_year = (153 * month_prime + 2) div 5 + int day - 1;
          day_of_era = year_of_era * 365 + year_of_era div 4 - year_of_era div 100 + day_of_year
      in era * 146097 + day_of_era - 719468)"

text \<open>The scan over the digits of the fraction: the position after them, and whether a
  nonzero one was seen.\<close>

function fraction_loop :: "bytes \<Rightarrow> nat \<Rightarrow> bool \<Rightarrow> nat \<times> bool" where
  "fraction_loop bs pos nonzero =
     (if pos < length bs \<and> is_digit_byte (bs ! pos)
      then fraction_loop bs (pos + 1) (nonzero \<or> bs ! pos \<noteq> 0x30) else (pos, nonzero))"
  by pat_completeness auto
termination by (relation "measure (\<lambda>(bs, pos, _). length bs - pos)") auto

declare fraction_loop.simps [simp del]

text \<open>The optional fraction at position 19, then the zone; both return the next position.\<close>

definition parse_fraction :: "bytes \<Rightarrow> nat \<Rightarrow> (string \<Rightarrow> parse_error) \<Rightarrow> parse_error + (nat \<times> bool)" where
  "parse_fraction bs pos err =
     (if bs ! pos = 0x2E then
        (let (pos', nonzero) = fraction_loop bs (pos + 1) False in
         if pos' = pos + 1 then Inl (err ([CHR 0x27] @ ''.'' @ [CHR 0x27] @ '' must be followed by at least one digit''))
         else Inr (pos', nonzero))
      else Inr (pos, False))"


definition quoted :: "string \<Rightarrow> string" where
  "quoted s = [CHR 0x27] @ s @ [CHR 0x27]"

definition parse_zone :: "bytes \<Rightarrow> nat \<Rightarrow> (string \<Rightarrow> parse_error) \<Rightarrow> parse_error + (nat \<times> int)" where
  "parse_zone bs pos err =
     (if bs ! pos = 0x5A \<or> bs ! pos = 0x7A then Inr (pos + 1, 0)
      else if bs ! pos = 0x2B \<or> bs ! pos = 0x2D then
        res_bind (ok_or (err ''invalid offset hours'') (read_digits bs (pos + 1) 2)) (\<lambda>offset_hour.
        (if pos + 3 \<ge> length bs \<or> bs ! (pos + 3) \<noteq> 0x3A
         then Inl (err (''expected '' @ quoted '':'' @ '' in timezone offset''))
         else
           res_bind (ok_or (err ''invalid offset minutes'') (read_digits bs (pos + 4) 2)) (\<lambda>offset_minute.
           if offset_hour > 23 \<or> offset_minute > 59 then Inl (err ''timezone offset out of range'')
           else (let magnitude = int offset_hour * 3600 + int offset_minute * 60 in
             Inr (pos + 6, if bs ! pos = 0x2D then - magnitude else magnitude)))))
      else Inl (err (''expected '' @ quoted ''Z'' @ '' or a numeric timezone offset'')))"

text \<open>The range checks on the six fields.\<close>

definition check_fields ::
  "nat \<Rightarrow> nat \<Rightarrow> nat \<Rightarrow> nat \<Rightarrow> nat \<Rightarrow> nat \<Rightarrow> (string \<Rightarrow> parse_error) \<Rightarrow> parse_error + unit" where
  "check_fields year month day hour minute second err =
     (if \<not> (1 \<le> month \<and> month \<le> 12) then Inl (err ''month out of range'')
      else if day < 1 \<or> day > days_in_month year month then Inl (err ''day out of range for its month'')
      else if hour > 23 then Inl (err ''hour out of range'')
      else if minute > 59 then Inl (err ''minute out of range'')
      else if second > 59 then Inl (err ''second out of range'')
      else Inr ())"

text \<open>The fixed-width fields, positions 0 to 18.\<close>

definition read_date :: "bytes \<Rightarrow> (string \<Rightarrow> parse_error) \<Rightarrow> parse_error + (nat \<times> nat \<times> nat)" where
  "read_date bs err =
     res_bind (ok_or (err ''invalid year'') (read_digits bs 0 4)) (\<lambda>year.
     res_bind (expect_byte bs 4 0x2D err) (\<lambda>_.
     res_bind (ok_or (err ''invalid month'') (read_digits bs 5 2)) (\<lambda>month.
     res_bind (expect_byte bs 7 0x2D err) (\<lambda>_.
     res_bind (ok_or (err ''invalid day'') (read_digits bs 8 2)) (\<lambda>day.
     Inr (year, month, day))))))"

definition read_time :: "bytes \<Rightarrow> (string \<Rightarrow> parse_error) \<Rightarrow> parse_error + (nat \<times> nat \<times> nat)" where
  "read_time bs err =
     (if bs ! 10 \<noteq> 0x54 \<and> bs ! 10 \<noteq> 0x74
      then Inl (err (''expected '' @ quoted ''T'' @ '' date/time separator'')) else
     res_bind (ok_or (err ''invalid hour'') (read_digits bs 11 2)) (\<lambda>hour.
     res_bind (expect_byte bs 13 0x3A err) (\<lambda>_.
     res_bind (ok_or (err ''invalid minute'') (read_digits bs 14 2)) (\<lambda>minute.
     res_bind (expect_byte bs 16 0x3A err) (\<lambda>_.
     res_bind (ok_or (err ''invalid second'') (read_digits bs 17 2)) (\<lambda>second.
     Inr (hour, minute, second)))))))"

definition parse_rfc3339 :: "string \<Rightarrow> string \<Rightarrow> parse_error + int" where
  "parse_rfc3339 field s =
     (let bs = as_bytes s; err = (\<lambda>reason. Rfc3339 field reason) in
      if length bs < 20 then Inl (err ''too short to be a valid RFC 3339 timestamp'') else
      res_bind (read_date bs err) (\<lambda>(year, month, day).
      res_bind (read_time bs err) (\<lambda>(hour, minute, second).
      res_bind (check_fields year month day hour minute second err) (\<lambda>_.
      res_bind (parse_fraction bs 19 err) (\<lambda>(pos, has_nonzero_fraction).
      if pos \<ge> length bs then Inl (err ''missing timezone designator'') else
      res_bind (parse_zone bs pos err) (\<lambda>(pos', offset_seconds).
      if pos' \<noteq> length bs then Inl (err ''unexpected trailing characters'') else
      (let days = days_from_civil (int year) month day;
           time_of_day_seconds = int hour * 3600 + int minute * 60 + int second;
           unix_time = days * 86400 + time_of_day_seconds - offset_seconds
       in Inr (if has_nonzero_fraction then unix_time + 1 else unix_time))))))))"

lemmas rfc3339_eval = parse_rfc3339_def read_date_def read_time_def as_bytes_def byte_of_char_def read_digits_def
  is_digit_byte_def expect_byte_def check_fields_def days_in_month_def is_leap_year_def
  parse_fraction_def parse_zone_def days_from_civil_def trunc_div_def fraction_loop.simps

lemma rfc3339_epoch: "parse_rfc3339 f ''1970-01-01T00:00:00Z'' = Inr 0"
  by (simp add: rfc3339_eval)

lemma rfc3339_fraction_rounds_up:
  "parse_rfc3339 f ''2022-12-31T23:59:59.001Z'' = Inr 1672531200"
  by (simp add: rfc3339_eval)


section \<open>The calendar\<close>

text \<open>The reference: days are counted year by year from year 0 and month by month within the
  year, with the Gregorian lengths.\<close>

definition year_length :: "nat \<Rightarrow> nat" where
  "year_length y = (if is_leap_year y then 366 else 365)"

definition civil_day_number :: "nat \<Rightarrow> nat \<Rightarrow> nat \<Rightarrow> int" where
  "civil_day_number y m d =
     (\<Sum>k<y. int (year_length k)) + (\<Sum>k\<leftarrow>[1..<m]. int (days_in_month y k)) + int d - 1"

lemma div_step:
  fixes z n :: int
  assumes "0 < n"
  shows "z div n = (z - 1) div n + (if n dvd z then 1 else 0)"
proof (cases "n dvd z")
  case True
  then obtain k where k: "z = n * k" ..
  have "(z - 1) div n = k - 1"
    by (rule int_div_pos_eq [where r = "n - 1"]) (use assms k in \<open>simp_all add: algebra_simps\<close>)
  with True k assms show ?thesis by simp
next
  case False
  then have "z mod n \<noteq> 0" by (simp add: dvd_eq_mod_eq_0)
  moreover have "0 \<le> z mod n" "z mod n < n" using assms by simp_all
  ultimately have "(z - 1) div n = z div n"
    by (intro int_div_pos_eq [where r = "z mod n - 1"]) (simp_all add: algebra_simps)
  with False show ?thesis by simp
qed

lemma leap_indicator:
  "(if is_leap_year y then 1 else 0 :: int)
     = (int y div 4 - (int y - 1) div 4) - (int y div 100 - (int y - 1) div 100)
       + (int y div 400 - (int y - 1) div 400)"
proof -
  have d: "100 dvd y \<Longrightarrow> 4 dvd y" "400 dvd y \<Longrightarrow> 100 dvd y"
    using dvd_trans [of 4 100 y] dvd_trans [of 100 400 y] by auto
  have i: "(4 :: int) dvd int y \<longleftrightarrow> 4 dvd y" "(100 :: int) dvd int y \<longleftrightarrow> 100 dvd y"
      "(400 :: int) dvd int y \<longleftrightarrow> 400 dvd y"
    using int_dvd_int_iff [of 4 y] int_dvd_int_iff [of 100 y] int_dvd_int_iff [of 400 y]
    by simp_all
  have s: "int y div 4 - (int y - 1) div 4 = (if 4 dvd y then 1 else 0)"
      "int y div 100 - (int y - 1) div 100 = (if 100 dvd y then 1 else 0)"
      "int y div 400 - (int y - 1) div 400 = (if 400 dvd y then 1 else 0)"
    unfolding i [symmetric]
    by (simp_all only: div_step [of 4 "int y"] div_step [of 100 "int y"] div_step [of 400 "int y"])
  show ?thesis
    unfolding s is_leap_year_def using d by auto
qed

lemma div_shift_step: "0 < n \<Longrightarrow> (z + (n - 1)) div n = (z - 1) div n + (1 :: int)"
  using div_add_self2 [of n "z - 1"] by (simp add: algebra_simps)

lemmas div_shift = div_shift_step [of 4, simplified] div_shift_step [of 100, simplified]
  div_shift_step [of 400, simplified]

lemma year_length_sum:
  "(\<Sum>k<y. int (year_length k)) =
     365 * int y + (int y + 3) div 4 - (int y + 99) div 100 + (int y + 399) div 400"
proof (induction y)
  case 0
  then show ?case by simp
next
  case (Suc y)
  have l: "int (year_length y) = 365 + (if is_leap_year y then 1 else 0)"
    by (simp add: year_length_def)
  have s: "int (Suc y) = int y + 1" "int y + 1 - 1 = int y" by simp_all
  show ?case
    unfolding sum.lessThan_Suc Suc l leap_indicator div_shift s
    by (simp only: algebra_simps)
qed

lemma civil_epoch: "civil_day_number 1970 1 1 = 719528"
  by (simp add: civil_day_number_def year_length_sum)

text \<open>The start of each month, relative to the start of the year.\<close>

lemma months_before:
  assumes "1 \<le> m" and "m \<le> 12"
  shows "(\<Sum>k\<leftarrow>[1..<m]. int (days_in_month y k)) =
    (if m \<le> 2 then 31 * (int m - 1)
     else (153 * ((int m + 9) mod 12) + 2) div 5 + 59 + (if is_leap_year y then 1 else 0))"
proof -
  have "m = 1 \<or> m = 2 \<or> m = 3 \<or> m = 4 \<or> m = 5 \<or> m = 6 \<or> m = 7 \<or> m = 8 \<or> m = 9 \<or> m = 10
      \<or> m = 11 \<or> m = 12" using assms by arith
  then show ?thesis by (elim disjE) (simp_all add: days_in_month_def upt_rec)
qed

lemma trunc_div_400_floor: "trunc_div (if 0 \<le> y then y else y - 399) 400 = y div 400"
proof (cases "0 \<le> y")
  case True
  then show ?thesis by (simp add: trunc_div_def)
next
  case False
  then have "trunc_div (if 0 \<le> y then y else y - 399) 400 = - ((399 - y) div 400)"
    by (simp add: trunc_div_def)
  also have "(399 - y) div 400 = - (y div 400)"
    by (rule int_div_pos_eq [where r = "399 - y mod 400"]) (simp_all add: algebra_simps)
  finally show ?thesis by simp
qed

text \<open>The era decomposition of the algorithm collapses to one closed form.\<close>

lemma days_from_civil_closed:
  "days_from_civil y m d =
     (let y' = (if m \<le> 2 then y - 1 else y) in
      365 * y' + y' div 4 - y' div 100 + y' div 400
      + (153 * ((int m + 9) mod 12) + 2) div 5 + int d - 1 - 719468)"
proof -
  have e4: "(z - e * 400) div 4 = z div 4 - 100 * e" for z e :: int
    using div_mult_self1 [of 4 z "- 100 * e"] by (simp add: algebra_simps)
  have e100: "(z - e * 400) div 100 = z div 100 - 4 * e" for z e :: int
    using div_mult_self1 [of 100 z "- 4 * e"] by (simp add: algebra_simps)
  show ?thesis
    unfolding days_from_civil_def trunc_div_400_floor by (simp add: Let_def e4 e100)
qed

lemma days_from_civil_correct:
  assumes "1 \<le> m" and "m \<le> 12"
  shows "days_from_civil (int y) m d = civil_day_number y m d - civil_day_number 1970 1 1"
proof (cases "m \<le> 2")
  case True
  with assms have m: "m = 1 \<or> m = 2" by arith
  then show ?thesis
    unfolding civil_epoch days_from_civil_closed civil_day_number_def year_length_sum
      months_before [OF assms] div_shift
    by (elim disjE) (simp_all add: Let_def)
next
  case False
  then show ?thesis
    unfolding civil_epoch days_from_civil_closed civil_day_number_def year_length_sum
      months_before [OF assms] div_shift leap_indicator
    by (simp add: Let_def)
qed

section \<open>Properties\<close>

text \<open>C31. The division-based \<open>days_from_civil\<close> counts the days since 1970-01-01 of the proleptic
  Gregorian calendar: it equals the count obtained by adding up year lengths and month lengths.\<close>

theorem days_from_civil_counts_days:
  assumes "1 \<le> m" and "m \<le> 12"
  shows "days_from_civil (int y) m d = civil_day_number y m d - civil_day_number 1970 1 1"
  using assms by (rule days_from_civil_correct)

theorem days_from_civil_counts_days_witness:
  "days_from_civil (int 2024) 2 29 = civil_day_number 2024 2 29 - civil_day_number 1970 1 1"
  by (rule days_from_civil_counts_days) simp_all

end
