(* ===== verification/Timestamps_Spec.thy ===== *)
theory Timestamps_Spec
  imports Timestamps
begin

text \<open>
  The accepted language and the meaning of \<open>parse_rfc3339\<close>: the texts of a timestamp as
  an explicit grammar, the exact instant each denotes (a real number, with its fraction), and
  the proof that the parser accepts exactly the grammar and returns the ceiling of the
  instant, which always fits an \<open>i64\<close>.
\<close>

section \<open>The grammar of timestamps\<close>

definition dig :: "nat \<Rightarrow> u8" where
  "dig n = word_of_nat (48 + n)"

definition two_digits :: "nat \<Rightarrow> bytes" where
  "two_digits n = [dig (n div 10), dig (n mod 10)]"

definition four_digits :: "nat \<Rightarrow> bytes" where
  "four_digits n = [dig (n div 1000), dig (n div 100 mod 10), dig (n div 10 mod 10), dig (n mod 10)]"

datatype zone = Zulu u8 | Offset bool nat nat \<comment> \<open>behind UTC?, hours, minutes\<close>

record stamp =
  st_year :: nat
  st_month :: nat
  st_day :: nat
  st_separator :: u8
  st_hour :: nat
  st_minute :: nat
  st_second :: nat
  st_fraction :: "nat list"
  st_zone :: zone

fun zone_bytes :: "zone \<Rightarrow> bytes" where
  "zone_bytes (Zulu b) = [b]"
| "zone_bytes (Offset behind h m) =
     (if behind then 0x2D else 0x2B) # two_digits h @ [0x3A] @ two_digits m"

fun zone_offset :: "zone \<Rightarrow> int" where
  "zone_offset (Zulu b) = 0"
| "zone_offset (Offset behind h m) =
     (if behind then - (int h * 3600 + int m * 60) else int h * 3600 + int m * 60)"

fun valid_zone :: "zone \<Rightarrow> bool" where
  "valid_zone (Zulu b) \<longleftrightarrow> b = 0x5A \<or> b = 0x7A"
| "valid_zone (Offset _ h m) \<longleftrightarrow> h \<le> 23 \<and> m \<le> 59"

definition fraction_bytes :: "nat list \<Rightarrow> bytes" where
  "fraction_bytes fs = (if fs = [] then [] else 0x2E # map dig fs)"

definition stamp_bytes :: "stamp \<Rightarrow> bytes" where
  "stamp_bytes t = four_digits (st_year t) @ [0x2D] @ two_digits (st_month t) @ [0x2D]
     @ two_digits (st_day t) @ [st_separator t] @ two_digits (st_hour t) @ [0x3A]
     @ two_digits (st_minute t) @ [0x3A] @ two_digits (st_second t)
     @ fraction_bytes (st_fraction t) @ zone_bytes (st_zone t)"

definition valid_stamp :: "stamp \<Rightarrow> bool" where
  "valid_stamp t \<longleftrightarrow> st_year t \<le> 9999 \<and> 1 \<le> st_month t \<and> st_month t \<le> 12
     \<and> 1 \<le> st_day t \<and> st_day t \<le> days_in_month (st_year t) (st_month t)
     \<and> (st_separator t = 0x54 \<or> st_separator t = 0x74)
     \<and> st_hour t \<le> 23 \<and> st_minute t \<le> 59 \<and> st_second t \<le> 59
     \<and> list_all (\<lambda>d. d < 10) (st_fraction t) \<and> valid_zone (st_zone t)"

section \<open>The instant a timestamp denotes\<close>

definition whole_seconds :: "stamp \<Rightarrow> int" where
  "whole_seconds t =
     (civil_day_number (st_year t) (st_month t) (st_day t) - civil_day_number 1970 1 1) * 86400
     + int (st_hour t) * 3600 + int (st_minute t) * 60 + int (st_second t)
     - zone_offset (st_zone t)"

fun fraction_value :: "nat list \<Rightarrow> real" where
  "fraction_value [] = 0"
| "fraction_value (d # ds) = (real d + fraction_value ds) / 10"

definition exact_seconds :: "stamp \<Rightarrow> real" where
  "exact_seconds t = of_int (whole_seconds t) + fraction_value (st_fraction t)"

lemma fraction_value_bounds:
  "list_all (\<lambda>d. d < 10) ds \<Longrightarrow> 0 \<le> fraction_value ds \<and> fraction_value ds < 1"
  by (induction ds) auto

lemma fraction_value_zero:
  "list_all (\<lambda>d. d < 10) ds \<Longrightarrow> fraction_value ds = 0 \<longleftrightarrow> (\<forall>d \<in> set ds. d = 0)"
proof (induction ds)
  case Nil
  then show ?case by simp
next
  case (Cons d ds)
  then have "0 \<le> fraction_value ds" using fraction_value_bounds [of ds] by simp
  with Cons show ?case by (auto simp: add_nonneg_eq_0_iff)
qed

lemma ceiling_exact_seconds:
  assumes "list_all (\<lambda>d. d < 10) (st_fraction t)"
  shows "\<lceil>exact_seconds t\<rceil> =
    whole_seconds t + (if \<exists>d \<in> set (st_fraction t). d \<noteq> 0 then 1 else 0)"
proof -
  have "\<lceil>fraction_value (st_fraction t)\<rceil> = (if \<exists>d \<in> set (st_fraction t). d \<noteq> 0 then 1 else 0)"
    using fraction_value_bounds [OF assms] fraction_value_zero [OF assms]
    by (auto simp: ceiling_eq_iff)
  then show ?thesis by (simp only: exact_seconds_def add.commute [of "real_of_int _"] ceiling_add_of_int)
qed

section \<open>Digits\<close>

lemma digit_byte_iff: "is_digit_byte b \<longleftrightarrow> (\<exists>d < 10. b = dig d)"
proof
  assume "is_digit_byte b"
  then have "48 \<le> unat b" "unat b \<le> 57"
    by (simp_all add: is_digit_byte_def word_le_nat_alt)
  then show "\<exists>d < 10. b = dig d"
    by (intro exI [of _ "unat b - 48"]) (simp add: dig_def)
next
  assume "\<exists>d < 10. b = dig d"
  then obtain d where "d < 10" "b = dig d" by blast
  then have "unat b = 48 + d" by (simp del: of_nat_add add: dig_def unat_of_nat)
  with \<open>d < 10\<close> show "is_digit_byte b" by (simp add: is_digit_byte_def word_le_nat_alt)
qed

lemma dig_minus [simp]: "d < 10 \<Longrightarrow> unat (dig d - 0x30) = d"
  by (simp add: dig_def unat_of_nat)

lemma is_digit_dig [simp]: "d < 10 \<Longrightarrow> is_digit_byte (dig d)"
  by (auto simp: digit_byte_iff)

lemma dig_inject [simp]: "c < 10 \<Longrightarrow> d < 10 \<Longrightarrow> dig c = dig d \<longleftrightarrow> c = d"
  by (metis dig_minus)

lemma dig_zero: "d < 10 \<Longrightarrow> dig d = 0x30 \<longleftrightarrow> d = 0"
  using dig_inject [of d 0] by (simp add: dig_def)

lemma digits_of_two:
  assumes "c < 10" "d < 10"
  shows "two_digits (c * 10 + d) = [dig c, dig d]"
  using assms by (simp add: two_digits_def)

lemma length_two_digits [simp]: "length (two_digits n) = 2"
  by (simp add: two_digits_def)

lemma length_four_digits [simp]: "length (four_digits n) = 4"
  by (simp add: four_digits_def)

lemma read_digits_loop_map:
  assumes "list_all (\<lambda>d. d < 10) ds"
  shows "read_digits_loop (map dig ds) v = Some (foldl (\<lambda>v d. v * 10 + d) v ds)"
  using assms by (induction ds arbitrary: v) auto

lemma read_digits_loop_Some:
  assumes "read_digits_loop bs v = Some w"
  shows "\<exists>ds. list_all (\<lambda>d. d < 10) ds \<and> bs = map dig ds"
  using assms
proof (induction bs arbitrary: v)
  case Nil
  then show ?case by (intro exI [of _ "[]"]) simp
next
  case (Cons b bs)
  then obtain d where d: "d < 10" "b = dig d"
    by (auto simp: digit_byte_iff split: if_splits)
  from Cons obtain ds where "list_all (\<lambda>d. d < 10) ds" "bs = map dig ds"
    by (fastforce split: if_splits)
  with d show ?case by (intro exI [of _ "d # ds"]) simp
qed

text \<open>Reading two or four digits succeeds exactly on their decimal encoding.\<close>

lemma read_two_iff:
  "read_digits bs i 2 = Some v \<longleftrightarrow>
     v < 100 \<and> i + 2 \<le> length bs \<and> take 2 (drop i bs) = two_digits v"
proof
  assume r: "read_digits bs i 2 = Some v"
  then have len: "i + 2 \<le> length bs" by (simp add: read_digits_def split: if_splits)
  with r have loop: "read_digits_loop (take 2 (drop i bs)) 0 = Some v" by (simp add: read_digits_def)
  then obtain ds where ds: "list_all (\<lambda>d. d < 10) ds" "take 2 (drop i bs) = map dig ds"
    using read_digits_loop_Some by blast
  have "length ds = 2" using ds(2) len by (metis add_diff_cancel_left' diff_le_mono length_drop
        length_map length_take min.absorb2)
  then obtain c d where "ds = [c, d]" by (auto simp: numeral_2_eq_2 length_Suc_conv)
  with ds loop len show "v < 100 \<and> i + 2 \<le> length bs \<and> take 2 (drop i bs) = two_digits v"
    by (auto simp: read_digits_loop_map digits_of_two)
next
  assume a: "v < 100 \<and> i + 2 \<le> length bs \<and> take 2 (drop i bs) = two_digits v"
  then have "take 2 (drop i bs) = map dig [v div 10, v mod 10]" by (simp add: two_digits_def)
  moreover have "v div 10 < 10" using a by (simp add: div_less_iff_less_mult)
  ultimately show "read_digits bs i 2 = Some v"
    using a read_digits_loop_map [of "[v div 10, v mod 10]" 0]
    by (simp add: read_digits_def del: list.map)
qed

lemma four_digit_parts:
  assumes "a < 10" "b < 10" "c < 10" "d < (10 :: nat)"
  shows "four_digits (((a * 10 + b) * 10 + c) * 10 + d) = [dig a, dig b, dig c, dig d]"
proof -
  let ?n = "((a * 10 + b) * 10 + c) * 10 + d"
  have step: "(x * 10 + y) mod 10 = y" "(x * 10 + y) div 10 = x" if "y < 10" for x y :: nat
    using that by (simp_all only: mod_mult_self3 div_mult_self3 mod_less div_less)
  have 2: "?n div 100 = a * 10 + b"
    using div_mult2_eq [of ?n 10 10] assms by (simp add: step del: add_mult_distrib)
  have 3: "?n div 1000 = a"
    using div_mult2_eq [of ?n 100 10] 2 assms by (simp add: step del: add_mult_distrib)
  show ?thesis unfolding four_digits_def 2 3 using assms by (simp only: step)
qed

lemma read_four_iff:
  "read_digits bs i 4 = Some v \<longleftrightarrow>
     v < 10000 \<and> i + 4 \<le> length bs \<and> take 4 (drop i bs) = four_digits v"
proof
  assume r: "read_digits bs i 4 = Some v"
  then have len: "i + 4 \<le> length bs" by (simp add: read_digits_def split: if_splits)
  with r have loop: "read_digits_loop (take 4 (drop i bs)) 0 = Some v" by (simp add: read_digits_def)
  then obtain ds where ds: "list_all (\<lambda>d. d < 10) ds" "take 4 (drop i bs) = map dig ds"
    using read_digits_loop_Some by blast
  have "length ds = 4" using ds(2) len by (metis add_diff_cancel_left' diff_le_mono length_drop
        length_map length_take min.absorb2)
  then obtain a b c d where dd: "ds = [a, b, c, d]"
    by (auto simp: numeral_eq_Suc length_Suc_conv)
  with ds(1) have v: "v = ((a * 10 + b) * 10 + c) * 10 + d" "a < 10" "b < 10" "c < 10" "d < 10"
    using loop ds(2) read_digits_loop_map [OF ds(1), of 0] by auto
  with ds(2) dd len show "v < 10000 \<and> i + 4 \<le> length bs \<and> take 4 (drop i bs) = four_digits v"
    using four_digit_parts [OF v(2-5)] by (simp add: v(1) del: add_mult_distrib)
next
  assume a: "v < 10000 \<and> i + 4 \<le> length bs \<and> take 4 (drop i bs) = four_digits v"
  let ?ds = "[v div 1000, v div 100 mod 10, v div 10 mod 10, v mod 10]"
  have "take 4 (drop i bs) = map dig ?ds" using a by (simp add: four_digits_def)
  moreover have "list_all (\<lambda>d. d < 10) ?ds" using a by auto
  moreover have "foldl (\<lambda>v d. v * 10 + d) 0 ?ds = v"
    using div_mult2_eq [of v 10 10] div_mult2_eq [of v 100 10] by simp
  ultimately show "read_digits bs i 4 = Some v"
    using a read_digits_loop_map [of ?ds 0] by (simp add: read_digits_def del: list.map foldl_Cons)
qed

lemma expect_byte_iff:
  "expect_byte bs i b err = Inr u \<longleftrightarrow> i < length bs \<and> bs ! i = b"
  by (simp add: expect_byte_def)

section \<open>The fraction and the zone\<close>

lemma fraction_loop_eq:
  "fraction_loop bs pos nz =
     (pos + length (takeWhile is_digit_byte (drop pos bs)),
      nz \<or> (\<exists>b \<in> set (takeWhile is_digit_byte (drop pos bs)). b \<noteq> 0x30))"
proof (induction bs pos nz rule: fraction_loop.induct)
  case (1 bs pos nz)
  show ?case
  proof (cases "pos < length bs")
    case True
    then have "drop pos bs = bs ! pos # drop (Suc pos) bs" by (simp add: Cons_nth_drop_Suc)
    with 1 True show ?thesis by (subst fraction_loop.simps) auto
  next
    case False
    then show ?thesis by (subst fraction_loop.simps) simp
  qed
qed

lemma all_digits_map:
  "\<forall>b \<in> set bs. is_digit_byte b \<Longrightarrow> \<exists>ds. list_all (\<lambda>d. d < 10) ds \<and> bs = map dig ds"
proof (induction bs)
  case Nil
  then show ?case by (intro exI [of _ "[]"]) simp
next
  case (Cons b bs)
  then obtain d ds where "d < 10" "b = dig d" "list_all (\<lambda>d. d < 10) ds" "bs = map dig ds"
    by (auto simp: digit_byte_iff)
  then show ?case by (intro exI [of _ "d # ds"]) simp
qed

lemma zone_head_not_digit:
  "valid_zone z \<Longrightarrow> \<exists>b bs. zone_bytes z = b # bs \<and> \<not> is_digit_byte b \<and> b \<noteq> 0x2E"
  by (cases z) (auto simp: is_digit_byte_def)

lemma six_bytes:
  "6 \<le> length bs \<Longrightarrow> \<exists>b0 b1 b2 b3 b4 b5 r. bs = b0 # b1 # b2 # b3 # b4 # b5 # r"
  by (auto simp: numeral_eq_Suc Suc_le_length_iff)

text \<open>The six bytes of a numeric offset, by position.\<close>

lemma zone_tail:
  assumes "pos + 6 \<le> length bs"
  shows "take 6 (drop pos bs) = b # two_digits h @ [c] @ two_digits m \<longleftrightarrow>
     bs ! pos = b \<and> take 2 (drop (pos + 1) bs) = two_digits h \<and> bs ! (pos + 3) = c
     \<and> take 2 (drop (pos + 4) bs) = two_digits m"
proof -
  have "6 \<le> length (drop pos bs)" using assms by simp
  then obtain b0 b1 b2 b3 b4 b5 r where d: "drop pos bs = b0 # b1 # b2 # b3 # b4 # b5 # r"
    using six_bytes by blast
  have n: "bs ! (pos + k) = drop pos bs ! k" "drop (pos + k) bs = drop k (drop pos bs)" for k
    using assms by (simp_all add: add.commute)
  show ?thesis using n [of 0] n [of 1] n [of 3] n [of 4] unfolding d
    by (auto simp: two_digits_def)
qed

lemma parse_zone_iff:
  assumes "pos < length bs"
  shows "parse_zone bs pos err = Inr (pos', off) \<longleftrightarrow>
     (\<exists>z. valid_zone z \<and> off = zone_offset z \<and> pos' = pos + length (zone_bytes z)
        \<and> pos' \<le> length bs \<and> take (length (zone_bytes z)) (drop pos bs) = zone_bytes z)"
proof
  assume p: "parse_zone bs pos err = Inr (pos', off)"
  consider (zulu) "bs ! pos = 0x5A \<or> bs ! pos = 0x7A"
    | (num) "\<not> (bs ! pos = 0x5A \<or> bs ! pos = 0x7A)" "bs ! pos = 0x2B \<or> bs ! pos = 0x2D"
    using p by (auto simp: parse_zone_def split: if_splits)
  then show "\<exists>z. valid_zone z \<and> off = zone_offset z \<and> pos' = pos + length (zone_bytes z)
        \<and> pos' \<le> length bs \<and> take (length (zone_bytes z)) (drop pos bs) = zone_bytes z"
  proof cases
    case zulu
    with p assms show ?thesis
      by (intro exI [of _ "Zulu (bs ! pos)"]) (auto simp: parse_zone_def take_Suc_conv_app_nth)
  next
    case num
    with p obtain h m where hm: "read_digits bs (pos + 1) 2 = Some h"
      "\<not> (pos + 3 \<ge> length bs \<or> bs ! (pos + 3) \<noteq> 0x3A)"
      "read_digits bs (pos + 4) 2 = Some m" "\<not> (h > 23 \<or> m > 59)"
      "(pos + 6, if bs ! pos = 0x2D then - (int h * 3600 + int m * 60)
          else int h * 3600 + int m * 60) = (pos', off)"
      by (auto simp: parse_zone_def Let_def split: if_splits)
    have "take 6 (drop pos bs) = zone_bytes (Offset (bs ! pos = 0x2D) h m)"
      using num hm zone_tail [of pos bs "bs ! pos" h "0x3A" m] by (auto simp: read_two_iff add.commute)
    with num hm assms show ?thesis
      by (intro exI [of _ "Offset (bs ! pos = 0x2D) h m"]) (auto simp: read_two_iff)
  qed
next
  assume "\<exists>z. valid_zone z \<and> off = zone_offset z \<and> pos' = pos + length (zone_bytes z)
        \<and> pos' \<le> length bs \<and> take (length (zone_bytes z)) (drop pos bs) = zone_bytes z"
  then obtain z where z: "valid_zone z" "off = zone_offset z" "pos' = pos + length (zone_bytes z)"
    "pos' \<le> length bs" "take (length (zone_bytes z)) (drop pos bs) = zone_bytes z" by blast
  show "parse_zone bs pos err = Inr (pos', off)"
  proof (cases z)
    case (Zulu b)
    with z assms show ?thesis by (auto simp: parse_zone_def take_Suc_conv_app_nth)
  next
    case (Offset behind h m)
    with z have "take 6 (drop pos bs) = zone_bytes z" "pos + 6 \<le> length bs" by simp_all
    then have "bs ! pos = (if behind then 0x2D else 0x2B)" "bs ! (pos + 3) = 0x3A"
      "take 2 (drop (pos + 1) bs) = two_digits h" "take 2 (drop (pos + 4) bs) = two_digits m"
      using Offset zone_tail [of pos bs "if behind then 0x2D else 0x2B" h "0x3A" m] by auto
    moreover from this z Offset have "read_digits bs (pos + 1) 2 = Some h"
      "read_digits bs (pos + 4) 2 = Some m"
      by (auto simp: read_two_iff)
    ultimately show ?thesis using z Offset by (auto simp: parse_zone_def)
  qed
qed

lemma fraction_zone_split:
  assumes "list_all (\<lambda>d. d < 10) ds" "valid_zone z"
  shows "takeWhile is_digit_byte (map dig ds @ zone_bytes z) = map dig ds"
    "dropWhile is_digit_byte (map dig ds @ zone_bytes z) = zone_bytes z"
proof -
  have all: "\<And>b. b \<in> set (map dig ds) \<Longrightarrow> is_digit_byte b"
    using assms(1) by (auto simp: list_all_iff)
  obtain b bs where "zone_bytes z = b # bs" "\<not> is_digit_byte b"
    using zone_head_not_digit [OF assms(2)] by blast
  then show "takeWhile is_digit_byte (map dig ds @ zone_bytes z) = map dig ds"
    "dropWhile is_digit_byte (map dig ds @ zone_bytes z) = zone_bytes z"
    using takeWhile_append2 [of "map dig ds" is_digit_byte, OF all]
      dropWhile_append2 [of "map dig ds" is_digit_byte, OF all] by simp_all
qed

text \<open>What follows the seconds: an optional fraction and the zone, up to the end.\<close>

definition parse_tail :: "bytes \<Rightarrow> (string \<Rightarrow> parse_error) \<Rightarrow> bool \<Rightarrow> int \<Rightarrow> bool" where
  "parse_tail bs err nonzero off \<longleftrightarrow> (\<exists>pos. parse_fraction bs 19 err = Inr (pos, nonzero)
     \<and> pos < length bs \<and> parse_zone bs pos err = Inr (length bs, off))"

lemma zone_at_end:
  assumes "pos < length bs"
  shows "parse_zone bs pos err = Inr (length bs, off) \<longleftrightarrow>
    (\<exists>z. valid_zone z \<and> off = zone_offset z \<and> drop pos bs = zone_bytes z)"
proof
  assume "parse_zone bs pos err = Inr (length bs, off)"
  then obtain z where z: "valid_zone z" "off = zone_offset z"
    "length bs = pos + length (zone_bytes z)"
    "take (length (zone_bytes z)) (drop pos bs) = zone_bytes z"
    using parse_zone_iff [OF assms] by blast
  then have "drop pos bs = zone_bytes z" by simp
  with z show "\<exists>z. valid_zone z \<and> off = zone_offset z \<and> drop pos bs = zone_bytes z" by blast
next
  assume "\<exists>z. valid_zone z \<and> off = zone_offset z \<and> drop pos bs = zone_bytes z"
  then obtain z where z: "valid_zone z" "off = zone_offset z" "drop pos bs = zone_bytes z" by blast
  moreover have "length bs = pos + length (zone_bytes z)"
    using arg_cong [OF z(3), of length] assms by simp
  ultimately show "parse_zone bs pos err = Inr (length bs, off)"
    using parse_zone_iff [OF assms] by (metis order_refl take_all)
qed

lemma fraction_at_19:
  assumes "length bs \<ge> 20"
  shows "parse_fraction bs 19 err = Inr (pos, nonzero) \<longleftrightarrow>
    (bs ! 19 \<noteq> 0x2E \<and> pos = 19 \<and> \<not> nonzero) \<or>
    (bs ! 19 = 0x2E \<and> (\<exists>ds. ds \<noteq> [] \<and> ds = takeWhile is_digit_byte (drop 20 bs)
       \<and> pos = 20 + length ds \<and> nonzero = (\<exists>b \<in> set ds. b \<noteq> 0x30)))"
  by (auto simp: parse_fraction_def fraction_loop_eq)

lemma parse_tail_iff:
  assumes len: "length bs \<ge> 20"
  shows "parse_tail bs err nonzero off \<longleftrightarrow>
    (\<exists>fs z. list_all (\<lambda>d. d < 10) fs \<and> valid_zone z \<and> off = zone_offset z
       \<and> drop 19 bs = fraction_bytes fs @ zone_bytes z \<and> nonzero = (\<exists>d \<in> set fs. d \<noteq> 0))"
proof
  have d19: "drop 19 bs = bs ! 19 # drop 20 bs" using len Cons_nth_drop_Suc [of 19 bs] by simp
  assume "parse_tail bs err nonzero off"
  then obtain pos where p: "parse_fraction bs 19 err = Inr (pos, nonzero)" "pos < length bs"
    "parse_zone bs pos err = Inr (length bs, off)"
    by (auto simp: parse_tail_def)
  obtain z where z: "valid_zone z" "off = zone_offset z" "drop pos bs = zone_bytes z"
    using p zone_at_end by blast
  from p(1) fraction_at_19 [OF len]
  consider (none) "pos = 19" "\<not> nonzero"
    | (some) "bs ! 19 = 0x2E" "takeWhile is_digit_byte (drop 20 bs) \<noteq> []"
      "pos = 20 + length (takeWhile is_digit_byte (drop 20 bs))"
      "nonzero = (\<exists>b \<in> set (takeWhile is_digit_byte (drop 20 bs)). b \<noteq> 0x30)"
    by blast
  then show "\<exists>fs z. list_all (\<lambda>d. d < 10) fs \<and> valid_zone z \<and> off = zone_offset z
       \<and> drop 19 bs = fraction_bytes fs @ zone_bytes z \<and> nonzero = (\<exists>d \<in> set fs. d \<noteq> 0)"
  proof cases
    case none
    with z show ?thesis by (intro exI [of _ "[]"] exI [of _ z]) (simp add: fraction_bytes_def)
  next
    case some
    let ?ds = "takeWhile is_digit_byte (drop 20 bs)"
    obtain fs where fs: "list_all (\<lambda>d. d < 10) fs" "?ds = map dig fs"
      using all_digits_map [of ?ds] set_takeWhileD by metis
    have "drop 20 bs = ?ds @ zone_bytes z"
      using some(3) z(3) by (metis append_take_drop_id drop_drop add.commute takeWhile_eq_take)
    moreover have "nonzero = (\<exists>d \<in> set fs. d \<noteq> 0)"
      using some(4) fs by (auto simp: list_all_iff dig_zero)
    ultimately show ?thesis using some fs z d19
      by (intro exI [of _ fs] exI [of _ z]) (auto simp: fraction_bytes_def)
  qed
next
  assume "\<exists>fs z. list_all (\<lambda>d. d < 10) fs \<and> valid_zone z \<and> off = zone_offset z
       \<and> drop 19 bs = fraction_bytes fs @ zone_bytes z \<and> nonzero = (\<exists>d \<in> set fs. d \<noteq> 0)"
  then obtain fs z where fz: "list_all (\<lambda>d. d < 10) fs" "valid_zone z" "off = zone_offset z"
    "drop 19 bs = fraction_bytes fs @ zone_bytes z" "nonzero = (\<exists>d \<in> set fs. d \<noteq> 0)" by blast
  have d19: "drop 19 bs = bs ! 19 # drop 20 bs" using len Cons_nth_drop_Suc [of 19 bs] by simp
  show "parse_tail bs err nonzero off"
  proof (cases "fs = []")
    case True
    then have "bs ! 19 \<noteq> 0x2E" using fz d19 zone_head_not_digit [OF fz(2)]
      by (auto simp: fraction_bytes_def)
    with True fz len show ?thesis unfolding parse_tail_def
      by (intro exI [of _ 19]) (auto simp: fraction_at_19 zone_at_end fraction_bytes_def)
  next
    case False
    then have b: "bs ! 19 = 0x2E" "drop 20 bs = map dig fs @ zone_bytes z"
      using fz d19 by (auto simp: fraction_bytes_def)
    have t: "takeWhile is_digit_byte (drop 20 bs) = map dig fs"
      using b(2) fraction_zone_split(1) [OF fz(1,2)] by simp
    have pos: "20 + length fs < length bs" "drop (20 + length fs) bs = zone_bytes z"
      using arg_cong [OF b(2), of length] arg_cong [OF b(2), of "drop (length fs)"] len
        zone_head_not_digit [OF fz(2)] by (auto simp: add.commute)
    have "parse_fraction bs 19 err = Inr (20 + length fs, nonzero)"
      using fz(1,5) b(1) t False by (auto simp: fraction_at_19 [OF len] list_all_iff dig_zero)
    with pos fz show ?thesis unfolding parse_tail_def
      by (intro exI [of _ "20 + length fs"]) (auto simp: zone_at_end)
  qed
qed

section \<open>The parser against the grammar\<close>

lemma check_fields_iff:
  "check_fields y m d h mi sec err = Inr u \<longleftrightarrow> 1 \<le> m \<and> m \<le> 12 \<and> 1 \<le> d
     \<and> d \<le> days_in_month y m \<and> h \<le> 23 \<and> mi \<le> 59 \<and> sec \<le> 59"
  by (auto simp: check_fields_def)

text \<open>One step of the parser per line, as facts about positions.\<close>

definition fields_at :: "bytes \<Rightarrow> nat \<Rightarrow> nat \<Rightarrow> nat \<Rightarrow> nat \<Rightarrow> nat \<Rightarrow> nat \<Rightarrow> bool" where
  "fields_at bs y m d h mi sec \<longleftrightarrow> 20 \<le> length bs
     \<and> read_digits bs 0 4 = Some y \<and> bs ! 4 = 0x2D \<and> read_digits bs 5 2 = Some m
     \<and> bs ! 7 = 0x2D \<and> read_digits bs 8 2 = Some d \<and> (bs ! 10 = 0x54 \<or> bs ! 10 = 0x74)
     \<and> read_digits bs 11 2 = Some h \<and> bs ! 13 = 0x3A \<and> read_digits bs 14 2 = Some mi
     \<and> bs ! 16 = 0x3A \<and> read_digits bs 17 2 = Some sec
     \<and> (1 \<le> m \<and> m \<le> 12 \<and> 1 \<le> d \<and> d \<le> days_in_month y m \<and> h \<le> 23 \<and> mi \<le> 59 \<and> sec \<le> 59)"

lemma read_date_iff:
  "read_date bs err = Inr (y, m, d) \<longleftrightarrow>
     read_digits bs 0 4 = Some y \<and> (4 < length bs \<and> bs ! 4 = 0x2D) \<and> read_digits bs 5 2 = Some m
     \<and> (7 < length bs \<and> bs ! 7 = 0x2D) \<and> read_digits bs 8 2 = Some d"
  by (simp add: read_date_def expect_byte_iff)

lemma read_time_iff:
  "read_time bs err = Inr (h, mi, sec) \<longleftrightarrow>
     (bs ! 10 = 0x54 \<or> bs ! 10 = 0x74) \<and> read_digits bs 11 2 = Some h
     \<and> (13 < length bs \<and> bs ! 13 = 0x3A) \<and> read_digits bs 14 2 = Some mi
     \<and> (16 < length bs \<and> bs ! 16 = 0x3A) \<and> read_digits bs 17 2 = Some sec"
  by (auto simp: read_time_def expect_byte_iff)

lemma fields_at_alt:
  "fields_at bs y m d h mi sec \<longleftrightarrow> \<not> length bs < 20 \<and> read_date bs err = Inr (y, m, d)
     \<and> read_time bs err = Inr (h, mi, sec) \<and> check_fields y m d h mi sec err = Inr ()"
  unfolding fields_at_def read_date_iff read_time_iff check_fields_iff by auto

lemma parse_rfc3339_fields:
  "parse_rfc3339 f s = Inr t \<longleftrightarrow> (\<exists>y m d h mi sec nz off.
     fields_at (as_bytes s) y m d h mi sec \<and> parse_tail (as_bytes s) (Rfc3339 f) nz off
     \<and> t = days_from_civil (int y) m d * 86400 + (int h * 3600 + int mi * 60 + int sec) - off
             + (if nz then 1 else 0))"
proof -
  have t: "(if nz then u + 1 else u) = u + (if nz then 1 else 0)" for nz and u :: int by simp
  show ?thesis
    unfolding parse_rfc3339_def Let_def fields_at_alt [of _ _ _ _ _ _ _ "Rfc3339 f"] parse_tail_def t
    by (simp only: res_bind_eq_Inr guard_eq_Inr split_paired_Ex prod.case sum.inject) fastforce
qed

lemma two_digit_segment:
  "read_digits bs i 2 = Some v \<Longrightarrow> drop i bs = two_digits v @ drop (i + 2) bs"
  by (metis read_two_iff append_take_drop_id drop_drop add.commute)

lemma four_digit_segment:
  "read_digits bs i 4 = Some v \<Longrightarrow> drop i bs = four_digits v @ drop (i + 4) bs"
  by (metis read_four_iff append_take_drop_id drop_drop add.commute)

lemma byte_segment: "i < length bs \<Longrightarrow> bs ! i = b \<Longrightarrow> drop i bs = [b] @ drop (i + 1) bs"
  using Cons_nth_drop_Suc [of i bs] by simp

definition head_bytes :: "nat \<Rightarrow> nat \<Rightarrow> nat \<Rightarrow> u8 \<Rightarrow> nat \<Rightarrow> nat \<Rightarrow> nat \<Rightarrow> bytes" where
  "head_bytes y m d sep h mi sec = four_digits y @ [0x2D] @ two_digits m @ [0x2D]
     @ two_digits d @ [sep] @ two_digits h @ [0x3A] @ two_digits mi @ [0x3A] @ two_digits sec"

lemma fields_at_head:
  assumes "fields_at bs y m d h mi sec"
  shows "bs = head_bytes y m d (bs ! 10) h mi sec @ drop 19 bs"
proof -
  note f = assms [unfolded fields_at_def]
  have len: "20 \<le> length bs" using f by blast
  have "drop 0 bs = four_digits y @ drop 4 bs" using f four_digit_segment [of bs 0 y] by simp
  moreover have "drop 4 bs = [0x2D] @ drop 5 bs" using f byte_segment [of 4 bs "0x2D"] len by simp
  moreover have "drop 5 bs = two_digits m @ drop 7 bs" using f two_digit_segment [of bs 5 m] by simp
  moreover have "drop 7 bs = [0x2D] @ drop 8 bs" using f byte_segment [of 7 bs "0x2D"] len by simp
  moreover have "drop 8 bs = two_digits d @ drop 10 bs" using f two_digit_segment [of bs 8 d] by simp
  moreover have "drop 10 bs = [bs ! 10] @ drop 11 bs" using byte_segment [of 10 bs] len by simp
  moreover have "drop 11 bs = two_digits h @ drop 13 bs" using f two_digit_segment [of bs 11 h] by simp
  moreover have "drop 13 bs = [0x3A] @ drop 14 bs" using f byte_segment [of 13 bs "0x3A"] len by simp
  moreover have "drop 14 bs = two_digits mi @ drop 16 bs" using f two_digit_segment [of bs 14 mi] by simp
  moreover have "drop 16 bs = [0x3A] @ drop 17 bs" using f byte_segment [of 16 bs "0x3A"] len by simp
  moreover have "drop 17 bs = two_digits sec @ drop 19 bs" using f two_digit_segment [of bs 17 sec] by simp
  ultimately show ?thesis unfolding head_bytes_def by (metis append_assoc drop0)
qed

lemma head_fields_at:
  assumes bs: "bs = head_bytes y m d sep h mi sec @ rest" and "rest \<noteq> []" "y < 10000"
    and sep: "sep = 0x54 \<or> sep = 0x74"
    and r: "1 \<le> m \<and> m \<le> 12 \<and> 1 \<le> d \<and> d \<le> days_in_month y m \<and> h \<le> 23 \<and> mi \<le> 59 \<and> sec \<le> 59"
  shows "fields_at bs y m d h mi sec"
proof -
  have d: "d < 100" using r by (auto simp: days_in_month_def split: if_splits)
  have len: "20 \<le> length bs" using assms by (cases rest) (simp_all add: head_bytes_def)
  have b: "bs ! 4 = 0x2D" "bs ! 7 = 0x2D" "bs ! 10 = sep" "bs ! 13 = 0x3A" "bs ! 16 = 0x3A"
    by (simp_all add: bs head_bytes_def two_digits_def four_digits_def)
  have n: "take 4 (drop 0 bs) = four_digits y" "take 2 (drop 5 bs) = two_digits m"
    "take 2 (drop 8 bs) = two_digits d" "take 2 (drop 11 bs) = two_digits h"
    "take 2 (drop 14 bs) = two_digits mi" "take 2 (drop 17 bs) = two_digits sec"
    by (simp_all add: bs head_bytes_def two_digits_def four_digits_def)
  show ?thesis unfolding fields_at_def read_two_iff read_four_iff n b
    using len d r sep \<open>y < 10000\<close> by simp
qed

lemma stamp_bytes_head:
  "stamp_bytes st = head_bytes (st_year st) (st_month st) (st_day st) (st_separator st) (st_hour st)
     (st_minute st) (st_second st) @ fraction_bytes (st_fraction st) @ zone_bytes (st_zone st)"
  by (simp add: stamp_bytes_def head_bytes_def)

text \<open>The parser accepts exactly the texts of valid timestamps, and the value is the exact
  instant rounded up to a whole second.\<close>

lemma parse_rfc3339_exact:
  "parse_rfc3339 f s = Inr t \<longleftrightarrow>
     (\<exists>st. valid_stamp st \<and> as_bytes s = stamp_bytes st \<and> t = \<lceil>exact_seconds st\<rceil>)"
proof
  let ?bs = "as_bytes s"
  assume "parse_rfc3339 f s = Inr t"
  then obtain y m d h mi sec nz off where p: "fields_at ?bs y m d h mi sec"
    "parse_tail ?bs (Rfc3339 f) nz off"
    "t = days_from_civil (int y) m d * 86400 + (int h * 3600 + int mi * 60 + int sec) - off
             + (if nz then 1 else 0)"
    unfolding parse_rfc3339_fields by blast
  then have len: "20 \<le> length ?bs" by (simp add: fields_at_def)
  obtain fs z where fz: "list_all (\<lambda>d. d < 10) fs" "valid_zone z" "off = zone_offset z"
    "drop 19 ?bs = fraction_bytes fs @ zone_bytes z" "nz = (\<exists>d \<in> set fs. d \<noteq> 0)"
    using p(2) unfolding parse_tail_iff [OF len] by blast
  let ?st = "\<lparr>st_year = y, st_month = m, st_day = d, st_separator = ?bs ! 10, st_hour = h,
    st_minute = mi, st_second = sec, st_fraction = fs, st_zone = z\<rparr>"
  have v: "valid_stamp ?st"
    using p(1) fz by (auto simp: valid_stamp_def fields_at_def read_four_iff)
  moreover have "?bs = stamp_bytes ?st"
    using fields_at_head [OF p(1)] fz(4) by (simp add: stamp_bytes_head)
  moreover have "t = \<lceil>exact_seconds ?st\<rceil>"
    using v fz p(3) by (simp add: ceiling_exact_seconds whole_seconds_def valid_stamp_def
        days_from_civil_correct)
  ultimately show "\<exists>st. valid_stamp st \<and> ?bs = stamp_bytes st \<and> t = \<lceil>exact_seconds st\<rceil>" by blast
next
  let ?bs = "as_bytes s"
  assume "\<exists>st. valid_stamp st \<and> ?bs = stamp_bytes st \<and> t = \<lceil>exact_seconds st\<rceil>"
  then obtain st where st: "valid_stamp st" "?bs = stamp_bytes st" "t = \<lceil>exact_seconds st\<rceil>" by blast
  let ?rest = "fraction_bytes (st_fraction st) @ zone_bytes (st_zone st)"
  have r: "?rest \<noteq> []" using st(1) zone_head_not_digit by (fastforce simp: valid_stamp_def)
  have f: "fields_at ?bs (st_year st) (st_month st) (st_day st) (st_hour st) (st_minute st) (st_second st)"
    using st(1) by (intro head_fields_at [OF st(2) [unfolded stamp_bytes_head] r])
      (auto simp: valid_stamp_def)
  then have len: "20 \<le> length ?bs" by (simp add: fields_at_def)
  have "drop 19 ?bs = ?rest" unfolding st(2) stamp_bytes_head by (simp add: head_bytes_def)
  then have "parse_tail ?bs (Rfc3339 f) (\<exists>d \<in> set (st_fraction st). d \<noteq> 0) (zone_offset (st_zone st))"
    using st(1) unfolding parse_tail_iff [OF len] by (auto simp: valid_stamp_def)
  moreover have "t = days_from_civil (int (st_year st)) (st_month st) (st_day st) * 86400
    + (int (st_hour st) * 3600 + int (st_minute st) * 60 + int (st_second st))
    - zone_offset (st_zone st) + (if \<exists>d \<in> set (st_fraction st). d \<noteq> 0 then 1 else 0)"
    using st(1) unfolding st(3)
    by (simp add: ceiling_exact_seconds whole_seconds_def valid_stamp_def days_from_civil_correct)
  ultimately show "parse_rfc3339 f s = Inr t"
    using f unfolding parse_rfc3339_fields by blast
qed

text \<open>The arithmetic stays far inside \<open>i64\<close>: the year has four digits.\<close>

lemma day_in_year:
  assumes "1 \<le> m" "m \<le> 12" "d \<le> days_in_month y m"
  shows "(\<Sum>k\<leftarrow>[1..<m]. int (days_in_month y k)) + int d \<le> int (year_length y)"
proof -
  have "m = 1 \<or> m = 2 \<or> m = 3 \<or> m = 4 \<or> m = 5 \<or> m = 6 \<or> m = 7 \<or> m = 8 \<or> m = 9 \<or> m = 10
      \<or> m = 11 \<or> m = 12" using assms by arith
  then show ?thesis using assms(3)
    by (elim disjE) (simp_all add: days_in_month_def upt_rec year_length_def split: if_splits)
qed

lemma civil_day_number_bounds:
  assumes "1 \<le> m" "m \<le> 12" "1 \<le> d" "d \<le> days_in_month y m" "y \<le> 9999"
  shows "0 \<le> civil_day_number y m d" "civil_day_number y m d \<le> 3652424"
proof -
  have "0 \<le> (\<Sum>k\<leftarrow>[1..<m]. int (days_in_month y k))" by (rule sum_list_nonneg) auto
  moreover have "0 \<le> (\<Sum>k<y. int (year_length k))" by (rule sum_nonneg) simp
  ultimately show "0 \<le> civil_day_number y m d"
    using assms(3) by (simp add: civil_day_number_def)
  have "civil_day_number y m d \<le> (\<Sum>k<Suc y. int (year_length k)) - 1"
    using day_in_year [OF assms(1,2,4)] by (simp add: civil_day_number_def)
  also have "(\<Sum>k<Suc y. int (year_length k)) \<le> (\<Sum>k<10000. int (year_length k))"
    using assms(5) by (intro sum_mono2) auto
  also have "(\<Sum>k<10000. int (year_length k)) = 3652425"
    by (subst year_length_sum) simp
  finally show "civil_day_number y m d \<le> 3652424" by simp
qed

lemma zone_offset_bounds: "valid_zone z \<Longrightarrow> \<bar>zone_offset z\<bar> \<le> 86340"
  by (cases z) auto

lemma parse_rfc3339_range:
  assumes "parse_rfc3339 f s = Inr t"
  shows "-62167305540 \<le> t \<and> t \<le> 253402387140"
proof -
  obtain st where st: "valid_stamp st" "t = \<lceil>exact_seconds st\<rceil>"
    using assms unfolding parse_rfc3339_exact by blast
  note v = st(1) [unfolded valid_stamp_def]
  let ?n = "civil_day_number (st_year st) (st_month st) (st_day st)"
  have n: "0 \<le> ?n" "?n \<le> 3652424" using civil_day_number_bounds v by blast+
  have z: "\<bar>zone_offset (st_zone st)\<bar> \<le> 86340" using v zone_offset_bounds by blast
  have "whole_seconds st \<le> t" "t \<le> whole_seconds st + 1"
    using v st(2) by (simp_all add: ceiling_exact_seconds)
  moreover have "whole_seconds st = (?n - 719528) * 86400 + int (st_hour st) * 3600
    + int (st_minute st) * 60 + int (st_second st) - zone_offset (st_zone st)"
    by (simp only: whole_seconds_def civil_epoch)
  moreover have "int (st_hour st) \<le> 23" "int (st_minute st) \<le> 59" "int (st_second st) \<le> 59"
    using v by simp_all
  moreover have "0 \<le> int (st_hour st)" "0 \<le> int (st_minute st)" "0 \<le> int (st_second st)"
    by simp_all
  ultimately show ?thesis using n z unfolding abs_le_iff left_diff_distrib by (intro conjI; linarith)
qed

section \<open>Properties\<close>

text \<open>C18. \<open>parse_rfc3339\<close> accepts a text if and only if it is the spelling of a valid timestamp, and
  its result is the exact instant of that timestamp rounded up to a whole second.\<close>

theorem parse_rfc3339_accepts:
  "parse_rfc3339 f s = Inr t \<longleftrightarrow>
     (\<exists>st. valid_stamp st \<and> as_bytes s = stamp_bytes st \<and> t = \<lceil>exact_seconds st\<rceil>)"
  by (rule parse_rfc3339_exact)

text \<open>C35. Every parsed time lies in a fixed range far inside \<open>i64\<close>, so no arithmetic on it
  overflows.\<close>

theorem parse_rfc3339_in_range:
  assumes "parse_rfc3339 f s = Inr t"
  shows "-62167305540 \<le> t \<and> t \<le> 253402387140"
  using assms by (rule parse_rfc3339_range)

theorem parse_rfc3339_in_range_witness:
  "parse_rfc3339 ''f'' ''1970-01-01T00:00:00Z'' = Inr 0 \<and> (-62167305540 :: int) \<le> 0 \<and> (0 :: int) \<le> 253402387140"
  using parse_rfc3339_in_range [OF rfc3339_epoch [of "''f''"]] rfc3339_epoch [of "''f''"] by blast

end
