(* ===== verification/Trust.thy ===== *)
theory Trust
  imports Bundle Timestamps_Spec
begin

text \<open>
  \<open>src/src/trust.rs\<close>: the trusted root, its conversion from the raw mirror, and the
  half-open validity windows that every trust decision of the crate goes through.
\<close>

section \<open>The hardened data model\<close>

definition TRUSTED_ROOT_MEDIA_TYPE :: string where
  "TRUSTED_ROOT_MEDIA_TYPE = ''application/vnd.dev.sigstore.trustedroot+json;version=0.1''"

record validity_period =
  vp_start :: int
  vp_end :: "int option"

record public_key =
  pk_raw_bytes :: bytes
  pk_key_details :: string
  pk_valid_for :: validity_period

record transparency_log =
  tl_base_url :: string
  tl_hash_algorithm :: string
  tl_public_key :: public_key
  tl_log_id_key_id :: bytes
  tl_checkpoint_key_id :: "bytes option"

record ct_log =
  ct_base_url :: string
  ct_hash_algorithm :: string
  ct_public_key :: public_key
  ct_log_id_key_id :: bytes

record ca_subject =
  cs_organization :: string
  cs_common_name :: string

record certificate_authority =
  ca_subject :: ca_subject
  ca_uri :: string
  ca_certificates :: "certificate list"
  ca_valid_for :: validity_period

record trust_store =
  ts_media_type :: string
  ts_tlogs :: "transparency_log list"
  ts_ctlogs :: "ct_log list"
  ts_certificate_authorities :: "certificate_authority list"
  ts_timestamp_authorities :: "certificate_authority list"
  ts_fingerprint :: string
  ts_source :: string

text \<open>\<open>PartialEq for TrustStore\<close>: the provenance fields do not count.\<close>

definition trust_store_eq :: "trust_store \<Rightarrow> trust_store \<Rightarrow> bool" where
  "trust_store_eq a b \<longleftrightarrow> ts_media_type a = ts_media_type b \<and> ts_tlogs a = ts_tlogs b
     \<and> ts_ctlogs a = ts_ctlogs b
     \<and> ts_certificate_authorities a = ts_certificate_authorities b
     \<and> ts_timestamp_authorities a = ts_timestamp_authorities b"

section \<open>Conversion from the raw mirror\<close>

definition validity_period_from_raw :: "raw_valid_for \<Rightarrow> error + validity_period" where
  "validity_period_from_raw raw =
     res_bind (map_err Parse (parse_rfc3339 ''validFor.start'' (rvf_start raw))) (\<lambda>start.
     res_bind (opt_transpose (\<lambda>e. map_err Parse (parse_rfc3339 ''validFor.end'' e)) (rvf_end raw)) (\<lambda>end.
     Inr \<lparr>vp_start = start, vp_end = end\<rparr>))"

definition public_key_from_raw :: "('p, 'q, 's, 'n) crates \<Rightarrow> raw_public_key \<Rightarrow> error + public_key" where
  "public_key_from_raw E raw =
     res_bind (decode_b64 E ''publicKey.rawBytes'' (rpk_raw_bytes raw)) (\<lambda>raw_bytes.
     res_bind (validity_period_from_raw (rpk_valid_for raw)) (\<lambda>valid_for.
     Inr \<lparr>pk_raw_bytes = raw_bytes, pk_key_details = rpk_key_details raw, pk_valid_for = valid_for\<rparr>))"

definition transparency_log_from_raw ::
  "('p, 'q, 's, 'n) crates \<Rightarrow> raw_tlog \<Rightarrow> error + transparency_log" where
  "transparency_log_from_raw E raw =
     res_bind (public_key_from_raw E (rtl_public_key raw)) (\<lambda>public_key.
     res_bind (decode_b64 E ''tlogs[].logId.keyId'' (rl_key_id (rtl_log_id raw))) (\<lambda>log_id_key_id.
     res_bind (opt_transpose (decode_b64 E ''tlogs[].checkpointKeyId'') (rtl_checkpoint_key_id raw)) (\<lambda>ckid.
     Inr \<lparr>tl_base_url = rtl_base_url raw, tl_hash_algorithm = rtl_hash_algorithm raw,
          tl_public_key = public_key, tl_log_id_key_id = log_id_key_id, tl_checkpoint_key_id = ckid\<rparr>)))"

definition ct_log_from_raw :: "('p, 'q, 's, 'n) crates \<Rightarrow> raw_tlog \<Rightarrow> error + ct_log" where
  "ct_log_from_raw E raw =
     res_bind (public_key_from_raw E (rtl_public_key raw)) (\<lambda>public_key.
     res_bind (decode_b64 E ''ctlogs[].logId.keyId'' (rl_key_id (rtl_log_id raw))) (\<lambda>log_id_key_id.
     Inr \<lparr>ct_base_url = rtl_base_url raw, ct_hash_algorithm = rtl_hash_algorithm raw,
          ct_public_key = public_key, ct_log_id_key_id = log_id_key_id\<rparr>))"

definition certificate_authority_from_raw ::
  "('p, 'q, 's, 'n) crates \<Rightarrow> raw_certificate_authority \<Rightarrow> error + certificate_authority" where
  "certificate_authority_from_raw E raw =
     res_bind (map_err ResourceLimit (check_count (rcc_certificates (rca_cert_chain raw))
                 MAX_CERTIFICATES_PER_CHAIN TooManyCertificates)) (\<lambda>_.
     res_bind (collect_results (\<lambda>entry.
                 res_bind (decode_b64 E ''certChain.certificates[].rawBytes'' (rce_raw_bytes entry)) (\<lambda>b.
                 Inr \<lparr>cert_raw_bytes = b\<rparr>)) (rcc_certificates (rca_cert_chain raw))) (\<lambda>certificates.
     res_bind (validity_period_from_raw (rca_valid_for raw)) (\<lambda>valid_for.
     Inr \<lparr>ca_subject = \<lparr>cs_organization = rcs_organization (rca_subject raw),
                         cs_common_name = rcs_common_name (rca_subject raw)\<rparr>,
          ca_uri = rca_uri raw, ca_certificates = certificates, ca_valid_for = valid_for\<rparr>)))"

definition trust_store_from_raw ::
  "('p, 'q, 's, 'n) crates \<Rightarrow> raw_trusted_root \<Rightarrow> string \<Rightarrow> string \<Rightarrow> error + trust_store" where
  "trust_store_from_raw E raw fingerprint source =
     (if rtr_media_type raw \<noteq> TRUSTED_ROOT_MEDIA_TYPE
      then Inl (Unsupported (MediaType (rtr_media_type raw))) else
      res_bind (collect_results (transparency_log_from_raw E) (rtr_tlogs raw)) (\<lambda>tlogs.
      res_bind (collect_results (ct_log_from_raw E) (rtr_ctlogs raw)) (\<lambda>ctlogs.
      res_bind (collect_results (certificate_authority_from_raw E) (rtr_certificate_authorities raw)) (\<lambda>cas.
      res_bind (collect_results (certificate_authority_from_raw E) (rtr_timestamp_authorities raw)) (\<lambda>tas.
      Inr \<lparr>ts_media_type = rtr_media_type raw, ts_tlogs = tlogs, ts_ctlogs = ctlogs,
           ts_certificate_authorities = cas, ts_timestamp_authorities = tas,
           ts_fingerprint = fingerprint, ts_source = source\<rparr>)))))"

definition trust_store_from_json :: "('p, 'q, 's, 'n) crates \<Rightarrow> bytes \<Rightarrow> error + trust_store" where
  "trust_store_from_json E bs =
     res_bind (map_err ResourceLimit (check_input_size bs)) (\<lambda>_.
     res_bind (parse_strict E bs) (\<lambda>value.
     res_bind (map_err (\<lambda>e. Parse (Json e)) (trusted_root_from_value E value)) (\<lambda>raw.
     trust_store_from_raw E raw (hex_encode E (sha256 E bs)) ''external'')))"

definition embedded_public_good :: "('p, 'q, 's, 'n) crates \<Rightarrow> error + trust_store" where
  "embedded_public_good E =
     res_bind (trust_store_from_json E (embedded_trusted_root E)) (\<lambda>store.
     Inr (store\<lparr>ts_source := ''embedded-public-good''\<rparr>))"

interpretation trust_doc: strict_document E "trust_store_from_json E" for E
  by unfold_locales (simp_all add: trust_store_from_json_def check_input_size_def)

section \<open>What parsing establishes\<close>

lemma validity_period_from_raw_iff:
  "validity_period_from_raw raw = Inr vp \<longleftrightarrow>
     parse_rfc3339 ''validFor.start'' (rvf_start raw) = Inr (vp_start vp)
     \<and> (case rvf_end raw of None \<Rightarrow> vp_end vp = None
        | Some e \<Rightarrow> \<exists>t. parse_rfc3339 ''validFor.end'' e = Inr t \<and> vp_end vp = Some t)"
  by (cases vp; cases "rvf_end raw") (auto simp: validity_period_from_raw_def)

text \<open>Both bounds are far inside the range of \<open>i64\<close>, so the comparisons of a window with a
  time are those of the integers.\<close>

definition window_in_range :: "validity_period \<Rightarrow> bool" where
  "window_in_range vp \<longleftrightarrow> (-62167305540 \<le> vp_start vp \<and> vp_start vp \<le> 253402387140)
     \<and> (\<forall>t \<in> set_option (vp_end vp). -62167305540 \<le> t \<and> t \<le> 253402387140)"

lemma validity_period_in_range: "validity_period_from_raw raw = Inr vp \<Longrightarrow> window_in_range vp"
  unfolding validity_period_from_raw_iff window_in_range_def
  using parse_rfc3339_range by (auto split: option.splits)

definition trust_store_wf :: "trust_store \<Rightarrow> bool" where
  "trust_store_wf ts \<longleftrightarrow> ts_media_type ts = TRUSTED_ROOT_MEDIA_TYPE
     \<and> (\<forall>l \<in> set (ts_tlogs ts). window_in_range (pk_valid_for (tl_public_key l)))
     \<and> (\<forall>l \<in> set (ts_ctlogs ts). window_in_range (pk_valid_for (ct_public_key l)))
     \<and> (\<forall>ca \<in> set (ts_certificate_authorities ts) \<union> set (ts_timestamp_authorities ts).
          window_in_range (ca_valid_for ca)
          \<and> length (ca_certificates ca) \<le> MAX_CERTIFICATES_PER_CHAIN)"

lemma public_key_in_range: "public_key_from_raw E raw = Inr k \<Longrightarrow> window_in_range (pk_valid_for k)"
  by (auto simp: public_key_from_raw_def validity_period_in_range)

lemma transparency_log_in_range:
  "transparency_log_from_raw E raw = Inr l \<Longrightarrow> window_in_range (pk_valid_for (tl_public_key l))"
  by (auto simp: transparency_log_from_raw_def public_key_in_range)

lemma ct_log_in_range:
  "ct_log_from_raw E raw = Inr l \<Longrightarrow> window_in_range (pk_valid_for (ct_public_key l))"
  by (auto simp: ct_log_from_raw_def public_key_in_range)

lemma certificate_authority_bounds:
  "certificate_authority_from_raw E raw = Inr ca \<Longrightarrow> window_in_range (ca_valid_for ca)
     \<and> length (ca_certificates ca) \<le> MAX_CERTIFICATES_PER_CHAIN"
  by (auto simp: certificate_authority_from_raw_def validity_period_in_range
      dest!: collect_results_length)

lemma trust_store_from_raw_wf:
  assumes "trust_store_from_raw E raw fp src = Inr ts"
  shows "trust_store_wf ts"
proof -
  have c: "collect_results (transparency_log_from_raw E) (rtr_tlogs raw) = Inr (ts_tlogs ts)"
    "collect_results (ct_log_from_raw E) (rtr_ctlogs raw) = Inr (ts_ctlogs ts)"
    "collect_results (certificate_authority_from_raw E) (rtr_certificate_authorities raw)
       = Inr (ts_certificate_authorities ts)"
    "collect_results (certificate_authority_from_raw E) (rtr_timestamp_authorities raw)
       = Inr (ts_timestamp_authorities ts)"
    "ts_media_type ts = TRUSTED_ROOT_MEDIA_TYPE"
    using assms by (auto simp: trust_store_from_raw_def)
  show ?thesis unfolding trust_store_wf_def
    using c(5) collect_results_mem [OF c(1)] collect_results_mem [OF c(2)]
      collect_results_mem [OF c(3)] collect_results_mem [OF c(4)]
      transparency_log_in_range ct_log_in_range certificate_authority_bounds
    by blast
qed

lemma trust_store_from_json_wf: "trust_store_from_json E bs = Inr ts \<Longrightarrow> trust_store_wf ts"
  by (auto simp: trust_store_from_json_def trust_store_from_raw_wf)

lemma trust_store_from_json_snapshot:
  "trust_store_from_json E bs = Inr ts \<Longrightarrow>
     ts_fingerprint ts = hex_encode E (sha256 E bs) \<and> ts_source ts = ''external''"
  by (auto simp: trust_store_from_json_def trust_store_from_raw_def)

text \<open>The embedded root is the same trust content as loading its bytes by hand.\<close>

lemma embedded_is_external:
  "embedded_public_good E = Inr ts \<longleftrightarrow>
     (\<exists>ext. trust_store_from_json E (embedded_trusted_root E) = Inr ext \<and> trust_store_eq ts ext
        \<and> ts_fingerprint ts = ts_fingerprint ext \<and> ts_source ts = ''embedded-public-good'')"
  by (auto simp: embedded_public_good_def trust_store_eq_def)

section \<open>Properties\<close>

text \<open>C29. An accepted trust root has the supported media type, windows whose bounds are in the range
  of the timestamp parser, and chains of at most 128 certificates; its fingerprint is the digest of
  the very bytes it was read from.\<close>

theorem trust_store_from_json_sound:
  assumes "trust_store_from_json E bs = Inr ts"
  shows "trust_store_wf ts \<and> ts_fingerprint ts = hex_encode E (sha256 E bs) \<and> ts_source ts = ''external''
    \<and> length bs \<le> MAX_INPUT_BYTES"
  using assms trust_store_from_json_wf trust_store_from_json_snapshot trust_doc.size_bounded by blast

theorem trust_store_from_json_sound_witness:
  "\<exists>ts. trust_store_from_json sample [0x7B] = Inr ts \<and> trust_store_wf ts"
proof -
  have "is_ok (trust_store_from_json sample [0x7B])" by code_simp
  then obtain ts where ts: "trust_store_from_json sample [0x7B] = Inr ts" by (auto simp: is_ok_iff)
  show ?thesis using ts trust_store_from_json_sound [OF ts] by blast
qed

end
