(* ===== verification/Dsse.thy ===== *)
theory Dsse
  imports Trust
begin

text \<open>
  \<open>src/src/dsse.rs\<close>: the pre-authentication encoding, the ECDSA keys of the two curves with
  their dispatch, and the part of the leaf certificate that is read before its chain is
  validated.
\<close>

section \<open>Pre-authentication encoding\<close>

definition pae :: "string \<Rightarrow> bytes \<Rightarrow> bytes" where
  "pae payload_type payload =
     as_bytes ''DSSEv1 '' @ as_bytes (dec (length (as_bytes payload_type))) @ [0x20]
     @ as_bytes payload_type @ [0x20] @ as_bytes (dec (length payload)) @ [0x20] @ payload"

section \<open>Keys\<close>

datatype ('p, 'q) ecdsa_key = P256 'p | P384 'q

definition from_spki_der :: "('p, 'q, 's, 'n) crates \<Rightarrow> bytes \<Rightarrow> error + ('p, 'q) ecdsa_key" where
  "from_spki_der E spki_der =
     (case p256_key_from_der E spki_der of
        Some key \<Rightarrow> Inr (P256 key)
      | None \<Rightarrow>
          (case p384_key_from_der E spki_der of
             Some key \<Rightarrow> Inr (P384 key)
           | None \<Rightarrow> Inl (Certificate UnsupportedKeyAlgorithm)))"

fun verify_der :: "('p, 'q, 's, 'n) crates \<Rightarrow> ('p, 'q) ecdsa_key \<Rightarrow> bytes \<Rightarrow> bytes \<Rightarrow> bool" where
  "verify_der E (P256 key) message signature =
     (case p256_sig_from_bytes E signature of Some sig \<Rightarrow> p256_verify E key message sig | None \<Rightarrow> False)"
| "verify_der E (P384 key) message signature =
     (case p384_sig_from_bytes E signature of Some sig \<Rightarrow> p384_verify E key message sig | None \<Rightarrow> False)"

text \<open>The test build counts the calls.\<close>

definition verify_der_counted ::
  "('p, 'q, 's, 'n) crates \<Rightarrow> ('p, 'q) ecdsa_key \<Rightarrow> bytes \<Rightarrow> bytes \<Rightarrow> nat \<Rightarrow> bool \<times> nat" where
  "verify_der_counted E key message signature calls = (verify_der E key message signature, calls + 1)"

section \<open>The leaf certificate before chain validation\<close>

definition I64_MAX :: int where
  "I64_MAX = 9223372036854775807"

definition unix_seconds :: "u64 \<Rightarrow> int" where
  "unix_seconds secs = (if int (unat secs) \<le> I64_MAX then int (unat secs) else I64_MAX)"

record ('p, 'q) leaf_certificate_info =
  li_key :: "('p, 'q) ecdsa_key"
  li_not_before :: int
  li_not_after :: int

definition leaf_info_from_certificate ::
  "('p, 'q, 's, 'n) crates \<Rightarrow> certificate \<Rightarrow> error + ('p, 'q) leaf_certificate_info" where
  "leaf_info_from_certificate E c =
     res_bind (map_err (\<lambda>e. Certificate (InvalidDer e)) (x509_from_der E (cert_raw_bytes c))) (\<lambda>cert.
     res_bind (map_err (\<lambda>e. Certificate (InvalidDer e)) (cert_spki_to_der cert)) (\<lambda>spki_der.
     res_bind (from_spki_der E spki_der) (\<lambda>key.
     Inr \<lparr>li_key = key, li_not_before = unix_seconds (cert_not_before cert),
          li_not_after = unix_seconds (cert_not_after cert)\<rparr>)))"

section \<open>The envelope signature\<close>

definition verify_envelope ::
  "('p, 'q, 's, 'n) crates \<Rightarrow> dsse_envelope \<Rightarrow> ('p, 'q) ecdsa_key \<Rightarrow> error + unit" where
  "verify_envelope E envelope leaf_key =
     (let message = pae (de_payload_type envelope) (de_payload envelope) in
      if verify_der E leaf_key message (ds_sig (de_signature envelope)) then Inr ()
      else Inl (ContentBinding DsseSignatureInvalid))"

section \<open>Properties\<close>

lemma as_bytes_dec_sep:
  "as_bytes (dec m) @ 0x20 # xs = as_bytes (dec n) @ 0x20 # ys \<longleftrightarrow> m = n \<and> xs = ys"
proof -
  have "byte_of_char c \<noteq> 0x20" if "c \<in> set (dec k)" for c k
  proof
    assume "byte_of_char c = 0x20"
    also have "0x20 = byte_of_char CHR '' ''" by (simp add: byte_of_char_def)
    finally have "c = CHR '' ''" by simp
    with that show False using dec_mem_digit [of c k] by simp
  qed
  then have "0x20 \<notin> set (as_bytes (dec k))" for k by (fastforce simp: as_bytes_def)
  then show ?thesis by (simp add: sep_append_eq)
qed

text \<open>The encoding determines both the type and the payload: no two envelopes share a
  message.\<close>

lemma pae_inject: "pae t p = pae t' p' \<longleftrightarrow> t = t' \<and> p = p'"
proof
  assume "pae t p = pae t' p'"
  then have "as_bytes (dec (length (as_bytes t))) @ 0x20 # as_bytes t @ 0x20 # as_bytes (dec (length p)) @ 0x20 # p
    = as_bytes (dec (length (as_bytes t'))) @ 0x20 # as_bytes t' @ 0x20 # as_bytes (dec (length p')) @ 0x20 # p'"
    by (simp add: pae_def)
  then have l: "length t = length t'"
    and r: "as_bytes t @ 0x20 # as_bytes (dec (length p)) @ 0x20 # p
      = as_bytes t' @ 0x20 # as_bytes (dec (length p')) @ 0x20 # p'"
    unfolding as_bytes_dec_sep by simp_all
  from l r have "as_bytes t = as_bytes t'"
    "0x20 # as_bytes (dec (length p)) @ 0x20 # p = 0x20 # as_bytes (dec (length p')) @ 0x20 # p'"
    by (auto simp: append_eq_append_conv)
  then show "t = t' \<and> p = p'" by (simp add: as_bytes_dec_sep)
qed simp

lemma unix_seconds_range: "0 \<le> unix_seconds s \<and> unix_seconds s \<le> I64_MAX"
  by (simp add: unix_seconds_def I64_MAX_def)

lemma unix_seconds_mono: "s \<le> t \<Longrightarrow> unix_seconds s \<le> unix_seconds t"
  by (auto simp: unix_seconds_def word_le_def)

lemma verify_envelope_ok [simp]:
  "verify_envelope E env k = Inr u \<longleftrightarrow>
     verify_der E k (pae (de_payload_type env) (de_payload env)) (ds_sig (de_signature env))"
  by (simp add: verify_envelope_def)

section \<open>Property\<close>

text \<open>C21. The pre-authentication encoding is injective: one signed message stands for one payload
  type and one payload.\<close>

theorem pae_unambiguous: "pae t p = pae t' p' \<longleftrightarrow> t = t' \<and> p = p'"
  by (rule pae_inject)

end
