(* ===== verification/Merkle.thy ===== *)
theory Merkle
  imports Dsse
begin

text \<open>
  \<open>src/src/rekor.rs\<close>, part 3: the Merkle inclusion proof. The specification is the tree
  hash and the audit path of RFC 6962, defined top-down over the list of entries; the code
  walks bottom-up with two 64-bit counters.
\<close>

section \<open>The code\<close>

definition LEAF_HASH_PREFIX :: u8 where "LEAF_HASH_PREFIX = 0x00"
definition NODE_HASH_PREFIX :: u8 where "NODE_HASH_PREFIX = 0x01"

definition rfc6962_leaf_hash :: "('p, 'q, 's, 'n) crates \<Rightarrow> bytes \<Rightarrow> bytes" where
  "rfc6962_leaf_hash E body = sha256 E (LEAF_HASH_PREFIX # body)"

definition rfc6962_node_hash :: "('p, 'q, 's, 'n) crates \<Rightarrow> bytes \<Rightarrow> bytes \<Rightarrow> bytes" where
  "rfc6962_node_hash E left right = sha256 E (NODE_HASH_PREFIX # left @ right)"

text \<open>The \<open>while last_node > 0\<close> loop and the check for unused hashes after it.\<close>

function recompute_loop ::
  "('p, 'q, 's, 'n) crates \<Rightarrow> bytes \<Rightarrow> u64 \<Rightarrow> u64 \<Rightarrow> bytes list \<Rightarrow> bytes option" where
  "recompute_loop E node_hash node_index last_node remaining =
     (if last_node > 0 then
        (if node_index mod 2 = 1 then
           (case remaining of
              [] \<Rightarrow> None
            | h # rest \<Rightarrow> recompute_loop E (rfc6962_node_hash E h node_hash)
                            (node_index div 2) (last_node div 2) rest)
         else if node_index < last_node then
           (case remaining of
              [] \<Rightarrow> None
            | h # rest \<Rightarrow> recompute_loop E (rfc6962_node_hash E node_hash h)
                            (node_index div 2) (last_node div 2) rest)
         else recompute_loop E node_hash (node_index div 2) (last_node div 2) remaining)
      else (if remaining \<noteq> [] then None else Some node_hash))"
  by pat_completeness auto
termination
  by (relation "measure (\<lambda>(_, _, _, last_node, _). unat last_node)")
    (auto simp: unat_div word_less_nat_alt)

declare recompute_loop.simps [simp del]

definition recompute_root ::
  "('p, 'q, 's, 'n) crates \<Rightarrow> bytes \<Rightarrow> u64 \<Rightarrow> u64 \<Rightarrow> bytes list \<Rightarrow> bytes option" where
  "recompute_root E leaf_hash leaf_index tree_size hashes =
     (if leaf_index \<ge> tree_size then None
      else recompute_loop E leaf_hash leaf_index (tree_size - 1) hashes)"

text \<open>\<open>try_into\<close> a 32-byte array.\<close>

definition as_array32 :: "bytes \<Rightarrow> unit + bytes" where
  "as_array32 b = (if length b = 32 then Inr b else Inl ())"

definition verify_inclusion_proof ::
  "('p, 'q, 's, 'n) crates \<Rightarrow> bytes \<Rightarrow> inclusion_proof \<Rightarrow> error + unit" where
  "verify_inclusion_proof E canonicalized_body pf =
     (let invalid = Transparency InclusionProofInvalid in
      res_bind (map_err (\<lambda>_. invalid) (as_array32 (ip_root_hash pf))) (\<lambda>root_hash.
      res_bind (map_err (\<lambda>_. invalid) (collect_results as_array32 (ip_hashes pf))) (\<lambda>hashes.
      (let leaf_hash = rfc6962_leaf_hash E canonicalized_body in
       res_bind (ok_or invalid (recompute_root E leaf_hash (ip_log_index pf) (ip_tree_size pf) hashes)) (\<lambda>computed.
       if computed = root_hash then Inr () else Inl invalid)))))"

section \<open>RFC 6962: tree hash and audit path\<close>

text \<open>Both over the list of leaf hashes; \<open>node\<close> hashes two subtrees. The split point is the
  largest power of two smaller than the number of leaves.\<close>

function split_point :: "nat \<Rightarrow> nat" where
  "split_point n = (if n \<le> 2 then 1 else 2 * split_point ((n + 1) div 2))"
  by pat_completeness auto
termination by (relation "measure id") auto

declare split_point.simps [simp del]

lemma split_point_small [simp]: "n \<le> 2 \<Longrightarrow> split_point n = 1"
  by (simp add: split_point.simps)

lemma split_point_power: "\<exists>j. split_point n = 2 ^ j"
proof (induction n rule: split_point.induct)
  case (1 n)
  show ?case
  proof (cases "n \<le> 2")
    case True
    then show ?thesis by (intro exI [of _ 0]) simp
  next
    case False
    with 1 obtain j where "split_point ((n + 1) div 2) = 2 ^ j" by blast
    with False show ?thesis by (intro exI [of _ "Suc j"]) (subst split_point.simps, simp)
  qed
qed

lemma split_point_bounds: "2 \<le> n \<Longrightarrow> 0 < split_point n \<and> split_point n < n \<and> n \<le> 2 * split_point n"
proof (induction n rule: split_point.induct)
  case (1 n)
  show ?case
  proof (cases "n \<le> 2")
    case False
    then have "2 \<le> (n + 1) div 2" by simp
    with 1 False have "0 < split_point ((n + 1) div 2)" "split_point ((n + 1) div 2) < (n + 1) div 2"
      "(n + 1) div 2 \<le> 2 * split_point ((n + 1) div 2)" by blast+
    with False show ?thesis by (subst (1 2 3) split_point.simps) auto
  qed (use 1 in simp)
qed

text \<open>The characterisation the RFC gives.\<close>

lemma split_point_largest:
  assumes "2 \<le> n"
  shows "split_point n = 2 ^ j \<longleftrightarrow> 2 ^ j < n \<and> n \<le> 2 * 2 ^ j"
proof
  assume r: "2 ^ j < n \<and> n \<le> 2 * 2 ^ j"
  obtain i where i: "split_point n = 2 ^ i" using split_point_power by blast
  with split_point_bounds [OF assms] have b: "2 ^ i < n" "n \<le> 2 * 2 ^ i" by simp_all
  with r have "(2 :: nat) ^ i < 2 ^ Suc j" "(2 :: nat) ^ j < 2 ^ Suc i" by simp_all
  then have "i < Suc j" "j < Suc i" using power_less_imp_less_exp [of "2 :: nat" i "Suc j"]
      power_less_imp_less_exp [of "2 :: nat" j "Suc i"] by simp_all
  with i show "split_point n = 2 ^ j" by simp
qed (use split_point_bounds [OF assms] in simp)

function mth :: "('h \<Rightarrow> 'h \<Rightarrow> 'h) \<Rightarrow> 'h list \<Rightarrow> 'h" where
  "mth node hs =
     (if length hs \<le> 1 then hd hs
      else (let k = split_point (length hs) in node (mth node (take k hs)) (mth node (drop k hs))))"
  by pat_completeness auto
termination
proof (relation "measure (\<lambda>(_, hs). length hs)")
  fix node :: "'h \<Rightarrow> 'h \<Rightarrow> 'h" and hs :: "'h list" and k
  assume a: "\<not> length hs \<le> 1" "k = split_point (length hs)"
  then have "0 < k" "k < length hs" using split_point_bounds [of "length hs"] by auto
  then show "((node, take k hs), node, hs) \<in> measure (\<lambda>(_, hs). length hs)"
    "((node, drop k hs), node, hs) \<in> measure (\<lambda>(_, hs). length hs)" by auto
qed simp

declare mth.simps [simp del]

function merkle_path :: "('h \<Rightarrow> 'h \<Rightarrow> 'h) \<Rightarrow> nat \<Rightarrow> 'h list \<Rightarrow> 'h list" where
  "merkle_path node m hs =
     (if length hs \<le> 1 then []
      else (let k = split_point (length hs) in
        if m < k then merkle_path node m (take k hs) @ [mth node (drop k hs)]
        else merkle_path node (m - k) (drop k hs) @ [mth node (take k hs)]))"
  by pat_completeness auto
termination
proof (relation "measure (\<lambda>(_, _, hs). length hs)")
  fix node :: "'h \<Rightarrow> 'h \<Rightarrow> 'h" and m and hs :: "'h list" and k
  assume a: "\<not> length hs \<le> 1" "k = split_point (length hs)"
  then have "0 < k" "k < length hs" using split_point_bounds [of "length hs"] by auto
  then show "((node, m, take k hs), node, m, hs) \<in> measure (\<lambda>(_, _, hs). length hs)"
    "((node, m - k, drop k hs), node, m, hs) \<in> measure (\<lambda>(_, _, hs). length hs)" by auto
qed simp

declare merkle_path.simps [simp del]

section \<open>Level by level\<close>

text \<open>One level up: neighbours are hashed in pairs, an unpaired last node is promoted.\<close>

fun level_up :: "('h \<Rightarrow> 'h \<Rightarrow> 'h) \<Rightarrow> 'h list \<Rightarrow> 'h list" where
  "level_up node (x # y # zs) = node x y # level_up node zs"
| "level_up node hs = hs"

lemma length_level_up [simp]: "length (level_up node hs) = (length hs + 1) div 2"
  by (induction node hs rule: level_up.induct) auto

lemma level_up_append:
  "even (length xs) \<Longrightarrow> level_up node (xs @ ys) = level_up node xs @ level_up node ys"
  by (induction node xs rule: level_up.induct) auto

lemma level_up_nth:
  "2 * i + 1 < length hs \<Longrightarrow> level_up node hs ! i = node (hs ! (2 * i)) (hs ! (2 * i + 1))"
proof (induction node hs arbitrary: i rule: level_up.induct)
  case (1 node x y zs)
  then show ?case by (cases i) auto
qed auto

lemma level_up_last: "length hs = 2 * i + 1 \<Longrightarrow> level_up node hs ! i = hs ! (2 * i)"
proof (induction node hs arbitrary: i rule: level_up.induct)
  case (1 node x y zs)
  then show ?case by (cases i) auto
qed auto

lemma split_point_step:
  assumes "2 < n"
  shows "split_point n = 2 * split_point ((n + 1) div 2)" "even (split_point n)"
    "split_point n div 2 = split_point ((n + 1) div 2)" "2 \<le> split_point n"
proof -
  show 1: "split_point n = 2 * split_point ((n + 1) div 2)"
    using assms by (subst split_point.simps) simp
  then show "even (split_point n)" "split_point n div 2 = split_point ((n + 1) div 2)" by simp_all
  have "0 < split_point ((n + 1) div 2)" using split_point_bounds [of "(n + 1) div 2"] assms by simp
  with 1 show "2 \<le> split_point n" by simp
qed

text \<open>The halves of a level are the levels of the halves.\<close>

lemma level_up_halves:
  assumes "2 < length hs"
  defines "k \<equiv> split_point (length hs)"
  shows "take (k div 2) (level_up node hs) = level_up node (take k hs)"
    "drop (k div 2) (level_up node hs) = level_up node (drop k hs)"
proof -
  have k: "even k" "k < length hs"
    using split_point_step [OF assms(1)] split_point_bounds [of "length hs"] assms by auto
  have "level_up node hs = level_up node (take k hs) @ level_up node (drop k hs)"
    using level_up_append [of "take k hs" node "drop k hs"] k by simp
  moreover have "length (level_up node (take k hs)) = k div 2" using k by auto
  ultimately show "take (k div 2) (level_up node hs) = level_up node (take k hs)"
    "drop (k div 2) (level_up node hs) = level_up node (drop k hs)" by simp_all
qed

lemma level_up_short: "length hs \<le> 1 \<Longrightarrow> level_up node hs = hs"
  by (cases hs) auto

lemma mth_two: "mth node [x, y] = node x y"
  by (simp add: mth.simps [of node "[x, y]"] mth.simps [of node "[x]"] mth.simps [of node "[y]"])

lemma mth_level_up: "mth node (level_up node hs) = mth node hs"
proof (induction "length hs" arbitrary: hs rule: less_induct)
  case less
  consider "length hs \<le> 1" | "length hs = 2" | "2 < length hs" by linarith
  then show ?case
  proof cases
    case 1
    then show ?thesis by (simp add: level_up_short)
  next
    case 2
    then obtain x y where "hs = [x, y]" by (auto simp: numeral_2_eq_2 length_Suc_conv)
    then show ?thesis by (simp add: mth_two) (simp add: mth.simps)
  next
    case 3
    define k where "k = split_point (length hs)"
    note step = split_point_step [OF 3, folded k_def]
    have k: "0 < k" "k < length hs" using split_point_bounds [of "length hs"] 3 by (auto simp: k_def)
    have ih: "mth node (level_up node (take k hs)) = mth node (take k hs)"
      "mth node (level_up node (drop k hs)) = mth node (drop k hs)"
      using less k by simp_all
    have "mth node (level_up node hs) =
      node (mth node (take (k div 2) (level_up node hs))) (mth node (drop (k div 2) (level_up node hs)))"
      using 3 step(3) by (subst mth.simps) (simp add: Let_def, linarith?)
    also have "\<dots> = node (mth node (take k hs)) (mth node (drop k hs))"
      unfolding level_up_halves [OF 3, folded k_def] ih ..
    also have "\<dots> = mth node hs"
      using 3 by (subst (3) mth.simps) (simp add: Let_def k_def)
    finally show ?thesis .
  qed
qed

text \<open>The audit path, level by level: the sibling of the node, if it has one, first.\<close>

definition sibling :: "nat \<Rightarrow> 'h list \<Rightarrow> 'h list" where
  "sibling m hs = (if odd m then [hs ! (m - 1)] else if m + 1 < length hs then [hs ! (m + 1)] else [])"

lemma path_level_up:
  "m < length hs \<Longrightarrow> 2 \<le> length hs \<Longrightarrow>
     merkle_path node m hs = sibling m hs @ merkle_path node (m div 2) (level_up node hs)"
proof (induction "length hs" arbitrary: hs m rule: less_induct)
  case less
  consider "length hs = 2" | "2 < length hs" using less.prems by linarith
  then show ?case
  proof cases
    case 1
    then obtain x y where hs: "hs = [x, y]" by (auto simp: numeral_2_eq_2 length_Suc_conv)
    have "m = 0 \<or> m = 1" using less.prems hs by auto
    then show ?thesis
      by (elim disjE) (simp_all add: hs sibling_def merkle_path.simps mth.simps)
  next
    case 2
    define k where "k = split_point (length hs)"
    note step = split_point_step [OF 2, folded k_def]
    have k: "0 < k" "k < length hs" using split_point_bounds [of "length hs"] 2 by (auto simp: k_def)
    have unfold: "merkle_path node m hs = (if m < k then merkle_path node m (take k hs) @ [mth node (drop k hs)]
        else merkle_path node (m - k) (drop k hs) @ [mth node (take k hs)])"
      using 2 by (subst merkle_path.simps) (simp add: Let_def k_def)
    have unfold': "merkle_path node (m div 2) (level_up node hs) =
      (if m div 2 < k div 2
       then merkle_path node (m div 2) (level_up node (take k hs)) @ [mth node (level_up node (drop k hs))]
       else merkle_path node (m div 2 - k div 2) (level_up node (drop k hs)) @ [mth node (level_up node (take k hs))])"
      using 2 step(3) level_up_halves [OF 2, folded k_def, of node] by (subst merkle_path.simps) (simp add: Let_def)
    show ?thesis
    proof (cases "m < k")
      case True
      have "merkle_path node m (take k hs) = sibling m (take k hs) @ merkle_path node (m div 2) (level_up node (take k hs))"
        using less.hyps [of "take k hs" m] True k step(4) by simp
      moreover have "sibling m (take k hs) = sibling m hs"
        using True k step(2) by (auto simp: sibling_def elim!: evenE)
      moreover have "m div 2 < k div 2" using True step(2) by (auto elim!: evenE)
      ultimately show ?thesis using True unfolding unfold unfold' mth_level_up by simp
    next
      case False
      have sub: "(m - k) div 2 = m div 2 - k div 2" "\<not> m div 2 < k div 2"
        using False step(2) by (auto elim!: evenE)
      have p: "merkle_path node (m - k) (drop k hs)
         = sibling (m - k) (drop k hs) @ merkle_path node ((m - k) div 2) (level_up node (drop k hs))"
      proof (cases "2 \<le> length (drop k hs)")
        case True
        then show ?thesis using less.hyps [of "drop k hs" "m - k"] False k less.prems by simp
      next
        case False
        then have "length hs = k + 1" using k by simp
        with \<open>\<not> m < k\<close> less.prems have "m = k" by simp
        with False show ?thesis by (simp add: sibling_def level_up_short)
      qed
      have "sibling (m - k) (drop k hs) = sibling m hs"
      proof (cases "odd m")
        case True
        then have "m \<noteq> k" using step(2) by blast
        with True False k step(2) less.prems show ?thesis by (simp add: sibling_def)
      next
        case False
        with \<open>\<not> m < k\<close> k step(2) less.prems show ?thesis by (auto simp: sibling_def)
      qed
      with False sub p show ?thesis unfolding unfold unfold' mth_level_up by simp
    qed
  qed
qed

section \<open>Completeness: the audit path leads to the tree hash\<close>

lemma word_odd_iff: "(w :: u64) mod 2 = 1 \<longleftrightarrow> odd (unat w)"
  by (simp add: word_unat_eq_iff unat_mod odd_iff_mod_2_eq_one)

lemma word_pos_iff: "(w :: u64) > 0 \<longleftrightarrow> 0 < unat w"
  by (simp add: word_less_nat_alt)

lemma half_unat: "unat ((w :: u64) div 2) = unat w div 2"
  by (simp add: unat_div)

lemma level_last: "0 < n \<Longrightarrow> (n - 1) div 2 = (n + 1) div 2 - (1 :: nat)"
  by (cases n) auto

lemma level_node:
  assumes "m < length hs" "2 \<le> length hs"
  shows "level_up node hs ! (m div 2) =
    (if odd m then node (hs ! (m - 1)) (hs ! m)
     else if m + 1 < length hs then node (hs ! m) (hs ! (m + 1)) else hs ! m)"
proof (cases "odd m")
  case True
  then obtain i where "m = 2 * i + 1" by (auto elim: oddE)
  with assms show ?thesis by (simp add: level_up_nth)
next
  case False
  then obtain i where i: "m = 2 * i" by (auto elim: evenE)
  then show ?thesis
  proof (cases "m + 1 < length hs")
    case True
    with i show ?thesis by (simp add: level_up_nth)
  next
    case False
    with i assms have "length hs = 2 * i + 1" by simp
    with i show ?thesis by (simp add: level_up_last)
  qed
qed

lemma recompute_loop_path:
  assumes "m < length hs" "unat idx = m" "unat lst = length hs - 1"
  shows "recompute_loop E (hs ! m) idx lst (merkle_path (rfc6962_node_hash E) m hs)
    = Some (mth (rfc6962_node_hash E) hs)"
  using assms
proof (induction "length hs" arbitrary: hs m idx lst rule: less_induct)
  case less
  let ?node = "rfc6962_node_hash E"
  show ?case
  proof (cases "2 \<le> length hs")
    case False
    then obtain x where "hs = [x]" using less.prems(1) by (cases hs) (auto simp: Suc_le_eq)
    then show ?thesis using less.prems
      by (simp add: recompute_loop.simps word_pos_iff merkle_path.simps mth.simps)
  next
    case True
    let ?up = "level_up ?node hs"
    have ih: "recompute_loop E (?up ! (m div 2)) (idx div 2) (lst div 2) (merkle_path ?node (m div 2) ?up)
        = Some (mth ?node ?up)"
      by (rule less.hyps) (use less.prems True in \<open>auto simp: half_unat level_last\<close>)
    have lp: "0 < lst" using True less.prems by (simp add: word_pos_iff)
    have lt: "idx < lst \<longleftrightarrow> m + 1 < length hs" using less.prems by (auto simp: word_less_nat_alt)
    show ?thesis
      unfolding path_level_up [OF less.prems(1) True]
      using ih lp lt less.prems
      by (subst recompute_loop.simps)
        (cases "odd m"; cases "Suc m < length hs";
          simp add: word_odd_iff level_node [OF less.prems(1) True] sibling_def mth_level_up)
  qed
qed

text \<open>The leaves of a log are hashed with their own prefix.\<close>

definition log_root :: "('p, 'q, 's, 'n) crates \<Rightarrow> bytes list \<Rightarrow> bytes" where
  "log_root E entries = mth (rfc6962_node_hash E) (map (rfc6962_leaf_hash E) entries)"

definition audit_path :: "('p, 'q, 's, 'n) crates \<Rightarrow> nat \<Rightarrow> bytes list \<Rightarrow> bytes list" where
  "audit_path E m entries = merkle_path (rfc6962_node_hash E) m (map (rfc6962_leaf_hash E) entries)"

lemma recompute_root_audit_path:
  assumes "m < length entries" "length entries < 2 ^ 64"
  shows "recompute_root E (rfc6962_leaf_hash E (entries ! m)) (word_of_nat m)
    (word_of_nat (length entries)) (audit_path E m entries) = Some (log_root E entries)"
proof -
  let ?n = "length entries"
  let ?hs = "map (rfc6962_leaf_hash E) entries"
  have u: "unat (word_of_nat m :: u64) = m" "unat (word_of_nat ?n :: u64) = ?n"
    using assms by (simp_all add: unat_of_nat)
  have "(1 :: u64) \<le> word_of_nat ?n" using assms(1) by (simp add: word_le_nat_alt u(2))
  then have l: "unat ((word_of_nat ?n :: u64) - 1) = ?n - 1" using u(2) by (simp add: unat_sub)
  have "recompute_loop E (?hs ! m) (word_of_nat m) (word_of_nat ?n - 1)
      (merkle_path (rfc6962_node_hash E) m ?hs) = Some (mth (rfc6962_node_hash E) ?hs)"
    by (rule recompute_loop_path) (use assms(1) u l in simp_all)
  moreover have "\<not> (word_of_nat ?n :: u64) \<le> word_of_nat m" using assms(1) by (simp add: word_le_nat_alt u)
  ultimately show ?thesis
    using assms(1) by (simp add: recompute_root_def log_root_def audit_path_def)
qed

section \<open>The length of a proof\<close>

function proof_length :: "nat \<Rightarrow> nat \<Rightarrow> nat" where
  "proof_length m lst =
     (if lst = 0 then 0
      else (if odd m \<or> m < lst then 1 else 0) + proof_length (m div 2) (lst div 2))"
  by pat_completeness auto
termination by (relation "measure snd") auto

declare proof_length.simps [simp del]

lemma recompute_loop_Some_iff:
  "recompute_loop E h idx lst hashes \<noteq> None \<longleftrightarrow> length hashes = proof_length (unat idx) (unat lst)"
proof (induction E h idx lst hashes rule: recompute_loop.induct)
  case (1 E h idx lst hashes)
  show ?case
  proof (cases "0 < lst")
    case False
    then show ?thesis
      by (subst recompute_loop.simps) (simp add: word_pos_iff proof_length.simps)
  next
    case True
    then have p: "proof_length (unat idx) (unat lst) =
      (if odd (unat idx) \<or> idx < lst then 1 else 0) + proof_length (unat (idx div 2)) (unat (lst div 2))"
      by (subst proof_length.simps) (simp add: word_pos_iff word_less_nat_alt half_unat)
    show ?thesis
      using 1 True unfolding p
      by (subst recompute_loop.simps) (auto simp: word_odd_iff split: list.split)
  qed
qed

lemma proof_length_bound: "lst < 2 ^ b \<Longrightarrow> proof_length m lst \<le> b"
proof (induction b arbitrary: m lst)
  case 0
  then show ?case by (simp add: proof_length.simps)
next
  case (Suc b)
  then have "proof_length (m div 2) (lst div 2) \<le> b" by simp
  then show ?case by (subst proof_length.simps) simp
qed

lemma recompute_root_Some_iff:
  "recompute_root E h idx tsize hashes \<noteq> None \<longleftrightarrow>
     idx < tsize \<and> length hashes = proof_length (unat idx) (unat tsize - 1)"
proof (cases "idx < tsize")
  case True
  then have "0 < unat tsize" by (simp add: word_less_nat_alt)
  then have "(1 :: u64) \<le> tsize" by (simp add: word_le_nat_alt)
  then have "unat (tsize - 1) = unat tsize - 1" by (simp add: unat_sub)
  with True show ?thesis using recompute_loop_Some_iff [of E h idx "tsize - 1" hashes]
    by (simp add: recompute_root_def linorder_not_le [symmetric] del: linorder_not_le not_None_eq)
next
  case False
  then show ?thesis by (auto simp: recompute_root_def not_le)
qed

section \<open>Soundness: a false inclusion exhibits a SHA-256 collision\<close>

text \<open>Walks the proof and the true tree side by side until the two chains of hashes meet; the
  two inputs hashed there are the collision.\<close>

function node_collision ::
  "('p, 'q, 's, 'n) crates \<Rightarrow> bytes \<Rightarrow> nat \<Rightarrow> bytes list \<Rightarrow> bytes list \<Rightarrow> (bytes \<times> bytes) option" where
  "node_collision E c m hs hashes =
     (if length hs \<le> 1 then None
      else (let up = level_up (rfc6962_node_hash E) hs in
        if odd m then
          (case hashes of [] \<Rightarrow> None
           | h # rest \<Rightarrow>
               (if rfc6962_node_hash E h c = up ! (m div 2)
                then Some (NODE_HASH_PREFIX # h @ c, NODE_HASH_PREFIX # hs ! (m - 1) @ hs ! m)
                else node_collision E (rfc6962_node_hash E h c) (m div 2) up rest))
        else if m + 1 < length hs then
          (case hashes of [] \<Rightarrow> None
           | h # rest \<Rightarrow>
               (if rfc6962_node_hash E c h = up ! (m div 2)
                then Some (NODE_HASH_PREFIX # c @ h, NODE_HASH_PREFIX # hs ! m @ hs ! (m + 1))
                else node_collision E (rfc6962_node_hash E c h) (m div 2) up rest))
        else node_collision E c (m div 2) up hashes))"
  by pat_completeness auto
termination by (relation "measure (\<lambda>(_, _, _, hs, _). length hs)") auto

declare node_collision.simps [simp del]

definition is_collision :: "('p, 'q, 's, 'n) crates \<Rightarrow> (bytes \<times> bytes) option \<Rightarrow> bool" where
  "is_collision E r \<longleftrightarrow> (\<exists>a b. r = Some (a, b) \<and> a \<noteq> b \<and> sha256 E a = sha256 E b)"

abbreviation hashes32 :: "bytes list \<Rightarrow> bool" where
  "hashes32 hs \<equiv> list_all (\<lambda>h. length h = 32) hs"

lemma node_hash_len [simp]: "sha256_len E \<Longrightarrow> length (rfc6962_node_hash E a b) = 32"
  by (simp add: rfc6962_node_hash_def)

lemma level_up_hashes32:
  "sha256_len E \<Longrightarrow> hashes32 hs \<Longrightarrow> hashes32 (level_up (rfc6962_node_hash E) hs)"
  by (induction "rfc6962_node_hash E" hs rule: level_up.induct) auto

text \<open>Two different pairs of 32-byte children with the same node hash collide.\<close>

lemma node_hash_collision:
  assumes "length a = length a'" "(a, b) \<noteq> (a', b')"
    and "rfc6962_node_hash E a b = rfc6962_node_hash E a' b'"
  shows "is_collision E (Some (NODE_HASH_PREFIX # a @ b, NODE_HASH_PREFIX # a' @ b'))"
  using assms by (auto simp: is_collision_def rfc6962_node_hash_def append_eq_append_conv)

lemma node_collision_found:
  assumes "sha256_len E" "hashes32 hs" "hashes32 hashes"
    "length c = 32" "m < length hs" "unat idx = m" "unat lst = length hs - 1" "c \<noteq> hs ! m"
    "recompute_loop E c idx lst hashes = Some (mth (rfc6962_node_hash E) hs)"
  shows "is_collision E (node_collision E c m hs hashes)"
  using assms
proof (induction E c m hs hashes arbitrary: idx lst rule: node_collision.induct)
  case (1 E c m hs hashes)
  let ?node = "rfc6962_node_hash E"
  let ?up = "level_up ?node hs"
  show ?case
  proof (cases "length hs \<le> 1")
    case True
    then obtain x where "hs = [x]" using "1.prems" by (cases hs) (auto simp: Suc_le_eq)
    then show ?thesis using "1.prems"
      by (auto simp: recompute_loop.simps word_pos_iff mth.simps split: if_splits)
  next
    case False
    then have two: "2 \<le> length hs" and pos: "0 < lst" using "1.prems" by (auto simp: word_pos_iff)
    note up = level_node [OF "1.prems"(5) two, of ?node]
    have len: "length (hs ! j) = 32" if "j < length hs" for j
      using "1.prems"(2) that by (simp add: list_all_length)
    have below: "m div 2 < length ?up" "unat (idx div 2) = m div 2"
      "unat (lst div 2) = length ?up - 1" "hashes32 ?up"
      using "1.prems" two "1.prems"(1) level_last [of "length hs"] level_up_hashes32 [OF "1.prems"(1) "1.prems"(2)]
      by (auto simp: half_unat)
    have lt: "idx < lst \<longleftrightarrow> m + 1 < length hs" using "1.prems" by (auto simp: word_less_nat_alt)
    consider (left) "odd m" | (right) "even m" "m + 1 < length hs" | (promoted) "even m" "\<not> m + 1 < length hs"
      by blast
    then show ?thesis
    proof cases
      case left
      with "1.prems" pos obtain h rest where h: "hashes = h # rest"
        and run: "recompute_loop E (?node h c) (idx div 2) (lst div 2) rest = Some (mth ?node ?up)"
        by (subst (asm) recompute_loop.simps) (auto simp: word_odd_iff mth_level_up split: list.splits)
      have lens: "length h = 32" "hashes32 rest" using "1.prems"(3) h by simp_all
      show ?thesis
      proof (cases "?node h c = ?up ! (m div 2)")
        case True
        have "is_collision E (Some (NODE_HASH_PREFIX # h @ c, NODE_HASH_PREFIX # hs ! (m - 1) @ hs ! m))"
          using True up left lens len [of "m - 1"] "1.prems"(5,8) by (intro node_hash_collision) auto
        with True left False h show ?thesis by (subst node_collision.simps) (simp add: Let_def)
      next
        case ne: False
        have "is_collision E (node_collision E (?node h c) (m div 2) ?up rest)"
          by (rule "1.IH"(1) [OF False refl left h ne]) (use below lens run ne "1.prems"(1) in simp_all)
        with ne left False h show ?thesis by (subst node_collision.simps) (simp add: Let_def)
      qed
    next
      case right
      with "1.prems" pos lt obtain h rest where h: "hashes = h # rest"
        and run: "recompute_loop E (?node c h) (idx div 2) (lst div 2) rest = Some (mth ?node ?up)"
        by (subst (asm) recompute_loop.simps) (auto simp: word_odd_iff mth_level_up split: list.splits)
      have lens: "length h = 32" "hashes32 rest" using "1.prems"(3) h by simp_all
      show ?thesis
      proof (cases "?node c h = ?up ! (m div 2)")
        case True
        have "is_collision E (Some (NODE_HASH_PREFIX # c @ h, NODE_HASH_PREFIX # hs ! m @ hs ! (m + 1)))"
          using True up right len [of m] "1.prems"(4,5,8) by (intro node_hash_collision) auto
        with True right False h show ?thesis by (subst node_collision.simps) (simp add: Let_def)
      next
        case ne: False
        have "is_collision E (node_collision E (?node c h) (m div 2) ?up rest)"
          by (rule "1.IH"(2) [OF False refl _ right(2) h ne]) (use right below lens run ne "1.prems"(1) in simp_all)
        with ne right False h show ?thesis by (subst node_collision.simps) (simp add: Let_def)
      qed
    next
      case promoted
      with "1.prems" pos lt
      have run: "recompute_loop E c (idx div 2) (lst div 2) hashes = Some (mth ?node ?up)"
        by (subst (asm) recompute_loop.simps) (auto simp: word_odd_iff mth_level_up)
      have "is_collision E (node_collision E c (m div 2) ?up hashes)"
        by (rule "1.IH"(3) [OF False refl _ promoted(2)])
          (use promoted below up run "1.prems"(1,3,4,8) in simp_all)
      with promoted False show ?thesis by (subst node_collision.simps) (simp add: Let_def)
    qed
  qed
qed

text \<open>The collision a proof of a false entry reveals, from the entries of the log.\<close>

definition inclusion_collision ::
  "('p, 'q, 's, 'n) crates \<Rightarrow> bytes list \<Rightarrow> bytes \<Rightarrow> nat \<Rightarrow> bytes list \<Rightarrow> (bytes \<times> bytes) option" where
  "inclusion_collision E entries body m hashes =
     (if rfc6962_leaf_hash E body = rfc6962_leaf_hash E (entries ! m)
      then Some (LEAF_HASH_PREFIX # body, LEAF_HASH_PREFIX # entries ! m)
      else node_collision E (rfc6962_leaf_hash E body) m (map (rfc6962_leaf_hash E) entries) hashes)"

lemma collect_array32: "collect_results as_array32 hs = Inr ys \<longleftrightarrow> ys = hs \<and> hashes32 hs"
proof (induction hs arbitrary: ys)
  case (Cons h hs)
  have "as_array32 h = Inr y \<longleftrightarrow> y = h \<and> length h = 32" for y by (auto simp: as_array32_def)
  then show ?case using Cons by auto
qed auto

lemma verify_inclusion_proof_ok:
  "verify_inclusion_proof E body pf = Inr u \<longleftrightarrow>
     length (ip_root_hash pf) = 32 \<and> hashes32 (ip_hashes pf)
     \<and> recompute_root E (rfc6962_leaf_hash E body) (ip_log_index pf) (ip_tree_size pf) (ip_hashes pf)
       = Some (ip_root_hash pf)"
proof -
  have "as_array32 h = Inr y \<longleftrightarrow> y = h \<and> length h = 32" for h y by (auto simp: as_array32_def)
  then show ?thesis by (auto simp: verify_inclusion_proof_def Let_def collect_array32)
qed

lemma verify_inclusion_proof_error:
  "verify_inclusion_proof E body pf = Inr () \<or>
   verify_inclusion_proof E body pf = Inl (Transparency InclusionProofInvalid)"
  by (cases "as_array32 (ip_root_hash pf)"; cases "collect_results as_array32 (ip_hashes pf)")
    (auto simp: verify_inclusion_proof_def Let_def ok_or_def split: option.split)

lemma inclusion_sound:
  assumes len: "sha256_len E"
    and ok: "verify_inclusion_proof E body pf = Inr u"
    and root: "ip_root_hash pf = log_root E entries"
    and sz: "unat (ip_tree_size pf) = length entries"
  shows "is_collision E (inclusion_collision E entries body (unat (ip_log_index pf)) (ip_hashes pf))
    \<or> body = entries ! unat (ip_log_index pf)"
proof (rule disjCI)
  let ?m = "unat (ip_log_index pf)"
  let ?hs = "map (rfc6962_leaf_hash E) entries"
  assume ne: "body \<noteq> entries ! ?m"
  note r = ok [unfolded verify_inclusion_proof_ok]
  have lt: "ip_log_index pf < ip_tree_size pf"
    using r recompute_root_Some_iff by (metis option.distinct(1))
  then have m: "?m < length entries" using sz by (simp add: word_less_nat_alt)
  then have "(1 :: u64) \<le> ip_tree_size pf" using sz by (simp add: word_le_nat_alt)
  then have lst: "unat (ip_tree_size pf - 1) = length ?hs - 1" using sz by (simp add: unat_sub)
  have run: "recompute_loop E (rfc6962_leaf_hash E body) (ip_log_index pf) (ip_tree_size pf - 1) (ip_hashes pf)
      = Some (mth (rfc6962_node_hash E) ?hs)"
    using r lt root by (simp only: recompute_root_def log_root_def not_le [symmetric] if_False simp_thms)
  show "is_collision E (inclusion_collision E entries body ?m (ip_hashes pf))"
  proof (cases "rfc6962_leaf_hash E body = rfc6962_leaf_hash E (entries ! ?m)")
    case True
    with ne show ?thesis
      by (simp add: inclusion_collision_def is_collision_def rfc6962_leaf_hash_def)
  next
    case False
    have "is_collision E (node_collision E (rfc6962_leaf_hash E body) ?m ?hs (ip_hashes pf))"
      using node_collision_found [OF len _ _ _ _ refl lst _ run] False m r len
      by (simp add: rfc6962_leaf_hash_def list_all_iff)
    with False show ?thesis by (simp add: inclusion_collision_def)
  qed
qed

section \<open>Properties\<close>

text \<open>C7. Completeness: the iterative \<open>recompute_root\<close>, fed with the audit path that RFC 6962 defines
  recursively, recomputes the tree hash that RFC 6962 defines recursively, for every log of fewer
  than \<open>2 ^ 64\<close> entries and every entry of it.\<close>

theorem recompute_root_accepts_audit_path:
  assumes "m < length entries" and "length entries < 2 ^ 64"
  shows "recompute_root E (rfc6962_leaf_hash E (entries ! m)) (word_of_nat m)
    (word_of_nat (length entries)) (audit_path E m entries) = Some (log_root E entries)"
  using assms by (rule recompute_root_audit_path)

theorem recompute_root_accepts_audit_path_witness:
  "recompute_root sample (rfc6962_leaf_hash sample [30]) 2 3 (audit_path sample 2 [[10], [20], [30]])
     = Some (log_root sample [[10], [20], [30]])"
  using recompute_root_accepts_audit_path [of 2 "[[10], [20], [30]]" sample] by simp

text \<open>A proof is looked at to its end and no further: a root comes out if and only if the index
  is inside the tree and the number of hashes is the one the shape of the tree dictates.\<close>

theorem recompute_root_needs_exact_proof:
  "recompute_root E h idx tsize hashes \<noteq> None \<longleftrightarrow>
     idx < tsize \<and> length hashes = proof_length (unat idx) (unat tsize - 1)"
  by (rule recompute_root_Some_iff)

text \<open>C8. Soundness: when the proof of a body against the root of a log is accepted, the body is the
  log's entry at that index, or the proof itself exhibits two inputs with the same SHA-256 digest.\<close>

theorem inclusion_proof_sound:
  assumes "sha256_len E" and "verify_inclusion_proof E body pf = Inr u"
    and "ip_root_hash pf = log_root E entries" and "unat (ip_tree_size pf) = length entries"
  shows "is_collision E (inclusion_collision E entries body (unat (ip_log_index pf)) (ip_hashes pf))
    \<or> body = entries ! unat (ip_log_index pf)"
  using assms by (rule inclusion_sound)

definition sample_proof :: inclusion_proof where
  "sample_proof = \<lparr>ip_log_index = 1, ip_root_hash = log_root sample [[10], [20]], ip_tree_size = 2,
     ip_hashes = audit_path sample 1 [[10], [20]], ip_checkpoint = \<lparr>cp_envelope = ''''\<rparr>\<rparr>"

text \<open>Both outcomes occur: the logged body is accepted, and for the weak digest of the instance so is
  a body that differs from the entry beyond its first 31 bytes, which exhibits the collision.\<close>

definition forged_entries :: "bytes list" where
  "forged_entries = [[10], replicate 31 0 @ [20]]"

definition forged_proof :: inclusion_proof where
  "forged_proof = \<lparr>ip_log_index = 1, ip_root_hash = log_root sample forged_entries, ip_tree_size = 2,
     ip_hashes = audit_path sample 1 forged_entries, ip_checkpoint = \<lparr>cp_envelope = ''''\<rparr>\<rparr>"

definition forged_body :: bytes where
  "forged_body = replicate 31 0 @ [21]"

theorem inclusion_proof_sound_witness:
  "verify_inclusion_proof sample [20] sample_proof = Inr ()
     \<and> ip_root_hash sample_proof = log_root sample [[10], [20]]
     \<and> (is_collision sample (inclusion_collision sample [[10], [20]] [20] 1 (ip_hashes sample_proof))
        \<or> [20] = [[10], [20 :: u8]] ! 1)
   \<and> verify_inclusion_proof sample forged_body forged_proof = Inr () \<and> forged_body \<noteq> forged_entries ! 1
     \<and> is_collision sample (inclusion_collision sample forged_entries forged_body 1 (ip_hashes forged_proof))"
proof (intro conjI)
  have "is_ok (verify_inclusion_proof sample [20] sample_proof)" by code_simp
  then show ok: "verify_inclusion_proof sample [20] sample_proof = Inr ()" by (auto simp: is_ok_iff)
  show root: "ip_root_hash sample_proof = log_root sample [[10], [20]]" by (simp add: sample_proof_def)
  have "unat (ip_tree_size sample_proof) = length [[10], [20 :: u8]]" by (simp add: sample_proof_def)
  from inclusion_proof_sound [OF sample_sha256_len ok root this]
  show "is_collision sample (inclusion_collision sample [[10], [20]] [20] 1 (ip_hashes sample_proof))
    \<or> [20] = [[10], [20 :: u8]] ! 1" by (simp add: sample_proof_def)
next
  have "is_ok (verify_inclusion_proof sample forged_body forged_proof)" by code_simp
  then show ok: "verify_inclusion_proof sample forged_body forged_proof = Inr ()" by (auto simp: is_ok_iff)
  show ne: "forged_body \<noteq> forged_entries ! 1" by (simp add: forged_body_def forged_entries_def)
  have "ip_root_hash forged_proof = log_root sample forged_entries"
    "unat (ip_tree_size forged_proof) = length forged_entries" "unat (ip_log_index forged_proof) = 1"
    by (simp_all add: forged_proof_def forged_entries_def)
  with inclusion_proof_sound [OF sample_sha256_len ok, of forged_entries] ne
  show "is_collision sample (inclusion_collision sample forged_entries forged_body 1 (ip_hashes forged_proof))"
    by simp
qed

text \<open>The work of the check is bounded whatever the bundle says.\<close>

theorem inclusion_proof_at_most_64_hashes:
  assumes "verify_inclusion_proof E body pf = Inr u"
  shows "length (ip_hashes pf) \<le> 64"
proof -
  have "length (ip_hashes pf) = proof_length (unat (ip_log_index pf)) (unat (ip_tree_size pf) - 1)"
    using assms recompute_root_Some_iff unfolding verify_inclusion_proof_ok by (metis option.distinct(1))
  moreover have "unat (ip_tree_size pf) < 2 ^ LENGTH(64)" by (rule unsigned_less)
  ultimately show ?thesis using proof_length_bound [of "unat (ip_tree_size pf) - 1" 64] by simp
qed

end
