(* ===== verification/Error_Text.thy ===== *)
theory Error_Text
  imports Errors
begin

text \<open>
  The texts of \<open>src/src/error.rs\<close>: the \<open>Display\<close> of every variant, as the \<open>#[error(...)]\<close>
  attributes spell it, and \<open>Error::source\<close>, which a wrapped error makes available to a caller that
  prints the chain of causes.
\<close>

section \<open>Display\<close>

definition backquoted :: "string \<Rightarrow> string" where
  "backquoted s = [CHR 0x60] @ s @ [CHR 0x60]"

fun parse_error_text :: "parse_error \<Rightarrow> string" where
  "parse_error_text (Json e) = ''invalid JSON: '' @ e"
| "parse_error_text (Base64 field reason) = ''invalid base64 in field '' @ backquoted field @ '': '' @ reason"
| "parse_error_text (Hex field reason) = ''invalid hex in field '' @ backquoted field @ '': '' @ reason"
| "parse_error_text (MalformedDigest e) = ''malformed digest: '' @ e"
| "parse_error_text (NotAnInteger field val) =
     ''field '' @ backquoted field @ '' is not a valid integer: '' @ val"
| "parse_error_text (DsseSignatureCount count) =
     ''dsse envelope has '' @ dec count @ '' signatures, expected exactly 1''"
| "parse_error_text (MissingField e) = ''missing required field '' @ backquoted e"
| "parse_error_text (EmptyContainer e) = ''empty container: '' @ e"
| "parse_error_text (MalformedSubject e) = ''statement subject has no usable digest: '' @ e"
| "parse_error_text (Rfc3339 field reason) =
     ''invalid RFC 3339 timestamp in field '' @ backquoted field @ '': '' @ reason"
| "parse_error_text (Checkpoint e) = ''malformed checkpoint envelope: '' @ e"

fun unsupported_error_text :: "unsupported_error \<Rightarrow> string" where
  "unsupported_error_text (MediaType found) = ''unsupported media type: '' @ found"
| "unsupported_error_text BundlesNotInline =
     ''no inline bundles in response (bundles must be fetched out of band)''"
| "unsupported_error_text (TlogEntryKindVersion kind version) =
     ''unsupported tlog entry kind/version: '' @ kind @ ''/'' @ version"
| "unsupported_error_text (DssePayloadType found) = ''unsupported dsse payload type: '' @ found"
| "unsupported_error_text (StatementType found) = ''unsupported in-toto statement type: '' @ found"
| "unsupported_error_text (PredicateType found) = ''unsupported predicate type: '' @ found"
| "unsupported_error_text (MultipleTlogEntries count) =
     ''bundle has '' @ dec count @ '' tlog entries, expected exactly 1''"

fun trust_error_text :: "trust_error \<Rightarrow> string" where
  "trust_error_text UnknownKeyId = ''unknown trust-store key id''"
| "trust_error_text NoTrustedKeyValidAt = ''no trusted key valid at the required time''"

fun certificate_error_text :: "certificate_error \<Rightarrow> string" where
  "certificate_error_text (InvalidDer e) = ''certificate is not valid DER: '' @ e"
| "certificate_error_text UnsupportedKeyAlgorithm = ''unsupported public key algorithm''"
| "certificate_error_text UnsupportedSignatureAlgorithm = ''unsupported certificate signature algorithm''"
| "certificate_error_text UntrustedCertificate =
     ''no trusted certificate authority validated this certificate chain''"
| "certificate_error_text SignatureInvalid = ''certificate signature did not verify''"
| "certificate_error_text IssuerNameMismatch =
     ''certificate issuer does not match issuing certificate's subject''"
| "certificate_error_text OutsideCertificateValidity =
     ''authenticated time is outside the certificate's validity window''"
| "certificate_error_text OutsideCaValidity =
     ''authenticated time is outside the trusted certificate authority's validFor window''"
| "certificate_error_text InvalidBasicConstraints =
     ''certificate basicConstraints does not match its role in the chain''"
| "certificate_error_text PathLengthExceeded = ''certificate authority pathLenConstraint exceeded''"
| "certificate_error_text MissingKeyUsage = ''certificate keyUsage is missing or lacks the required bit''"
| "certificate_error_text MissingCodeSigningEku = ''leaf certificate extKeyUsage does not contain codeSigning''"
| "certificate_error_text UnknownCriticalExtension = ''leaf certificate has an unrecognized critical extension''"
| "certificate_error_text DuplicateExtension = ''certificate has a duplicate extension''"
| "certificate_error_text SctMissing = ''leaf certificate has no embedded SCT''"
| "certificate_error_text SctInvalid = ''no embedded SCT verified against a trusted CT log key''"
| "certificate_error_text UnknownCtLog = ''SCT logId does not match any trusted CT log''"
| "certificate_error_text SctOutsideKeyValidity =
     ''SCT timestamp is outside the trusted CT log key's validFor window''"

fun transparency_error_text :: "transparency_error \<Rightarrow> string" where
  "transparency_error_text InclusionProofInvalid = ''inclusion proof did not verify''"
| "transparency_error_text NoTlogEntries = ''bundle has no transparency-log entries''"
| "transparency_error_text UnknownLogKey = ''no trusted log key matches this entry's logId''"
| "transparency_error_text SetMissing = ''tlog entry has no inclusion promise (SET)''"
| "transparency_error_text SetInvalid = ''inclusion promise (SET) did not verify''"
| "transparency_error_text InclusionProofMissing = ''tlog entry has no inclusion proof''"
| "transparency_error_text CheckpointTreeSizeMismatch =
     ''checkpoint treeSize does not match the inclusion proof's treeSize''"
| "transparency_error_text CheckpointRootHashMismatch =
     ''checkpoint rootHash does not match the inclusion proof's rootHash''"
| "transparency_error_text CheckpointSignatureInvalid =
     ''no checkpoint signature verified with the trusted log key''"
| "transparency_error_text CheckpointOriginMismatch =
     ''checkpoint origin is not allowed for the trusted log key''"

fun timestamp_error_text :: "timestamp_error \<Rightarrow> string" where
  "timestamp_error_text TimestampInvalid = ''rfc3161 timestamp invalid''"
| "timestamp_error_text IntegratedTimeOutsideLogKeyValidity =
     ''integratedTime is outside the trusted log key's validity window''"
| "timestamp_error_text IntegratedTimeOutsideCertificateValidity =
     ''integratedTime is outside the leaf certificate's validity window''"

fun content_binding_error_text :: "content_binding_error \<Rightarrow> string" where
  "content_binding_error_text SubjectNotFound = ''subject digest not found in statement''"
| "content_binding_error_text DsseSignatureInvalid = ''dsse envelope signature did not verify''"
| "content_binding_error_text TlogEntryKindVersionMismatch =
     ''tlog entry kindVersion does not match the canonicalized body's kind/apiVersion''"
| "content_binding_error_text TlogEntrySignatureMismatch =
     ''tlog entry signature does not match the bundle's DSSE signature''"
| "content_binding_error_text TlogEntryCertificateMismatch =
     ''tlog entry verifier certificate does not match the bundle's leaf certificate''"
| "content_binding_error_text TlogEntryPayloadHashMismatch =
     ''tlog entry payloadHash does not match the bundle's DSSE payload''"
| "content_binding_error_text TlogEntryEnvelopeHashMismatch =
     ''tlog entry envelopeHash does not match the bundle's DSSE envelope''"

text \<open>The mismatches share one shape.\<close>

definition mismatch_text :: "string \<Rightarrow> string \<Rightarrow> string \<Rightarrow> string" where
  "mismatch_text what expected found = what @ '' mismatch: expected '' @ expected @ '', found '' @ found"

fun policy_error_text :: "policy_error \<Rightarrow> string" where
  "policy_error_text (InvalidConfiguration e) = ''invalid policy configuration: '' @ e"
| "policy_error_text (MissingIdentityClaim claim) =
     ''certificate is missing the '' @ backquoted claim @ '' identity claim required to evaluate policy''"
| "policy_error_text (MalformedIdentityClaim claim reason) =
     ''certificate's '' @ backquoted claim @ '' identity claim is malformed: '' @ reason"
| "policy_error_text (IssuerMismatch expected found) = mismatch_text ''issuer'' expected found"
| "policy_error_text (SourceRepositoryMismatch expected found) = mismatch_text ''source repository'' expected found"
| "policy_error_text (SourceOwnerIdMismatch expected found) =
     mismatch_text ''source repository owner id'' expected found"
| "policy_error_text (SourceRepositoryIdMismatch expected found) =
     mismatch_text ''source repository id'' expected found"
| "policy_error_text (SourceRefMismatch expected found) = mismatch_text ''source ref'' expected found"
| "policy_error_text (SourceCommitMismatch expected found) = mismatch_text ''source commit'' expected found"
| "policy_error_text (SignerRepositoryMismatch expected found) = mismatch_text ''signer repository'' expected found"
| "policy_error_text (SignerWorkflowPathMismatch expected found) =
     mismatch_text ''signer workflow path'' expected found"
| "policy_error_text (SignerRevisionMismatch expected found) =
     mismatch_text ''signer workflow revision'' expected found"

fun resource_limit_error_text :: "resource_limit_error \<Rightarrow> string" where
  "resource_limit_error_text (InputTooLarge actual limit) =
     ''input of '' @ dec actual @ '' bytes exceeds the '' @ dec limit @ ''-byte limit''"
| "resource_limit_error_text (TooManyJsonNodes limit) =
     ''JSON document exceeds the limit of '' @ dec limit @ '' value nodes''"
| "resource_limit_error_text (TooManyTlogEntries actual limit) =
     dec actual @ '' tlog entries exceeds the limit of '' @ dec limit"
| "resource_limit_error_text (TooManySubjects actual limit) =
     dec actual @ '' statement subjects exceeds the limit of '' @ dec limit"
| "resource_limit_error_text (TooManyBundles actual limit) =
     dec actual @ '' bundles exceeds the limit of '' @ dec limit @ '' per BundleSet''"
| "resource_limit_error_text (TooManyCertificates actual limit) =
     dec actual @ '' certificates exceeds the limit of '' @ dec limit @ '' per chain''"
| "resource_limit_error_text (TooManyCheckpointSignatures actual limit) =
     dec actual @ '' checkpoint signature lines exceeds the limit of '' @ dec limit"

text \<open>The wrapped error, as \<open>Error::source\<close> returns it, and the text of the whole.\<close>

fun source_text :: "error \<Rightarrow> string" where
  "source_text (Parse e) = parse_error_text e"
| "source_text (Unsupported e) = unsupported_error_text e"
| "source_text (Trust e) = trust_error_text e"
| "source_text (Certificate e) = certificate_error_text e"
| "source_text (Transparency e) = transparency_error_text e"
| "source_text (Timestamp e) = timestamp_error_text e"
| "source_text (ContentBinding e) = content_binding_error_text e"
| "source_text (Policy e) = policy_error_text e"
| "source_text (ResourceLimit e) = resource_limit_error_text e"

fun stage_text :: "error \<Rightarrow> string" where
  "stage_text (Parse _) = ''parse error''"
| "stage_text (Unsupported _) = ''unsupported''"
| "stage_text (Trust _) = ''trust error''"
| "stage_text (Certificate _) = ''certificate error''"
| "stage_text (Transparency _) = ''transparency error''"
| "stage_text (Timestamp _) = ''timestamp error''"
| "stage_text (ContentBinding _) = ''content binding error''"
| "stage_text (Policy _) = ''policy error''"
| "stage_text (ResourceLimit _) = ''resource limit exceeded''"

definition error_text :: "error \<Rightarrow> string" where
  "error_text e = stage_text e @ '': '' @ source_text e"

section \<open>What the text tells\<close>

text \<open>The stage of an error and the text of its cause are read back from the whole text: the stage
  names have no colon, so the first one ends them.\<close>

lemma stage_no_colon: "CHR '':'' \<notin> set (stage_text e)"
  by (cases e) simp_all

lemma error_text_inject:
  "error_text e = error_text e' \<longleftrightarrow> stage_text e = stage_text e' \<and> source_text e = source_text e'"
proof -
  have "error_text e = stage_text e @ CHR '':'' # CHR '' '' # source_text e" for e
    by (simp add: error_text_def)
  then show ?thesis using sep_append_eq [OF stage_no_colon stage_no_colon] by simp
qed

text \<open>A condition without payload has a text of its own.\<close>

lemma transparency_text_inject: "transparency_error_text e = transparency_error_text e' \<longleftrightarrow> e = e'"
  by (cases e; cases e') simp_all

lemma timestamp_text_inject: "timestamp_error_text e = timestamp_error_text e' \<longleftrightarrow> e = e'"
  by (cases e; cases e') simp_all

lemma content_binding_text_inject: "content_binding_error_text e = content_binding_error_text e' \<longleftrightarrow> e = e'"
  by (cases e; cases e') simp_all

lemma certificate_text_inject: "certificate_error_text e = certificate_error_text e' \<longleftrightarrow> e = e'"
  by (cases e; cases e') simp_all

text \<open>The text of a failed check identifies the error among all errors of the library.\<close>

definition failed_check :: "error \<Rightarrow> bool" where
  "failed_check e = (case e of Certificate _ \<Rightarrow> True | Transparency _ \<Rightarrow> True | Timestamp _ \<Rightarrow> True
     | ContentBinding _ \<Rightarrow> True | _ \<Rightarrow> False)"

theorem failed_check_text:
  assumes "failed_check e"
  shows "error_text e' = error_text e \<longleftrightarrow> e' = e"
  using assms
  by (cases e; cases e')
    (simp_all add: error_text_inject failed_check_def certificate_text_inject transparency_text_inject
      timestamp_text_inject content_binding_text_inject)

end
