(* ===== verification/Policies.thy ===== *)
theory Policies
  imports Merkle Error_Text
begin

text \<open>
  \<open>src/src/policy.rs\<close>: the checkpoint-origin policy with its builder, the GitHub identity
  policy with its builder, and the validated string types. An origin policy denotes a
  relation between log-key digests and origins; the locale \<open>origin_relation\<close> states what the
  builder promises about it.
\<close>

section \<open>Checkpoint-origin policies\<close>

definition policy_error :: "string \<Rightarrow> error" where
  "policy_error reason = Policy (InvalidConfiguration reason)"

record origin_binding =
  ob_key_id :: bytes
  ob_origins :: "string list"

record origin_policy =
  op_bindings :: "origin_binding list"

record origin_policy_builder =
  opb_bindings :: "origin_binding list"

definition checkpoint_log_key_id :: "('p, 'q, 's, 'n) crates \<Rightarrow> transparency_log \<Rightarrow> bytes" where
  "checkpoint_log_key_id E tlog = sha256 E (pk_raw_bytes (tl_public_key tlog))"

definition validate_checkpoint_origin :: "string \<Rightarrow> error + string" where
  "validate_checkpoint_origin origin =
     (if origin = [] then Inl (policy_error ''checkpoint origin must not be empty'')
      else if CHR 0x0D \<in> set origin \<or> CHR 0x0A \<in> set origin
      then Inl (policy_error ''checkpoint origin must not contain CR or LF'')
      else Inr origin)"

definition validate_checkpoint_origins :: "string list \<Rightarrow> error + string list" where
  "validate_checkpoint_origins origins =
     res_bind (collect_results validate_checkpoint_origin origins) (\<lambda>os.
     if os = [] then Inl (policy_error ''checkpoint origin binding must contain at least one origin'')
     else Inr os)"

definition origin_binding_new ::
  "('p, 'q, 's, 'n) crates \<Rightarrow> transparency_log \<Rightarrow> string list \<Rightarrow> error + origin_binding" where
  "origin_binding_new E tlog origins =
     res_bind (validate_checkpoint_origins origins) (\<lambda>os.
     Inr \<lparr>ob_key_id = checkpoint_log_key_id E tlog, ob_origins = os\<rparr>)"

definition origin_policy_new :: "origin_binding list \<Rightarrow> error + origin_policy" where
  "origin_policy_new bindings =
     (if bindings = [] then Inl (policy_error ''checkpoint origin policy must not be empty'')
      else Inr \<lparr>op_bindings = bindings\<rparr>)"

definition origin_policy_for_log ::
  "('p, 'q, 's, 'n) crates \<Rightarrow> transparency_log \<Rightarrow> string list \<Rightarrow> error + origin_policy" where
  "origin_policy_for_log E tlog origins =
     res_bind (origin_binding_new E tlog origins) (\<lambda>b. origin_policy_new [b])"

definition bindings_allow :: "origin_binding list \<Rightarrow> bytes \<Rightarrow> string \<Rightarrow> bool" where
  "bindings_allow bs key_id origin \<longleftrightarrow>
     list_ex (\<lambda>b. list_ex (\<lambda>allowed. allowed = origin) (ob_origins b))
       (filter (\<lambda>b. ob_key_id b = key_id) bs)"

definition allows :: "origin_policy \<Rightarrow> bytes \<Rightarrow> string \<Rightarrow> bool" where
  "allows p key_id origin = bindings_allow (op_bindings p) key_id origin"

definition origin_builder :: origin_policy_builder where
  "origin_builder = \<lparr>opb_bindings = []\<rparr>"

definition builder_binding :: "origin_policy_builder \<Rightarrow> origin_binding \<Rightarrow> origin_policy_builder" where
  "builder_binding b binding = b\<lparr>opb_bindings := opb_bindings b @ [binding]\<rparr>"

text \<open>The \<open>iter_mut().find\<close> of \<open>allow_origin\<close>: the first binding of the key gets the origin
  unless it has it; without one, a new binding goes to the end.\<close>

fun push_origin :: "bytes \<Rightarrow> string \<Rightarrow> origin_binding list \<Rightarrow> origin_binding list" where
  "push_origin key_id origin [] = [\<lparr>ob_key_id = key_id, ob_origins = [origin]\<rparr>]"
| "push_origin key_id origin (b # bs) =
     (if ob_key_id b = key_id
      then (if origin \<in> set (ob_origins b) then b
            else b\<lparr>ob_origins := ob_origins b @ [origin]\<rparr>) # bs
      else b # push_origin key_id origin bs)"

definition allow_origin ::
  "('p, 'q, 's, 'n) crates \<Rightarrow> origin_policy_builder \<Rightarrow> transparency_log \<Rightarrow> string
    \<Rightarrow> error + origin_policy_builder" where
  "allow_origin E b tlog origin =
     (let key_id = checkpoint_log_key_id E tlog in
      res_bind (validate_checkpoint_origin origin) (\<lambda>origin'.
      Inr (b\<lparr>opb_bindings := push_origin key_id origin' (opb_bindings b)\<rparr>)))"

fun allow_origins ::
  "('p, 'q, 's, 'n) crates \<Rightarrow> origin_policy_builder \<Rightarrow> transparency_log \<Rightarrow> string list
    \<Rightarrow> error + origin_policy_builder" where
  "allow_origins E b tlog [] = Inr b"
| "allow_origins E b tlog (origin # rest) =
     res_bind (allow_origin E b tlog origin) (\<lambda>b'. allow_origins E b' tlog rest)"

definition origin_builder_build :: "origin_policy_builder \<Rightarrow> error + origin_policy" where
  "origin_builder_build b = origin_policy_new (opb_bindings b)"

section \<open>The relation an origin policy denotes\<close>

text \<open>The promise of an origin store: adding a pair makes exactly that pair allowed.\<close>

locale origin_relation =
  fixes allowed :: "'s \<Rightarrow> bytes \<Rightarrow> string \<Rightarrow> bool"
    and add :: "bytes \<Rightarrow> string \<Rightarrow> 's \<Rightarrow> 's"
  assumes allowed_add: "allowed (add k u s) k' u' \<longleftrightarrow> allowed s k' u' \<or> (k' = k \<and> u' = u)"
begin

lemma allowed_fold:
  "allowed (fold (add k) us s) k' u' \<longleftrightarrow> allowed s k' u' \<or> (k' = k \<and> u' \<in> set us)"
  by (induction us arbitrary: s) (auto simp: allowed_add)

lemma add_order_irrelevant:
  "set us = set vs \<Longrightarrow> allowed (fold (add k) us s) k' u' = allowed (fold (add k) vs s) k' u'"
  by (simp add: allowed_fold)

lemma add_monotone: "allowed s k' u' \<Longrightarrow> allowed (fold (add k) us s) k' u'"
  by (simp add: allowed_fold)

end

lemma bindings_allow_iff:
  "bindings_allow bs k u \<longleftrightarrow> (\<exists>b \<in> set bs. ob_key_id b = k \<and> u \<in> set (ob_origins b))"
  by (auto simp: bindings_allow_def list_ex_iff)

lemma push_origin_allow:
  "bindings_allow (push_origin k u bs) k' u' \<longleftrightarrow> bindings_allow bs k' u' \<or> (k' = k \<and> u' = u)"
  by (induction k u bs rule: push_origin.induct) (auto simp: bindings_allow_iff)

interpretation origins: origin_relation bindings_allow push_origin
  by unfold_locales (rule push_origin_allow)

definition valid_origin :: "string \<Rightarrow> bool" where
  "valid_origin u \<longleftrightarrow> u \<noteq> [] \<and> CHR 0x0D \<notin> set u \<and> CHR 0x0A \<notin> set u"

lemma validate_origin_iff: "validate_checkpoint_origin u = Inr v \<longleftrightarrow> v = u \<and> valid_origin u"
  by (auto simp: validate_checkpoint_origin_def valid_origin_def)

lemma validate_origins_iff:
  "validate_checkpoint_origins us = Inr vs \<longleftrightarrow> vs = us \<and> us \<noteq> [] \<and> list_all valid_origin us"
proof -
  have "collect_results validate_checkpoint_origin us = Inr vs \<longleftrightarrow> vs = us \<and> list_all valid_origin us"
    for vs
    by (induction us arbitrary: vs) (auto simp: validate_origin_iff)
  then show ?thesis by (auto simp: validate_checkpoint_origins_def)
qed

text \<open>Well-formed bindings: nonempty lists of valid origins.\<close>

definition binding_wf :: "origin_binding \<Rightarrow> bool" where
  "binding_wf b \<longleftrightarrow> ob_origins b \<noteq> [] \<and> list_all valid_origin (ob_origins b)"

lemma origin_binding_new_iff:
  "origin_binding_new E tlog us = Inr b \<longleftrightarrow>
     b = \<lparr>ob_key_id = checkpoint_log_key_id E tlog, ob_origins = us\<rparr> \<and> binding_wf b"
  by (auto simp: origin_binding_new_def validate_origins_iff binding_wf_def)

lemma push_origin_wf:
  "valid_origin u \<Longrightarrow> list_all binding_wf bs \<Longrightarrow> list_all binding_wf (push_origin k u bs)"
  by (induction k u bs rule: push_origin.induct) (auto simp: binding_wf_def)

lemma push_origin_not_Nil [simp]: "push_origin k u bs \<noteq> []"
  by (cases bs) auto

lemma allow_origin_iff:
  "allow_origin E b tlog u = Inr b' \<longleftrightarrow> valid_origin u
     \<and> b' = b\<lparr>opb_bindings := push_origin (checkpoint_log_key_id E tlog) u (opb_bindings b)\<rparr>"
  by (auto simp: allow_origin_def Let_def validate_origin_iff)

lemma allow_origins_iff:
  "allow_origins E b tlog us = Inr b' \<longleftrightarrow> list_all valid_origin us
     \<and> b' = b\<lparr>opb_bindings := fold (push_origin (checkpoint_log_key_id E tlog)) us (opb_bindings b)\<rparr>"
  by (induction us arbitrary: b) (auto simp: allow_origin_iff)

text \<open>The builder refines the relation: after \<open>allow_origins\<close> the policy allows what it
  allowed before and the given origins for the digest of the given tlog's key.\<close>

lemma builder_refines:
  assumes "allow_origins E b tlog us = Inr b'" "origin_builder_build b' = Inr p"
  shows "allows p k u \<longleftrightarrow> bindings_allow (opb_bindings b) k u
     \<or> (k = sha256 E (pk_raw_bytes (tl_public_key tlog)) \<and> u \<in> set us)"
  using assms origins.allowed_fold
  by (auto simp: allow_origins_iff origin_builder_build_def origin_policy_new_def allows_def
      checkpoint_log_key_id_def split: if_splits)

lemma fold_push_wf:
  "list_all valid_origin us \<Longrightarrow> list_all binding_wf bs \<Longrightarrow> list_all binding_wf (fold (push_origin k) us bs)"
  by (induction us arbitrary: bs) (auto simp: push_origin_wf)

lemma allow_origins_wf:
  "allow_origins E b tlog us = Inr b' \<Longrightarrow> list_all binding_wf (opb_bindings b) \<Longrightarrow>
     list_all binding_wf (opb_bindings b')"
  by (auto simp: allow_origins_iff fold_push_wf)

lemma origin_policy_for_log_allows:
  "origin_policy_for_log E tlog us = Inr p \<Longrightarrow>
     allows p k u \<longleftrightarrow> k = checkpoint_log_key_id E tlog \<and> u \<in> set us"
  by (auto simp: origin_policy_for_log_def origin_binding_new_iff origin_policy_new_def allows_def
      bindings_allow_iff)

section \<open>Identity policies\<close>

record repository_identity =
  ri_owner :: string
  ri_name :: string
  ri_owner_id :: "u64 option"
  ri_repository_id :: "u64 option"

datatype ref_policy = Exact string | Glob string

datatype workflow_path = WorkflowPath string

datatype commit_sha = CommitSha bytes

datatype workflow_revision_policy = Any | Ref string | Sha commit_sha

record source_policy =
  sp_repository :: repository_identity
  sp_git_ref :: ref_policy
  sp_commit :: "commit_sha option"

record signer_policy =
  gp_repository :: repository_identity
  gp_path :: workflow_path
  gp_revision :: workflow_revision_policy

record github_policy =
  pol_source :: source_policy
  pol_signer :: signer_policy

record github_policy_builder =
  gb_source :: "source_policy option"
  gb_signer :: "signer_policy option"

definition repository_new :: "string \<Rightarrow> string \<Rightarrow> error + repository_identity" where
  "repository_new owner name =
     (if owner = [] then Inl (policy_error ''repository owner must not be empty'')
      else if name = [] then Inl (policy_error ''repository name must not be empty'')
      else Inr \<lparr>ri_owner = owner, ri_name = name, ri_owner_id = None, ri_repository_id = None\<rparr>)"

definition repository_parse :: "('p, 'q, 's, 'n) crates \<Rightarrow> string \<Rightarrow> error + repository_identity" where
  "repository_parse E owner_slash_name =
     (case split_once CHR ''/'' owner_slash_name of
        None \<Rightarrow> Inl (policy_error (''expected '' @ [CHR 0x22] @ ''owner/name'' @ [CHR 0x22] @ '', got ''
                   @ debug_str E owner_slash_name))
      | Some (owner, name) \<Rightarrow>
          if CHR ''/'' \<in> set name
          then Inl (policy_error (''expected exactly one '' @ [CHR 0x27] @ ''/'' @ [CHR 0x27] @ '' in ''
                   @ [CHR 0x22] @ ''owner/name'' @ [CHR 0x22] @ '', got '' @ debug_str E owner_slash_name))
          else repository_new owner name)"

definition with_owner_id :: "repository_identity \<Rightarrow> u64 \<Rightarrow> repository_identity" where
  "with_owner_id r i = r\<lparr>ri_owner_id := Some i\<rparr>"

definition with_repository_id :: "repository_identity \<Rightarrow> u64 \<Rightarrow> repository_identity" where
  "with_repository_id r i = r\<lparr>ri_repository_id := Some i\<rparr>"

definition workflow_path_new :: "string \<Rightarrow> error + workflow_path" where
  "workflow_path_new path =
     (if path = [] then Inl (policy_error ''workflow path must not be empty'') else Inr (WorkflowPath path))"

definition commit_sha_new :: "('p, 'q, 's, 'n) crates \<Rightarrow> string \<Rightarrow> error + commit_sha" where
  "commit_sha_new E sha =
     res_bind (map_err (\<lambda>e. policy_error (''invalid commit sha: '' @ parse_error_text e))
                 (strict_hex E 20 ''commit_sha'' sha)) (\<lambda>b. Inr (CommitSha b))"

fun commit_sha_to_hex :: "('p, 'q, 's, 'n) crates \<Rightarrow> commit_sha \<Rightarrow> string" where
  "commit_sha_to_hex E (CommitSha b) = hex_encode E b"

definition reject_signer_id_pins :: "signer_policy \<Rightarrow> error + unit" where
  "reject_signer_id_pins signer =
     (if ri_owner_id (gp_repository signer) \<noteq> None \<or> ri_repository_id (gp_repository signer) \<noteq> None
      then Inl (policy_error (''signer repository numeric id pins cannot be enforced: a Fulcio certificate carries ''
        @ ''no authenticated signer-repository owner or repository id claim, only the signer''
        @ [CHR 0x27] @ ''s owner/name in the SAN URI. Remove with_owner_id/with_repository_id from the signer ''
        @ ''repository (source-side numeric id pins are enforced)''))
      else Inr ())"

definition github_builder :: github_policy_builder where
  "github_builder = \<lparr>gb_source = None, gb_signer = None\<rparr>"

definition builder_source :: "github_policy_builder \<Rightarrow> source_policy \<Rightarrow> github_policy_builder" where
  "builder_source b s = b\<lparr>gb_source := Some s\<rparr>"

definition builder_signer :: "github_policy_builder \<Rightarrow> signer_policy \<Rightarrow> github_policy_builder" where
  "builder_signer b s = b\<lparr>gb_signer := Some s\<rparr>"

definition github_policy_build :: "github_policy_builder \<Rightarrow> error + github_policy" where
  "github_policy_build b =
     res_bind (ok_or (policy_error ''source policy is required'') (gb_source b)) (\<lambda>source.
     res_bind (ok_or (policy_error ''signer policy is required'') (gb_signer b)) (\<lambda>signer.
     res_bind (reject_signer_id_pins signer) (\<lambda>_.
     Inr \<lparr>pol_source = source, pol_signer = signer\<rparr>)))"

definition repository_wf :: "repository_identity \<Rightarrow> bool" where
  "repository_wf r \<longleftrightarrow> ri_owner r \<noteq> [] \<and> ri_name r \<noteq> []"

lemma repository_new_wf: "repository_new a b = Inr r \<Longrightarrow> repository_wf r"
  by (auto simp: repository_new_def repository_wf_def)

lemma with_id_wf:
  "repository_wf r \<Longrightarrow> repository_wf (with_owner_id r i)"
  "repository_wf r \<Longrightarrow> repository_wf (with_repository_id r i)"
  by (simp_all add: repository_wf_def with_owner_id_def with_repository_id_def)

text \<open>\<open>owner/name\<close>: the accepted texts, and the round trip.\<close>

lemma repository_parse_iff:
  "repository_parse E s = Inr r \<longleftrightarrow>
     s = ri_owner r @ CHR ''/'' # ri_name r \<and> ri_owner r \<noteq> [] \<and> ri_name r \<noteq> []
     \<and> CHR ''/'' \<notin> set (ri_owner r) \<and> CHR ''/'' \<notin> set (ri_name r)
     \<and> ri_owner_id r = None \<and> ri_repository_id r = None"
proof (cases "split_once CHR ''/'' s")
  case None
  then have "repository_parse E s \<noteq> Inr r" "CHR ''/'' \<notin> set s"
    by (simp add: repository_parse_def, simp add: split_once_None)
  then show ?thesis by auto
next
  case (Some on)
  then obtain owner name where p: "split_once CHR ''/'' s = Some (owner, name)" by (cases on) auto
  then have s: "s = owner @ CHR ''/'' # name" "CHR ''/'' \<notin> set owner"
    using split_once_Some [of "CHR ''/''" s owner name] by simp_all
  have "repository_parse E s = Inr r \<longleftrightarrow> CHR ''/'' \<notin> set name \<and> owner \<noteq> [] \<and> name \<noteq> [] \<and>
      ri_owner r = owner \<and> ri_name r = name \<and> ri_owner_id r = None \<and> ri_repository_id r = None"
    by (cases r) (auto simp: repository_parse_def p repository_new_def)
  moreover have "s = ri_owner r @ CHR ''/'' # ri_name r \<and> CHR ''/'' \<notin> set (ri_owner r)
      \<longleftrightarrow> ri_owner r = owner \<and> ri_name r = name"
    using s sep_append_eq [of "CHR ''/''" owner "ri_owner r" name "ri_name r"] by auto
  ultimately show ?thesis by blast
qed

lemma reject_signer_id_pins_ok [simp]:
  "reject_signer_id_pins s = Inr u \<longleftrightarrow>
     ri_owner_id (gp_repository s) = None \<and> ri_repository_id (gp_repository s) = None"
  by (auto simp: reject_signer_id_pins_def)

lemma github_policy_build_iff:
  "github_policy_build b = Inr p \<longleftrightarrow>
     gb_source b = Some (pol_source p) \<and> gb_signer b = Some (pol_signer p)
     \<and> ri_owner_id (gp_repository (pol_signer p)) = None
     \<and> ri_repository_id (gp_repository (pol_signer p)) = None"
  by (cases p) (auto simp: github_policy_build_def)

section \<open>Properties\<close>

text \<open>C27. The builder's origin policy denotes a relation: after \<open>allow_origins\<close> it allows what it
  allowed before and exactly the added origins for the digest of the given log's key, whatever
  the order of the calls and however often an origin is repeated.\<close>

theorem origin_builder_denotes:
  assumes "allow_origins E b tlog us = Inr b'" and "origin_builder_build b' = Inr p"
  shows "allows p k u \<longleftrightarrow> bindings_allow (opb_bindings b) k u
     \<or> (k = sha256 E (pk_raw_bytes (tl_public_key tlog)) \<and> u \<in> set us)"
  using assms by (rule builder_refines)

definition sample_log :: transparency_log where
  "sample_log = \<lparr>tl_base_url = ''https://log'', tl_hash_algorithm = ''SHA2_256'',
     tl_public_key = \<lparr>pk_raw_bytes = [7], pk_key_details = ''k'', pk_valid_for = \<lparr>vp_start = 0, vp_end = Some 100\<rparr>\<rparr>,
     tl_log_id_key_id = [], tl_checkpoint_key_id = None\<rparr>"

theorem origin_builder_denotes_witness:
  "\<exists>b p. allow_origins sample origin_builder sample_log [''a'', ''b'', ''a''] = Inr b
     \<and> origin_builder_build b = Inr p \<and> allows p (sample_sha256 [7]) ''b'' \<and> \<not> allows p (sample_sha256 [7]) ''c''"
proof -
  have "\<exists>b. allow_origins sample origin_builder sample_log [''a'', ''b'', ''a''] = Inr b"
    unfolding allow_origins_iff by (simp add: valid_origin_def)
  then obtain b where b: "allow_origins sample origin_builder sample_log [''a'', ''b'', ''a''] = Inr b" by blast
  have "opb_bindings b \<noteq> []" using b unfolding allow_origins_iff by simp
  then obtain p where p: "origin_builder_build b = Inr p"
    by (simp add: origin_builder_build_def origin_policy_new_def)
  have "allows p (sample_sha256 [7]) ''b''" "\<not> allows p (sample_sha256 [7]) ''c''"
    unfolding origin_builder_denotes [OF b p] by (simp_all add: sample_log_def origin_builder_def bindings_allow_iff)
  with b p show ?thesis by blast
qed

text \<open>\<open>RepositoryIdentity::parse\<close> accepts exactly the texts \<open>owner/name\<close> with one slash and two
  nonempty parts, and reads back what was written; no numeric id is pinned.\<close>

theorem repository_parse_roundtrip:
  "repository_parse E s = Inr r \<longleftrightarrow>
     s = ri_owner r @ CHR ''/'' # ri_name r \<and> ri_owner r \<noteq> [] \<and> ri_name r \<noteq> []
     \<and> CHR ''/'' \<notin> set (ri_owner r) \<and> CHR ''/'' \<notin> set (ri_name r)
     \<and> ri_owner_id r = None \<and> ri_repository_id r = None"
  by (rule repository_parse_iff)

text \<open>Both halves are required, and the signer pins no numeric id.\<close>

theorem github_policy_build_checks:
  "github_policy_build b = Inr p \<longleftrightarrow>
     gb_source b = Some (pol_source p) \<and> gb_signer b = Some (pol_signer p)
     \<and> ri_owner_id (gp_repository (pol_signer p)) = None
     \<and> ri_repository_id (gp_repository (pol_signer p)) = None"
  by (rule github_policy_build_iff)

end
