(* ===== verification/Signed_Note.thy ===== *)
theory Signed_Note
  imports Policies
begin

text \<open>
  \<open>src/src/rekor.rs\<close>, part 4: the checkpoint, a signed note. The parser keeps the exact text
  that is signed; the verification picks candidate signatures by their key hint and tries the
  ones whose name matches the log first. The search carries the test build's counter of signature
  checks, so that its cost is read off the model of the search itself.
\<close>

section \<open>Parsing\<close>

text \<open>The UTF-8 bytes of an em dash and a space.\<close>

definition CHECKPOINT_SIGNATURE_PREFIX :: string where
  "CHECKPOINT_SIGNATURE_PREFIX = [CHR 0xE2, CHR 0x80, CHR 0x94, CHR '' '']"

definition CHECKPOINT_KEY_HINT_BYTES :: nat where
  "CHECKPOINT_KEY_HINT_BYTES = 4"

record checkpoint_signature =
  sl_name :: string
  sl_key_hint :: bytes
  sl_signature :: bytes

record parsed_checkpoint =
  pc_origin :: string
  pc_tree_size :: u64
  pc_root_hash :: bytes
  pc_note_body :: string
  pc_signatures :: "checkpoint_signature list"

definition malformed :: "string \<Rightarrow> error" where
  "malformed reason = Parse (Checkpoint reason)"

text \<open>One signature line, after the empty ones have been skipped.\<close>

definition parse_signature_line ::
  "('p, 'q, 's, 'n) crates \<Rightarrow> string \<Rightarrow> error + checkpoint_signature" where
  "parse_signature_line E line =
     res_bind (ok_or (malformed (''signature line missing '' @ [CHR 0x22] @ CHECKPOINT_SIGNATURE_PREFIX
                                   @ [CHR 0x22] @ '' marker''))
                 (strip_prefix CHECKPOINT_SIGNATURE_PREFIX line)) (\<lambda>rest.
     res_bind (ok_or (malformed ''signature line missing name/signature separator'')
                 (split_once CHR '' '' rest)) (\<lambda>(name, blob_b64).
     res_bind (map_err Parse (strict_base64 E ''checkpoint signature line'' blob_b64)) (\<lambda>blob.
     if length blob \<le> CHECKPOINT_KEY_HINT_BYTES
     then Inl (malformed ''signature blob shorter than the 4-byte key hint'')
     else Inr \<lparr>sl_name = name, sl_key_hint = take CHECKPOINT_KEY_HINT_BYTES blob,
               sl_signature = drop CHECKPOINT_KEY_HINT_BYTES blob\<rparr>)))"

fun signature_loop ::
  "('p, 'q, 's, 'n) crates \<Rightarrow> string list \<Rightarrow> error + checkpoint_signature list" where
  "signature_loop E [] = Inr []"
| "signature_loop E (line # ls) =
     (if line = [] then signature_loop E ls
      else res_bind (parse_signature_line E line) (\<lambda>sig.
           res_bind (signature_loop E ls) (\<lambda>sigs. Inr (sig # sigs))))"

text \<open>The body lines: the origin, then tree size and root hash; further lines are not looked
  at.\<close>

definition read_size_and_root ::
  "('p, 'q, 's, 'n) crates \<Rightarrow> string list \<Rightarrow> error + (u64 \<times> bytes)" where
  "read_size_and_root E ls =
     (case ls of
        [] \<Rightarrow> Inl (malformed ''missing treeSize line'')
      | tree_size_line # body_lines \<Rightarrow>
          res_bind (ok_or (malformed ''treeSize line is not a valid unsigned integer'')
                      (parse_u64 tree_size_line)) (\<lambda>tree_size.
          (case body_lines of
             [] \<Rightarrow> Inl (malformed ''missing rootHash line'')
           | root_hash_line # _ \<Rightarrow>
               res_bind (map_err Parse (strict_base64 E ''checkpoint rootHash line'' root_hash_line)) (\<lambda>root_hash.
               Inr (tree_size, root_hash)))))"

definition parse_note_body ::
  "('p, 'q, 's, 'n) crates \<Rightarrow> string \<Rightarrow> error + (string \<times> u64 \<times> bytes)" where
  "parse_note_body E body_text =
     res_bind (ok_or (malformed ''missing origin line'') (split_once CHR 0x0A body_text))
       (\<lambda>(origin, body_without_origin).
     if origin = [] then Inl (malformed ''missing origin line'') else
     res_bind (read_size_and_root E (lines_of body_without_origin)) (\<lambda>(tree_size, root_hash).
     Inr (origin, tree_size, root_hash)))"

definition parse_checkpoint ::
  "('p, 'q, 's, 'n) crates \<Rightarrow> string \<Rightarrow> error + parsed_checkpoint" where
  "parse_checkpoint E envelope =
     res_bind (ok_or (malformed ''missing blank line separating body from signatures'')
                 (find_sub [CHR 0x0A, CHR 0x0A] envelope)) (\<lambda>blank_line_at.
     (let note_body = take (blank_line_at + 1) envelope;
          body_text = take blank_line_at envelope;
          signature_text = drop (blank_line_at + 2) envelope in
      res_bind (parse_note_body E body_text) (\<lambda>(origin, tree_size, root_hash).
      (let signature_line_count = length (filter (\<lambda>line. line \<noteq> []) (lines_of signature_text)) in
       if signature_line_count > MAX_CHECKPOINT_SIGNATURES
       then Inl (ResourceLimit (TooManyCheckpointSignatures signature_line_count MAX_CHECKPOINT_SIGNATURES))
       else
         res_bind (signature_loop E (lines_of signature_text)) (\<lambda>signatures.
         if signatures = [] then Inl (malformed ''no signature lines found'')
         else Inr \<lparr>pc_origin = origin, pc_tree_size = tree_size, pc_root_hash = root_hash,
                   pc_note_body = note_body, pc_signatures = signatures\<rparr>)))))"

section \<open>Verification\<close>

definition checkpoint_key_hint :: "('p, 'q, 's, 'n) crates \<Rightarrow> transparency_log \<Rightarrow> bytes option" where
  "checkpoint_key_hint E tlog =
     (case tl_checkpoint_key_id tlog of
        Some key_id \<Rightarrow> (if length key_id < CHECKPOINT_KEY_HINT_BYTES then None
                        else Some (take CHECKPOINT_KEY_HINT_BYTES key_id))
      | None \<Rightarrow> Some (take CHECKPOINT_KEY_HINT_BYTES (sha256 E (pk_raw_bytes (tl_public_key tlog)))))"

definition checkpoint_key_name_matches :: "transparency_log \<Rightarrow> string \<Rightarrow> bool" where
  "checkpoint_key_name_matches tlog name \<longleftrightarrow>
     name = tl_base_url tlog \<or> Some name = strip_prefix ''https://'' (tl_base_url tlog)"

text \<open>\<open>any\<close> over signature checks: it stops at the first that succeeds. The test build counts the
  checks (\<open>VERIFY_DER_CALLS\<close>), so the model carries the counter through the search.\<close>

fun any_calls :: "('a \<Rightarrow> nat \<Rightarrow> bool \<times> nat) \<Rightarrow> 'a list \<Rightarrow> nat \<Rightarrow> bool \<times> nat" where
  "any_calls check [] calls = (False, calls)"
| "any_calls check (x # xs) calls =
     (let (ok, calls') = check x calls in if ok then (True, calls') else any_calls check xs calls')"

text \<open>The two passes over the candidates.\<close>

definition candidate_verifies ::
  "('p, 'q, 's, 'n) crates \<Rightarrow> transparency_log \<Rightarrow> ('p, 'q) ecdsa_key \<Rightarrow> bytes \<Rightarrow> parsed_checkpoint \<Rightarrow> nat
    \<Rightarrow> bool \<times> nat" where
  "candidate_verifies E tlog log_key key_hint checkpoint calls =
     (let note_body_bytes = as_bytes (pc_note_body checkpoint);
          check = (\<lambda>s. verify_der_counted E log_key note_body_bytes (sl_signature s));
          (verified, calls') = any_calls check
             (filter (\<lambda>s. checkpoint_key_name_matches tlog (sl_name s))
               (filter (\<lambda>s. sl_key_hint s = key_hint) (pc_signatures checkpoint))) calls in
      if verified then (True, calls')
      else any_calls check
             (filter (\<lambda>s. \<not> checkpoint_key_name_matches tlog (sl_name s))
               (filter (\<lambda>s. sl_key_hint s = key_hint) (pc_signatures checkpoint))) calls')"

definition verify_checkpoint_counted ::
  "('p, 'q, 's, 'n) crates \<Rightarrow> string \<Rightarrow> u64 \<Rightarrow> bytes \<Rightarrow> transparency_log \<Rightarrow> ('p, 'q) ecdsa_key \<Rightarrow> nat
    \<Rightarrow> (error + parsed_checkpoint) \<times> nat" where
  "verify_checkpoint_counted E envelope proof_tree_size proof_root_hash tlog log_key calls =
     (case parse_checkpoint E envelope of
        Inl e \<Rightarrow> (Inl e, calls)
      | Inr checkpoint \<Rightarrow>
          if pc_tree_size checkpoint \<noteq> proof_tree_size
          then (Inl (Transparency CheckpointTreeSizeMismatch), calls)
          else if pc_root_hash checkpoint \<noteq> proof_root_hash
          then (Inl (Transparency CheckpointRootHashMismatch), calls)
          else
            (case checkpoint_key_hint E tlog of
               None \<Rightarrow> (Inl (Transparency CheckpointSignatureInvalid), calls)
             | Some key_hint \<Rightarrow>
                 (let (verified, calls') = candidate_verifies E tlog log_key key_hint checkpoint calls in
                  (if verified then Inr checkpoint else Inl (Transparency CheckpointSignatureInvalid), calls'))))"

text \<open>Without the counter.\<close>

definition verify_checkpoint ::
  "('p, 'q, 's, 'n) crates \<Rightarrow> string \<Rightarrow> u64 \<Rightarrow> bytes \<Rightarrow> transparency_log \<Rightarrow> ('p, 'q) ecdsa_key
    \<Rightarrow> error + parsed_checkpoint" where
  "verify_checkpoint E envelope proof_tree_size proof_root_hash tlog log_key =
     fst (verify_checkpoint_counted E envelope proof_tree_size proof_root_hash tlog log_key 0)"

definition verify_checkpoint_self_anchored ::
  "('p, 'q, 's, 'n) crates \<Rightarrow> string \<Rightarrow> transparency_log \<Rightarrow> ('p, 'q) ecdsa_key \<Rightarrow> error + unit" where
  "verify_checkpoint_self_anchored E envelope tlog log_key =
     res_bind (parse_checkpoint E envelope) (\<lambda>checkpoint.
     res_bind (verify_checkpoint E envelope (pc_tree_size checkpoint) (pc_root_hash checkpoint) tlog log_key) (\<lambda>_.
     Inr ()))"

section \<open>The structure of an accepted checkpoint\<close>

lemma signature_loop_collect:
  "signature_loop E ls = collect_results (parse_signature_line E) (filter (\<lambda>l. l \<noteq> []) ls)"
  by (induction ls) auto

lemma parse_signature_line_iff:
  "parse_signature_line E line = Inr s \<longleftrightarrow>
     (\<exists>b64. line = CHECKPOINT_SIGNATURE_PREFIX @ sl_name s @ CHR '' '' # b64 \<and> CHR '' '' \<notin> set (sl_name s)
        \<and> b64_decode E b64 = Inr (sl_key_hint s @ sl_signature s)
        \<and> length (sl_key_hint s) = 4 \<and> sl_signature s \<noteq> [])"
  (is "?l \<longleftrightarrow> ?r")
proof
  assume ?l
  then obtain rest name b64 blob where p: "line = CHECKPOINT_SIGNATURE_PREFIX @ rest"
    "split_once CHR '' '' rest = Some (name, b64)" "b64_decode E b64 = Inr blob"
    "4 < length blob" "s = \<lparr>sl_name = name, sl_key_hint = take 4 blob, sl_signature = drop 4 blob\<rparr>"
    by (auto simp: parse_signature_line_def strict_base64_def strip_prefix_Some CHECKPOINT_KEY_HINT_BYTES_def
        split: if_splits)
  then have "rest = name @ CHR '' '' # b64" "CHR '' '' \<notin> set name" by (simp_all add: split_once_Some)
  with p show ?r by auto
next
  assume ?r
  then obtain b64 where p: "line = CHECKPOINT_SIGNATURE_PREFIX @ sl_name s @ CHR '' '' # b64"
    "CHR '' '' \<notin> set (sl_name s)" "b64_decode E b64 = Inr (sl_key_hint s @ sl_signature s)"
    "length (sl_key_hint s) = 4" "sl_signature s \<noteq> []" by blast
  then show ?l
    by (cases s) (simp add: parse_signature_line_def strict_base64_def CHECKPOINT_KEY_HINT_BYTES_def)
qed

lemma find_blank_line:
  assumes "find_sub [CHR 0x0A, CHR 0x0A] env = Some i"
  shows "env = take i env @ CHR 0x0A # CHR 0x0A # drop (i + 2) env" "i + 2 \<le> length env"
proof -
  obtain r where r: "env = take i env @ [CHR 0x0A, CHR 0x0A] @ r" "i \<le> length env"
    using find_sub_Some [OF assms] by blast
  then have l: "length env = i + 2 + length r"
    by (metis length_append length_take min.absorb2 length_Cons list.size(3) add_Suc_right add.assoc numeral_2_eq_2 add_0_right)
  have "drop (i + 2) env = r"
    by (subst r(1)) (use l in simp)
  with r l show "env = take i env @ CHR 0x0A # CHR 0x0A # drop (i + 2) env" "i + 2 \<le> length env"
    by simp_all
qed

lemma read_size_and_root_iff:
  "read_size_and_root E ls = Inr (n, rh) \<longleftrightarrow>
     (\<exists>ts rl rest. ls = ts # rl # rest \<and> parse_u64 ts = Some n \<and> b64_decode E rl = Inr rh)"
proof (cases ls)
  case (Cons ts body)
  then show ?thesis by (cases body) (auto simp: read_size_and_root_def strict_base64_def)
qed (simp add: read_size_and_root_def)

lemma parse_note_body_iff:
  "parse_note_body E body = Inr (origin, n, rh) \<longleftrightarrow>
     (\<exists>rest. body = origin @ CHR 0x0A # rest \<and> origin \<noteq> [] \<and> CHR 0x0A \<notin> set origin
        \<and> read_size_and_root E (lines_of rest) = Inr (n, rh))"
  by (auto simp: parse_note_body_def split_once_Some)

text \<open>What the parser guarantees about the text and the number of signatures.\<close>

lemma parse_checkpoint_structure:
  assumes "parse_checkpoint E env = Inr c"
  shows "\<exists>sigtext rest. env = pc_note_body c @ CHR 0x0A # sigtext
      \<and> pc_note_body c = pc_origin c @ CHR 0x0A # rest \<and> last (pc_note_body c) = CHR 0x0A
      \<and> pc_origin c \<noteq> [] \<and> CHR 0x0A \<notin> set (pc_origin c)
      \<and> list_all2 (\<lambda>l s. parse_signature_line E l = Inr s)
          (filter (\<lambda>l. l \<noteq> []) (lines_of sigtext)) (pc_signatures c)"
    "0 < length (pc_signatures c)" "length (pc_signatures c) \<le> MAX_CHECKPOINT_SIGNATURES"
proof -
  obtain i where i: "find_sub [CHR 0x0A, CHR 0x0A] env = Some i"
    and b: "parse_note_body E (take i env) = Inr (pc_origin c, pc_tree_size c, pc_root_hash c)"
    and n: "length (filter (\<lambda>line. line \<noteq> []) (lines_of (drop (i + 2) env))) \<le> MAX_CHECKPOINT_SIGNATURES"
    and s: "signature_loop E (lines_of (drop (i + 2) env)) = Inr (pc_signatures c)"
    and ne: "pc_signatures c \<noteq> []" and nb: "pc_note_body c = take (i + 1) env"
    using assms by (auto simp: parse_checkpoint_def Let_def split: if_splits)
  note env = find_blank_line [OF i]
  have nb': "pc_note_body c = take i env @ [CHR 0x0A]"
    unfolding nb using env by (metis Suc_eq_plus1 add_2_eq_Suc' less_eq_Suc_le nth_append_length length_take
        min.absorb2 take_Suc_conv_app_nth Suc_leD)
  obtain rest where r: "take i env = pc_origin c @ CHR 0x0A # rest" "pc_origin c \<noteq> []"
    "CHR 0x0A \<notin> set (pc_origin c)"
    using b unfolding parse_note_body_iff by blast
  note sl = s [unfolded signature_loop_collect]
  show "0 < length (pc_signatures c)" using ne by simp
  show "length (pc_signatures c) \<le> MAX_CHECKPOINT_SIGNATURES"
    using collect_results_length [OF sl] n by simp
  have "env = pc_note_body c @ CHR 0x0A # drop (i + 2) env" using env(1) nb' by simp
  then show "\<exists>sigtext rest. env = pc_note_body c @ CHR 0x0A # sigtext
      \<and> pc_note_body c = pc_origin c @ CHR 0x0A # rest \<and> last (pc_note_body c) = CHR 0x0A
      \<and> pc_origin c \<noteq> [] \<and> CHR 0x0A \<notin> set (pc_origin c)
      \<and> list_all2 (\<lambda>l s. parse_signature_line E l = Inr s)
          (filter (\<lambda>l. l \<noteq> []) (lines_of sigtext)) (pc_signatures c)"
    using r nb' sl unfolding collect_results_eq_Inr
    by (intro exI [of _ "drop (i + 2) env"] exI [of _ "rest @ [CHR 0x0A]"]) simp
qed

section \<open>What a verified checkpoint establishes\<close>

text \<open>The search in closed form: the candidates with a matching name first, the others after them;
  the checks made are those up to the first that succeeds.\<close>

lemma any_calls_counted:
  "any_calls (\<lambda>x calls. (p x, calls + 1)) xs calls =
     (list_ex p xs, calls + length (takeWhile (\<lambda>x. \<not> p x) xs) + (if list_ex p xs then 1 else 0))"
  by (induction xs arbitrary: calls) simp_all

definition candidates :: "transparency_log \<Rightarrow> bytes \<Rightarrow> parsed_checkpoint \<Rightarrow> checkpoint_signature list" where
  "candidates tlog key_hint c =
     (let hinted = filter (\<lambda>s. sl_key_hint s = key_hint) (pc_signatures c) in
      filter (\<lambda>s. checkpoint_key_name_matches tlog (sl_name s)) hinted
      @ filter (\<lambda>s. \<not> checkpoint_key_name_matches tlog (sl_name s)) hinted)"

definition signs_note ::
  "('p, 'q, 's, 'n) crates \<Rightarrow> ('p, 'q) ecdsa_key \<Rightarrow> parsed_checkpoint \<Rightarrow> checkpoint_signature \<Rightarrow> bool" where
  "signs_note E k c s \<longleftrightarrow> verify_der E k (as_bytes (pc_note_body c)) (sl_signature s)"

lemma candidate_verifies_eq:
  "candidate_verifies E tlog k hint c calls =
     (list_ex (signs_note E k c) (candidates tlog hint c),
      calls + length (takeWhile (\<lambda>s. \<not> signs_note E k c s) (candidates tlog hint c))
        + (if list_ex (signs_note E k c) (candidates tlog hint c) then 1 else 0))"
proof -
  let ?p = "signs_note E k c"
  have one: "verify_der_counted E k (as_bytes (pc_note_body c)) (sl_signature s) = (\<lambda>n. (?p s, n + 1))" for s
    by (simp add: fun_eq_iff verify_der_counted_def signs_note_def)
  have take: "takeWhile (\<lambda>s. \<not> ?p s) (xs @ ys)
      = (if list_ex ?p xs then takeWhile (\<lambda>s. \<not> ?p s) xs else xs @ takeWhile (\<lambda>s. \<not> ?p s) ys)" for xs ys
    by (auto simp: list_ex_iff takeWhile_append)
  have all: "\<not> list_ex ?p xs \<Longrightarrow> takeWhile (\<lambda>s. \<not> ?p s) xs = xs" for xs
    by (simp add: list_ex_iff takeWhile_eq_all_conv)
  show ?thesis
    unfolding candidate_verifies_def candidates_def Let_def one any_calls_counted take
    by (simp add: all)
qed

lemma candidates_set: "s \<in> set (candidates tlog hint c) \<longleftrightarrow> s \<in> set (pc_signatures c) \<and> sl_key_hint s = hint"
  by (auto simp: candidates_def Let_def)

lemma candidates_length: "length (candidates tlog hint c) = length (filter (\<lambda>s. sl_key_hint s = hint) (pc_signatures c))"
  unfolding candidates_def Let_def length_append by (rule sum_length_filter_compl)

text \<open>The name only orders the attempts: some candidate with the right hint verifies.\<close>

lemma candidate_verifies_iff:
  "fst (candidate_verifies E tlog k hint c calls) \<longleftrightarrow>
     (\<exists>s \<in> set (pc_signatures c). sl_key_hint s = hint
        \<and> verify_der E k (as_bytes (pc_note_body c)) (sl_signature s))"
  unfolding candidate_verifies_eq fst_conv list_ex_iff by (auto simp: candidates_set signs_note_def)

lemma verify_checkpoint_counted_fst:
  "fst (verify_checkpoint_counted E env n rh tlog k calls) = verify_checkpoint E env n rh tlog k"
  by (auto simp: verify_checkpoint_def verify_checkpoint_counted_def candidate_verifies_eq
      split: sum.split option.split)

lemma verify_checkpoint_eq:
  "verify_checkpoint E env n rh tlog k =
     res_bind (parse_checkpoint E env) (\<lambda>checkpoint.
     if pc_tree_size checkpoint \<noteq> n then Inl (Transparency CheckpointTreeSizeMismatch)
     else if pc_root_hash checkpoint \<noteq> rh then Inl (Transparency CheckpointRootHashMismatch)
     else
       (case checkpoint_key_hint E tlog of
          None \<Rightarrow> Inl (Transparency CheckpointSignatureInvalid)
        | Some key_hint \<Rightarrow>
            if fst (candidate_verifies E tlog k key_hint checkpoint 0) then Inr checkpoint
            else Inl (Transparency CheckpointSignatureInvalid)))"
  by (cases "parse_checkpoint E env")
    (simp_all add: verify_checkpoint_def verify_checkpoint_counted_def split: option.split prod.split)

lemma verify_checkpoint_iff:
  "verify_checkpoint E env n rh tlog k = Inr c \<longleftrightarrow>
     parse_checkpoint E env = Inr c \<and> pc_tree_size c = n \<and> pc_root_hash c = rh
     \<and> (\<exists>hint. checkpoint_key_hint E tlog = Some hint
          \<and> (\<exists>s \<in> set (pc_signatures c). sl_key_hint s = hint
               \<and> verify_der E k (as_bytes (pc_note_body c)) (sl_signature s)))"
  by (auto simp: verify_checkpoint_eq candidate_verifies_iff split: option.splits)

lemma self_anchored_iff:
  "verify_checkpoint_self_anchored E env tlog k = Inr u \<longleftrightarrow>
     (\<exists>c. parse_checkpoint E env = Inr c \<and> (\<exists>hint. checkpoint_key_hint E tlog = Some hint
          \<and> (\<exists>s \<in> set (pc_signatures c). sl_key_hint s = hint
               \<and> verify_der E k (as_bytes (pc_note_body c)) (sl_signature s))))"
  by (auto simp: verify_checkpoint_self_anchored_def verify_checkpoint_iff)

text \<open>The number of signature checks of one run.\<close>

lemma takeWhile_shorter: "x \<in> set xs \<Longrightarrow> \<not> p x \<Longrightarrow> length (takeWhile p xs) < length xs"
  by (induction xs) auto

lemma candidate_calls_le: "snd (candidate_verifies E tlog k hint c calls) \<le> calls + length (candidates tlog hint c)"
proof -
  have "length (takeWhile (\<lambda>s. \<not> signs_note E k c s) (candidates tlog hint c)) < length (candidates tlog hint c)"
    if "list_ex (signs_note E k c) (candidates tlog hint c)"
    using that takeWhile_shorter unfolding list_ex_iff by fastforce
  then show ?thesis unfolding candidate_verifies_eq by (auto simp: length_takeWhile_le)
qed

text \<open>Once a candidate with a matching name verifies, the others are not tried.\<close>

lemma candidate_calls_named:
  assumes "s \<in> set (pc_signatures c)" "sl_key_hint s = hint" "checkpoint_key_name_matches tlog (sl_name s)"
    and "signs_note E k c s"
  shows "snd (candidate_verifies E tlog k hint c calls)
    \<le> calls + length (filter (\<lambda>s. sl_key_hint s = hint \<and> checkpoint_key_name_matches tlog (sl_name s)) (pc_signatures c))"
proof -
  let ?p = "signs_note E k c"
  define named where "named = filter (\<lambda>s. checkpoint_key_name_matches tlog (sl_name s))
      (filter (\<lambda>s. sl_key_hint s = hint) (pc_signatures c))"
  define others where "others = filter (\<lambda>s. \<not> checkpoint_key_name_matches tlog (sl_name s))
      (filter (\<lambda>s. sl_key_hint s = hint) (pc_signatures c))"
  have xs: "candidates tlog hint c = named @ others" by (simp add: candidates_def named_def others_def)
  have s: "s \<in> set named" using assms by (simp add: named_def)
  then have "takeWhile (\<lambda>s. \<not> ?p s) (named @ others) = takeWhile (\<lambda>s. \<not> ?p s) named"
    using assms(4) by (simp add: takeWhile_append1)
  moreover have "length (takeWhile (\<lambda>s. \<not> ?p s) named) < length named"
    using s assms(4) by (intro takeWhile_shorter) auto
  moreover have "length named = length (filter (\<lambda>s. sl_key_hint s = hint
      \<and> checkpoint_key_name_matches tlog (sl_name s)) (pc_signatures c))"
    by (simp add: named_def conj_commute)
  ultimately show ?thesis unfolding candidate_verifies_eq xs by simp
qed

text \<open>A run makes no check before the search, and those of the search in it.\<close>

lemma verify_checkpoint_calls:
  "snd (verify_checkpoint_counted E env n rh tlog k calls) = calls
   \<or> (\<exists>c hint. parse_checkpoint E env = Inr c \<and> checkpoint_key_hint E tlog = Some hint
      \<and> snd (verify_checkpoint_counted E env n rh tlog k calls) = snd (candidate_verifies E tlog k hint c calls))"
  by (cases "parse_checkpoint E env"; cases "checkpoint_key_hint E tlog")
    (simp_all add: verify_checkpoint_counted_def split: prod.split)

lemma checkpoint_calls_bound:
  assumes "parse_checkpoint E env = Inr c"
  shows "snd (verify_checkpoint_counted E env n rh tlog k calls)
    \<le> calls + length (filter (\<lambda>s. checkpoint_key_hint E tlog = Some (sl_key_hint s)) (pc_signatures c))"
  using verify_checkpoint_calls [of E env n rh tlog k calls]
proof (elim disjE exE conjE)
  fix d hint
  assume d: "parse_checkpoint E env = Inr d" and h: "checkpoint_key_hint E tlog = Some hint"
    and r: "snd (verify_checkpoint_counted E env n rh tlog k calls) = snd (candidate_verifies E tlog k hint d calls)"
  have same: "(\<lambda>s. checkpoint_key_hint E tlog = Some (sl_key_hint s)) = (\<lambda>s. sl_key_hint s = hint)"
    using h by auto
  show ?thesis unfolding same
    using r candidate_calls_le [of E tlog k hint d calls] d assms by (simp add: candidates_length)
qed simp

lemma checkpoint_calls_total:
  "snd (verify_checkpoint_counted E env n rh tlog k calls) \<le> calls + MAX_CHECKPOINT_SIGNATURES"
proof (cases "parse_checkpoint E env")
  case (Inl e)
  then show ?thesis by (simp add: verify_checkpoint_counted_def)
next
  case (Inr c)
  have "length (filter (\<lambda>s. checkpoint_key_hint E tlog = Some (sl_key_hint s)) (pc_signatures c))
      \<le> MAX_CHECKPOINT_SIGNATURES"
    using parse_checkpoint_structure(3) [OF Inr] length_filter_le order_trans by blast
  then show ?thesis using checkpoint_calls_bound [OF Inr, of n rh tlog k calls] by linarith
qed

lemma checkpoint_calls_named:
  assumes "parse_checkpoint E env = Inr c" "s \<in> set (pc_signatures c)"
    and "checkpoint_key_hint E tlog = Some (sl_key_hint s)" "checkpoint_key_name_matches tlog (sl_name s)"
    and "signs_note E k c s"
  shows "snd (verify_checkpoint_counted E env n rh tlog k calls)
    \<le> calls + length (filter (\<lambda>s. checkpoint_key_hint E tlog = Some (sl_key_hint s)
        \<and> checkpoint_key_name_matches tlog (sl_name s)) (pc_signatures c))"
proof -
  have same: "(\<lambda>u. checkpoint_key_hint E tlog = Some (sl_key_hint u) \<and> checkpoint_key_name_matches tlog (sl_name u))
      = (\<lambda>u. sl_key_hint u = sl_key_hint s \<and> checkpoint_key_name_matches tlog (sl_name u))"
    using assms(3) by auto
  from verify_checkpoint_calls [of E env n rh tlog k calls]
  show ?thesis unfolding same
  proof (elim disjE exE conjE)
    fix d hint
    assume "parse_checkpoint E env = Inr d" "checkpoint_key_hint E tlog = Some hint"
      and r: "snd (verify_checkpoint_counted E env n rh tlog k calls) = snd (candidate_verifies E tlog k hint d calls)"
    then have "d = c" "hint = sl_key_hint s" using assms(1,3) by simp_all
    with r candidate_calls_named [OF assms(2) refl assms(4,5), of calls]
    show "snd (verify_checkpoint_counted E env n rh tlog k calls)
      \<le> calls + length (filter (\<lambda>u. sl_key_hint u = sl_key_hint s \<and> checkpoint_key_name_matches tlog (sl_name u))
          (pc_signatures c))" by simp
  qed simp
qed

section \<open>Round trip of the note\<close>

definition print_signature_line :: "('p, 'q, 's, 'n) crates \<Rightarrow> checkpoint_signature \<Rightarrow> string" where
  "print_signature_line E s = CHECKPOINT_SIGNATURE_PREFIX @ sl_name s @ CHR '' ''
     # b64_encode E (sl_key_hint s @ sl_signature s)"

definition print_note_body :: "('p, 'q, 's, 'n) crates \<Rightarrow> string \<Rightarrow> u64 \<Rightarrow> bytes \<Rightarrow> string list \<Rightarrow> string" where
  "print_note_body E origin n rh exts = concat (map (\<lambda>l. l @ [CHR 0x0A])
     (origin # dec (unat n) # b64_encode E rh # exts))"

definition print_checkpoint ::
  "('p, 'q, 's, 'n) crates \<Rightarrow> string \<Rightarrow> u64 \<Rightarrow> bytes \<Rightarrow> string list \<Rightarrow> checkpoint_signature list \<Rightarrow> string" where
  "print_checkpoint E origin n rh exts sigs = print_note_body E origin n rh exts @ CHR 0x0A
     # concat (map (\<lambda>s. print_signature_line E s @ [CHR 0x0A]) sigs)"

text \<open>The encoder writes something for a nonempty input.\<close>

definition b64_nonempty :: "('p, 'q, 's, 'n) crates \<Rightarrow> bool" where
  "b64_nonempty E \<longleftrightarrow> (\<forall>b. b \<noteq> [] \<longrightarrow> b64_encode E b \<noteq> [])"

definition printable_signature :: "checkpoint_signature \<Rightarrow> bool" where
  "printable_signature s \<longleftrightarrow> CHR '' '' \<notin> set (sl_name s) \<and> CHR 0x0A \<notin> set (sl_name s)
     \<and> length (sl_key_hint s) = 4 \<and> sl_signature s \<noteq> []"

text \<open>The first blank line, over a text given line by line.\<close>

lemma find_sub_line:
  assumes "CHR 0x0A \<notin> set l" "l \<noteq> []"
  shows "find_sub [CHR 0x0A, CHR 0x0A] (l @ CHR 0x0A # s) =
    (if \<exists>r. s = CHR 0x0A # r then Some (length l)
     else map_option (\<lambda>i. length l + 1 + i) (find_sub [CHR 0x0A, CHR 0x0A] s))"
  using assms
proof (induction l)
  case Nil
  then show ?case by simp
next
  case (Cons x l)
  show ?case
  proof (cases "l = []")
    case True
    with Cons.prems show ?thesis
      by (cases s) (auto simp: starts_with_def option.map_comp comp_def split: if_splits)
  next
    case False
    with Cons show ?thesis
      by (auto simp: starts_with_def option.map_comp comp_def intro!: option.map_cong)
  qed
qed

lemma find_sub_lines:
  assumes "list_all (\<lambda>l. l \<noteq> [] \<and> CHR 0x0A \<notin> set l) ls" "ls \<noteq> []"
  shows "find_sub [CHR 0x0A, CHR 0x0A] (concat (map (\<lambda>l. l @ [CHR 0x0A]) ls) @ CHR 0x0A # s) =
    Some (length (concat (map (\<lambda>l. l @ [CHR 0x0A]) ls)) - 1)"
  using assms
proof (induction ls)
  case Nil
  then show ?case by simp
next
  case (Cons l ls)
  show ?case
  proof (cases "ls = []")
    case True
    with Cons.prems show ?thesis by (simp add: find_sub_line)
  next
    case False
    then obtain m ms where ls: "ls = m # ms" by (cases ls) auto
    with Cons.prems obtain x xs where m: "m = x # xs" "x \<noteq> CHR 0x0A" by (cases m) auto
    with Cons False ls show ?thesis by (simp add: find_sub_line)
  qed
qed

lemma lines_of_concat:
  "list_all (\<lambda>l. CHR 0x0A \<notin> set l) ls \<Longrightarrow>
     lines_of (concat (map (\<lambda>l. l @ [CHR 0x0A]) ls)) = map strip_cr ls"
  by (induction ls) (simp_all add: lines_of_line)

lemma b64_lines:
  assumes "b64_alphabet E"
  shows "CHR 0x0A \<notin> set (b64_encode E b)" "CHR 0x0D \<notin> set (b64_encode E b)"
    "CHR '' '' \<notin> set (b64_encode E b)"
  using b64_not_mem [OF assms] by simp_all

lemma parse_print_signature_line:
  assumes "b64_roundtrip E" "printable_signature s"
  shows "parse_signature_line E (print_signature_line E s) = Inr s"
  using assms by (auto simp: parse_signature_line_iff print_signature_line_def printable_signature_def)

lemma print_signature_line_clean:
  assumes "b64_alphabet E" "printable_signature s"
  shows "CHR 0x0A \<notin> set (print_signature_line E s)" "print_signature_line E s \<noteq> []"
    "b64_nonempty E \<Longrightarrow> strip_cr (print_signature_line E s) = print_signature_line E s"
proof -
  show "CHR 0x0A \<notin> set (print_signature_line E s)" "print_signature_line E s \<noteq> []"
    using assms b64_lines [OF assms(1)]
    by (auto simp: print_signature_line_def CHECKPOINT_SIGNATURE_PREFIX_def printable_signature_def)
  assume "b64_nonempty E"
  let ?b = "b64_encode E (sl_key_hint s @ sl_signature s)"
  have "?b \<noteq> []" using \<open>b64_nonempty E\<close> assms(2) by (simp add: b64_nonempty_def printable_signature_def)
  then have "last (print_signature_line E s) = last ?b" by (simp add: print_signature_line_def)
  moreover have "last ?b \<noteq> CHR 0x0D" using \<open>?b \<noteq> []\<close> b64_lines(2) [OF assms(1)] last_in_set by metis
  ultimately show "strip_cr (print_signature_line E s) = print_signature_line E s"
    by (simp add: strip_cr_def)
qed

lemma parse_checkpoint_parts:
  assumes "find_sub [CHR 0x0A, CHR 0x0A] (b @ CHR 0x0A # CHR 0x0A # st) = Some (length b)"
    "parse_note_body E b = Inr (origin, n, rh)" "signature_loop E (lines_of st) = Inr sigs" "sigs \<noteq> []"
    "length (filter (\<lambda>line. line \<noteq> []) (lines_of st)) \<le> MAX_CHECKPOINT_SIGNATURES"
  shows "parse_checkpoint E (b @ CHR 0x0A # CHR 0x0A # st) =
    Inr \<lparr>pc_origin = origin, pc_tree_size = n, pc_root_hash = rh,
         pc_note_body = b @ [CHR 0x0A], pc_signatures = sigs\<rparr>"
  using assms by (simp add: parse_checkpoint_def Let_def)

text \<open>Parsing a printed note gives the note back; extension lines are skipped.\<close>

lemma parse_print_checkpoint:
  assumes E: "b64_roundtrip E" "b64_alphabet E" "b64_nonempty E"
    and origin: "origin \<noteq> []" "CHR 0x0A \<notin> set origin"
    and rh: "rh \<noteq> []" and exts: "list_all (\<lambda>l. l \<noteq> [] \<and> CHR 0x0A \<notin> set l) exts"
    and sigs: "list_all printable_signature sigs" "sigs \<noteq> []" "length sigs \<le> MAX_CHECKPOINT_SIGNATURES"
  shows "parse_checkpoint E (print_checkpoint E origin n rh exts sigs) =
    Inr \<lparr>pc_origin = origin, pc_tree_size = n, pc_root_hash = rh,
         pc_note_body = print_note_body E origin n rh exts, pc_signatures = sigs\<rparr>"
proof -
  let ?ls = "dec (unat n) # b64_encode E rh # exts"
  let ?cat = "\<lambda>ls. concat (map (\<lambda>l. l @ [CHR 0x0A]) ls)"
  let ?body = "print_note_body E origin n rh exts"
  let ?sig = "?cat (map (print_signature_line E) sigs)"
  have env: "print_checkpoint E origin n rh exts sigs = ?body @ CHR 0x0A # ?sig"
    by (simp add: print_checkpoint_def comp_def)
  have clean: "list_all (\<lambda>l. l \<noteq> [] \<and> CHR 0x0A \<notin> set l) (origin # ?ls)"
    using origin exts rh E b64_lines(1) [OF E(2)] by (simp add: dec_not_mem b64_nonempty_def)
  have len: "?body \<noteq> []" "length ?body - 1 + 1 = length ?body"
    by (simp_all add: print_note_body_def)
  have find: "find_sub [CHR 0x0A, CHR 0x0A] (?body @ CHR 0x0A # ?sig) = Some (length ?body - 1)"
    using find_sub_lines [OF clean] by (simp add: print_note_body_def)
  define tl' where "tl' = (if exts = [] then [] else CHR 0x0A # butlast (?cat exts))"
  let ?b = "origin @ CHR 0x0A # dec (unat n) @ CHR 0x0A # b64_encode E rh @ tl'"
  have body: "?body = ?b @ [CHR 0x0A]"
    by (cases exts rule: rev_cases) (simp_all add: print_note_body_def tl'_def butlast_append)
  have "\<exists>ls. lines_of (b64_encode E rh @ tl') = b64_encode E rh # ls"
  proof (cases "exts = []")
    case True
    then show ?thesis using clean by (simp add: tl'_def lines_of_last)
  next
    case False
    then show ?thesis using clean b64_lines [OF E(2)] by (simp add: tl'_def lines_of_line)
  qed
  then have "read_size_and_root E (lines_of (dec (unat n) @ CHR 0x0A # b64_encode E rh @ tl')) = Inr (n, rh)"
    using E(1) by (auto simp: read_size_and_root_iff lines_of_line dec_not_mem)
  then have pb: "parse_note_body E ?b = Inr (origin, n, rh)"
    unfolding parse_note_body_iff using origin by auto
  have sl: "lines_of ?sig = map (print_signature_line E) sigs"
    using sigs(1) E
    by (subst lines_of_concat) (auto simp: list_all_iff print_signature_line_clean)
  have f: "filter (\<lambda>l. l \<noteq> []) (map (print_signature_line E) sigs) = map (print_signature_line E) sigs"
    using sigs(1) E(2) print_signature_line_clean(2) by (auto simp: filter_id_conv list_all_iff)
  have "list_all2 (\<lambda>l s. parse_signature_line E l = Inr s) (map (print_signature_line E) sigs) sigs"
    using sigs(1) parse_print_signature_line [OF E(1)] by (auto simp: list_all2_map1 list_all_iff intro: list.rel_refl_strong)
  then have loop: "signature_loop E (lines_of ?sig) = Inr sigs"
    unfolding signature_loop_collect sl f collect_results_eq_Inr .
  have "find_sub [CHR 0x0A, CHR 0x0A] (?b @ CHR 0x0A # CHR 0x0A # ?sig) = Some (length ?b)"
    using find unfolding body by simp
  from parse_checkpoint_parts [OF this pb loop] sigs(2,3) show ?thesis
    unfolding env body sl f by simp
qed

section \<open>Properties\<close>

text \<open>C17. A checkpoint is accepted if and only if it parses, repeats the size and root of the proof,
  and carries under the log's key hint a signature that verifies over the signed text. The names
  on the signature lines only order the attempts.\<close>

theorem verify_checkpoint_accepts:
  "verify_checkpoint E env n rh tlog k = Inr c \<longleftrightarrow>
     parse_checkpoint E env = Inr c \<and> pc_tree_size c = n \<and> pc_root_hash c = rh
     \<and> (\<exists>hint. checkpoint_key_hint E tlog = Some hint
          \<and> (\<exists>s \<in> set (pc_signatures c). sl_key_hint s = hint
               \<and> verify_der E k (as_bytes (pc_note_body c)) (sl_signature s)))"
  by (rule verify_checkpoint_iff)

text \<open>C34. Verifying a checkpoint runs the signature check at most 32 times, whatever the envelope: at
  most once for each line that carries the key hint of the log, so lines with other hints cost
  nothing, and at most once for each of those lines that also carries the log's name when one of
  them verifies, so lines with other names cost nothing then. The counter is the test build's; the
  outcome does not depend on it.\<close>

theorem checkpoint_work_bounded:
  "snd (verify_checkpoint_counted E env n rh tlog k calls) \<le> calls + 32
   \<and> fst (verify_checkpoint_counted E env n rh tlog k calls) = verify_checkpoint E env n rh tlog k
   \<and> (parse_checkpoint E env = Inr c \<longrightarrow>
        snd (verify_checkpoint_counted E env n rh tlog k calls)
          \<le> calls + length (filter (\<lambda>s. checkpoint_key_hint E tlog = Some (sl_key_hint s)) (pc_signatures c)))
   \<and> (parse_checkpoint E env = Inr c \<and> s \<in> set (pc_signatures c)
        \<and> checkpoint_key_hint E tlog = Some (sl_key_hint s) \<and> checkpoint_key_name_matches tlog (sl_name s)
        \<and> verify_der E k (as_bytes (pc_note_body c)) (sl_signature s) \<longrightarrow>
        snd (verify_checkpoint_counted E env n rh tlog k calls)
          \<le> calls + length (filter (\<lambda>s. checkpoint_key_hint E tlog = Some (sl_key_hint s)
                \<and> checkpoint_key_name_matches tlog (sl_name s)) (pc_signatures c)))"
proof (intro conjI impI)
  show "snd (verify_checkpoint_counted E env n rh tlog k calls) \<le> calls + 32"
    using checkpoint_calls_total [of E env n rh tlog k calls] by (simp add: MAX_CHECKPOINT_SIGNATURES_def)
  show "fst (verify_checkpoint_counted E env n rh tlog k calls) = verify_checkpoint E env n rh tlog k"
    by (rule verify_checkpoint_counted_fst)
qed (rule checkpoint_calls_bound, assumption,
    rule checkpoint_calls_named [where c = c and s = s], auto simp: signs_note_def)

lemma sample_b64_nonempty: "b64_nonempty sample"
  unfolding b64_nonempty_def sample_simps sample_b64_def
proof (intro allI impI)
  fix b :: bytes
  assume "b \<noteq> []"
  then show "spell b64_letters b \<noteq> []" by (cases b) simp_all
qed

definition sample_signature :: checkpoint_signature where
  "sample_signature = \<lparr>sl_name = ''log'', sl_key_hint = [7, 0, 0, 0], sl_signature = [7]\<rparr>"

text \<open>C22. Parsing inverts printing: a note printed from an origin, a size, a root, extension lines
  and at least one and at most 32 signatures parses to the same parts.\<close>

theorem checkpoint_roundtrip:
  assumes "b64_roundtrip E" "b64_alphabet E" "b64_nonempty E"
    and "origin \<noteq> []" "CHR 0x0A \<notin> set origin"
    and "rh \<noteq> []" and "list_all (\<lambda>l. l \<noteq> [] \<and> CHR 0x0A \<notin> set l) exts"
    and "list_all printable_signature sigs" "sigs \<noteq> []" "length sigs \<le> MAX_CHECKPOINT_SIGNATURES"
  shows "parse_checkpoint E (print_checkpoint E origin n rh exts sigs) =
    Inr \<lparr>pc_origin = origin, pc_tree_size = n, pc_root_hash = rh,
         pc_note_body = print_note_body E origin n rh exts, pc_signatures = sigs\<rparr>"
  using assms by (rule parse_print_checkpoint)

lemma sample_note:
  "parse_checkpoint sample (print_checkpoint sample ''log'' 1 [5] [''ext''] [sample_signature]) =
    Inr \<lparr>pc_origin = ''log'', pc_tree_size = 1, pc_root_hash = [5],
         pc_note_body = print_note_body sample ''log'' 1 [5] [''ext''], pc_signatures = [sample_signature]\<rparr>"
  by (rule parse_print_checkpoint [OF sample_b64_roundtrip sample_b64_alphabet sample_b64_nonempty])
    (simp_all add: sample_signature_def printable_signature_def MAX_CHECKPOINT_SIGNATURES_def)

theorem checkpoint_roundtrip_witness:
  "is_ok (parse_checkpoint sample (print_checkpoint sample ''log'' 2 [5] [''ext''] [sample_signature]))"
  by (subst checkpoint_roundtrip [OF sample_b64_roundtrip sample_b64_alphabet sample_b64_nonempty])
    (simp_all add: sample_signature_def printable_signature_def MAX_CHECKPOINT_SIGNATURES_def)

text \<open>A note with a decoy line under another name before the genuine one: one check.\<close>

definition sample_decoy :: checkpoint_signature where
  "sample_decoy = \<lparr>sl_name = ''other'', sl_key_hint = [7, 0, 0, 0], sl_signature = [9]\<rparr>"

definition sample_decoyed_note :: string where
  "sample_decoyed_note = print_checkpoint sample ''log'' 1 [5] [] [sample_decoy, sample_signature]"

theorem checkpoint_work_bounded_witness:
  "\<exists>c. parse_checkpoint sample sample_decoyed_note = Inr c \<and> length (pc_signatures c) = 2
     \<and> checkpoint_key_name_matches sample_log ''log''
     \<and> snd (verify_checkpoint_counted sample sample_decoyed_note 1 [5] sample_log (P256 [7]) 0) \<le> 1"
proof -
  let ?s = sample_signature
  let ?c = "\<lparr>pc_origin = ''log'', pc_tree_size = 1, pc_root_hash = [5],
      pc_note_body = print_note_body sample ''log'' 1 [5] [], pc_signatures = [sample_decoy, ?s]\<rparr>"
  have parsed: "parse_checkpoint sample sample_decoyed_note = Inr ?c"
    unfolding sample_decoyed_note_def
    by (rule parse_print_checkpoint [OF sample_b64_roundtrip sample_b64_alphabet sample_b64_nonempty])
      (simp_all add: sample_signature_def sample_decoy_def printable_signature_def MAX_CHECKPOINT_SIGNATURES_def)
  have named: "checkpoint_key_name_matches sample_log ''log''" "\<not> checkpoint_key_name_matches sample_log ''other''"
    by code_simp+
  have hint: "checkpoint_key_hint sample sample_log = Some [7, 0, 0, 0]" by code_simp
  have "snd (verify_checkpoint_counted sample sample_decoyed_note 1 [5] sample_log (P256 [7]) 0)
      \<le> 0 + length (filter (\<lambda>s. checkpoint_key_hint sample sample_log = Some (sl_key_hint s)
            \<and> checkpoint_key_name_matches sample_log (sl_name s)) (pc_signatures ?c))"
    using checkpoint_work_bounded [of sample sample_decoyed_note 1 "[5]" sample_log "P256 [7]" 0 ?c ?s] parsed named hint
    by (simp add: sample_signature_def)
  also have "\<dots> = 1" using named hint by (simp add: sample_signature_def sample_decoy_def)
  finally show ?thesis using parsed named by auto
qed

end
