(* ===== verification/Rekor.thy ===== *)
theory Rekor
  imports Signed_Note
begin

text \<open>
  \<open>src/src/rekor.rs\<close>, the rest: the entry body and its binding to the bundle, the signed
  entry timestamp, the choice of the log key, the time window, and the composed check.
\<close>

section \<open>The canonicalized body\<close>

definition TLOG_ENTRY_KIND :: string where "TLOG_ENTRY_KIND = ''dsse''"
definition TLOG_ENTRY_API_VERSION :: string where "TLOG_ENTRY_API_VERSION = ''0.0.1''"

record tlog_entry_body =
  tb_kind :: string
  tb_api_version :: string
  tb_envelope_hash :: bytes
  tb_payload_hash :: bytes
  tb_signature :: bytes
  tb_verifier_certificate_der :: bytes

definition parse_tlog_entry_body ::
  "('p, 'q, 's, 'n) crates \<Rightarrow> bytes \<Rightarrow> error + tlog_entry_body" where
  "parse_tlog_entry_body E canonicalized_body =
     res_bind (parse_strict E canonicalized_body) (\<lambda>value.
     res_bind (map_err (\<lambda>e. Parse (Json e)) (tlog_body_from_value E value)) (\<lambda>raw.
     if rtb_kind raw \<noteq> TLOG_ENTRY_KIND \<or> rtb_api_version raw \<noteq> TLOG_ENTRY_API_VERSION
     then Inl (Unsupported (TlogEntryKindVersion (rtb_kind raw) (rtb_api_version raw))) else
     res_bind (exactly_one (\<lambda>count. Parse (DsseSignatureCount count)) (rsd_signatures (rtb_spec raw))) (\<lambda>raw_signature.
     res_bind (map_err Parse (strict_hex E 32 ''spec.envelopeHash.value''
                 (rh_value (rsd_envelope_hash (rtb_spec raw))))) (\<lambda>envelope_hash.
     res_bind (map_err Parse (strict_hex E 32 ''spec.payloadHash.value''
                 (rh_value (rsd_payload_hash (rtb_spec raw))))) (\<lambda>payload_hash.
     res_bind (decode_b64 E ''spec.signatures[].signature'' (rsp_signature raw_signature)) (\<lambda>signature.
     res_bind (decode_b64 E ''spec.signatures[].verifier'' (rsp_verifier raw_signature)) (\<lambda>verifier_pem_bytes.
     res_bind (ok_or (Parse (Base64 ''spec.signatures[].verifier''
                         ''decoded PEM body is not valid UTF-8''))
                 (from_utf8 verifier_pem_bytes)) (\<lambda>verifier_pem_text.
     res_bind (map_err Parse (strict_pem E ''spec.signatures[].verifier'' ''CERTIFICATE'' verifier_pem_text)) (\<lambda>der.
     Inr \<lparr>tb_kind = rtb_kind raw, tb_api_version = rtb_api_version raw,
          tb_envelope_hash = envelope_hash, tb_payload_hash = payload_hash,
          tb_signature = signature, tb_verifier_certificate_der = der\<rparr>)))))))))"

definition json_string :: "('p, 'q, 's, 'n) crates \<Rightarrow> string \<Rightarrow> string" where
  "json_string E s = json_string_display E s"

definition quote :: string where "quote = [CHR 0x22]"

definition envelope_json :: "('p, 'q, 's, 'n) crates \<Rightarrow> dsse_envelope \<Rightarrow> string" where
  "envelope_json E envelope =
     ''{'' @ quote @ ''payload'' @ quote @ '':''
     @ json_string E (b64_encode E (de_payload envelope))
     @ '','' @ quote @ ''payloadType'' @ quote @ '':''
     @ json_string E (de_payload_type envelope)
     @ '','' @ quote @ ''signatures'' @ quote @ '':[{''
     @ (case ds_keyid (de_signature envelope) of
          Some keyid \<Rightarrow> (if keyid = [] then []
            else quote @ ''keyid'' @ quote @ '':'' @ json_string E keyid @ '','')
        | None \<Rightarrow> [])
     @ quote @ ''sig'' @ quote @ '':''
     @ json_string E (b64_encode E (ds_sig (de_signature envelope))) @ ''}]}''"

definition compute_envelope_hash :: "('p, 'q, 's, 'n) crates \<Rightarrow> dsse_envelope \<Rightarrow> bytes" where
  "compute_envelope_hash E envelope = sha256 E (as_bytes (envelope_json E envelope))"

definition check_entry_binding ::
  "('p, 'q, 's, 'n) crates \<Rightarrow> tlog_entry \<Rightarrow> tlog_entry_body \<Rightarrow> dsse_envelope \<Rightarrow> bytes \<Rightarrow> error + unit" where
  "check_entry_binding E tlog_entry body envelope leaf_certificate_der =
     (if te_kind tlog_entry \<noteq> tb_kind body \<or> te_version tlog_entry \<noteq> tb_api_version body
      then Inl (ContentBinding TlogEntryKindVersionMismatch)
      else if tb_signature body \<noteq> ds_sig (de_signature envelope)
      then Inl (ContentBinding TlogEntrySignatureMismatch)
      else if tb_verifier_certificate_der body \<noteq> leaf_certificate_der
      then Inl (ContentBinding TlogEntryCertificateMismatch)
      else if tb_payload_hash body \<noteq> sha256 E (de_payload envelope)
      then Inl (ContentBinding TlogEntryPayloadHashMismatch)
      else if tb_envelope_hash body \<noteq> compute_envelope_hash E envelope
      then Inl (ContentBinding TlogEntryEnvelopeHashMismatch)
      else Inr ())"

section \<open>The inclusion promise (SET)\<close>

definition set_signed_bytes :: "('p, 'q, 's, 'n) crates \<Rightarrow> bytes \<Rightarrow> u64 \<Rightarrow> bytes \<Rightarrow> u64 \<Rightarrow> bytes" where
  "set_signed_bytes E canonicalized_body integrated_time log_key_id log_index =
     as_bytes (''{'' @ quote @ ''body'' @ quote @ '':'' @ quote @ b64_encode E canonicalized_body @ quote
       @ '','' @ quote @ ''integratedTime'' @ quote @ '':'' @ dec (unat integrated_time)
       @ '','' @ quote @ ''logID'' @ quote @ '':'' @ quote @ hex_encode E log_key_id @ quote
       @ '','' @ quote @ ''logIndex'' @ quote @ '':'' @ dec (unat log_index) @ ''}'')"

definition verify_set ::
  "('p, 'q, 's, 'n) crates \<Rightarrow> tlog_entry \<Rightarrow> bytes \<Rightarrow> ('p, 'q) ecdsa_key \<Rightarrow> error + unit" where
  "verify_set E entry log_key_id log_key =
     (case te_inclusion_promise entry of
        None \<Rightarrow> Inl (Transparency SetMissing)
      | Some promise \<Rightarrow>
          (let message = set_signed_bytes E (te_canonicalized_body entry) (te_integrated_time entry)
                           log_key_id (te_log_index entry) in
           if verify_der E log_key message (signed_entry_timestamp promise) then Inr ()
           else Inl (Transparency SetInvalid)))"

definition select_log_key ::
  "('p, 'q, 's, 'n) crates \<Rightarrow> trust_store \<Rightarrow> bytes \<Rightarrow> error + (transparency_log \<times> ('p, 'q) ecdsa_key)" where
  "select_log_key E ts wanted_log_id =
     res_bind (ok_or (Transparency UnknownLogKey)
        (find (\<lambda>l. sha256 E (pk_raw_bytes (tl_public_key l)) = wanted_log_id) (ts_tlogs ts))) (\<lambda>l.
     res_bind (from_spki_der E (pk_raw_bytes (tl_public_key l))) (\<lambda>key. Inr (l, key)))"

section \<open>The time window\<close>

definition i64_try_from :: "u64 \<Rightarrow> int option" where
  "i64_try_from w = (if int (unat w) \<le> I64_MAX then Some (int (unat w)) else None)"

definition check_time_window :: "u64 \<Rightarrow> validity_period \<Rightarrow> int \<Rightarrow> int \<Rightarrow> error + unit" where
  "check_time_window integrated_time log_key_valid_for leaf_not_before leaf_not_after =
     (let outside_log_key = Timestamp IntegratedTimeOutsideLogKeyValidity in
      res_bind (ok_or outside_log_key (i64_try_from integrated_time)) (\<lambda>t.
      if \<not> (vp_start log_key_valid_for \<le> t \<and>
            (case vp_end log_key_valid_for of None \<Rightarrow> True | Some end \<Rightarrow> t < end))
      then Inl outside_log_key
      else if \<not> (leaf_not_before \<le> t \<and> t \<le> leaf_not_after)
      then Inl (Timestamp IntegratedTimeOutsideCertificateValidity)
      else Inr ()))"

section \<open>The composed check\<close>

record verified_timestamp =
  vt_integrated_time :: u64
  vt_log_index :: u64

definition the_tlog_entry :: "tlog_entry list \<Rightarrow> error + tlog_entry" where
  "the_tlog_entry entries =
     (case entries of
        [] \<Rightarrow> Inl (Transparency NoTlogEntries)
      | [entry] \<Rightarrow> Inr entry
      | entries \<Rightarrow> Inl (Unsupported (MultipleTlogEntries (length entries))))"

lemma the_tlog_entry_iff [simp]: "the_tlog_entry es = Inr e \<longleftrightarrow> es = [e]"
  by (auto simp: the_tlog_entry_def split: list.splits)

definition verify_tlog_entry ::
  "('p, 'q, 's, 'n) crates \<Rightarrow> sigstore_bundle \<Rightarrow> trust_store \<Rightarrow> origin_policy \<Rightarrow> error + verified_timestamp" where
  "verify_tlog_entry E bundle' ts policy =
     res_bind (the_tlog_entry (vm_tlog_entries (bundle_verification_material bundle'))) (\<lambda>entry.
     (let leaf_certificate = vm_certificate (bundle_verification_material bundle') in
      res_bind (parse_tlog_entry_body E (te_canonicalized_body entry)) (\<lambda>body.
      res_bind (check_entry_binding E entry body (bundle_dsse_envelope bundle') (cert_raw_bytes leaf_certificate)) (\<lambda>_.
      res_bind (select_log_key E ts (te_log_id_key_id entry)) (\<lambda>(l, log_key).
      (let selected_key_id = sha256 E (pk_raw_bytes (tl_public_key l)) in
       res_bind (verify_set E entry selected_key_id log_key) (\<lambda>_.
       res_bind (ok_or (Transparency InclusionProofMissing) (te_inclusion_proof entry)) (\<lambda>pf.
       res_bind (verify_inclusion_proof E (te_canonicalized_body entry) pf) (\<lambda>_.
       res_bind (verify_checkpoint E (cp_envelope (ip_checkpoint pf)) (ip_tree_size pf) (ip_root_hash pf) l log_key) (\<lambda>checkpoint.
       if \<not> allows policy selected_key_id (pc_origin checkpoint)
       then Inl (Transparency CheckpointOriginMismatch) else
       res_bind (leaf_info_from_certificate E leaf_certificate) (\<lambda>leaf_info.
       res_bind (check_time_window (te_integrated_time entry) (pk_valid_for (tl_public_key l))
                   (li_not_before leaf_info) (li_not_after leaf_info)) (\<lambda>_.
       Inr \<lparr>vt_integrated_time = te_integrated_time entry, vt_log_index = te_log_index entry\<rparr>))))))))))))"

section \<open>Properties\<close>

lemma check_entry_binding_iff:
  "check_entry_binding E e b env der = Inr u \<longleftrightarrow>
     te_kind e = tb_kind b \<and> te_version e = tb_api_version b
     \<and> tb_signature b = ds_sig (de_signature env) \<and> tb_verifier_certificate_der b = der
     \<and> tb_payload_hash b = sha256 E (de_payload env) \<and> tb_envelope_hash b = compute_envelope_hash E env"
  by (auto simp: check_entry_binding_def)

lemma parse_tlog_entry_body_wf:
  assumes "hex_decode_len E" "parse_tlog_entry_body E bs = Inr b"
  shows "tb_kind b = ''dsse'' \<and> tb_api_version b = ''0.0.1''
    \<and> length (tb_envelope_hash b) = 32 \<and> length (tb_payload_hash b) = 32"
  using assms
  by (auto simp: parse_tlog_entry_body_def strict_hex_def hex_decode_len_def TLOG_ENTRY_KIND_def
      TLOG_ENTRY_API_VERSION_def)

text \<open>The signed bytes determine all four fields.\<close>

lemma set_signed_bytes_inject:
  assumes "b64_roundtrip E" "b64_alphabet E" "hex_injective E" "hex_alphabet E"
  shows "set_signed_bytes E b t k i = set_signed_bytes E b' t' k' i' \<longleftrightarrow> b = b' \<and> t = t' \<and> k = k' \<and> i = i'"
proof
  assume eq: "set_signed_bytes E b t k i = set_signed_bytes E b' t' k' i'"
  have qb: "CHR 0x22 \<notin> set (b64_encode E x)" for x using b64_not_mem [OF assms(2)] by simp
  have qh: "CHR 0x22 \<notin> set (hex_encode E x)" for x by (rule hex_not_quote [OF assms(4)])
  have comma: "CHR '','' \<notin> set (dec n)" "CHR ''}'' \<notin> set (dec n)" for n by (simp_all add: dec_not_mem)
  note sep = sep_append_eq [OF qb qb] sep_append_eq [OF qh qh] sep_append_eq [OF comma(1) comma(1)]
    sep_append_eq [OF comma(2) comma(2)]
  from eq have "b64_encode E b = b64_encode E b' \<and> dec (unat t) = dec (unat t')
    \<and> hex_encode E k = hex_encode E k' \<and> dec (unat i) = dec (unat i')"
    by (simp add: set_signed_bytes_def quote_def sep)
  then have "b = b'" "unat t = unat t'" "k = k'" "unat i = unat i'"
    using assms(1,3) by (auto simp: b64_encode_inject hex_injective_def dest: injD)
  then show "b = b' \<and> t = t' \<and> k = k' \<and> i = i'" by (simp add: word_unat_eq_iff)
qed simp

lemma verify_set_iff:
  "verify_set E e kid k = Inr u \<longleftrightarrow> (\<exists>p. te_inclusion_promise e = Some p
     \<and> verify_der E k (set_signed_bytes E (te_canonicalized_body e) (te_integrated_time e) kid (te_log_index e))
         (signed_entry_timestamp p))"
  by (auto simp: verify_set_def Let_def split: option.splits)

lemma select_log_key_iff:
  "select_log_key E ts w = Inr (l, k) \<longleftrightarrow>
     (\<exists>us vs. ts_tlogs ts = us @ l # vs \<and> sha256 E (pk_raw_bytes (tl_public_key l)) = w
        \<and> (\<forall>u \<in> set us. sha256 E (pk_raw_bytes (tl_public_key u)) \<noteq> w))
     \<and> from_spki_der E (pk_raw_bytes (tl_public_key l)) = Inr k"
  by (auto simp: select_log_key_def find_Some_first)

lemma check_time_window_iff:
  "check_time_window t vp nb na = Inr u \<longleftrightarrow>
     int (unat t) < 2 ^ 63 \<and> vp_start vp \<le> int (unat t) \<and> (\<forall>e. vp_end vp = Some e \<longrightarrow> int (unat t) < e)
     \<and> nb \<le> int (unat t) \<and> int (unat t) \<le> na"
  by (auto simp: check_time_window_def Let_def i64_try_from_def I64_MAX_def split: option.splits)

text \<open>Everything that has been checked when an entry is accepted.\<close>

lemma verify_tlog_entry_iff:
  "verify_tlog_entry E b ts policy = Inr vt \<longleftrightarrow>
    (\<exists>e body l k pf c li.
       vm_tlog_entries (bundle_verification_material b) = [e]
     \<and> parse_tlog_entry_body E (te_canonicalized_body e) = Inr body
     \<and> check_entry_binding E e body (bundle_dsse_envelope b)
         (cert_raw_bytes (vm_certificate (bundle_verification_material b))) = Inr ()
     \<and> select_log_key E ts (te_log_id_key_id e) = Inr (l, k)
     \<and> verify_set E e (sha256 E (pk_raw_bytes (tl_public_key l))) k = Inr ()
     \<and> te_inclusion_proof e = Some pf
     \<and> verify_inclusion_proof E (te_canonicalized_body e) pf = Inr ()
     \<and> verify_checkpoint E (cp_envelope (ip_checkpoint pf)) (ip_tree_size pf) (ip_root_hash pf) l k = Inr c
     \<and> allows policy (sha256 E (pk_raw_bytes (tl_public_key l))) (pc_origin c)
     \<and> leaf_info_from_certificate E (vm_certificate (bundle_verification_material b)) = Inr li
     \<and> check_time_window (te_integrated_time e) (pk_valid_for (tl_public_key l))
         (li_not_before li) (li_not_after li) = Inr ()
     \<and> vt = \<lparr>vt_integrated_time = te_integrated_time e, vt_log_index = te_log_index e\<rparr>)"
  unfolding verify_tlog_entry_def Let_def by (auto simp: split_paired_Ex)

section \<open>The evidence behind an accepted entry\<close>

text \<open>The first log of the trust store whose key has the wanted digest.\<close>

definition selected_log :: "('p, 'q, 's, 'n) crates \<Rightarrow> trust_store \<Rightarrow> bytes \<Rightarrow> transparency_log \<Rightarrow> bool" where
  "selected_log E ts w l \<longleftrightarrow> (\<exists>us vs. ts_tlogs ts = us @ l # vs
     \<and> sha256 E (pk_raw_bytes (tl_public_key l)) = w
     \<and> (\<forall>u \<in> set us. sha256 E (pk_raw_bytes (tl_public_key u)) \<noteq> w))"

text \<open>The canonicalized body describes this very envelope and certificate.\<close>

definition body_describes ::
  "('p, 'q, 's, 'n) crates \<Rightarrow> tlog_entry \<Rightarrow> sigstore_bundle \<Rightarrow> bool" where
  "body_describes E e b \<longleftrightarrow> (\<exists>body. parse_tlog_entry_body E (te_canonicalized_body e) = Inr body
     \<and> te_kind e = tb_kind body \<and> te_version e = tb_api_version body
     \<and> tb_signature body = ds_sig (de_signature (bundle_dsse_envelope b))
     \<and> tb_verifier_certificate_der body = cert_raw_bytes (vm_certificate (bundle_verification_material b))
     \<and> tb_payload_hash body = sha256 E (de_payload (bundle_dsse_envelope b))
     \<and> tb_envelope_hash body = compute_envelope_hash E (bundle_dsse_envelope b))"

text \<open>The log promised inclusion of the entry at its time and index.\<close>

definition log_promised ::
  "('p, 'q, 's, 'n) crates \<Rightarrow> tlog_entry \<Rightarrow> ('p, 'q) ecdsa_key \<Rightarrow> bool" where
  "log_promised E e k \<longleftrightarrow> (\<exists>p. te_inclusion_promise e = Some p
     \<and> verify_der E k (set_signed_bytes E (te_canonicalized_body e) (te_integrated_time e)
          (te_log_id_key_id e) (te_log_index e)) (signed_entry_timestamp p))"

text \<open>The entry is in a tree whose head the log signed under an allowed origin.\<close>

definition in_signed_tree ::
  "('p, 'q, 's, 'n) crates \<Rightarrow> origin_policy \<Rightarrow> tlog_entry \<Rightarrow> transparency_log \<Rightarrow> ('p, 'q) ecdsa_key \<Rightarrow> bool" where
  "in_signed_tree E policy e l k \<longleftrightarrow> (\<exists>pf c hint. te_inclusion_proof e = Some pf
     \<and> length (ip_root_hash pf) = 32 \<and> hashes32 (ip_hashes pf)
     \<and> recompute_root E (rfc6962_leaf_hash E (te_canonicalized_body e)) (ip_log_index pf)
         (ip_tree_size pf) (ip_hashes pf) = Some (ip_root_hash pf)
     \<and> parse_checkpoint E (cp_envelope (ip_checkpoint pf)) = Inr c
     \<and> pc_tree_size c = ip_tree_size pf \<and> pc_root_hash c = ip_root_hash pf
     \<and> checkpoint_key_hint E l = Some hint
     \<and> (\<exists>s \<in> set (pc_signatures c). sl_key_hint s = hint
          \<and> verify_der E k (as_bytes (pc_note_body c)) (sl_signature s))
     \<and> allows policy (te_log_id_key_id e) (pc_origin c))"

text \<open>The time is inside the window of the log key and of the leaf certificate.\<close>

definition time_in_windows ::
  "('p, 'q, 's, 'n) crates \<Rightarrow> sigstore_bundle \<Rightarrow> transparency_log \<Rightarrow> u64 \<Rightarrow> bool" where
  "time_in_windows E b l w \<longleftrightarrow> (\<exists>li.
     leaf_info_from_certificate E (vm_certificate (bundle_verification_material b)) = Inr li
     \<and> int (unat w) < 2 ^ 63 \<and> vp_start (pk_valid_for (tl_public_key l)) \<le> int (unat w)
     \<and> (\<forall>t. vp_end (pk_valid_for (tl_public_key l)) = Some t \<longrightarrow> int (unat w) < t)
     \<and> li_not_before li \<le> int (unat w) \<and> int (unat w) \<le> li_not_after li)"

definition log_evidence ::
  "('p, 'q, 's, 'n) crates \<Rightarrow> trust_store \<Rightarrow> origin_policy \<Rightarrow> sigstore_bundle \<Rightarrow> tlog_entry \<Rightarrow> bool" where
  "log_evidence E ts policy b e \<longleftrightarrow> (\<exists>l k. vm_tlog_entries (bundle_verification_material b) = [e]
     \<and> body_describes E e b \<and> selected_log E ts (te_log_id_key_id e) l
     \<and> from_spki_der E (pk_raw_bytes (tl_public_key l)) = Inr k
     \<and> log_promised E e k \<and> in_signed_tree E policy e l k
     \<and> time_in_windows E b l (te_integrated_time e))"

definition timestamp_of :: "tlog_entry \<Rightarrow> verified_timestamp" where
  "timestamp_of e = \<lparr>vt_integrated_time = te_integrated_time e, vt_log_index = te_log_index e\<rparr>"

lemma select_log_key_selected:
  "select_log_key E ts w = Inr (l, k) \<longleftrightarrow>
     selected_log E ts w l \<and> from_spki_der E (pk_raw_bytes (tl_public_key l)) = Inr k"
  by (simp add: select_log_key_iff selected_log_def)

lemma selected_log_digest: "selected_log E ts w l \<Longrightarrow> sha256 E (pk_raw_bytes (tl_public_key l)) = w"
  by (auto simp: selected_log_def)

lemma in_signed_tree_iff:
  "in_signed_tree E policy e l k \<longleftrightarrow> (\<exists>pf c. te_inclusion_proof e = Some pf
     \<and> verify_inclusion_proof E (te_canonicalized_body e) pf = Inr ()
     \<and> verify_checkpoint E (cp_envelope (ip_checkpoint pf)) (ip_tree_size pf) (ip_root_hash pf) l k = Inr c
     \<and> allows policy (te_log_id_key_id e) (pc_origin c))"
  unfolding in_signed_tree_def verify_inclusion_proof_ok verify_checkpoint_iff by blast

lemma body_describes_iff:
  "body_describes E e b \<longleftrightarrow> (\<exists>body. parse_tlog_entry_body E (te_canonicalized_body e) = Inr body
     \<and> check_entry_binding E e body (bundle_dsse_envelope b)
         (cert_raw_bytes (vm_certificate (bundle_verification_material b))) = Inr ())"
  unfolding body_describes_def check_entry_binding_iff by blast

lemma time_in_windows_iff:
  "time_in_windows E b l w \<longleftrightarrow> (\<exists>li.
     leaf_info_from_certificate E (vm_certificate (bundle_verification_material b)) = Inr li
     \<and> check_time_window w (pk_valid_for (tl_public_key l)) (li_not_before li) (li_not_after li) = Inr ())"
  unfolding time_in_windows_def check_time_window_iff by blast

lemma log_promised_iff: "log_promised E e k \<longleftrightarrow> verify_set E e (te_log_id_key_id e) k = Inr ()"
  unfolding log_promised_def verify_set_iff by (rule refl)

lemma selected_log_cong:
  "selected_log E ts w l \<and> P (sha256 E (pk_raw_bytes (tl_public_key l))) \<longleftrightarrow> selected_log E ts w l \<and> P w"
  using selected_log_digest by fastforce

lemma verify_tlog_entry_evidence:
  "verify_tlog_entry E b ts policy = Inr vt \<longleftrightarrow> (\<exists>e. log_evidence E ts policy b e \<and> vt = timestamp_of e)"
proof -
  let ?rest = "\<lambda>e l k id. verify_set E e id k = Inr () \<and> (\<exists>pf c. te_inclusion_proof e = Some pf
     \<and> verify_inclusion_proof E (te_canonicalized_body e) pf = Inr ()
     \<and> verify_checkpoint E (cp_envelope (ip_checkpoint pf)) (ip_tree_size pf) (ip_root_hash pf) l k = Inr c
     \<and> allows policy id (pc_origin c))"
  have "verify_tlog_entry E b ts policy = Inr vt \<longleftrightarrow> (\<exists>e l k.
      vm_tlog_entries (bundle_verification_material b) = [e] \<and> body_describes E e b
      \<and> (selected_log E ts (te_log_id_key_id e) l \<and> ?rest e l k (sha256 E (pk_raw_bytes (tl_public_key l))))
      \<and> from_spki_der E (pk_raw_bytes (tl_public_key l)) = Inr k
      \<and> time_in_windows E b l (te_integrated_time e) \<and> vt = timestamp_of e)"
    unfolding verify_tlog_entry_iff body_describes_iff time_in_windows_iff timestamp_of_def
      select_log_key_selected by blast
  also have "\<dots> \<longleftrightarrow> (\<exists>e. log_evidence E ts policy b e \<and> vt = timestamp_of e)"
    unfolding selected_log_cong [of E ts _ _ "\<lambda>id. ?rest _ _ _ id"] log_evidence_def in_signed_tree_iff
      log_promised_iff by blast
  finally show ?thesis .
qed

section \<open>Properties\<close>

text \<open>C26. The bytes that a SET signs determine the entry body, the integration time, the log and the
  index: no SET can be moved to another entry.\<close>

theorem set_signed_bytes_unambiguous:
  assumes "b64_roundtrip E" "b64_alphabet E" "hex_injective E" "hex_alphabet E"
  shows "set_signed_bytes E b t k i = set_signed_bytes E b' t' k' i' \<longleftrightarrow> b = b' \<and> t = t' \<and> k = k' \<and> i = i'"
  using assms by (rule set_signed_bytes_inject)

theorem set_signed_bytes_unambiguous_witness:
  "set_signed_bytes sample [1] 5 [7] 0 \<noteq> set_signed_bytes sample [1] 5 [7] 1"
  using set_signed_bytes_unambiguous [OF sample_b64_roundtrip sample_b64_alphabet sample_hex_injective
    sample_hex_alphabet, of "[1]" 5 "[7]" 0 "[1]" 5 "[7]" 1] by simp

text \<open>The two windows of the time check with the error of each, the log key's first.\<close>

theorem check_time_window_exact:
  "check_time_window t vp nb na =
     (if int (unat t) < 2 ^ 63 \<and> vp_start vp \<le> int (unat t)
         \<and> (case vp_end vp of None \<Rightarrow> True | Some e \<Rightarrow> int (unat t) < e)
      then (if nb \<le> int (unat t) \<and> int (unat t) \<le> na then Inr ()
            else Inl (Timestamp IntegratedTimeOutsideCertificateValidity))
      else Inl (Timestamp IntegratedTimeOutsideLogKeyValidity))"
  by (auto simp: check_time_window_def Let_def i64_try_from_def I64_MAX_def split: option.splits)

text \<open>C9. \<open>verify_tlog_entry\<close> refines its specification: it accepts if and only if there is exactly
  one entry and the evidence of that entry is complete: its body describes this envelope and
  certificate, the first trusted log with its key digest promised it, it is in a tree whose head
  that log signed under an allowed origin, and its time is inside both windows.\<close>

theorem verify_tlog_entry_refines:
  "verify_tlog_entry E b ts policy = Inr vt \<longleftrightarrow> (\<exists>e. log_evidence E ts policy b e \<and> vt = timestamp_of e)"
  by (rule verify_tlog_entry_evidence)

end
