(* ===== verification/Interfaces.thy ===== *)
theory Interfaces
  imports Rekor
begin

text \<open>
  The interfaces that several components share, as locales: a half-open trust window, a loop
  that keeps the first success and otherwise the first error, and a reader of one field of a
  binary format. Each is interpreted in the theories of the components that provide it.
\<close>

section \<open>Half-open windows\<close>

text \<open>\<open>[start, end)\<close>, where an absent end never closes the window.\<close>

locale half_open_window =
  fixes inside :: "validity_period \<Rightarrow> int \<Rightarrow> bool"
  assumes inside_iff: "inside w t \<longleftrightarrow> vp_start w \<le> t \<and> (\<forall>e. vp_end w = Some e \<longrightarrow> t < e)"
begin

lemma start_included: "vp_end w = None \<or> vp_start w < the (vp_end w) \<Longrightarrow> inside w (vp_start w)"
  by (auto simp: inside_iff)

lemma end_excluded: "vp_end w = Some e \<Longrightarrow> \<not> inside w e"
  by (auto simp: inside_iff)

lemma convex: "inside w s \<Longrightarrow> inside w u \<Longrightarrow> s \<le> t \<Longrightarrow> t \<le> u \<Longrightarrow> inside w t"
  by (auto simp: inside_iff)

text \<open>Consecutive windows, as a key rotation writes them, never both hold.\<close>

lemma rotation_exclusive: "vp_end w = Some (vp_start w') \<Longrightarrow> \<not> (inside w t \<and> inside w' t)"
  by (auto simp: inside_iff)

lemma rotation_exhaustive:
  "vp_end w = Some (vp_start w') \<Longrightarrow> vp_start w \<le> vp_start w' \<Longrightarrow>
     inside w t \<or> inside w' t \<longleftrightarrow> vp_start w \<le> t \<and> (\<forall>e. vp_end w' = Some e \<longrightarrow> t < e \<or> t < vp_start w')"
  by (auto simp: inside_iff)

end

section \<open>The first success, else the first error\<close>

lemma first_split_Cons:
  "(\<exists>us x vs. y # ys = us @ x # vs \<and> P x \<and> (\<forall>u \<in> set us. Q u))
     \<longleftrightarrow> P y \<or> (Q y \<and> (\<exists>us x vs. ys = us @ x # vs \<and> P x \<and> (\<forall>u \<in> set us. Q u)))"
  (is "?l \<longleftrightarrow> ?r")
proof
  assume ?l
  then obtain us x vs where "y # ys = us @ x # vs" "P x" "\<forall>u \<in> set us. Q u" by blast
  then show ?r by (cases us) auto
next
  assume ?r
  then consider "P y" | us x vs where "Q y" "ys = us @ x # vs" "P x" "\<forall>u \<in> set us. Q u" by blast
  then show ?l
  proof cases
    case 1
    then show ?thesis by (intro exI [of _ "[]"] exI [of _ y] exI [of _ ys]) simp
  next
    case 2
    then have "y # ys = (y # us) @ x # vs \<and> P x \<and> (\<forall>u \<in> set (y # us). Q u)" by simp
    then show ?thesis by blast
  qed
qed

text \<open>An attempt succeeds, does not apply, or fails; \<open>run\<close> carries the first error seen.\<close>

locale first_success =
  fixes attempt :: "'a \<Rightarrow> 'e + 'b option"
    and default :: 'e
    and run :: "'a list \<Rightarrow> 'e option \<Rightarrow> 'e + 'b"
  assumes run_Nil: "run [] acc = Inl (case acc of Some e \<Rightarrow> e | None \<Rightarrow> default)"
    and run_Cons: "run (x # xs) acc = (case attempt x of
        Inr (Some v) \<Rightarrow> Inr v
      | Inr None \<Rightarrow> run xs acc
      | Inl e \<Rightarrow> run xs (case acc of None \<Rightarrow> Some e | Some f \<Rightarrow> Some f))"
begin

definition succeeds :: "'a \<Rightarrow> bool" where
  "succeeds x \<longleftrightarrow> (\<exists>v. attempt x = Inr (Some v))"

fun first_error :: "'a list \<Rightarrow> 'e option" where
  "first_error [] = None"
| "first_error (x # xs) = (case attempt x of Inl e \<Rightarrow> Some e | Inr _ \<Rightarrow> first_error xs)"

lemma run_fail:
  "\<forall>x \<in> set xs. \<not> succeeds x \<Longrightarrow> run xs acc = Inl (case acc of Some e \<Rightarrow> e
     | None \<Rightarrow> (case first_error xs of Some e \<Rightarrow> e | None \<Rightarrow> default))"
proof (induction xs arbitrary: acc)
  case Nil
  then show ?case by (simp add: run_Nil split: option.split)
next
  case (Cons x xs)
  then show ?case
    by (cases "attempt x") (auto simp: run_Cons succeeds_def split: option.splits)
qed

lemma run_skip: "\<forall>x \<in> set us. \<not> succeeds x \<Longrightarrow> attempt x = Inr (Some v) \<Longrightarrow> run (us @ x # vs) acc = Inr v"
proof (induction us arbitrary: acc)
  case (Cons u us)
  then show ?case by (cases "attempt u") (auto simp: run_Cons succeeds_def split: option.splits)
qed (simp add: run_Cons)

lemma run_success:
  "run xs acc = Inr v \<longleftrightarrow> (\<exists>us x vs. xs = us @ x # vs \<and> attempt x = Inr (Some v) \<and> (\<forall>u \<in> set us. \<not> succeeds u))"
proof
  assume r: "run xs acc = Inr v"
  have "\<exists>x \<in> set xs. succeeds x"
    using run_fail [of xs acc] r by (auto split: option.splits)
  then obtain us x vs where xs: "xs = us @ x # vs" "succeeds x" "\<forall>u \<in> set us. \<not> succeeds u"
    using split_list_first_prop [of xs succeeds] by blast
  then obtain v' where v': "attempt x = Inr (Some v')" by (auto simp: succeeds_def)
  have "run xs acc = Inr v'" using run_skip [OF xs(3) v'] xs(1) by simp
  with r v' xs show "\<exists>us x vs. xs = us @ x # vs \<and> attempt x = Inr (Some v) \<and> (\<forall>u \<in> set us. \<not> succeeds u)"
    by auto
next
  assume "\<exists>us x vs. xs = us @ x # vs \<and> attempt x = Inr (Some v) \<and> (\<forall>u \<in> set us. \<not> succeeds u)"
  then show "run xs acc = Inr v" using run_skip by blast
qed

lemma run_error:
  "run xs None = Inl e \<longleftrightarrow> (\<forall>x \<in> set xs. \<not> succeeds x)
     \<and> e = (case first_error xs of Some e \<Rightarrow> e | None \<Rightarrow> default)"
proof
  assume r: "run xs None = Inl e"
  have n: "\<forall>x \<in> set xs. \<not> succeeds x"
  proof (rule ccontr)
    assume "\<not> (\<forall>x \<in> set xs. \<not> succeeds x)"
    then obtain us x vs where xs: "xs = us @ x # vs" "succeeds x" "\<forall>u \<in> set us. \<not> succeeds u"
      using split_list_first_prop [of xs succeeds] by blast
    then obtain v where "attempt x = Inr (Some v)" by (auto simp: succeeds_def)
    with run_skip [OF xs(3) this] xs(1) r show False by simp
  qed
  with r run_fail [OF n, of None] show "(\<forall>x \<in> set xs. \<not> succeeds x)
     \<and> e = (case first_error xs of Some e \<Rightarrow> e | None \<Rightarrow> default)" by simp
qed (simp add: run_fail)

lemma first_error_Some:
  "first_error xs = Some e \<longleftrightarrow>
     (\<exists>us x vs. xs = us @ x # vs \<and> attempt x = Inl e \<and> (\<forall>u \<in> set us. \<exists>m. attempt u = Inr m))"
proof (induction xs)
  case (Cons y ys)
  show ?case unfolding first_split_Cons Cons [symmetric] by (cases "attempt y") auto
qed simp

lemma first_error_None: "first_error xs = None \<longleftrightarrow> (\<forall>x \<in> set xs. \<exists>m. attempt x = Inr m)"
  by (induction xs) (auto split: sum.split)

text \<open>Without a success, the attempts before the first error did not apply.\<close>

lemma run_error_split:
  "run xs None = Inl e \<longleftrightarrow> (\<forall>x \<in> set xs. \<not> succeeds x)
     \<and> ((\<exists>us x vs. xs = us @ x # vs \<and> attempt x = Inl e \<and> (\<forall>u \<in> set us. attempt u = Inr None))
        \<or> ((\<forall>x \<in> set xs. attempt x = Inr None) \<and> e = default))"
proof (cases "\<forall>x \<in> set xs. \<not> succeeds x")
  case True
  then have skip: "(\<exists>m. attempt x = Inr m) \<longleftrightarrow> attempt x = Inr None" if "x \<in> set xs" for x
    using that unfolding succeeds_def by (metis option.exhaust)
  have some: "first_error xs = Some e \<longleftrightarrow>
      (\<exists>us x vs. xs = us @ x # vs \<and> attempt x = Inl e \<and> (\<forall>u \<in> set us. attempt u = Inr None))"
    unfolding first_error_Some using skip by (metis Un_iff set_append)
  have none: "first_error xs = None \<longleftrightarrow> (\<forall>x \<in> set xs. attempt x = Inr None)"
    unfolding first_error_None using skip by blast
  show ?thesis unfolding run_error some [symmetric] none [symmetric]
    using True by (cases "first_error xs") auto
qed (use run_error in blast)

lemma run_total: "is_ok (run xs None) \<longleftrightarrow> (\<exists>x \<in> set xs. succeeds x)"
proof (cases "run xs None")
  case (Inl e)
  with run_error [of xs e] show ?thesis by simp
next
  case (Inr v)
  with run_success [of xs None v] obtain us x vs where "xs = us @ x # vs" "attempt x = Inr (Some v)"
    by blast
  with Inr show ?thesis by (auto simp: succeeds_def)
qed

end

section \<open>Fields of a binary format\<close>

text \<open>A reader returns a value and the rest of the input; a writer is its inverse.\<close>

locale wire_field =
  fixes decode :: "bytes \<Rightarrow> error + ('a \<times> bytes)"
    and encode :: "'a \<Rightarrow> bytes"
    and valid :: "'a \<Rightarrow> bool"
  assumes decode_encode: "valid x \<Longrightarrow> decode (encode x @ rest) = Inr (x, rest)"
    and decode_sound: "decode bs = Inr (x, rest) \<Longrightarrow> valid x \<and> bs = encode x @ rest"
begin

lemma decode_iff: "decode bs = Inr (x, rest) \<longleftrightarrow> valid x \<and> bs = encode x @ rest"
  using decode_encode decode_sound by blast

lemma encode_prefix_free:
  "valid x \<Longrightarrow> valid y \<Longrightarrow> encode x @ r = encode y @ s \<longleftrightarrow> x = y \<and> r = s"
  by (metis decode_encode prod.inject sum.inject(2))

lemma encode_inject: "valid x \<Longrightarrow> valid y \<Longrightarrow> encode x = encode y \<longleftrightarrow> x = y"
  using encode_prefix_free [of x y "[]" "[]"] by simp

lemma decode_shrinks: "decode bs = Inr (x, rest) \<Longrightarrow> length rest \<le> length bs"
  using decode_sound by fastforce

end

text \<open>Two fields in a row are a field.\<close>

locale field_pair = a: wire_field decode1 encode1 valid1 + b: wire_field decode2 encode2 valid2
  for decode1 :: "bytes \<Rightarrow> error + ('a \<times> bytes)" and encode1 valid1
    and decode2 :: "bytes \<Rightarrow> error + ('b \<times> bytes)" and encode2 valid2
begin

definition decode_pair :: "bytes \<Rightarrow> error + (('a \<times> 'b) \<times> bytes)" where
  "decode_pair bs = res_bind (decode1 bs) (\<lambda>(x, r). res_bind (decode2 r) (\<lambda>(y, s). Inr ((x, y), s)))"

definition encode_pair :: "'a \<times> 'b \<Rightarrow> bytes" where
  "encode_pair p = encode1 (fst p) @ encode2 (snd p)"

sublocale pair: wire_field decode_pair encode_pair "\<lambda>p. valid1 (fst p) \<and> valid2 (snd p)"
  by unfold_locales (auto simp: decode_pair_def encode_pair_def a.decode_iff b.decode_iff)

end

end
