(* ===== verification/X509.thy ===== *)
theory X509
  imports Interfaces
begin

text \<open>
  \<open>src/src/x509.rs\<close>: path validation of the leaf against the certificate authorities of the
  trust store, with the leaf and CA profiles. The specification of success is the inductive relation
  \<open>trusted_path\<close>; that of failure is a list of checks for each step, the first failed of which gives
  the error, with the relation \<open>path_fails\<close> for the chain and \<open>passed_over\<close> and \<open>authority_fails\<close> for
  the authorities.
\<close>

section \<open>Object identifiers and extension lookup\<close>

definition ECDSA_WITH_SHA_256 :: string where "ECDSA_WITH_SHA_256 = ''1.2.840.10045.4.3.2''"
definition ECDSA_WITH_SHA_384 :: string where "ECDSA_WITH_SHA_384 = ''1.2.840.10045.4.3.3''"
definition ID_KP_CODE_SIGNING :: string where "ID_KP_CODE_SIGNING = ''1.3.6.1.5.5.7.3.3''"
definition SCT_LIST_OID :: string where "SCT_LIST_OID = ''1.3.6.1.4.1.11129.2.4.2''"
definition ID_CE_KEY_USAGE :: string where "ID_CE_KEY_USAGE = ''2.5.29.15''"
definition ID_CE_SUBJECT_ALT_NAME :: string where "ID_CE_SUBJECT_ALT_NAME = ''2.5.29.17''"
definition ID_CE_BASIC_CONSTRAINTS :: string where "ID_CE_BASIC_CONSTRAINTS = ''2.5.29.19''"
definition ID_CE_EXT_KEY_USAGE :: string where "ID_CE_EXT_KEY_USAGE = ''2.5.29.37''"

definition KNOWN_LEAF_EXTENSION_OIDS :: "string list" where
  "KNOWN_LEAF_EXTENSION_OIDS = [ID_CE_KEY_USAGE, ID_CE_EXT_KEY_USAGE, ID_CE_BASIC_CONSTRAINTS,
     ID_CE_SUBJECT_ALT_NAME, SCT_LIST_OID]"

definition KNOWN_CA_CRITICAL_EXTENSION_OIDS :: "string list" where
  "KNOWN_CA_CRITICAL_EXTENSION_OIDS = [ID_CE_KEY_USAGE, ID_CE_BASIC_CONSTRAINTS]"

definition extensions_slice :: "'n x509_cert \<Rightarrow> x509_extension list" where
  "extensions_slice c = (case cert_extensions c of None \<Rightarrow> [] | Some exts \<Rightarrow> exts)"

fun reject_unknown_critical_extensions :: "x509_extension list \<Rightarrow> string list \<Rightarrow> error + unit" where
  "reject_unknown_critical_extensions [] known = Inr ()"
| "reject_unknown_critical_extensions (ext # exts) known =
     (if critical ext \<and> extn_id ext \<notin> set known then Inl (Certificate UnknownCriticalExtension)
      else reject_unknown_critical_extensions exts known)"

text \<open>\<open>matches.next()\<close> twice: the first match, an error if there is a second.\<close>

definition find_extension :: "x509_extension list \<Rightarrow> string \<Rightarrow> error + x509_extension option" where
  "find_extension extensions oid =
     (case filter (\<lambda>e. extn_id e = oid) extensions of
        [] \<Rightarrow> Inr None
      | [e] \<Rightarrow> Inr (Some e)
      | _ \<Rightarrow> Inl (Certificate DuplicateExtension))"

definition find_extension_decoded ::
  "(bytes \<Rightarrow> string + 't) \<Rightarrow> x509_extension list \<Rightarrow> string \<Rightarrow> error + 't option" where
  "find_extension_decoded from_der extensions oid =
     res_bind (find_extension extensions oid) (\<lambda>m.
     case m of
       None \<Rightarrow> Inr None
     | Some ext \<Rightarrow>
         res_bind (map_err (\<lambda>_. Certificate (InvalidDer ''certificate extension value''))
                     (from_der (extn_value ext))) (\<lambda>decoded. Inr (Some decoded)))"

section \<open>Profiles\<close>

definition verify_leaf_profile :: "('p, 'q, 's, 'n) crates \<Rightarrow> 'n x509_cert \<Rightarrow> error + unit" where
  "verify_leaf_profile E leaf =
     (let extensions = extensions_slice leaf in
      res_bind (reject_unknown_critical_extensions extensions KNOWN_LEAF_EXTENSION_OIDS) (\<lambda>_.
      res_bind (find_extension_decoded (basic_constraints_from_der E) extensions ID_CE_BASIC_CONSTRAINTS) (\<lambda>bc.
      if (case bc of Some bc \<Rightarrow> bc_ca bc | None \<Rightarrow> False)
      then Inl (Certificate InvalidBasicConstraints) else
      res_bind (find_extension_decoded (key_usage_from_der E) extensions ID_CE_KEY_USAGE) (\<lambda>ku.
      res_bind (ok_or (Certificate MissingKeyUsage) ku) (\<lambda>key_usage.
      if \<not> ku_digital_signature key_usage then Inl (Certificate MissingKeyUsage) else
      res_bind (find_extension_decoded (ext_key_usage_from_der E) extensions ID_CE_EXT_KEY_USAGE) (\<lambda>ek.
      res_bind (ok_or (Certificate MissingCodeSigningEku) ek) (\<lambda>eku.
      if ID_KP_CODE_SIGNING \<notin> set eku then Inl (Certificate MissingCodeSigningEku)
      else Inr ())))))))"

definition verify_ca_profile ::
  "('p, 'q, 's, 'n) crates \<Rightarrow> 'n x509_cert \<Rightarrow> nat \<Rightarrow> error + unit" where
  "verify_ca_profile E cert subordinate_ca_count =
     (let extensions = extensions_slice cert in
      res_bind (reject_unknown_critical_extensions extensions KNOWN_CA_CRITICAL_EXTENSION_OIDS) (\<lambda>_.
      res_bind (find_extension_decoded (basic_constraints_from_der E) extensions ID_CE_BASIC_CONSTRAINTS) (\<lambda>b.
      res_bind (ok_or (Certificate InvalidBasicConstraints) b) (\<lambda>bc.
      if \<not> bc_ca bc then Inl (Certificate InvalidBasicConstraints)
      else if (case bc_path_len_constraint bc of
                 Some limit \<Rightarrow> subordinate_ca_count > unat limit | None \<Rightarrow> False)
      then Inl (Certificate PathLengthExceeded) else
      res_bind (find_extension_decoded (key_usage_from_der E) extensions ID_CE_KEY_USAGE) (\<lambda>ku.
      res_bind (ok_or (Certificate MissingKeyUsage) ku) (\<lambda>key_usage.
      if \<not> ku_key_cert_sign key_usage then Inl (Certificate MissingKeyUsage)
      else Inr ()))))))"

section \<open>Windows and signatures\<close>

definition within_valid_for :: "int \<Rightarrow> validity_period \<Rightarrow> bool" where
  "within_valid_for t window \<longleftrightarrow>
     vp_start window \<le> t \<and> (case vp_end window of None \<Rightarrow> True | Some e \<Rightarrow> t < e)"

definition verify_time_window :: "'n x509_cert \<Rightarrow> int \<Rightarrow> error + unit" where
  "verify_time_window cert authenticated_time =
     (let not_before = unix_seconds (cert_not_before cert);
          not_after = unix_seconds (cert_not_after cert) in
      if authenticated_time < not_before \<or> authenticated_time > not_after
      then Inl (Certificate OutsideCertificateValidity) else Inr ())"

definition encode_certificate_error :: "string + bytes \<Rightarrow> error + bytes" where
  "encode_certificate_error r = map_err (\<lambda>e. Certificate (InvalidDer e)) r"

definition decode_certificate ::
  "('p, 'q, 's, 'n) crates \<Rightarrow> bytes \<Rightarrow> error + 'n x509_cert" where
  "decode_certificate E der_bytes = map_err (\<lambda>e. Certificate (InvalidDer e)) (x509_from_der E der_bytes)"

fun expected_oid :: "('p, 'q) ecdsa_key \<Rightarrow> string" where
  "expected_oid (P256 _) = ECDSA_WITH_SHA_256"
| "expected_oid (P384 _) = ECDSA_WITH_SHA_384"

definition verify_signature ::
  "('p, 'q, 's, 'n) crates \<Rightarrow> 'n x509_cert \<Rightarrow> 'n x509_cert \<Rightarrow> error + unit" where
  "verify_signature E child issuer =
     res_bind (encode_certificate_error (cert_spki_to_der issuer)) (\<lambda>issuer_spki_der.
     res_bind (from_spki_der E issuer_spki_der) (\<lambda>issuer_key.
     if cert_signature_algorithm child \<noteq> expected_oid issuer_key
     then Inl (Certificate UnsupportedSignatureAlgorithm) else
     res_bind (encode_certificate_error (cert_tbs_to_der child)) (\<lambda>tbs_der.
     if verify_der E issuer_key tbs_der (cert_signature child) then Inr ()
     else Inl (Certificate SignatureInvalid))))"

section \<open>Path validation\<close>

record 'n validated_leaf =
  vl_leaf :: "'n x509_cert"
  vl_leaf_spki_der :: bytes
  vl_issuer_spki_der :: bytes
  vl_chain_length :: nat

text \<open>The walk from the signee up the chain, with the position of the issuer in it.\<close>

fun walk_chain ::
  "('p, 'q, 's, 'n) crates \<Rightarrow> int \<Rightarrow> 'n x509_cert \<Rightarrow> nat \<Rightarrow> 'n x509_cert list \<Rightarrow> error + unit" where
  "walk_chain E t signee i [] = Inr ()"
| "walk_chain E t signee i (issuer # chain) =
     (if cert_subject issuer \<noteq> cert_issuer signee then Inl (Certificate IssuerNameMismatch) else
      res_bind (verify_time_window issuer t) (\<lambda>_.
      res_bind (verify_ca_profile E issuer i) (\<lambda>_.
      res_bind (verify_signature E signee issuer) (\<lambda>_.
      walk_chain E t issuer (i + 1) chain))))"

definition try_validate_against_ca ::
  "('p, 'q, 's, 'n) crates \<Rightarrow> 'n x509_cert \<Rightarrow> int \<Rightarrow> certificate_authority
    \<Rightarrow> error + 'n validated_leaf option" where
  "try_validate_against_ca E leaf authenticated_time ca =
     res_bind (collect_results (\<lambda>c. decode_certificate E (cert_raw_bytes c)) (ca_certificates ca)) (\<lambda>chain.
     (case chain of
        [] \<Rightarrow> Inr None
      | direct_issuer # _ \<Rightarrow>
          if cert_subject direct_issuer \<noteq> cert_issuer leaf then Inr None
          else if \<not> within_valid_for authenticated_time (ca_valid_for ca)
          then Inl (Certificate OutsideCaValidity) else
          res_bind (verify_time_window leaf authenticated_time) (\<lambda>_.
          res_bind (verify_leaf_profile E leaf) (\<lambda>_.
          res_bind (walk_chain E authenticated_time leaf 0 chain) (\<lambda>_.
          res_bind (encode_certificate_error (cert_spki_to_der leaf)) (\<lambda>leaf_spki_der.
          res_bind (encode_certificate_error (cert_spki_to_der direct_issuer)) (\<lambda>issuer_spki_der.
          Inr (Some \<lparr>vl_leaf = leaf, vl_leaf_spki_der = leaf_spki_der,
                     vl_issuer_spki_der = issuer_spki_der, vl_chain_length = length chain\<rparr>))))))))"

fun ca_loop ::
  "('p, 'q, 's, 'n) crates \<Rightarrow> 'n x509_cert \<Rightarrow> int \<Rightarrow> certificate_authority list \<Rightarrow> error option
    \<Rightarrow> error + 'n validated_leaf" where
  "ca_loop E leaf t [] name_matched_error =
     Inl (case name_matched_error of Some e \<Rightarrow> e | None \<Rightarrow> Certificate UntrustedCertificate)"
| "ca_loop E leaf t (ca # cas) name_matched_error =
     (case try_validate_against_ca E leaf t ca of
        Inr (Some validated) \<Rightarrow> Inr validated
      | Inr None \<Rightarrow> ca_loop E leaf t cas name_matched_error
      | Inl e \<Rightarrow> ca_loop E leaf t cas
                   (case name_matched_error of None \<Rightarrow> Some e | Some f \<Rightarrow> Some f))"

definition validate_chain ::
  "('p, 'q, 's, 'n) crates \<Rightarrow> bytes \<Rightarrow> trust_store \<Rightarrow> int \<Rightarrow> error + 'n validated_leaf" where
  "validate_chain E leaf_der ts authenticated_time =
     res_bind (map_err (\<lambda>e. Certificate (InvalidDer e)) (x509_from_der E leaf_der)) (\<lambda>leaf.
     ca_loop E leaf authenticated_time (ts_certificate_authorities ts) None)"

interpretation ca_window: half_open_window "\<lambda>w t. within_valid_for t w"
  by unfold_locales (auto simp: within_valid_for_def split: option.split)

interpretation ca_attempts: first_success "try_validate_against_ca E leaf t"
    "Certificate UntrustedCertificate" "ca_loop E leaf t" for E leaf t
  by unfold_locales simp_all

section \<open>The specification\<close>

lemma reject_unknown_iff [simp]:
  "reject_unknown_critical_extensions exts known = Inr u \<longleftrightarrow>
     (\<forall>e \<in> set exts. critical e \<longrightarrow> extn_id e \<in> set known)"
  by (induction exts) auto

lemma find_extension_None:
  "find_extension exts oid = Inr None \<longleftrightarrow> (\<forall>e \<in> set exts. extn_id e \<noteq> oid)"
proof -
  have "find_extension exts oid = Inr None \<longleftrightarrow> filter (\<lambda>e. extn_id e = oid) exts = []"
    by (auto simp: find_extension_def split: list.splits)
  then show ?thesis by (simp add: filter_empty_conv)
qed

lemma find_extension_Some:
  "find_extension exts oid = Inr (Some e) \<longleftrightarrow> filter (\<lambda>e. extn_id e = oid) exts = [e]"
  by (auto simp: find_extension_def split: list.splits)

lemma find_extension_duplicate:
  "find_extension exts oid = Inl err \<longleftrightarrow>
     2 \<le> length (filter (\<lambda>e. extn_id e = oid) exts) \<and> err = Certificate DuplicateExtension"
  by (cases "filter (\<lambda>e. extn_id e = oid) exts"; cases "tl (filter (\<lambda>e. extn_id e = oid) exts)")
    (auto simp: find_extension_def)

text \<open>The extension \<open>oid\<close> occurs exactly once and decodes to \<open>x\<close>.\<close>

definition has_extension :: "(bytes \<Rightarrow> string + 't) \<Rightarrow> 'n x509_cert \<Rightarrow> string \<Rightarrow> 't \<Rightarrow> bool" where
  "has_extension from_der c oid x \<longleftrightarrow>
     (\<exists>e. filter (\<lambda>e. extn_id e = oid) (extensions_slice c) = [e] \<and> from_der (extn_value e) = Inr x)"

definition lacks_extension :: "'n x509_cert \<Rightarrow> string \<Rightarrow> bool" where
  "lacks_extension c oid \<longleftrightarrow> (\<forall>e \<in> set (extensions_slice c). extn_id e \<noteq> oid)"

lemma find_extension_decoded_Some:
  "find_extension_decoded f (extensions_slice c) oid = Inr (Some x) \<longleftrightarrow> has_extension f c oid x"
  by (auto simp: find_extension_decoded_def has_extension_def find_extension_Some split: option.splits)

lemma find_extension_decoded_None:
  "find_extension_decoded f (extensions_slice c) oid = Inr None \<longleftrightarrow> lacks_extension c oid"
  by (auto simp: find_extension_decoded_def lacks_extension_def find_extension_None split: option.splits)

definition critical_known :: "'n x509_cert \<Rightarrow> string list \<Rightarrow> bool" where
  "critical_known c known \<longleftrightarrow> (\<forall>e \<in> set (extensions_slice c). critical e \<longrightarrow> extn_id e \<in> set known)"

definition leaf_profile :: "('p, 'q, 's, 'n) crates \<Rightarrow> 'n x509_cert \<Rightarrow> bool" where
  "leaf_profile E c \<longleftrightarrow> critical_known c KNOWN_LEAF_EXTENSION_OIDS
     \<and> (lacks_extension c ID_CE_BASIC_CONSTRAINTS
        \<or> (\<exists>bc. has_extension (basic_constraints_from_der E) c ID_CE_BASIC_CONSTRAINTS bc \<and> \<not> bc_ca bc))
     \<and> (\<exists>ku. has_extension (key_usage_from_der E) c ID_CE_KEY_USAGE ku \<and> ku_digital_signature ku)
     \<and> (\<exists>eku. has_extension (ext_key_usage_from_der E) c ID_CE_EXT_KEY_USAGE eku \<and> ID_KP_CODE_SIGNING \<in> set eku)"

definition ca_profile :: "('p, 'q, 's, 'n) crates \<Rightarrow> 'n x509_cert \<Rightarrow> nat \<Rightarrow> bool" where
  "ca_profile E c below \<longleftrightarrow> critical_known c KNOWN_CA_CRITICAL_EXTENSION_OIDS
     \<and> (\<exists>bc. has_extension (basic_constraints_from_der E) c ID_CE_BASIC_CONSTRAINTS bc \<and> bc_ca bc
          \<and> (\<forall>limit. bc_path_len_constraint bc = Some limit \<longrightarrow> below \<le> unat limit))
     \<and> (\<exists>ku. has_extension (key_usage_from_der E) c ID_CE_KEY_USAGE ku \<and> ku_key_cert_sign ku)"

text \<open>The two shapes of a lookup in the profiles: required, and optional with a check.\<close>

lemma required_extension:
  "res_bind (find_extension_decoded f (extensions_slice c) oid) (\<lambda>m. res_bind (ok_or e m) g) = Inr r
     \<longleftrightarrow> (\<exists>x. has_extension f c oid x \<and> g x = Inr r)"
  by (auto simp: find_extension_decoded_Some [symmetric])

lemma optional_extension:
  "res_bind (find_extension_decoded f (extensions_slice c) oid)
       (\<lambda>m. if (case m of Some x \<Rightarrow> bad x | None \<Rightarrow> False) then Inl e else g) = Inr r
     \<longleftrightarrow> (lacks_extension c oid \<or> (\<exists>x. has_extension f c oid x \<and> \<not> bad x)) \<and> g = Inr r"
  (is "?l \<longleftrightarrow> ?r")
proof
  assume ?l
  then obtain m where m: "find_extension_decoded f (extensions_slice c) oid = Inr m"
    "\<not> (case m of Some x \<Rightarrow> bad x | None \<Rightarrow> False)" "g = Inr r" by auto
  then show ?r
    by (cases m) (auto simp: find_extension_decoded_Some find_extension_decoded_None)
next
  assume r: ?r
  then consider "find_extension_decoded f (extensions_slice c) oid = Inr None"
    | x where "find_extension_decoded f (extensions_slice c) oid = Inr (Some x)" "\<not> bad x"
    by (auto simp: find_extension_decoded_Some find_extension_decoded_None)
  then show ?l by cases (simp_all add: r)
qed

lemma verify_ca_profile_iff: "verify_ca_profile E c i = Inr u \<longleftrightarrow> ca_profile E c i"
proof -
  have len: "\<not> (case bc_path_len_constraint bc of Some limit \<Rightarrow> i > unat limit | None \<Rightarrow> False)
      \<longleftrightarrow> (\<forall>limit. bc_path_len_constraint bc = Some limit \<longrightarrow> i \<le> unat limit)" for bc
    by (auto split: option.splits)
  show ?thesis
    unfolding verify_ca_profile_def Let_def ca_profile_def critical_known_def
      res_bind_eq_Inr [of "reject_unknown_critical_extensions _ _"] reject_unknown_iff
      required_extension guard_eq_Inr len
    by auto
qed

lemma verify_leaf_profile_iff: "verify_leaf_profile E c = Inr u \<longleftrightarrow> leaf_profile E c"
  unfolding verify_leaf_profile_def Let_def leaf_profile_def critical_known_def
    res_bind_eq_Inr [of "reject_unknown_critical_extensions _ _"] reject_unknown_iff
    optional_extension required_extension guard_eq_Inr
  by auto

definition valid_at :: "'n x509_cert \<Rightarrow> int \<Rightarrow> bool" where
  "valid_at c t \<longleftrightarrow> unix_seconds (cert_not_before c) \<le> t \<and> t \<le> unix_seconds (cert_not_after c)"

lemma verify_time_window_iff: "verify_time_window c t = Inr u \<longleftrightarrow> valid_at c t"
  by (auto simp: verify_time_window_def valid_at_def Let_def)

text \<open>\<open>issuer\<close> signed \<open>child\<close> with the one algorithm its curve allows.\<close>

definition signed_by :: "('p, 'q, 's, 'n) crates \<Rightarrow> 'n x509_cert \<Rightarrow> 'n x509_cert \<Rightarrow> bool" where
  "signed_by E child issuer \<longleftrightarrow> (\<exists>spki k tbs. cert_spki_to_der issuer = Inr spki
     \<and> from_spki_der E spki = Inr k \<and> cert_signature_algorithm child = expected_oid k
     \<and> cert_tbs_to_der child = Inr tbs \<and> verify_der E k tbs (cert_signature child))"

lemma verify_signature_iff: "verify_signature E child issuer = Inr u \<longleftrightarrow> signed_by E child issuer"
  by (auto simp: verify_signature_def signed_by_def encode_certificate_error_def)

inductive trusted_path ::
  "('p, 'q, 's, 'n) crates \<Rightarrow> int \<Rightarrow> 'n x509_cert \<Rightarrow> nat \<Rightarrow> 'n x509_cert list \<Rightarrow> bool" for E t where
  anchor: "trusted_path E t signee i []"
| step: "trusted_path E t signee i (issuer # chain)"
    if "cert_subject issuer = cert_issuer signee" and "valid_at issuer t"
      and "ca_profile E issuer i" and "signed_by E signee issuer"
      and "trusted_path E t issuer (i + 1) chain"

inductive_simps trusted_path_Nil [simp]: "trusted_path E t signee i []"
inductive_simps trusted_path_Cons: "trusted_path E t signee i (issuer # chain)"

lemma trusted_path_head:
  "trusted_path E t signee i chain \<Longrightarrow> chain \<noteq> [] \<Longrightarrow> cert_subject (hd chain) = cert_issuer signee"
  by (cases chain) (simp_all add: trusted_path_Cons)

lemma trusted_path_valid: "trusted_path E t signee i chain \<Longrightarrow> list_all (\<lambda>c. valid_at c t) chain"
  by (induction rule: trusted_path.induct) simp_all

lemma walk_chain_iff: "walk_chain E t signee i chain = Inr u \<longleftrightarrow> trusted_path E t signee i chain"
  by (induction chain arbitrary: signee i)
    (auto simp: trusted_path_Cons verify_time_window_iff verify_ca_profile_iff verify_signature_iff)

text \<open>One certificate authority vouches for the leaf at a time.\<close>

definition vouches ::
  "('p, 'q, 's, 'n) crates \<Rightarrow> int \<Rightarrow> 'n x509_cert \<Rightarrow> certificate_authority \<Rightarrow> 'n x509_cert list \<Rightarrow> bool" where
  "vouches E t leaf ca chain \<longleftrightarrow>
     list_all2 (\<lambda>c d. x509_from_der E (cert_raw_bytes c) = Inr d) (ca_certificates ca) chain
     \<and> chain \<noteq> [] \<and> within_valid_for t (ca_valid_for ca) \<and> valid_at leaf t \<and> leaf_profile E leaf
     \<and> trusted_path E t leaf 0 chain"

lemma try_validate_iff:
  "try_validate_against_ca E leaf t ca = Inr (Some vl) \<longleftrightarrow>
     (\<exists>chain. vouches E t leaf ca chain \<and> vl_leaf vl = leaf
        \<and> cert_spki_to_der leaf = Inr (vl_leaf_spki_der vl)
        \<and> cert_spki_to_der (hd chain) = Inr (vl_issuer_spki_der vl) \<and> vl_chain_length vl = length chain)"
proof -
  have dec: "collect_results (\<lambda>c. decode_certificate E (cert_raw_bytes c)) (ca_certificates ca) = Inr chain
      \<longleftrightarrow> list_all2 (\<lambda>c d. x509_from_der E (cert_raw_bytes c) = Inr d) (ca_certificates ca) chain" for chain
    by (simp add: collect_results_eq_Inr decode_certificate_def)
  have body: "(case chain of [] \<Rightarrow> Inr None
      | direct_issuer # _ \<Rightarrow>
          if cert_subject direct_issuer \<noteq> cert_issuer leaf then Inr None
          else if \<not> within_valid_for t (ca_valid_for ca)
          then Inl (Certificate OutsideCaValidity) else
          res_bind (verify_time_window leaf t) (\<lambda>_.
          res_bind (verify_leaf_profile E leaf) (\<lambda>_.
          res_bind (walk_chain E t leaf 0 chain) (\<lambda>_.
          res_bind (encode_certificate_error (cert_spki_to_der leaf)) (\<lambda>leaf_spki_der.
          res_bind (encode_certificate_error (cert_spki_to_der direct_issuer)) (\<lambda>issuer_spki_der.
          Inr (Some \<lparr>vl_leaf = leaf, vl_leaf_spki_der = leaf_spki_der,
                     vl_issuer_spki_der = issuer_spki_der, vl_chain_length = length chain\<rparr>))))))) = Inr (Some vl)
    \<longleftrightarrow> chain \<noteq> [] \<and> cert_subject (hd chain) = cert_issuer leaf \<and> within_valid_for t (ca_valid_for ca)
      \<and> valid_at leaf t \<and> leaf_profile E leaf \<and> trusted_path E t leaf 0 chain \<and> vl_leaf vl = leaf
      \<and> cert_spki_to_der leaf = Inr (vl_leaf_spki_der vl)
      \<and> cert_spki_to_der (hd chain) = Inr (vl_issuer_spki_der vl) \<and> vl_chain_length vl = length chain"
    (is "?b chain = _ \<longleftrightarrow> ?r chain") for chain
  proof (cases chain)
    case (Cons d ds)
    show ?thesis
    proof (cases "cert_subject d = cert_issuer leaf")
      case True
      show ?thesis
        unfolding Cons list.case if_not_P [OF not_not [THEN iffD2, OF True]] guard_eq_Inr
          res_bind_eq_Inr verify_time_window_iff verify_leaf_profile_iff walk_chain_iff
          encode_certificate_error_def map_err_eq_Inr
        using True by (cases vl) auto
    qed (simp add: Cons)
  qed simp
  have "try_validate_against_ca E leaf t ca = Inr (Some vl) \<longleftrightarrow> (\<exists>chain.
      collect_results (\<lambda>c. decode_certificate E (cert_raw_bytes c)) (ca_certificates ca) = Inr chain
      \<and> chain \<noteq> [] \<and> cert_subject (hd chain) = cert_issuer leaf \<and> within_valid_for t (ca_valid_for ca)
      \<and> valid_at leaf t \<and> leaf_profile E leaf \<and> trusted_path E t leaf 0 chain \<and> vl_leaf vl = leaf
      \<and> cert_spki_to_der leaf = Inr (vl_leaf_spki_der vl)
      \<and> cert_spki_to_der (hd chain) = Inr (vl_issuer_spki_der vl) \<and> vl_chain_length vl = length chain)"
    unfolding try_validate_against_ca_def res_bind_eq_Inr [of "collect_results _ _"] body by (rule refl)
  then show ?thesis unfolding dec vouches_def using trusted_path_head [of E t leaf 0] by blast
qed

section \<open>Which error\<close>

text \<open>A list of checks in the order in which they are made, each with the errors of its failure: the
  first check that fails gives the error.\<close>

fun first_failed :: "(bool \<times> (error \<Rightarrow> bool)) list \<Rightarrow> error \<Rightarrow> bool" where
  "first_failed [] e \<longleftrightarrow> False"
| "first_failed ((ok, err) # checks) e \<longleftrightarrow> (if ok then first_failed checks e else err e)"

definition cert_error :: "certificate_error \<Rightarrow> error \<Rightarrow> bool" where
  "cert_error c e \<longleftrightarrow> e = Certificate c"

definition unreadable_der :: "string + 't \<Rightarrow> error \<Rightarrow> bool" where
  "unreadable_der r e \<longleftrightarrow> (\<exists>d. r = Inl d \<and> e = Certificate (InvalidDer d))"

text \<open>An extension that occurs twice, or once with a value that does not decode.\<close>

definition lookup_error :: "(bytes \<Rightarrow> string + 't) \<Rightarrow> 'n x509_cert \<Rightarrow> string \<Rightarrow> error \<Rightarrow> bool" where
  "lookup_error from_der c oid e \<longleftrightarrow>
     (2 \<le> length (filter (\<lambda>x. extn_id x = oid) (extensions_slice c)) \<and> e = Certificate DuplicateExtension)
     \<or> (\<exists>x d. filter (\<lambda>x. extn_id x = oid) (extensions_slice c) = [x] \<and> from_der (extn_value x) = Inl d
          \<and> e = Certificate (InvalidDer ''certificate extension value''))"

definition readable :: "(bytes \<Rightarrow> string + 't) \<Rightarrow> 'n x509_cert \<Rightarrow> string \<Rightarrow> bool" where
  "readable from_der c oid \<longleftrightarrow> lacks_extension c oid \<or> (\<exists>x. has_extension from_der c oid x)"

definition leaf_checks :: "('p, 'q, 's, 'n) crates \<Rightarrow> 'n x509_cert \<Rightarrow> (bool \<times> (error \<Rightarrow> bool)) list" where
  "leaf_checks E c =
     [(critical_known c KNOWN_LEAF_EXTENSION_OIDS, cert_error UnknownCriticalExtension),
      (readable (basic_constraints_from_der E) c ID_CE_BASIC_CONSTRAINTS,
         lookup_error (basic_constraints_from_der E) c ID_CE_BASIC_CONSTRAINTS),
      (\<not> (\<exists>bc. has_extension (basic_constraints_from_der E) c ID_CE_BASIC_CONSTRAINTS bc \<and> bc_ca bc),
         cert_error InvalidBasicConstraints),
      (readable (key_usage_from_der E) c ID_CE_KEY_USAGE, lookup_error (key_usage_from_der E) c ID_CE_KEY_USAGE),
      (\<exists>ku. has_extension (key_usage_from_der E) c ID_CE_KEY_USAGE ku \<and> ku_digital_signature ku,
         cert_error MissingKeyUsage),
      (readable (ext_key_usage_from_der E) c ID_CE_EXT_KEY_USAGE,
         lookup_error (ext_key_usage_from_der E) c ID_CE_EXT_KEY_USAGE),
      (\<exists>eku. has_extension (ext_key_usage_from_der E) c ID_CE_EXT_KEY_USAGE eku \<and> ID_KP_CODE_SIGNING \<in> set eku,
         cert_error MissingCodeSigningEku)]"

definition ca_checks :: "('p, 'q, 's, 'n) crates \<Rightarrow> 'n x509_cert \<Rightarrow> nat \<Rightarrow> (bool \<times> (error \<Rightarrow> bool)) list" where
  "ca_checks E c below =
     [(critical_known c KNOWN_CA_CRITICAL_EXTENSION_OIDS, cert_error UnknownCriticalExtension),
      (readable (basic_constraints_from_der E) c ID_CE_BASIC_CONSTRAINTS,
         lookup_error (basic_constraints_from_der E) c ID_CE_BASIC_CONSTRAINTS),
      (\<exists>bc. has_extension (basic_constraints_from_der E) c ID_CE_BASIC_CONSTRAINTS bc \<and> bc_ca bc,
         cert_error InvalidBasicConstraints),
      (\<not> (\<exists>bc limit. has_extension (basic_constraints_from_der E) c ID_CE_BASIC_CONSTRAINTS bc
            \<and> bc_path_len_constraint bc = Some limit \<and> unat limit < below), cert_error PathLengthExceeded),
      (readable (key_usage_from_der E) c ID_CE_KEY_USAGE, lookup_error (key_usage_from_der E) c ID_CE_KEY_USAGE),
      (\<exists>ku. has_extension (key_usage_from_der E) c ID_CE_KEY_USAGE ku \<and> ku_key_cert_sign ku,
         cert_error MissingKeyUsage)]"

definition signature_checks ::
  "('p, 'q, 's, 'n) crates \<Rightarrow> 'n x509_cert \<Rightarrow> 'n x509_cert \<Rightarrow> bytes \<Rightarrow> ('p, 'q) ecdsa_key \<Rightarrow> bytes
     \<Rightarrow> (bool \<times> (error \<Rightarrow> bool)) list" where
  "signature_checks E child issuer spki k tbs =
     [(cert_spki_to_der issuer = Inr spki, unreadable_der (cert_spki_to_der issuer)),
      (from_spki_der E spki = Inr k, \<lambda>e. from_spki_der E spki = Inl e),
      (cert_signature_algorithm child = expected_oid k, cert_error UnsupportedSignatureAlgorithm),
      (cert_tbs_to_der child = Inr tbs, unreadable_der (cert_tbs_to_der child)),
      (verify_der E k tbs (cert_signature child), cert_error SignatureInvalid)]"

text \<open>The issuer at position \<open>i\<close> does not continue the path.\<close>

definition link_checks ::
  "('p, 'q, 's, 'n) crates \<Rightarrow> int \<Rightarrow> 'n x509_cert \<Rightarrow> nat \<Rightarrow> 'n x509_cert \<Rightarrow> (bool \<times> (error \<Rightarrow> bool)) list" where
  "link_checks E t signee i issuer =
     [(cert_subject issuer = cert_issuer signee, cert_error IssuerNameMismatch),
      (valid_at issuer t, cert_error OutsideCertificateValidity),
      (ca_profile E issuer i, first_failed (ca_checks E issuer i)),
      (signed_by E signee issuer, \<lambda>e. \<exists>spki k tbs. first_failed (signature_checks E signee issuer spki k tbs) e)]"

inductive path_fails ::
  "('p, 'q, 's, 'n) crates \<Rightarrow> int \<Rightarrow> error \<Rightarrow> 'n x509_cert \<Rightarrow> nat \<Rightarrow> 'n x509_cert list \<Rightarrow> bool" for E t e where
  here: "path_fails E t e signee i (issuer # chain)" if "first_failed (link_checks E t signee i issuer) e"
| above: "path_fails E t e signee i (issuer # chain)"
    if "cert_subject issuer = cert_issuer signee" and "valid_at issuer t"
      and "ca_profile E issuer i" and "signed_by E signee issuer"
      and "path_fails E t e issuer (i + 1) chain"

inductive_simps path_fails_Nil [simp]: "path_fails E t e signee i []"
inductive_simps path_fails_Cons: "path_fails E t e signee i (issuer # chain)"

definition decoded_chain ::
  "('p, 'q, 's, 'n) crates \<Rightarrow> certificate_authority \<Rightarrow> 'n x509_cert list \<Rightarrow> bool" where
  "decoded_chain E ca chain \<longleftrightarrow>
     list_all2 (\<lambda>c d. x509_from_der E (cert_raw_bytes c) = Inr d) (ca_certificates ca) chain"

text \<open>An authority is passed over when its chain decodes and does not start with a certificate of the
  name that the leaf names as its issuer.\<close>

definition passed_over :: "('p, 'q, 's, 'n) crates \<Rightarrow> 'n x509_cert \<Rightarrow> certificate_authority \<Rightarrow> bool" where
  "passed_over E leaf ca \<longleftrightarrow> (\<exists>chain. decoded_chain E ca chain
     \<and> (chain = [] \<or> cert_subject (hd chain) \<noteq> cert_issuer leaf))"

definition authority_checks ::
  "('p, 'q, 's, 'n) crates \<Rightarrow> int \<Rightarrow> 'n x509_cert \<Rightarrow> certificate_authority \<Rightarrow> 'n x509_cert list
     \<Rightarrow> (bool \<times> (error \<Rightarrow> bool)) list" where
  "authority_checks E t leaf ca chain =
     [(within_valid_for t (ca_valid_for ca), cert_error OutsideCaValidity),
      (valid_at leaf t, cert_error OutsideCertificateValidity),
      (leaf_profile E leaf, first_failed (leaf_checks E leaf)),
      (trusted_path E t leaf 0 chain, \<lambda>e. path_fails E t e leaf 0 chain),
      (\<exists>spki. cert_spki_to_der leaf = Inr spki, unreadable_der (cert_spki_to_der leaf)),
      (\<exists>spki. cert_spki_to_der (hd chain) = Inr spki, unreadable_der (cert_spki_to_der (hd chain)))]"

text \<open>An authority fails when one of its certificates does not decode, whatever its name, or when it
  has the name and one of the checks fails.\<close>

definition authority_fails ::
  "('p, 'q, 's, 'n) crates \<Rightarrow> int \<Rightarrow> 'n x509_cert \<Rightarrow> certificate_authority \<Rightarrow> error \<Rightarrow> bool" where
  "authority_fails E t leaf ca e \<longleftrightarrow>
     (\<exists>us c vs. ca_certificates ca = us @ c # vs \<and> unreadable_der (x509_from_der E (cert_raw_bytes c)) e
        \<and> (\<forall>u \<in> set us. is_ok (x509_from_der E (cert_raw_bytes u))))
     \<or> (\<exists>chain. decoded_chain E ca chain \<and> chain \<noteq> [] \<and> cert_subject (hd chain) = cert_issuer leaf
        \<and> first_failed (authority_checks E t leaf ca chain) e)"

definition first_failure ::
  "('p, 'q, 's, 'n) crates \<Rightarrow> int \<Rightarrow> 'n x509_cert \<Rightarrow> certificate_authority list \<Rightarrow> error \<Rightarrow> bool" where
  "first_failure E t leaf cas e \<longleftrightarrow>
     (\<exists>us ca vs. cas = us @ ca # vs \<and> authority_fails E t leaf ca e \<and> (\<forall>u \<in> set us. passed_over E leaf u))
     \<or> ((\<forall>ca \<in> set cas. passed_over E leaf ca) \<and> e = Certificate UntrustedCertificate)"

text \<open>The code makes these checks in this order.\<close>

lemma check_step:
  "(\<And>u. m = Inr u \<longleftrightarrow> ok) \<Longrightarrow> res_bind m (\<lambda>_. g) = Inl e \<longleftrightarrow> (if ok then g = Inl e else m = Inl e)"
  by (cases m) auto

lemma find_extension_decoded_error:
  "find_extension_decoded f (extensions_slice c) oid = Inl e \<longleftrightarrow> lookup_error f c oid e"
  unfolding find_extension_decoded_def lookup_error_def
  by (cases "filter (\<lambda>x. extn_id x = oid) (extensions_slice c)"; cases "tl (filter (\<lambda>x. extn_id x = oid) (extensions_slice c))")
    (auto simp: find_extension_def res_bind_eq_Inl map_err_eq_Inl)

text \<open>The three shapes of a lookup in the profiles, by the result of the lookup.\<close>

lemma optional_step:
  "res_bind r (\<lambda>m. if (case m of Some x \<Rightarrow> bad x | None \<Rightarrow> False) then Inl e' else g) = Inl e \<longleftrightarrow>
     (if r = Inr None \<or> (\<exists>x. r = Inr (Some x))
      then if \<not> (\<exists>x. r = Inr (Some x) \<and> bad x) then g = Inl e else e = e'
      else r = Inl e)"
  by (cases r; cases "projr r") auto

lemma required_step:
  "res_bind r (\<lambda>m. res_bind (ok_or e' m) (\<lambda>x. if \<not> good x then Inl e' else g)) = Inl e \<longleftrightarrow>
     (if r = Inr None \<or> (\<exists>x. r = Inr (Some x))
      then if \<exists>x. r = Inr (Some x) \<and> good x then g = Inl e else e = e'
      else r = Inl e)"
  by (cases r; cases "projr r") auto

lemma required_bounded_step:
  "res_bind r (\<lambda>m. res_bind (ok_or e' m) (\<lambda>x. if \<not> good x then Inl e' else if bad x then Inl e'' else g)) = Inl e \<longleftrightarrow>
     (if r = Inr None \<or> (\<exists>x. r = Inr (Some x))
      then if \<exists>x. r = Inr (Some x) \<and> good x
        then if \<not> (\<exists>x. r = Inr (Some x) \<and> bad x) then g = Inl e else e = e''
        else e = e'
      else r = Inl e)"
  by (cases r; cases "projr r") auto

lemma critical_known_iff:
  "reject_unknown_critical_extensions (extensions_slice c) known = Inr u \<longleftrightarrow> critical_known c known"
  by (simp add: critical_known_def)

lemma reject_unknown_error:
  "\<not> critical_known c known \<Longrightarrow>
     reject_unknown_critical_extensions (extensions_slice c) known = Inl e \<longleftrightarrow> e = Certificate UnknownCriticalExtension"
proof -
  have "reject_unknown_critical_extensions exts known = Inl e \<longleftrightarrow>
      \<not> (\<forall>x \<in> set exts. critical x \<longrightarrow> extn_id x \<in> set known) \<and> e = Certificate UnknownCriticalExtension" for exts
    by (induction exts) auto
  then show "\<not> critical_known c known \<Longrightarrow> ?thesis" by (simp add: critical_known_def)
qed

text \<open>A lookup in terms of its result.\<close>

lemma readable_iff:
  "readable f c oid \<longleftrightarrow> find_extension_decoded f (extensions_slice c) oid = Inr None
     \<or> (\<exists>x. find_extension_decoded f (extensions_slice c) oid = Inr (Some x))"
  by (simp add: readable_def find_extension_decoded_Some find_extension_decoded_None)

lemmas lookup_result = readable_iff find_extension_decoded_Some [symmetric] find_extension_decoded_error [symmetric]

lemma verify_leaf_profile_error: "verify_leaf_profile E c = Inl e \<longleftrightarrow> first_failed (leaf_checks E c) e"
  unfolding verify_leaf_profile_def Let_def leaf_checks_def first_failed.simps cert_error_def lookup_result
    check_step [OF critical_known_iff] optional_step required_step
  by (simp add: reject_unknown_error cong: if_cong)

lemma verify_ca_profile_error: "verify_ca_profile E c i = Inl e \<longleftrightarrow> first_failed (ca_checks E c i) e"
proof -
  have len: "(case bc_path_len_constraint bc of Some limit \<Rightarrow> i > unat limit | None \<Rightarrow> False)
      \<longleftrightarrow> (\<exists>limit. bc_path_len_constraint bc = Some limit \<and> unat limit < i)" for bc
    by (cases "bc_path_len_constraint bc") simp_all
  have pull: "(\<exists>bc limit. P bc \<and> Q bc limit) \<longleftrightarrow> (\<exists>bc. P bc \<and> (\<exists>limit. Q bc limit))"
    for P :: "basic_constraints \<Rightarrow> bool" and Q :: "basic_constraints \<Rightarrow> 'z \<Rightarrow> bool"
    by blast
  show ?thesis
    unfolding verify_ca_profile_def Let_def ca_checks_def first_failed.simps cert_error_def lookup_result
      check_step [OF critical_known_iff] len required_bounded_step required_step pull
    by (simp add: reject_unknown_error cong: if_cong)
qed

lemma verify_signature_error:
  "verify_signature E child issuer = Inl e \<longleftrightarrow>
     (\<exists>spki k tbs. first_failed (signature_checks E child issuer spki k tbs) e)"
  by (cases "cert_spki_to_der issuer"; cases "cert_tbs_to_der child"; cases "from_spki_der E (projr (cert_spki_to_der issuer))")
    (auto simp: verify_signature_def signature_checks_def cert_error_def unreadable_der_def encode_certificate_error_def)

lemma walk_chain_error: "walk_chain E t signee i chain = Inl e \<longleftrightarrow> path_fails E t e signee i chain"
proof (induction chain arbitrary: signee i)
  case (Cons issuer chain)
  have w: "verify_time_window issuer t = Inl e \<longleftrightarrow> \<not> valid_at issuer t \<and> e = Certificate OutsideCertificateValidity"
    by (auto simp: verify_time_window_def valid_at_def Let_def)
  show ?case
    unfolding walk_chain.simps path_fails_Cons link_checks_def first_failed.simps guard_eq_Inl
      check_step [OF verify_time_window_iff] check_step [OF verify_ca_profile_iff] check_step [OF verify_signature_iff]
      verify_ca_profile_error verify_signature_error Cons w cert_error_def
    by auto
qed simp

lemma try_validate_none: "try_validate_against_ca E leaf t ca = Inr None \<longleftrightarrow> passed_over E leaf ca"
proof -
  have dec: "collect_results (\<lambda>c. decode_certificate E (cert_raw_bytes c)) (ca_certificates ca) = Inr chain
      \<longleftrightarrow> decoded_chain E ca chain" for chain
    by (simp add: collect_results_eq_Inr decode_certificate_def decoded_chain_def)
  show ?thesis
    unfolding try_validate_against_ca_def res_bind_eq_Inr [of "collect_results _ _"] dec passed_over_def
    by (intro ex_cong1 conj_cong refl) (auto split: list.split)
qed

lemma authority_body_error:
  assumes "chain = direct # rest" and "cert_subject direct = cert_issuer leaf"
  shows "(if \<not> within_valid_for t (ca_valid_for ca) then Inl (Certificate OutsideCaValidity) else
      res_bind (verify_time_window leaf t) (\<lambda>_.
      res_bind (verify_leaf_profile E leaf) (\<lambda>_.
      res_bind (walk_chain E t leaf 0 chain) (\<lambda>_.
      res_bind (encode_certificate_error (cert_spki_to_der leaf)) (\<lambda>leaf_spki_der.
      res_bind (encode_certificate_error (cert_spki_to_der direct)) (\<lambda>issuer_spki_der.
      Inr (f leaf_spki_der issuer_spki_der))))))) = Inl e
    \<longleftrightarrow> first_failed (authority_checks E t leaf ca chain) e"
proof -
  have w: "verify_time_window leaf t = Inl e \<longleftrightarrow> \<not> valid_at leaf t \<and> e = Certificate OutsideCertificateValidity"
    by (auto simp: verify_time_window_def valid_at_def Let_def)
  have enc: "res_bind (encode_certificate_error (cert_spki_to_der leaf)) (\<lambda>a.
      res_bind (encode_certificate_error (cert_spki_to_der direct)) (\<lambda>b. Inr (f a b))) = Inl e
    \<longleftrightarrow> (if \<exists>spki. cert_spki_to_der leaf = Inr spki
         then (\<nexists>spki. cert_spki_to_der direct = Inr spki) \<and> unreadable_der (cert_spki_to_der direct) e
         else unreadable_der (cert_spki_to_der leaf) e)"
    by (cases "cert_spki_to_der leaf"; cases "cert_spki_to_der direct")
      (auto simp: encode_certificate_error_def unreadable_der_def)
  show ?thesis
    unfolding authority_checks_def first_failed.simps guard_eq_Inl assms(1) list.sel
      check_step [OF verify_time_window_iff] check_step [OF verify_leaf_profile_iff] check_step [OF walk_chain_iff]
      verify_leaf_profile_error walk_chain_error w cert_error_def enc
    by auto
qed

lemma try_validate_error: "try_validate_against_ca E leaf t ca = Inl e \<longleftrightarrow> authority_fails E t leaf ca e"
proof -
  let ?certs = "collect_results (\<lambda>c. decode_certificate E (cert_raw_bytes c)) (ca_certificates ca)"
  have ok: "?certs = Inr chain \<longleftrightarrow> decoded_chain E ca chain" for chain
    by (simp add: collect_results_eq_Inr decode_certificate_def decoded_chain_def)
  have bad: "?certs = Inl e \<longleftrightarrow> (\<exists>us c vs. ca_certificates ca = us @ c # vs
      \<and> unreadable_der (x509_from_der E (cert_raw_bytes c)) e
      \<and> (\<forall>u \<in> set us. is_ok (x509_from_der E (cert_raw_bytes u))))"
    by (simp add: collect_results_first_error decode_certificate_def unreadable_der_def is_ok_iff map_err_eq_Inl eq_commute [of e])
  have body: "(case chain of [] \<Rightarrow> Inr None | direct_issuer # _ \<Rightarrow>
        if cert_subject direct_issuer \<noteq> cert_issuer leaf then Inr None
        else if \<not> within_valid_for t (ca_valid_for ca) then Inl (Certificate OutsideCaValidity) else
        res_bind (verify_time_window leaf t) (\<lambda>_.
        res_bind (verify_leaf_profile E leaf) (\<lambda>_.
        res_bind (walk_chain E t leaf 0 chain) (\<lambda>_.
        res_bind (encode_certificate_error (cert_spki_to_der leaf)) (\<lambda>leaf_spki_der.
        res_bind (encode_certificate_error (cert_spki_to_der direct_issuer)) (\<lambda>issuer_spki_der.
        Inr (Some \<lparr>vl_leaf = leaf, vl_leaf_spki_der = leaf_spki_der,
                   vl_issuer_spki_der = issuer_spki_der, vl_chain_length = length chain\<rparr>))))))) = Inl e
    \<longleftrightarrow> chain \<noteq> [] \<and> cert_subject (hd chain) = cert_issuer leaf
      \<and> first_failed (authority_checks E t leaf ca chain) e" for chain
    using authority_body_error [of chain _ _ leaf t ca E "\<lambda>a b. Some \<lparr>vl_leaf = leaf, vl_leaf_spki_der = a,
        vl_issuer_spki_der = b, vl_chain_length = length chain\<rparr>" e]
    by (cases chain) simp_all
  show ?thesis
    unfolding try_validate_against_ca_def res_bind_eq_Inl [of ?certs] bad ok body authority_fails_def
    by (rule refl)
qed

section \<open>The whole search\<close>

definition vouched_by ::
  "('p, 'q, 's, 'n) crates \<Rightarrow> int \<Rightarrow> 'n x509_cert \<Rightarrow> certificate_authority \<Rightarrow> 'n validated_leaf \<Rightarrow> bool" where
  "vouched_by E t leaf ca vl \<longleftrightarrow> (\<exists>chain. vouches E t leaf ca chain \<and> vl_leaf vl = leaf
     \<and> cert_spki_to_der leaf = Inr (vl_leaf_spki_der vl)
     \<and> cert_spki_to_der (hd chain) = Inr (vl_issuer_spki_der vl) \<and> vl_chain_length vl = length chain)"

text \<open>The answer of the whole loop: the first authority that vouches for the leaf.\<close>

definition first_voucher ::
  "('p, 'q, 's, 'n) crates \<Rightarrow> int \<Rightarrow> 'n x509_cert \<Rightarrow> certificate_authority list \<Rightarrow> 'n validated_leaf \<Rightarrow> bool" where
  "first_voucher E t leaf cas vl \<longleftrightarrow> (\<exists>us ca vs. cas = us @ ca # vs \<and> vouched_by E t leaf ca vl
     \<and> (\<forall>u \<in> set us. \<nexists>w. vouched_by E t leaf u w))"

lemma succeeds_iff_vouched:
  "first_success.succeeds (try_validate_against_ca E leaf t) ca \<longleftrightarrow> (\<exists>w. vouched_by E t leaf ca w)"
  unfolding ca_attempts.succeeds_def vouched_by_def try_validate_iff by blast

lemma ca_loop_iff: "ca_loop E leaf t cas None = Inr vl \<longleftrightarrow> first_voucher E t leaf cas vl"
  unfolding ca_attempts.run_success succeeds_iff_vouched first_voucher_def vouched_by_def try_validate_iff
  by blast

lemma ca_loop_error:
  "ca_loop E leaf t cas None = Inl e \<longleftrightarrow>
     (\<forall>ca \<in> set cas. \<nexists>w. vouched_by E t leaf ca w) \<and> first_failure E t leaf cas e"
  unfolding ca_attempts.run_error_split succeeds_iff_vouched try_validate_none try_validate_error first_failure_def
  by (rule refl)

lemma validate_chain_iff:
  "validate_chain E leaf_der ts t = Inr vl \<longleftrightarrow>
     (\<exists>leaf. x509_from_der E leaf_der = Inr leaf \<and> first_voucher E t leaf (ts_certificate_authorities ts) vl)"
  by (auto simp: validate_chain_def ca_loop_iff)

lemma first_voucherD:
  "first_voucher E t leaf cas vl \<Longrightarrow> \<exists>ca \<in> set cas. \<exists>chain. vouches E t leaf ca chain \<and> vl_leaf vl = leaf
     \<and> cert_spki_to_der leaf = Inr (vl_leaf_spki_der vl) \<and> cert_spki_to_der (hd chain) = Inr (vl_issuer_spki_der vl)"
  unfolding first_voucher_def vouched_by_def by (metis in_set_conv_decomp)

section \<open>Properties\<close>

text \<open>C12. \<open>validate_chain\<close> refines its specification: it accepts if and only if some certificate
  authority of the trust store vouches for the leaf at the given time, and its answer is that of
  the first one: window open, leaf valid and of the signing profile, and a path of CA certificates
  in which every issuer is valid, may certify at its depth and signed the certificate below it.\<close>

theorem validate_chain_refines:
  "validate_chain E leaf_der ts t = Inr vl \<longleftrightarrow>
     (\<exists>leaf. x509_from_der E leaf_der = Inr leaf \<and> first_voucher E t leaf (ts_certificate_authorities ts) vl)"
  by (rule validate_chain_iff)

text \<open>C33. Otherwise the error is the one of the first authority that is not passed over, and
  \<open>UntrustedCertificate\<close> when all are. Passed over is exactly an authority whose chain decodes and
  does not start with the name that the leaf names as its issuer; any other either has a
  certificate that does not decode, whatever its name, and gives that error, or gives the error of
  the first check that fails: its window, the leaf's window, the leaf profile, and for each issuer
  up the chain its name, window, profile and signature.\<close>

theorem validate_chain_first_failure:
  assumes "x509_from_der E leaf_der = Inr leaf"
  shows "validate_chain E leaf_der ts t = Inl e \<longleftrightarrow>
     \<not> (\<exists>vl. first_voucher E t leaf (ts_certificate_authorities ts) vl)
     \<and> first_failure E t leaf (ts_certificate_authorities ts) e"
proof (cases "ca_loop E leaf t (ts_certificate_authorities ts) None")
  case (Inl e0)
  have "first_failure E t leaf (ts_certificate_authorities ts) e \<longleftrightarrow> e0 = e"
    using Inl ca_loop_error [of E leaf t "ts_certificate_authorities ts"] by (metis sum.inject(1))
  with Inl assms show ?thesis by (auto simp: validate_chain_def ca_loop_iff [symmetric])
next
  case (Inr vl)
  with assms show ?thesis by (auto simp: validate_chain_def ca_loop_iff [symmetric])
qed

definition sample_authority :: certificate_authority where
  "sample_authority = \<lparr>ca_subject = \<lparr>cs_organization = ''o'', cs_common_name = ''c''\<rparr>, ca_uri = ''u'',
     ca_certificates = [\<lparr>cert_raw_bytes = [2]\<rparr>], ca_valid_for = \<lparr>vp_start = 0, vp_end = Some 10\<rparr>\<rparr>"

definition sample_store :: trust_store where
  "sample_store = \<lparr>ts_media_type = ''m'', ts_tlogs = [sample_log], ts_ctlogs = [],
     ts_certificate_authorities = [sample_authority], ts_timestamp_authorities = [],
     ts_fingerprint = ''f'', ts_source = ''external''\<rparr>"

theorem validate_chain_first_failure_witness:
  "validate_chain sample [1] sample_store 10 = Inl (Certificate OutsideCaValidity)
   \<and> \<not> (\<exists>vl. first_voucher sample 10 sample_leaf [sample_authority] vl)
   \<and> first_failure sample 10 sample_leaf [sample_authority] (Certificate OutsideCaValidity)
   \<and> \<not> first_failure sample 10 sample_leaf [sample_authority] (Certificate UntrustedCertificate)"
proof -
  have leaf: "x509_from_der sample [1] = Inr sample_leaf" by (simp add: sample_def)
  have "(case validate_chain sample [1] sample_store 10 of Inl (Certificate OutsideCaValidity) \<Rightarrow> True | _ \<Rightarrow> False)"
    by code_simp
  then have run: "validate_chain sample [1] sample_store 10 = Inl (Certificate OutsideCaValidity)"
    by (simp split: sum.splits error.splits certificate_error.splits)
  have store: "ts_certificate_authorities sample_store = [sample_authority]" by (simp add: sample_store_def)
  note spec = validate_chain_first_failure [OF leaf, of sample_store 10, unfolded store]
  show ?thesis using run spec [of "Certificate OutsideCaValidity"] spec [of "Certificate UntrustedCertificate"] by simp
qed

end
