(* ===== verification/Sct.thy ===== *)
theory Sct
  imports X509
begin

text \<open>
  \<open>src/src/sct.rs\<close>: the embedded SCT list (RFC 6962). The cursor readers are functions from the
  remaining input to a value and what is left of it; each is interpreted as a \<open>wire_field\<close>, and
  the parsers are shown to accept exactly the serialisations. The precertificate and the
  digitally-signed struct follow, then the choice of the log key and the loop over the list. The
  specification describes the precertificate (\<open>precertificate\<close>) and the struct (\<open>signed_struct\<close>) apart
  from the code.
\<close>

section \<open>Constants and data\<close>

definition SCT_VERSION_V1 :: u8 where "SCT_VERSION_V1 = 0"
definition HASH_ALGORITHM_SHA256 :: u8 where "HASH_ALGORITHM_SHA256 = 4"
definition SIGNATURE_ALGORITHM_ECDSA :: u8 where "SIGNATURE_ALGORITHM_ECDSA = 3"
definition SIGNATURE_TYPE_CERTIFICATE_TIMESTAMP :: u8 where "SIGNATURE_TYPE_CERTIFICATE_TIMESTAMP = 0"
definition LOG_ENTRY_TYPE_PRECERT :: u16 where "LOG_ENTRY_TYPE_PRECERT = 1"
definition EXTENSIONS_CONTEXT_TAG :: der_tag where "EXTENSIONS_CONTEXT_TAG = ContextSpecific True 3"

record parsed_sct =
  sct_version :: u8
  sct_log_id :: bytes
  sct_timestamp_ms :: u64
  sct_extensions :: bytes
  sct_hash_algorithm :: u8
  sct_signature_algorithm :: u8
  sct_signature :: bytes

definition sct_invalid :: error where "sct_invalid = Certificate SctInvalid"

section \<open>The cursor\<close>

definition sct_take :: "bytes \<Rightarrow> nat \<Rightarrow> error + (bytes \<times> bytes)" where
  "sct_take cursor n =
     (if length cursor < n then Inl sct_invalid else Inr (take n cursor, drop n cursor))"

definition take_u8 :: "bytes \<Rightarrow> error + (u8 \<times> bytes)" where
  "take_u8 cursor = res_bind (sct_take cursor 1) (\<lambda>(b, rest). Inr (b ! 0, rest))"

definition take_u16 :: "bytes \<Rightarrow> error + (u16 \<times> bytes)" where
  "take_u16 cursor = res_bind (sct_take cursor 2) (\<lambda>(b, rest).
     Inr (word_of_nat (be_value [b ! 0, b ! 1]), rest))"

definition take_u64 :: "bytes \<Rightarrow> error + (u64 \<times> bytes)" where
  "take_u64 cursor = res_bind (sct_take cursor 8) (\<lambda>(b, rest).
     if length b \<noteq> 8 then Inl sct_invalid else Inr (word_of_nat (be_value b), rest))"

definition take_array32 :: "bytes \<Rightarrow> error + (bytes \<times> bytes)" where
  "take_array32 cursor = res_bind (sct_take cursor 32) (\<lambda>(b, rest).
     if length b \<noteq> 32 then Inl sct_invalid else Inr (b, rest))"

section \<open>The parsers\<close>

definition parse_single_sct :: "bytes \<Rightarrow> error + parsed_sct" where
  "parse_single_sct b =
     res_bind (take_u8 b) (\<lambda>(version, cursor).
     res_bind (take_array32 cursor) (\<lambda>(log_id, cursor).
     res_bind (take_u64 cursor) (\<lambda>(timestamp_ms, cursor).
     res_bind (take_u16 cursor) (\<lambda>(ext_len, cursor).
     res_bind (sct_take cursor (unat ext_len)) (\<lambda>(extensions, cursor).
     res_bind (take_u8 cursor) (\<lambda>(hash_algorithm, cursor).
     res_bind (take_u8 cursor) (\<lambda>(signature_algorithm, cursor).
     res_bind (take_u16 cursor) (\<lambda>(sig_len, cursor).
     res_bind (sct_take cursor (unat sig_len)) (\<lambda>(signature, cursor).
     if cursor \<noteq> [] then Inl sct_invalid else
     Inr \<lparr>sct_version = version, sct_log_id = log_id, sct_timestamp_ms = timestamp_ms,
          sct_extensions = extensions, sct_hash_algorithm = hash_algorithm,
          sct_signature_algorithm = signature_algorithm, sct_signature = signature\<rparr>)))))))))"

text \<open>The \<open>while\<close> loop of \<open>parse_sct_list\<close>: every round consumes its length prefix.\<close>

function sct_list_loop :: "bytes \<Rightarrow> parsed_sct list \<Rightarrow> error + parsed_sct list" where
  "sct_list_loop cursor scts =
     (if cursor = [] then Inr scts else
      res_bind (take_u16 cursor) (\<lambda>(sct_len, cursor1).
      res_bind (sct_take cursor1 (unat sct_len)) (\<lambda>(sct_bytes, cursor2).
      res_bind (parse_single_sct sct_bytes) (\<lambda>sct.
      sct_list_loop cursor2 (scts @ [sct])))))"
  by auto
termination
  by (relation "measure (length \<circ> fst)")
    (auto simp: take_u16_def sct_take_def split: if_splits)

declare sct_list_loop.simps [simp del]

definition parse_sct_list :: "bytes \<Rightarrow> error + parsed_sct list" where
  "parse_sct_list b =
     res_bind (take_u16 b) (\<lambda>(list_len, cursor).
     if unat list_len \<noteq> length cursor then Inl sct_invalid else sct_list_loop cursor [])"

definition extract_sct_list_bytes :: "('p, 'q, 's, 'n) crates \<Rightarrow> 'n x509_cert \<Rightarrow> error + bytes" where
  "extract_sct_list_bytes E tbs =
     res_bind (find_extension (extensions_slice tbs) SCT_LIST_OID) (\<lambda>m.
     res_bind (ok_or (Certificate SctMissing) m) (\<lambda>ext.
     map_err (\<lambda>e. Certificate (InvalidDer e)) (octet_string_from_der E (extn_value ext))))"

section \<open>The precertificate and the signed struct\<close>

definition precert_tbs_der :: "('p, 'q, 's, 'n) crates \<Rightarrow> bytes \<Rightarrow> error + bytes" where
  "precert_tbs_der E tbs_der =
     res_bind (map_err (\<lambda>e. Certificate (InvalidDer e)) (any_seq_from_der E tbs_der)) (\<lambda>fields.
     if fields = [] then Inl (Certificate (InvalidDer ''TBSCertificate has no fields'')) else
     (let ext_field = last fields in
      if fst ext_field \<noteq> EXTENSIONS_CONTEXT_TAG
      then Inl (Certificate (InvalidDer
        ''TBSCertificate's last field is not a [3] EXPLICIT extensions wrapper'')) else
      res_bind (map_err (\<lambda>e. Certificate (InvalidDer e)) (extensions_from_der E (snd ext_field))) (\<lambda>extensions.
      res_bind (map_err (\<lambda>e. Certificate (InvalidDer e))
                  (extensions_to_der E (filter (\<lambda>ext. extn_id ext \<noteq> SCT_LIST_OID) extensions))) (\<lambda>filtered_der.
      res_bind (map_err (\<lambda>e. Certificate (InvalidDer e))
                  (any_new E EXTENSIONS_CONTEXT_TAG filtered_der)) (\<lambda>new_ext_field.
      map_err (\<lambda>e. Certificate (InvalidDer e)) (any_seq_to_der E (butlast fields @ [new_ext_field])))))))"

definition digitally_signed_bytes :: "u64 \<Rightarrow> bytes \<Rightarrow> bytes \<Rightarrow> bytes \<Rightarrow> error + bytes" where
  "digitally_signed_bytes timestamp_ms issuer_key_hash precert_tbs ct_extensions =
     (if length precert_tbs > 4294967295 then Inl sct_invalid else
      (let tbs_len = word_of_nat (length precert_tbs) :: u32 in
       if tbs_len > 0x00FFFFFF then Inl sct_invalid
       else if length ct_extensions > 65535 then Inl sct_invalid else
       (let ct_ext_len = word_of_nat (length ct_extensions) :: u16 in
        Inr ([SCT_VERSION_V1] @ [SIGNATURE_TYPE_CERTIFICATE_TIMESTAMP]
             @ be_bytes 8 (unat timestamp_ms) @ be_bytes 2 (unat LOG_ENTRY_TYPE_PRECERT)
             @ issuer_key_hash @ drop 1 (be_bytes 4 (unat tbs_len)) @ precert_tbs
             @ be_bytes 2 (unat ct_ext_len) @ ct_extensions))))"

section \<open>Verification\<close>

definition within_log_window :: "validity_period \<Rightarrow> int \<Rightarrow> bool" where
  "within_log_window window timestamp_seconds \<longleftrightarrow>
     vp_start window \<le> timestamp_seconds
     \<and> (case vp_end window of None \<Rightarrow> True | Some end \<Rightarrow> timestamp_seconds < end)"

definition verify_one_sct ::
  "('p, 'q, 's, 'n) crates \<Rightarrow> parsed_sct \<Rightarrow> bytes \<Rightarrow> bytes \<Rightarrow> trust_store \<Rightarrow> error + unit" where
  "verify_one_sct E sct precert_tbs issuer_key_hash ts =
     res_bind (ok_or (Certificate UnknownCtLog)
        (find (\<lambda>l. sha256 E (pk_raw_bytes (ct_public_key l)) = sct_log_id sct) (ts_ctlogs ts))) (\<lambda>ctlog.
     res_bind (ok_or sct_invalid (i64_try_from (sct_timestamp_ms sct div 1000))) (\<lambda>timestamp_seconds.
     if \<not> within_log_window (pk_valid_for (ct_public_key ctlog)) timestamp_seconds
     then Inl (Certificate SctOutsideKeyValidity)
     else if sct_version sct \<noteq> SCT_VERSION_V1 \<or> sct_hash_algorithm sct \<noteq> HASH_ALGORITHM_SHA256
       \<or> sct_signature_algorithm sct \<noteq> SIGNATURE_ALGORITHM_ECDSA
     then Inl sct_invalid else
     res_bind (digitally_signed_bytes (sct_timestamp_ms sct) issuer_key_hash precert_tbs
                 (sct_extensions sct)) (\<lambda>message.
     res_bind (from_spki_der E (pk_raw_bytes (ct_public_key ctlog))) (\<lambda>log_key.
     if verify_der E log_key message (sct_signature sct) then Inr () else Inl sct_invalid))))"

fun sct_loop ::
  "('p, 'q, 's, 'n) crates \<Rightarrow> bytes \<Rightarrow> bytes \<Rightarrow> trust_store \<Rightarrow> parsed_sct list \<Rightarrow> error option
    \<Rightarrow> error + unit" where
  "sct_loop E tbs ikh ts [] first_err =
     Inl (case first_err of Some e \<Rightarrow> e | None \<Rightarrow> Certificate SctInvalid)"
| "sct_loop E tbs ikh ts (sct # scts) first_err =
     (case verify_one_sct E sct tbs ikh ts of
        Inr _ \<Rightarrow> Inr ()
      | Inl e \<Rightarrow> sct_loop E tbs ikh ts scts (case first_err of None \<Rightarrow> Some e | Some f \<Rightarrow> Some f))"

definition verify_embedded_scts ::
  "('p, 'q, 's, 'n) crates \<Rightarrow> 'n validated_leaf \<Rightarrow> trust_store \<Rightarrow> error + unit" where
  "verify_embedded_scts E validated ts =
     res_bind (extract_sct_list_bytes E (vl_leaf validated)) (\<lambda>sct_list_bytes.
     res_bind (parse_sct_list sct_list_bytes) (\<lambda>scts.
     if scts = [] then Inl (Certificate SctMissing) else
     res_bind (map_err (\<lambda>e. Certificate (InvalidDer e)) (cert_tbs_to_der (vl_leaf validated))) (\<lambda>tbs_der.
     res_bind (precert_tbs_der E tbs_der) (\<lambda>precert_tbs.
     (let issuer_key_hash = sha256 E (vl_issuer_spki_der validated) in
      sct_loop E precert_tbs issuer_key_hash ts scts None)))))"

section \<open>The readers are fields of a binary format\<close>

lemma sct_take_iff [simp]: "sct_take bs n = Inr (x, rest) \<longleftrightarrow> length x = n \<and> bs = x @ rest"
  by (auto simp: sct_take_def)

interpretation raw_field: wire_field "\<lambda>bs. sct_take bs n" "\<lambda>b. b" "\<lambda>b. length b = n" for n
  by unfold_locales auto

lemma take_u8_iff: "take_u8 bs = Inr (x, rest) \<longleftrightarrow> bs = x # rest"
  by (auto simp: take_u8_def length_Suc_conv)

interpretation u8_field: wire_field take_u8 "\<lambda>b. [b]" "\<lambda>_. True"
  by unfold_locales (simp_all add: take_u8_iff)

lemma power_256: "(256 :: nat) ^ k = 2 ^ (k * 8)"
proof -
  have "(2 :: nat) ^ (8 * k) = (2 ^ 8) ^ k" by (rule power_mult)
  then show ?thesis by (simp add: mult.commute)
qed

lemma be_word_iff:
  fixes x :: "'a::len word"
  assumes k: "k * 8 = LENGTH('a)" and l: "length b = k"
  shows "word_of_nat (be_value b) = x \<longleftrightarrow> b = be_bytes k (unat x)"
proof
  have less: "be_value b < 2 ^ LENGTH('a)"
    using be_value_less [of b] unfolding power_256 l k .
  assume "word_of_nat (be_value b) = x"
  then have "unat x = be_value b" using less by (auto simp: unat_of_nat)
  then show "b = be_bytes k (unat x)" using l by simp
next
  have less: "unat x < 256 ^ k"
    unfolding power_256 k by (rule unsigned_less)
  assume "b = be_bytes k (unat x)"
  then show "word_of_nat (be_value b) = x" by (simp add: be_value_be_bytes [OF less])
qed

lemma take_u16_iff: "take_u16 bs = Inr (x, rest) \<longleftrightarrow> bs = be_bytes 2 (unat x) @ rest"
proof -
  have "take_u16 bs = Inr (x, rest) \<longleftrightarrow>
      (\<exists>b. length b = 2 \<and> bs = b @ rest \<and> word_of_nat (be_value b) = x)"
    by (auto simp: take_u16_def length_Suc_conv numeral_2_eq_2)
  also have "\<dots> \<longleftrightarrow> (\<exists>b. length b = 2 \<and> bs = b @ rest \<and> b = be_bytes 2 (unat x))"
    using be_word_iff [of 2 _ x] by fastforce
  finally show ?thesis by auto
qed

interpretation u16_field: wire_field take_u16 "\<lambda>w. be_bytes 2 (unat w)" "\<lambda>_. True"
  by unfold_locales (simp_all add: take_u16_iff)

lemma take_u64_iff: "take_u64 bs = Inr (x, rest) \<longleftrightarrow> bs = be_bytes 8 (unat x) @ rest"
proof -
  have "take_u64 bs = Inr (x, rest) \<longleftrightarrow>
      (\<exists>b. length b = 8 \<and> bs = b @ rest \<and> word_of_nat (be_value b) = x)"
    by (auto simp: take_u64_def)
  also have "\<dots> \<longleftrightarrow> (\<exists>b. length b = 8 \<and> bs = b @ rest \<and> b = be_bytes 8 (unat x))"
    using be_word_iff [of 8 _ x] by fastforce
  finally show ?thesis by auto
qed

interpretation u64_field: wire_field take_u64 "\<lambda>w. be_bytes 8 (unat w)" "\<lambda>_. True"
  by unfold_locales (simp_all add: take_u64_iff)

interpretation array32_field: wire_field take_array32 "\<lambda>b. b" "\<lambda>b. length b = 32"
  by unfold_locales (auto simp: take_array32_def)

text \<open>A vector with a two-byte length, as TLS writes it.\<close>

definition vec16 :: "bytes \<Rightarrow> bytes" where
  "vec16 b = be_bytes 2 (length b) @ b"

lemma take_vec16_iff:
  "(\<exists>n r. take_u16 bs = Inr (n, r) \<and> length x = unat n \<and> r = x @ rest)
     \<longleftrightarrow> length x < 65536 \<and> bs = vec16 x @ rest"
proof
  assume "\<exists>n r. take_u16 bs = Inr (n, r) \<and> length x = unat n \<and> r = x @ rest"
  then obtain n where "take_u16 bs = Inr (n, x @ rest)" and l: "length x = unat n" by blast
  then have "bs = be_bytes 2 (unat n) @ x @ rest" by (simp add: take_u16_iff)
  moreover have "unat n < 2 ^ LENGTH(16)" by (rule unsigned_less)
  ultimately show "length x < 65536 \<and> bs = vec16 x @ rest" using l by (simp add: vec16_def)
next
  assume r: "length x < 65536 \<and> bs = vec16 x @ rest"
  let ?n = "word_of_nat (length x) :: u16"
  from r have "unat ?n = length x" by (simp add: unat_of_nat)
  with r show "\<exists>n r. take_u16 bs = Inr (n, r) \<and> length x = unat n \<and> r = x @ rest"
    by (intro exI [of _ ?n] exI [of _ "x @ rest"]) (simp add: take_u16_iff vec16_def)
qed

interpretation vec16_field: wire_field
  "\<lambda>bs. res_bind (take_u16 bs) (\<lambda>(n, r). sct_take r (unat n))" vec16 "\<lambda>b. length b < 65536"
proof unfold_locales
  fix x rest
  assume "length (x :: bytes) < 65536"
  with take_vec16_iff [of "vec16 x @ rest" x rest]
  show "res_bind (take_u16 (vec16 x @ rest)) (\<lambda>(n, r). sct_take r (unat n)) = Inr (x, rest)"
    by auto
next
  fix bs x rest
  assume "res_bind (take_u16 bs) (\<lambda>(n, r). sct_take r (unat n)) = Inr (x, rest)"
  with take_vec16_iff [of bs x rest] show "length x < 65536 \<and> bs = vec16 x @ rest" by auto
qed

text \<open>The \<open>SignatureAndHashAlgorithm\<close> of TLS 1.2: two bytes in a row.\<close>

interpretation algorithms: field_pair take_u8 "\<lambda>b. [b]" "\<lambda>_. True" take_u8 "\<lambda>b. [b]" "\<lambda>_. True"
  by unfold_locales

section \<open>The parsers accept exactly the serialisations\<close>

definition serialize_sct :: "parsed_sct \<Rightarrow> bytes" where
  "serialize_sct s = [sct_version s] @ sct_log_id s @ be_bytes 8 (unat (sct_timestamp_ms s))
     @ vec16 (sct_extensions s) @ [sct_hash_algorithm s] @ [sct_signature_algorithm s]
     @ vec16 (sct_signature s)"

definition sct_wf :: "parsed_sct \<Rightarrow> bool" where
  "sct_wf s \<longleftrightarrow> length (sct_log_id s) = 32 \<and> length (sct_extensions s) < 65536
     \<and> length (sct_signature s) < 65536"

definition sct_list_body :: "parsed_sct list \<Rightarrow> bytes" where
  "sct_list_body ss = concat (map (\<lambda>s. vec16 (serialize_sct s)) ss)"

definition serialize_sct_list :: "parsed_sct list \<Rightarrow> bytes" where
  "serialize_sct_list ss = vec16 (sct_list_body ss)"

lemma vec16_bind:
  "res_bind (take_u16 bs) (\<lambda>(n, r). res_bind (sct_take r (unat n)) (\<lambda>(x, rest). g x rest)) = Inr y
     \<longleftrightarrow> (\<exists>x rest. length x < 65536 \<and> bs = vec16 x @ rest \<and> g x rest = Inr y)"
proof -
  have "res_bind (take_u16 bs) (\<lambda>(n, r). res_bind (sct_take r (unat n)) (\<lambda>(x, rest). g x rest)) = Inr y
     \<longleftrightarrow> (\<exists>x rest. (\<exists>n r. take_u16 bs = Inr (n, r) \<and> length x = unat n \<and> r = x @ rest) \<and> g x rest = Inr y)"
    by (auto simp: split_paired_Ex) 
  then show ?thesis unfolding take_vec16_iff by blast
qed

lemma field_bind:
  "res_bind (take_u8 bs) (\<lambda>(x, rest). g8 x rest) = Inr y \<longleftrightarrow> (\<exists>x rest. bs = [x] @ rest \<and> g8 x rest = Inr y)"
  "res_bind (take_array32 bs) (\<lambda>(x, rest). ga x rest) = Inr y \<longleftrightarrow>
     (\<exists>x rest. length x = 32 \<and> bs = x @ rest \<and> ga x rest = Inr y)"
  "res_bind (take_u64 bs) (\<lambda>(x, rest). g64 x rest) = Inr y \<longleftrightarrow>
     (\<exists>x rest. bs = be_bytes 8 (unat x) @ rest \<and> g64 x rest = Inr y)"
  by (auto simp: split_paired_Ex u8_field.decode_iff array32_field.decode_iff u64_field.decode_iff)

lemma parse_single_sct_iff: "parse_single_sct bs = Inr s \<longleftrightarrow> sct_wf s \<and> bs = serialize_sct s"
  unfolding parse_single_sct_def field_bind vec16_bind guard_eq_Inr
  by (cases s) (auto simp: serialize_sct_def sct_wf_def)

text \<open>Each entry of a parsed list is well formed and short enough for its own prefix.\<close>

definition sct_entry_wf :: "parsed_sct \<Rightarrow> bool" where
  "sct_entry_wf s \<longleftrightarrow> sct_wf s \<and> length (serialize_sct s) < 65536"

lemma sct_list_loop_Nil [simp]: "sct_list_loop [] acc = Inr acc"
  by (subst sct_list_loop.simps) simp

lemma sct_list_loop_step:
  assumes "cursor \<noteq> []"
  shows "sct_list_loop cursor acc = Inr ss \<longleftrightarrow>
    (\<exists>s rest. sct_entry_wf s \<and> cursor = vec16 (serialize_sct s) @ rest
       \<and> sct_list_loop rest (acc @ [s]) = Inr ss)"
proof -
  have "sct_list_loop cursor acc = Inr ss \<longleftrightarrow>
      (\<exists>x rest. length x < 65536 \<and> cursor = vec16 x @ rest
         \<and> res_bind (parse_single_sct x) (\<lambda>s. sct_list_loop rest (acc @ [s])) = Inr ss)"
    unfolding sct_list_loop.simps [of cursor] if_not_P [OF assms] by (rule vec16_bind)
  also have "\<dots> \<longleftrightarrow> (\<exists>s rest. sct_entry_wf s \<and> cursor = vec16 (serialize_sct s) @ rest
       \<and> sct_list_loop rest (acc @ [s]) = Inr ss)"
    unfolding res_bind_eq_Inr parse_single_sct_iff sct_entry_wf_def by blast
  finally show ?thesis .
qed

lemma sct_list_body_Cons [simp]: "sct_list_body (s # ss) = vec16 (serialize_sct s) @ sct_list_body ss"
  by (simp add: sct_list_body_def)

lemma sct_list_body_Nil [simp]: "sct_list_body [] = []"
  by (simp add: sct_list_body_def)

lemma length_vec16 [simp]: "length (vec16 b) = length b + 2"
  by (simp add: vec16_def)

lemma vec16_not_Nil [simp]: "vec16 b \<noteq> []"
  using length_vec16 [of b] by (metis add_is_0 list.size(3) zero_neq_numeral)

lemma sct_list_loop_iff:
  "sct_list_loop bs acc = Inr ss \<longleftrightarrow>
     (\<exists>rs. ss = acc @ rs \<and> list_all sct_entry_wf rs \<and> bs = sct_list_body rs)"
proof (induction "length bs" arbitrary: bs acc rule: less_induct)
  case (less bs acc)
  show ?case
  proof (cases bs)
    case Nil
    have "[] = sct_list_body rs \<longleftrightarrow> rs = []" for rs by (cases rs) simp_all
    then show ?thesis by (auto simp: Nil)
  next
    case (Cons b bs')
    have IH: "bs = vec16 x @ rest \<and> sct_list_loop rest (acc @ [s]) = Inr ss \<longleftrightarrow>
        bs = vec16 x @ rest \<and> (\<exists>rs. ss = (acc @ [s]) @ rs \<and> list_all sct_entry_wf rs \<and> rest = sct_list_body rs)"
      for x rest s
    proof (rule conj_cong [OF refl])
      assume "bs = vec16 x @ rest"
      then have "length rest < length bs" by simp
      then show "sct_list_loop rest (acc @ [s]) = Inr ss \<longleftrightarrow>
          (\<exists>rs. ss = (acc @ [s]) @ rs \<and> list_all sct_entry_wf rs \<and> rest = sct_list_body rs)"
        by (rule less)
    qed
    have "sct_list_loop bs acc = Inr ss \<longleftrightarrow>
        (\<exists>s rest. sct_entry_wf s \<and> bs = vec16 (serialize_sct s) @ rest
           \<and> sct_list_loop rest (acc @ [s]) = Inr ss)"
      using Cons by (intro sct_list_loop_step) simp
    also have "\<dots> \<longleftrightarrow> (\<exists>s rs. sct_entry_wf s \<and> ss = acc @ s # rs \<and> list_all sct_entry_wf rs
           \<and> bs = vec16 (serialize_sct s) @ sct_list_body rs)"
      unfolding IH by auto
    also have "\<dots> \<longleftrightarrow> (\<exists>rs. ss = acc @ rs \<and> list_all sct_entry_wf rs \<and> bs = sct_list_body rs)"
      (is "?l \<longleftrightarrow> ?r")
    proof
      assume ?l
      then obtain s rs where "sct_entry_wf s" "ss = acc @ s # rs" "list_all sct_entry_wf rs"
        "bs = vec16 (serialize_sct s) @ sct_list_body rs" by blast
      then show ?r by (intro exI [of _ "s # rs"]) simp
    next
      assume ?r
      then obtain rs where rs: "ss = acc @ rs" "list_all sct_entry_wf rs" "bs = sct_list_body rs" by blast
      with Cons obtain s rs' where "rs = s # rs'" by (cases rs) auto
      with rs show ?l by (intro exI [of _ s] exI [of _ rs']) simp
    qed
    finally show ?thesis .
  qed
qed

lemma parse_sct_list_iff:
  "parse_sct_list bs = Inr ss \<longleftrightarrow>
     list_all sct_entry_wf ss \<and> length (sct_list_body ss) < 65536 \<and> bs = serialize_sct_list ss"
proof -
  have "parse_sct_list bs = Inr ss \<longleftrightarrow>
      (\<exists>n r. take_u16 bs = Inr (n, r) \<and> length r = unat n \<and> sct_list_loop r [] = Inr ss)"
    by (auto simp: parse_sct_list_def split_paired_Ex)
  also have "\<dots> \<longleftrightarrow> list_all sct_entry_wf ss
      \<and> (\<exists>n r. take_u16 bs = Inr (n, r) \<and> length (sct_list_body ss) = unat n \<and> r = sct_list_body ss @ [])"
    by (auto simp: sct_list_loop_iff)
  finally show ?thesis unfolding take_vec16_iff by (simp add: serialize_sct_list_def)
qed

section \<open>The signed struct\<close>

definition vec24 :: "bytes \<Rightarrow> bytes" where
  "vec24 b = drop 1 (be_bytes 4 (length b)) @ b"

lemma vec24_eq: "vec24 b = be_bytes 3 (length b) @ b"
proof -
  have four: "4 = Suc (Suc (Suc (Suc 0)))" and three: "3 = Suc (Suc (Suc 0))" by simp_all
  have "be_bytes 4 n = word_of_nat (n div 256 div 256 div 256 mod 256) # be_bytes 3 n" for n
    unfolding four three by simp
  then show ?thesis by (simp add: vec24_def)
qed

lemma vec24_prefix_free:
  assumes "length a < 16777216" "length b < 16777216"
  shows "vec24 a @ r = vec24 b @ s \<longleftrightarrow> a = b \<and> r = s"
proof
  assume "vec24 a @ r = vec24 b @ s"
  then have "be_bytes 3 (length a) @ a @ r = be_bytes 3 (length b) @ b @ s"
    by (simp add: vec24_eq)
  then have "be_bytes 3 (length a) = be_bytes 3 (length b)" and r: "a @ r = b @ s"
    by (simp_all add: append_eq_append_conv)
  then have "length a = length b" using assms by (simp add: be_bytes_inject)
  with r show "a = b \<and> r = s" by (simp add: append_eq_append_conv)
qed simp

lemma digitally_signed_bytes_iff:
  "digitally_signed_bytes t h tbs ext = Inr m \<longleftrightarrow>
     length tbs < 16777216 \<and> length ext < 65536
     \<and> m = [0, 0] @ be_bytes 8 (unat t) @ [0, 1] @ h @ vec24 tbs @ vec16 ext"
proof (cases "length tbs > 4294967295 \<or> length ext > 65535")
  case True
  then show ?thesis by (auto simp: digitally_signed_bytes_def Let_def)
next
  case False
  then have u: "unat (word_of_nat (length tbs) :: u32) = length tbs" "unat (word_of_nat (length ext) :: u16) = length ext"
    by (simp_all add: unat_of_nat)
  then have "(word_of_nat (length tbs) :: u32) > 0x00FFFFFF \<longleftrightarrow> length tbs > 16777215"
    unfolding word_less_nat_alt u(1) by simp
  with False u show ?thesis
    by (auto simp: digitally_signed_bytes_def Let_def vec24_def vec16_def
        SCT_VERSION_V1_def SIGNATURE_TYPE_CERTIFICATE_TIMESTAMP_def LOG_ENTRY_TYPE_PRECERT_def numeral_2_eq_2)
qed

text \<open>A signature over the struct binds the time, the issuer, the certificate and the
  extensions together.\<close>

lemma digitally_signed_inject:
  assumes "digitally_signed_bytes t h tbs ext = Inr m" "digitally_signed_bytes t' h' tbs' ext' = Inr m"
    and "length h = 32" "length h' = 32"
  shows "t = t' \<and> h = h' \<and> tbs = tbs' \<and> ext = ext'"
proof -
  have eq: "be_bytes 8 (unat t) @ [0, 1] @ h @ vec24 tbs @ vec16 ext
      = be_bytes 8 (unat t') @ [0, 1] @ h' @ vec24 tbs' @ vec16 ext'"
    and l: "length tbs < 16777216" "length tbs' < 16777216" "length ext < 65536" "length ext' < 65536"
    using assms(1,2) by (auto simp: digitally_signed_bytes_iff)
  from eq have t: "t = t'" and "h @ vec24 tbs @ vec16 ext = h' @ vec24 tbs' @ vec16 ext'"
    unfolding u64_field.encode_prefix_free [OF TrueI TrueI] by simp_all
  then have h: "h = h'" and "vec24 tbs @ vec16 ext = vec24 tbs' @ vec16 ext'"
    unfolding array32_field.encode_prefix_free [OF assms(3,4)] by simp_all
  then have "tbs = tbs'" "vec16 ext = vec16 ext'" using l by (simp_all add: vec24_prefix_free)
  with t h show ?thesis using l by (simp add: vec16_field.encode_inject)
qed

section \<open>Acceptance\<close>

interpretation log_window: half_open_window within_log_window
  by unfold_locales (auto simp: within_log_window_def split: option.split)

text \<open>The time of an SCT always fits an \<open>i64\<close>: the milliseconds are divided first.\<close>

lemma sct_seconds: "i64_try_from (w div 1000) = Some (int (unat w div 1000))"
proof -
  have "unat w < 2 ^ LENGTH(64)" by (rule unsigned_less)
  then have "unat w div 1000 \<le> 9223372036854775807" by simp
  moreover have "unat (w div 1000) = unat w div 1000" by (simp add: unat_div)
  ultimately show ?thesis by (simp add: i64_try_from_def I64_MAX_def)
qed

section \<open>The precertificate\<close>

text \<open>The certificate without the list, read declaratively: the fields before the extensions stay, and
  the extensions are those of the certificate with the SCT lists, wherever they stand, taken out.\<close>

definition without_sct_lists :: "x509_extension list \<Rightarrow> x509_extension list \<Rightarrow> bool" where
  "without_sct_lists exts kept \<longleftrightarrow> (\<exists>lists. exts \<in> shuffles kept lists
     \<and> list_all (\<lambda>e. extn_id e = SCT_LIST_OID) lists \<and> list_all (\<lambda>e. extn_id e \<noteq> SCT_LIST_OID) kept)"

definition precertificate :: "('p, 'q, 's, 'n) crates \<Rightarrow> bytes \<Rightarrow> bytes \<Rightarrow> bool" where
  "precertificate E tbs pre \<longleftrightarrow> (\<exists>fields wrapped exts kept der wrapper.
     any_seq_from_der E tbs = Inr (fields @ [(ContextSpecific True 3, wrapped)])
     \<and> extensions_from_der E wrapped = Inr exts \<and> without_sct_lists exts kept
     \<and> extensions_to_der E kept = Inr der \<and> any_new E (ContextSpecific True 3) der = Inr wrapper
     \<and> any_seq_to_der E (fields @ [wrapper]) = Inr pre)"

lemma without_sct_lists_iff:
  "without_sct_lists exts kept \<longleftrightarrow> kept = filter (\<lambda>e. extn_id e \<noteq> SCT_LIST_OID) exts"
proof
  assume "without_sct_lists exts kept"
  then obtain lists where l: "exts \<in> shuffles kept lists"
    "list_all (\<lambda>e. extn_id e = SCT_LIST_OID) lists" "list_all (\<lambda>e. extn_id e \<noteq> SCT_LIST_OID) kept"
    unfolding without_sct_lists_def by blast
  then have "filter (\<lambda>e. extn_id e \<noteq> SCT_LIST_OID) exts
      \<in> shuffles (filter (\<lambda>e. extn_id e \<noteq> SCT_LIST_OID) kept) (filter (\<lambda>e. extn_id e \<noteq> SCT_LIST_OID) lists)"
    unfolding filter_shuffles [symmetric] by blast
  moreover have "filter (\<lambda>e. extn_id e \<noteq> SCT_LIST_OID) kept = kept" "filter (\<lambda>e. extn_id e \<noteq> SCT_LIST_OID) lists = []"
    using l(2,3) by (auto simp: list_all_iff filter_id_conv filter_empty_conv)
  ultimately show "kept = filter (\<lambda>e. extn_id e \<noteq> SCT_LIST_OID) exts" by simp
next
  assume "kept = filter (\<lambda>e. extn_id e \<noteq> SCT_LIST_OID) exts"
  then show "without_sct_lists exts kept"
    unfolding without_sct_lists_def
    using partition_in_shuffles [of exts "\<lambda>e. extn_id e \<noteq> SCT_LIST_OID"] by (auto simp: list_all_iff)
qed

text \<open>A nonempty list whose last pair has a given tag.\<close>

lemma tagged_last_iff:
  "(\<exists>fs. P fs \<and> fs \<noteq> [] \<and> fst (last fs) = t \<and> Q (butlast fs) (snd (last fs)))
     \<longleftrightarrow> (\<exists>front x. P (front @ [(t, x)]) \<and> Q front x)"
proof
  assume "\<exists>fs. P fs \<and> fs \<noteq> [] \<and> fst (last fs) = t \<and> Q (butlast fs) (snd (last fs))"
  then obtain fs where fs: "P fs" "fs \<noteq> []" "fst (last fs) = t" "Q (butlast fs) (snd (last fs))" by blast
  moreover have "butlast fs @ [(t, snd (last fs))] = fs"
    using fs(2,3) by (metis append_butlast_last_id prod.collapse)
  ultimately show "\<exists>front x. P (front @ [(t, x)]) \<and> Q front x" by metis
next
  assume "\<exists>front x. P (front @ [(t, x)]) \<and> Q front x"
  then obtain front x where "P (front @ [(t, x)])" "Q front x" by blast
  then show "\<exists>fs. P fs \<and> fs \<noteq> [] \<and> fst (last fs) = t \<and> Q (butlast fs) (snd (last fs))"
    by (intro exI [of _ "front @ [(t, x)]"]) simp
qed

lemma precert_tbs_der_iff: "precert_tbs_der E tbs = Inr pre \<longleftrightarrow> precertificate E tbs pre"
proof -
  have "precert_tbs_der E tbs = Inr pre \<longleftrightarrow> (\<exists>fields. any_seq_from_der E tbs = Inr fields \<and> fields \<noteq> []
      \<and> fst (last fields) = ContextSpecific True 3
      \<and> (\<exists>exts. extensions_from_der E (snd (last fields)) = Inr exts
          \<and> (\<exists>der. extensions_to_der E (filter (\<lambda>e. extn_id e \<noteq> SCT_LIST_OID) exts) = Inr der
              \<and> (\<exists>w. any_new E (ContextSpecific True 3) der = Inr w
                  \<and> any_seq_to_der E (butlast fields @ [w]) = Inr pre))))"
    unfolding precert_tbs_der_def Let_def res_bind_eq_Inr map_err_eq_Inr guard_eq_Inr not_not
      EXTENSIONS_CONTEXT_TAG_def
    by (rule refl)
  also have "\<dots> \<longleftrightarrow> precertificate E tbs pre"
    unfolding precertificate_def without_sct_lists_iff
    using tagged_last_iff [of "\<lambda>fs. any_seq_from_der E tbs = Inr fs" "ContextSpecific True 3"
        "\<lambda>front x. \<exists>exts. extensions_from_der E x = Inr exts
          \<and> (\<exists>der. extensions_to_der E (filter (\<lambda>e. extn_id e \<noteq> SCT_LIST_OID) exts) = Inr der
              \<and> (\<exists>w. any_new E (ContextSpecific True 3) der = Inr w \<and> any_seq_to_der E (front @ [w]) = Inr pre))"]
    by simp
  finally show ?thesis .
qed

text \<open>The layout of the digitally-signed struct for a precertificate: version 1, signature type 0, the
  time, entry type 1, the hash of the issuer key, the precertificate and the extension field.\<close>

definition signed_struct :: "u64 \<Rightarrow> bytes \<Rightarrow> bytes \<Rightarrow> bytes \<Rightarrow> bytes" where
  "signed_struct t h tbs ext = [0, 0] @ be_bytes 8 (unat t) @ [0, 1] @ h @ vec24 tbs @ vec16 ext"

section \<open>Evidence of issuance\<close>

text \<open>A trusted log vouches for the issuance of the precertificate.\<close>

definition sct_vouches ::
  "('p, 'q, 's, 'n) crates \<Rightarrow> parsed_sct \<Rightarrow> bytes \<Rightarrow> bytes \<Rightarrow> ct_log list \<Rightarrow> ct_log \<Rightarrow> bool" where
  "sct_vouches E sct tbs ikh logs l \<longleftrightarrow>
     (\<exists>us vs. logs = us @ l # vs \<and> sha256 E (pk_raw_bytes (ct_public_key l)) = sct_log_id sct
        \<and> (\<forall>u \<in> set us. sha256 E (pk_raw_bytes (ct_public_key u)) \<noteq> sct_log_id sct))
     \<and> within_log_window (pk_valid_for (ct_public_key l)) (int (unat (sct_timestamp_ms sct) div 1000))
     \<and> sct_version sct = 0 \<and> sct_hash_algorithm sct = 4 \<and> sct_signature_algorithm sct = 3
     \<and> length tbs < 16777216 \<and> length (sct_extensions sct) < 65536
     \<and> (\<exists>k. from_spki_der E (pk_raw_bytes (ct_public_key l)) = Inr k
        \<and> verify_der E k (signed_struct (sct_timestamp_ms sct) ikh tbs (sct_extensions sct)) (sct_signature sct))"

lemma verify_one_sct_iff:
  "verify_one_sct E sct tbs ikh ts = Inr u \<longleftrightarrow> (\<exists>l. sct_vouches E sct tbs ikh (ts_ctlogs ts) l)"
  unfolding verify_one_sct_def res_bind_eq_Inr ok_or_eq_Inr find_Some_first sct_seconds guard_eq_Inr
    sct_vouches_def SCT_VERSION_V1_def HASH_ALGORITHM_SHA256_def SIGNATURE_ALGORITHM_ECDSA_def
    digitally_signed_bytes_iff signed_struct_def
  by auto

interpretation sct_attempts: first_success
  "\<lambda>sct. res_bind (verify_one_sct E sct tbs ikh ts) (\<lambda>u. Inr (Some u))"
  "Certificate SctInvalid" "sct_loop E tbs ikh ts" for E tbs ikh ts
proof unfold_locales
  fix x xs acc
  show "sct_loop E tbs ikh ts (x # xs) acc
    = (case res_bind (verify_one_sct E x tbs ikh ts) (\<lambda>u. Inr (Some u)) of
        Inr (Some v) \<Rightarrow> Inr v | Inr None \<Rightarrow> sct_loop E tbs ikh ts xs acc
      | Inl e \<Rightarrow> sct_loop E tbs ikh ts xs (case acc of None \<Rightarrow> Some e | Some f \<Rightarrow> Some f))"
    by (cases "verify_one_sct E x tbs ikh ts") simp_all
qed simp

lemma sct_succeeds_iff:
  "first_success.succeeds (\<lambda>sct. res_bind (verify_one_sct E sct tbs ikh ts) (\<lambda>u. Inr (Some u))) sct
     \<longleftrightarrow> (\<exists>l. sct_vouches E sct tbs ikh (ts_ctlogs ts) l)"
  unfolding sct_attempts.succeeds_def verify_one_sct_iff [of E sct tbs ikh ts "()", symmetric] by simp

text \<open>The list extension, once in the certificate, with a list of at least one SCT.\<close>

definition embeds_scts :: "('p, 'q, 's, 'n) crates \<Rightarrow> 'n x509_cert \<Rightarrow> parsed_sct list \<Rightarrow> bool" where
  "embeds_scts E c scts \<longleftrightarrow> scts \<noteq> [] \<and> list_all sct_entry_wf scts
     \<and> length (sct_list_body scts) < 65536
     \<and> has_extension (octet_string_from_der E) c SCT_LIST_OID (serialize_sct_list scts)"

lemma embeds_scts_iff:
  "(\<exists>b. extract_sct_list_bytes E c = Inr b \<and> parse_sct_list b = Inr scts) \<and> scts \<noteq> [] \<longleftrightarrow> embeds_scts E c scts"
proof -
  have "extract_sct_list_bytes E c = Inr b \<longleftrightarrow> has_extension (octet_string_from_der E) c SCT_LIST_OID b" for b
    by (auto simp: extract_sct_list_bytes_def has_extension_def find_extension_Some [symmetric])
  then show ?thesis by (auto simp: embeds_scts_def parse_sct_list_iff)
qed

lemma verify_embedded_scts_iff:
  "verify_embedded_scts E v ts = Inr u \<longleftrightarrow>
     (\<exists>scts tbs pre sct l. embeds_scts E (vl_leaf v) scts \<and> cert_tbs_to_der (vl_leaf v) = Inr tbs
        \<and> precertificate E tbs pre \<and> sct \<in> set scts
        \<and> sct_vouches E sct pre (sha256 E (vl_issuer_spki_der v)) (ts_ctlogs ts) l)"
proof -
  have loop: "sct_loop E tbs ikh ts scts None = Inr u \<longleftrightarrow> (\<exists>sct \<in> set scts. \<exists>l. sct_vouches E sct tbs ikh (ts_ctlogs ts) l)"
    for tbs ikh scts
    using sct_attempts.run_total [of E tbs ikh ts scts] unfolding sct_succeeds_iff by (simp add: is_ok_iff)
  show ?thesis
    unfolding verify_embedded_scts_def Let_def res_bind_eq_Inr map_err_eq_Inr guard_eq_Inr loop
      embeds_scts_iff [symmetric] precert_tbs_der_iff by blast
qed

section \<open>Properties\<close>

text \<open>C20. The SCT list parser accepts exactly the serialisations: a byte string parses to a list of
  SCTs if and only if it is that list written with its length prefixes, with nothing left over.\<close>

theorem sct_list_roundtrip:
  "parse_sct_list bs = Inr ss \<longleftrightarrow>
     list_all sct_entry_wf ss \<and> length (sct_list_body ss) < 65536 \<and> bs = serialize_sct_list ss"
  by (rule parse_sct_list_iff)

text \<open>C19. The digitally-signed struct determines its parts: one CT signature stands for one time, one
  issuer key, one precertificate and one extension field.\<close>

theorem digitally_signed_unambiguous:
  assumes "digitally_signed_bytes t h tbs ext = Inr m" "digitally_signed_bytes t' h' tbs' ext' = Inr m"
    and "length h = 32" "length h' = 32"
  shows "t = t' \<and> h = h' \<and> tbs = tbs' \<and> ext = ext'"
  using assms by (rule digitally_signed_inject)

theorem digitally_signed_unambiguous_witness:
  "is_ok (digitally_signed_bytes 5 (replicate 32 1) [9] [])
   \<and> digitally_signed_bytes 5 (replicate 32 1) [9] [] \<noteq> digitally_signed_bytes 5 (replicate 32 1) [] [9]"
proof -
  have "is_ok (digitally_signed_bytes 5 (replicate 32 1) [9] [])" by code_simp
  then obtain m where m: "digitally_signed_bytes 5 (replicate 32 1) [9] [] = Inr m" by (auto simp: is_ok_iff)
  have "digitally_signed_bytes 5 (replicate 32 1) [] [9] \<noteq> Inr m"
    using digitally_signed_unambiguous [OF m, of 5 "replicate 32 1" "[]" "[9]"] by auto
  then show ?thesis using m by simp
qed

text \<open>C14. \<open>verify_embedded_scts\<close> accepts if and only if the leaf carries the list extension once, with
  at least one SCT, and a trusted log, the first with the SCT's log id, inside its window, vouches
  through one of them for the precertificate: its key verifies the struct of RFC 6962 over the
  time, the issuer key and the certificate re-encoded with the SCT lists taken out of its
  extensions and everything else kept in order.\<close>

theorem verify_embedded_scts_accepts:
  "verify_embedded_scts E v ts = Inr u \<longleftrightarrow>
     (\<exists>scts tbs pre sct l. embeds_scts E (vl_leaf v) scts \<and> cert_tbs_to_der (vl_leaf v) = Inr tbs
        \<and> precertificate E tbs pre \<and> sct \<in> set scts
        \<and> sct_vouches E sct pre (sha256 E (vl_issuer_spki_der v)) (ts_ctlogs ts) l)"
  by (rule verify_embedded_scts_iff)

end
