(* ===== verification/Fulcio.thy ===== *)
theory Fulcio
  imports Sct
begin

text \<open>
  \<open>src/src/fulcio.rs\<close>: the identity claims of the validated leaf. The specification says of each
  text claim that it is absent with its extension and is otherwise the decoded value of the one
  occurrence, and of the SAN claim that it is the first URI that the extension names.
\<close>

section \<open>Object identifiers and claims\<close>

definition fulcio_oid :: "nat \<Rightarrow> string" where
  "fulcio_oid n = ''1.3.6.1.4.1.57264.1.'' @ dec n"

definition OID_ISSUER :: string where "OID_ISSUER = fulcio_oid 8"
definition OID_BUILD_SIGNER_URI :: string where "OID_BUILD_SIGNER_URI = fulcio_oid 9"
definition OID_BUILD_SIGNER_DIGEST :: string where "OID_BUILD_SIGNER_DIGEST = fulcio_oid 10"
definition OID_RUNNER_ENVIRONMENT :: string where "OID_RUNNER_ENVIRONMENT = fulcio_oid 11"
definition OID_SOURCE_REPOSITORY_URI :: string where "OID_SOURCE_REPOSITORY_URI = fulcio_oid 12"
definition OID_SOURCE_REPOSITORY_DIGEST :: string where "OID_SOURCE_REPOSITORY_DIGEST = fulcio_oid 13"
definition OID_SOURCE_REPOSITORY_REF :: string where "OID_SOURCE_REPOSITORY_REF = fulcio_oid 14"
definition OID_SOURCE_REPOSITORY_ID :: string where "OID_SOURCE_REPOSITORY_ID = fulcio_oid 15"
definition OID_SOURCE_REPOSITORY_OWNER_URI :: string where "OID_SOURCE_REPOSITORY_OWNER_URI = fulcio_oid 16"
definition OID_SOURCE_REPOSITORY_OWNER_ID :: string where "OID_SOURCE_REPOSITORY_OWNER_ID = fulcio_oid 17"
definition OID_BUILD_CONFIG_URI :: string where "OID_BUILD_CONFIG_URI = fulcio_oid 18"
definition OID_BUILD_CONFIG_DIGEST :: string where "OID_BUILD_CONFIG_DIGEST = fulcio_oid 19"
definition OID_BUILD_TRIGGER :: string where "OID_BUILD_TRIGGER = fulcio_oid 20"
definition OID_RUN_INVOCATION_URI :: string where "OID_RUN_INVOCATION_URI = fulcio_oid 21"

record fulcio_claims =
  fc_san_uri :: "string option"
  fc_issuer :: "string option"
  fc_build_signer_uri :: "string option"
  fc_build_signer_digest :: "string option"
  fc_runner_environment :: "string option"
  fc_source_repository_uri :: "string option"
  fc_source_repository_digest :: "string option"
  fc_source_repository_ref :: "string option"
  fc_source_repository_id :: "string option"
  fc_source_repository_owner_uri :: "string option"
  fc_source_repository_owner_id :: "string option"
  fc_build_config_uri :: "string option"
  fc_build_config_digest :: "string option"
  fc_build_trigger :: "string option"
  fc_run_invocation_uri :: "string option"

section \<open>Extraction\<close>

definition extract_utf8_claim ::
  "('p, 'q, 's, 'n) crates \<Rightarrow> x509_extension list \<Rightarrow> string \<Rightarrow> error + string option" where
  "extract_utf8_claim E extensions oid =
     res_bind (find_extension extensions oid) (\<lambda>m.
     case m of
       None \<Rightarrow> Inr None
     | Some ext \<Rightarrow>
         res_bind (map_err (\<lambda>e. Certificate (InvalidDer e)) (utf8_string_from_der E (extn_value ext))) (\<lambda>s.
         Inr (Some s)))"

text \<open>\<open>find_map\<close> over the names: the first URI.\<close>

fun first_uri :: "general_name list \<Rightarrow> string option" where
  "first_uri [] = None"
| "first_uri (UniformResourceIdentifier uri # names) = Some uri"
| "first_uri (OtherGeneralName # names) = first_uri names"

definition extract_san_uri ::
  "('p, 'q, 's, 'n) crates \<Rightarrow> x509_extension list \<Rightarrow> error + string option" where
  "extract_san_uri E extensions =
     res_bind (find_extension extensions ID_CE_SUBJECT_ALT_NAME) (\<lambda>m.
     case m of
       None \<Rightarrow> Inr None
     | Some ext \<Rightarrow>
         res_bind (map_err (\<lambda>e. Certificate (InvalidDer e)) (subject_alt_name_from_der E (extn_value ext))) (\<lambda>names.
         Inr (first_uri names)))"

definition extract_claims :: "('p, 'q, 's, 'n) crates \<Rightarrow> 'n validated_leaf \<Rightarrow> error + fulcio_claims" where
  "extract_claims E validated =
     (let extensions = extensions_slice (vl_leaf validated) in
      res_bind (extract_san_uri E extensions) (\<lambda>san_uri.
      res_bind (extract_utf8_claim E extensions OID_ISSUER) (\<lambda>issuer.
      res_bind (extract_utf8_claim E extensions OID_BUILD_SIGNER_URI) (\<lambda>build_signer_uri.
      res_bind (extract_utf8_claim E extensions OID_BUILD_SIGNER_DIGEST) (\<lambda>build_signer_digest.
      res_bind (extract_utf8_claim E extensions OID_RUNNER_ENVIRONMENT) (\<lambda>runner_environment.
      res_bind (extract_utf8_claim E extensions OID_SOURCE_REPOSITORY_URI) (\<lambda>source_repository_uri.
      res_bind (extract_utf8_claim E extensions OID_SOURCE_REPOSITORY_DIGEST) (\<lambda>source_repository_digest.
      res_bind (extract_utf8_claim E extensions OID_SOURCE_REPOSITORY_REF) (\<lambda>source_repository_ref.
      res_bind (extract_utf8_claim E extensions OID_SOURCE_REPOSITORY_ID) (\<lambda>source_repository_id.
      res_bind (extract_utf8_claim E extensions OID_SOURCE_REPOSITORY_OWNER_URI) (\<lambda>source_repository_owner_uri.
      res_bind (extract_utf8_claim E extensions OID_SOURCE_REPOSITORY_OWNER_ID) (\<lambda>source_repository_owner_id.
      res_bind (extract_utf8_claim E extensions OID_BUILD_CONFIG_URI) (\<lambda>build_config_uri.
      res_bind (extract_utf8_claim E extensions OID_BUILD_CONFIG_DIGEST) (\<lambda>build_config_digest.
      res_bind (extract_utf8_claim E extensions OID_BUILD_TRIGGER) (\<lambda>build_trigger.
      res_bind (extract_utf8_claim E extensions OID_RUN_INVOCATION_URI) (\<lambda>run_invocation_uri.
      Inr \<lparr>fc_san_uri = san_uri, fc_issuer = issuer, fc_build_signer_uri = build_signer_uri,
           fc_build_signer_digest = build_signer_digest, fc_runner_environment = runner_environment,
           fc_source_repository_uri = source_repository_uri,
           fc_source_repository_digest = source_repository_digest,
           fc_source_repository_ref = source_repository_ref,
           fc_source_repository_id = source_repository_id,
           fc_source_repository_owner_uri = source_repository_owner_uri,
           fc_source_repository_owner_id = source_repository_owner_id,
           fc_build_config_uri = build_config_uri, fc_build_config_digest = build_config_digest,
           fc_build_trigger = build_trigger, fc_run_invocation_uri = run_invocation_uri\<rparr>))))))))))))))))"

section \<open>Specification\<close>

definition utf8_claim :: "('p, 'q, 's, 'n) crates \<Rightarrow> 'n x509_cert \<Rightarrow> string \<Rightarrow> string option \<Rightarrow> bool" where
  "utf8_claim E c oid v = (case v of
     None \<Rightarrow> lacks_extension c oid
   | Some s \<Rightarrow> has_extension (utf8_string_from_der E) c oid s)"

text \<open>The SAN claim is the first URI among the names of the extension; an extension without one counts
  as absent.\<close>

definition san_claim :: "('p, 'q, 's, 'n) crates \<Rightarrow> 'n x509_cert \<Rightarrow> string option \<Rightarrow> bool" where
  "san_claim E c v = (case v of
     None \<Rightarrow> lacks_extension c ID_CE_SUBJECT_ALT_NAME
       \<or> (\<exists>names. has_extension (subject_alt_name_from_der E) c ID_CE_SUBJECT_ALT_NAME names
            \<and> list_all (\<lambda>n. n = OtherGeneralName) names)
   | Some uri \<Rightarrow> \<exists>us vs. has_extension (subject_alt_name_from_der E) c ID_CE_SUBJECT_ALT_NAME
            (us @ UniformResourceIdentifier uri # vs)
       \<and> list_all (\<lambda>n. n = OtherGeneralName) us)"

lemma first_uri_None: "first_uri names = None \<longleftrightarrow> list_all (\<lambda>n. n = OtherGeneralName) names"
  by (induction names rule: first_uri.induct) simp_all

lemma first_uri_Some:
  "first_uri names = Some uri \<longleftrightarrow>
     (\<exists>us vs. names = us @ UniformResourceIdentifier uri # vs \<and> list_all (\<lambda>n. n = OtherGeneralName) us)"
proof (induction names rule: first_uri.induct)
  case (2 u names)
  show ?case by (auto simp: Cons_eq_append_conv)
next
  case (3 names)
  show ?case unfolding first_uri.simps 3
  proof
    assume "\<exists>us vs. names = us @ UniformResourceIdentifier uri # vs \<and> list_all (\<lambda>n. n = OtherGeneralName) us"
    then obtain us vs where "names = us @ UniformResourceIdentifier uri # vs" "list_all (\<lambda>n. n = OtherGeneralName) us"
      by blast
    then have "OtherGeneralName # names = (OtherGeneralName # us) @ UniformResourceIdentifier uri # vs"
      "list_all (\<lambda>n. n = OtherGeneralName) (OtherGeneralName # us)" by simp_all
    then show "\<exists>us vs. OtherGeneralName # names = us @ UniformResourceIdentifier uri # vs
        \<and> list_all (\<lambda>n. n = OtherGeneralName) us" by blast
  qed (auto simp: Cons_eq_append_conv)
qed simp

text \<open>The claims say what the certificate says.\<close>

definition claims_of :: "('p, 'q, 's, 'n) crates \<Rightarrow> 'n x509_cert \<Rightarrow> fulcio_claims \<Rightarrow> bool" where
  "claims_of E c cl \<longleftrightarrow> san_claim E c (fc_san_uri cl)
     \<and> utf8_claim E c OID_ISSUER (fc_issuer cl)
     \<and> utf8_claim E c OID_BUILD_SIGNER_URI (fc_build_signer_uri cl)
     \<and> utf8_claim E c OID_BUILD_SIGNER_DIGEST (fc_build_signer_digest cl)
     \<and> utf8_claim E c OID_RUNNER_ENVIRONMENT (fc_runner_environment cl)
     \<and> utf8_claim E c OID_SOURCE_REPOSITORY_URI (fc_source_repository_uri cl)
     \<and> utf8_claim E c OID_SOURCE_REPOSITORY_DIGEST (fc_source_repository_digest cl)
     \<and> utf8_claim E c OID_SOURCE_REPOSITORY_REF (fc_source_repository_ref cl)
     \<and> utf8_claim E c OID_SOURCE_REPOSITORY_ID (fc_source_repository_id cl)
     \<and> utf8_claim E c OID_SOURCE_REPOSITORY_OWNER_URI (fc_source_repository_owner_uri cl)
     \<and> utf8_claim E c OID_SOURCE_REPOSITORY_OWNER_ID (fc_source_repository_owner_id cl)
     \<and> utf8_claim E c OID_BUILD_CONFIG_URI (fc_build_config_uri cl)
     \<and> utf8_claim E c OID_BUILD_CONFIG_DIGEST (fc_build_config_digest cl)
     \<and> utf8_claim E c OID_BUILD_TRIGGER (fc_build_trigger cl)
     \<and> utf8_claim E c OID_RUN_INVOCATION_URI (fc_run_invocation_uri cl)"

lemma lookup_None: "find_extension (extensions_slice c) oid = Inr None \<longleftrightarrow> lacks_extension c oid"
  by (simp add: find_extension_None lacks_extension_def)

lemma lookup_decoded:
  "res_bind (find_extension (extensions_slice c) oid) (\<lambda>m. case m of None \<Rightarrow> Inr None
     | Some ext \<Rightarrow> res_bind (map_err g (f (extn_value ext))) (\<lambda>x. Inr (h x))) = Inr v
   \<longleftrightarrow> (lacks_extension c oid \<and> v = None) \<or> (\<exists>x. has_extension f c oid x \<and> v = h x)"
proof -
  have "(\<exists>m. find_extension (extensions_slice c) oid = Inr m \<and> P m)
      \<longleftrightarrow> (lacks_extension c oid \<and> P None)
        \<or> (\<exists>e. filter (\<lambda>e. extn_id e = oid) (extensions_slice c) = [e] \<and> P (Some e))" for P
    using lookup_None [of c oid] find_extension_Some [of "extensions_slice c" oid]
    by (metis option.exhaust)
  then show ?thesis by (auto simp: has_extension_def)
qed

lemma extract_utf8_claim_iff:
  "extract_utf8_claim E (extensions_slice c) oid = Inr v \<longleftrightarrow> utf8_claim E c oid v"
  unfolding extract_utf8_claim_def lookup_decoded utf8_claim_def by (cases v) auto

lemma extract_san_uri_iff: "extract_san_uri E (extensions_slice c) = Inr v \<longleftrightarrow> san_claim E c v"
  unfolding extract_san_uri_def lookup_decoded
  by (cases v) (auto simp: san_claim_def eq_commute [of _ "first_uri _"] first_uri_None first_uri_Some)

lemma extract_claims_iff: "extract_claims E v = Inr cl \<longleftrightarrow> claims_of E (vl_leaf v) cl"
  unfolding extract_claims_def Let_def res_bind_eq_Inr extract_utf8_claim_iff extract_san_uri_iff claims_of_def
  by (cases cl) auto

text \<open>A certificate that carries one of the modelled extensions twice is rejected.\<close>

lemma extract_utf8_claim_duplicate:
  "2 \<le> length (filter (\<lambda>e. extn_id e = oid) (extensions_slice c)) \<Longrightarrow>
     extract_utf8_claim E (extensions_slice c) oid = Inl (Certificate DuplicateExtension)"
  using find_extension_duplicate [of "extensions_slice c" oid "Certificate DuplicateExtension"]
  by (simp add: extract_utf8_claim_def)

text \<open>A certificate has at most one set of claims.\<close>

lemma claims_of_unique: "claims_of E c cl \<Longrightarrow> claims_of E c cl' \<Longrightarrow> cl = cl'"
proof -
  let ?v = "\<lparr>vl_leaf = c, vl_leaf_spki_der = [], vl_issuer_spki_der = [], vl_chain_length = 0\<rparr>"
  assume "claims_of E c cl" "claims_of E c cl'"
  then have "extract_claims E ?v = Inr cl" "extract_claims E ?v = Inr cl'"
    by (simp_all add: extract_claims_iff)
  then show "cl = cl'" by simp
qed

section \<open>Property\<close>

text \<open>C24. The extracted claims are exactly what the certificate says. Each of the fourteen text claims
  is absent if and only if its extension is, and is otherwise the decoded value of the single
  occurrence. The SAN claim is the first URI among the names of the single subject alternative
  name extension, and is absent if the extension is or names no URI.\<close>

theorem extract_claims_faithful: "extract_claims E v = Inr cl \<longleftrightarrow> claims_of E (vl_leaf v) cl"
  by (rule extract_claims_iff)

end
