(* ===== verification/Glob.thy ===== *)
theory Glob
  imports Std_Lib
begin

text \<open>
  \<open>glob_match\<close> of \<open>src/src/policy_match.rs\<close>: the wildcard matcher behind \<open>RefPolicy::Glob\<close>. The
  two-pointer loop with its last-star backtracking is modelled index by index, with its mutable
  locals as a record; the specification is the inductive relation \<open>glob\<close>. The loop is shown to
  decide the relation and to end within a quadratic number of rounds.
\<close>

section \<open>The matcher\<close>

definition star :: u8 where "star = 0x2A"

record glob_state =
  gs_pi :: nat
  gs_ti :: nat
  gs_star :: "(nat \<times> nat) option"

text \<open>One round of the first \<open>while\<close> loop: an early return or the next state.\<close>

definition glob_round :: "bytes \<Rightarrow> bytes \<Rightarrow> glob_state \<Rightarrow> glob_state option" where
  "glob_round p t s =
     (if gs_pi s < length p \<and> p ! gs_pi s = star then
        Some (s\<lparr>gs_star := Some (gs_pi s, gs_ti s), gs_pi := gs_pi s + 1\<rparr>)
      else if gs_pi s < length p \<and> p ! gs_pi s = t ! gs_ti s then
        Some (s\<lparr>gs_pi := gs_pi s + 1, gs_ti := gs_ti s + 1\<rparr>)
      else (case gs_star s of
          Some (star_pi, star_ti) \<Rightarrow>
            Some (s\<lparr>gs_pi := star_pi + 1, gs_ti := star_ti + 1, gs_star := Some (star_pi, star_ti + 1)\<rparr>)
        | None \<Rightarrow> None))"

text \<open>The trailing stars are skipped by the second loop.\<close>

function skip_stars :: "bytes \<Rightarrow> nat \<Rightarrow> nat" where
  "skip_stars p i = (if i < length p \<and> p ! i = star then skip_stars p (i + 1) else i)"
  by auto
termination by (relation "measure (\<lambda>(p, i). length p - i)") auto

declare skip_stars.simps [simp del]

text \<open>The rank of a state falls in every round. A state whose star is ahead of the text
  position never arises from the initial one; the first component puts it on top.\<close>

definition glob_rank :: "bytes \<Rightarrow> bytes \<Rightarrow> glob_state \<Rightarrow> nat \<times> nat \<times> nat" where
  "glob_rank p t s =
     (case gs_star s of
        None \<Rightarrow> (0, length t + 1, length p - gs_pi s)
      | Some (star_pi, star_ti) \<Rightarrow>
          (if gs_ti s < star_ti then 1 else 0, length t - star_ti, length p - gs_pi s))"

lemma glob_round_rank:
  "gs_ti s < length t \<Longrightarrow> glob_round p t s = Some s' \<Longrightarrow>
     (glob_rank p t s', glob_rank p t s) \<in> less_than <*lex*> less_than <*lex*> less_than"
  by (auto simp: glob_round_def glob_rank_def split: if_splits option.splits)

function glob_loop :: "bytes \<Rightarrow> bytes \<Rightarrow> glob_state \<Rightarrow> bool" where
  "glob_loop p t s =
     (if gs_ti s < length t then
        (case glob_round p t s of None \<Rightarrow> False | Some s' \<Rightarrow> glob_loop p t s')
      else skip_stars p (gs_pi s) = length p)"
  by pat_completeness auto
termination
  by (relation "inv_image (less_than <*lex*> less_than <*lex*> less_than) (\<lambda>(p, t, s). glob_rank p t s)")
    (auto intro!: glob_round_rank simp del: in_lex_prod)

declare glob_loop.simps [simp del]

definition glob_start :: glob_state where
  "glob_start = \<lparr>gs_pi = 0, gs_ti = 0, gs_star = None\<rparr>"

definition glob_match :: "string \<Rightarrow> string \<Rightarrow> bool" where
  "glob_match pattern txt = glob_loop (as_bytes pattern) (as_bytes txt) glob_start"

section \<open>The specification\<close>

inductive glob :: "bytes \<Rightarrow> bytes \<Rightarrow> bool" where
  nil: "glob [] []"
| char: "glob ps ts \<Longrightarrow> c \<noteq> star \<Longrightarrow> glob (c # ps) (c # ts)"
| stop: "glob ps ts \<Longrightarrow> glob (star # ps) ts"
| more: "glob (star # ps) ts \<Longrightarrow> glob (star # ps) (c # ts)"

inductive_simps glob_Nil [simp]: "glob [] ts"
inductive_simps glob_Cons_Nil: "glob (c # ps) []"
inductive_simps glob_Cons_Cons: "glob (c # ps) (d # ts)"

lemma glob_char: "c \<noteq> star \<Longrightarrow> glob (c # ps) ts \<longleftrightarrow> (\<exists>ts'. ts = c # ts' \<and> glob ps ts')"
  by (cases ts) (auto simp: glob_Cons_Nil glob_Cons_Cons)

lemma glob_star_Nil: "glob (star # ps) [] \<longleftrightarrow> glob ps []"
  by (auto simp: glob_Cons_Nil)

lemma glob_star_Cons: "glob (star # ps) (c # ts) \<longleftrightarrow> glob ps (c # ts) \<or> glob (star # ps) ts"
  by (auto simp: glob_Cons_Cons)

text \<open>A star absorbs any prefix, and only that.\<close>

lemma glob_star_iff: "glob (star # ps) ts \<longleftrightarrow> (\<exists>us vs. ts = us @ vs \<and> glob ps vs)"
proof (induction ts)
  case Nil
  then show ?case by (simp add: glob_star_Nil)
next
  case (Cons c ts)
  show ?case unfolding glob_star_Cons Cons
    by (metis append_Cons append_Nil append_eq_Cons_conv)
qed

lemma glob_star_append: "glob (star # ps) vs \<Longrightarrow> glob (star # ps) (us @ vs)"
  by (auto simp: glob_star_iff) (metis append_assoc)

text \<open>The lone star.\<close>

lemma glob_any: "glob (as_bytes ''*'') ts"
proof -
  have "as_bytes ''*'' = [star]" by (simp add: as_bytes_def byte_of_char_def star_def)
  moreover have "glob [star] ts" using glob_star_append [of "[]" "[]" ts] by (simp add: glob_star_Nil)
  ultimately show ?thesis by simp
qed

lemma glob_literal_append:
  "star \<notin> set l \<Longrightarrow> glob (l @ ps) ts \<longleftrightarrow> (\<exists>ts'. ts = l @ ts' \<and> glob ps ts')"
  by (induction l arbitrary: ts) (auto simp: glob_char)

lemma glob_literal: "star \<notin> set p \<Longrightarrow> glob p t \<longleftrightarrow> t = p"
  using glob_literal_append [of p "[]" t] by auto

lemma glob_Nil_right: "glob p [] \<longleftrightarrow> list_all (\<lambda>c. c = star) p"
  by (induction p) (auto simp: glob_Cons_Nil)

section \<open>The loop decides the relation\<close>

lemma skip_stars_all: "i \<le> length p \<Longrightarrow> skip_stars p i = length p \<longleftrightarrow> list_all (\<lambda>c. c = star) (drop i p)"
proof (induction p i rule: skip_stars.induct)
  case (1 p i)
  show ?case
  proof (cases "i < length p")
    case True
    then show ?thesis
      using 1 by (subst skip_stars.simps) (auto simp: Cons_nth_drop_Suc [symmetric])
  next
    case False
    then show ?thesis using "1.prems" by (subst skip_stars.simps) simp
  qed
qed

text \<open>The alternative that is still open: the last star takes at least one more byte.\<close>

definition open_star :: "bytes \<Rightarrow> bytes \<Rightarrow> (nat \<times> nat) option \<Rightarrow> bool" where
  "open_star p t st = (case st of None \<Rightarrow> False
     | Some (i, j) \<Rightarrow> glob (star # drop (i + 1) p) (drop (j + 1) t))"

text \<open>The invariant: since the last star, the pattern read is a literal and is the text read.\<close>

definition glob_inv :: "bytes \<Rightarrow> bytes \<Rightarrow> glob_state \<Rightarrow> bool" where
  "glob_inv p t s \<longleftrightarrow> gs_pi s \<le> length p \<and> gs_ti s \<le> length t
     \<and> (case gs_star s of None \<Rightarrow> True | Some (i, j) \<Rightarrow>
          (\<exists>l. star \<notin> set l \<and> drop (i + 1) p = l @ drop (gs_pi s) p \<and> drop j t = l @ drop (gs_ti s) t
             \<and> gs_pi s = i + 1 + length l \<and> gs_ti s = j + length l))"

text \<open>What the open alternative would match is a suffix of the text still to be read.\<close>

lemma open_star_suffix:
  assumes l: "star \<notin> set l" "drop j t = l @ rest"
    and m: "glob (star # l @ ps) (drop (j + 1) t)"
  shows "\<exists>n. glob ps (drop n rest)"
proof -
  from m l(1) obtain us vs where d: "drop (j + 1) t = us @ l @ vs" and g: "glob ps vs"
    by (auto simp: glob_star_iff glob_literal_append)
  have "vs = drop (length us + length l) (drop (j + 1) t)" by (subst d) simp
  also have "\<dots> = drop (length us + length l + 1) (drop j t)" by (simp add: add.commute add.left_commute)
  also have "\<dots> = drop (length us + 1) rest" by (simp add: l(2))
  finally show ?thesis using g by blast
qed

lemma glob_star_drop: "glob (star # ps) (drop n ts) \<Longrightarrow> glob (star # ps) ts"
  using glob_star_append [of ps "drop n ts" "take n ts"] by simp

lemma open_star_inv:
  assumes "glob_inv p t s" "open_star p t (gs_star s)"
  shows "\<exists>n. glob (drop (gs_pi s) p) (drop n (drop (gs_ti s) t))"
proof -
  obtain i j where st: "gs_star s = Some (i, j)"
    using assms(2) by (auto simp: open_star_def split: option.splits)
  from assms(1) st obtain l where l: "star \<notin> set l" "drop (i + 1) p = l @ drop (gs_pi s) p"
    "drop j t = l @ drop (gs_ti s) t" by (auto simp: glob_inv_def)
  show ?thesis
    using open_star_suffix [OF l(1,3)] assms(2) st l(2) by (simp add: open_star_def)
qed

text \<open>What a state still accepts, and each round keeps it.\<close>

definition accepts :: "bytes \<Rightarrow> bytes \<Rightarrow> glob_state \<Rightarrow> bool" where
  "accepts p t s \<longleftrightarrow> glob (drop (gs_pi s) p) (drop (gs_ti s) t) \<or> open_star p t (gs_star s)"

lemma glob_round_inv:
  assumes "glob_inv p t s" "gs_ti s < length t" "glob_round p t s = Some s'"
  shows "glob_inv p t s'"
proof -
  have pd: "drop (gs_pi s) p = p ! gs_pi s # drop (gs_pi s + 1) p" if "gs_pi s < length p"
    using that by (simp add: Cons_nth_drop_Suc)
  have td: "drop (gs_ti s) t = t ! gs_ti s # drop (gs_ti s + 1) t"
    using assms(2) by (simp add: Cons_nth_drop_Suc)
  consider (wild) "gs_pi s < length p" "s' = s\<lparr>gs_star := Some (gs_pi s, gs_ti s), gs_pi := gs_pi s + 1\<rparr>"
    | (char) "gs_pi s < length p" "p ! gs_pi s \<noteq> star" "p ! gs_pi s = t ! gs_ti s"
        "s' = s\<lparr>gs_pi := gs_pi s + 1, gs_ti := gs_ti s + 1\<rparr>"
    | (backtrack) i j where "gs_star s = Some (i, j)"
        "s' = s\<lparr>gs_pi := i + 1, gs_ti := j + 1, gs_star := Some (i, j + 1)\<rparr>"
    using assms(3) by (auto simp: glob_round_def split: if_splits option.splits)
  then show ?thesis
  proof cases
    case wild
    then show ?thesis using assms(1,2) by (auto simp: glob_inv_def)
  next
    case char
    show ?thesis
    proof (cases "gs_star s")
      case None
      then show ?thesis using char assms(1,2) by (simp add: glob_inv_def)
    next
      case (Some ij)
      then obtain i j where ij: "gs_star s = Some (i, j)" by (cases ij) auto
      with assms(1) obtain l where l: "star \<notin> set l" "drop (i + 1) p = l @ drop (gs_pi s) p"
        "drop j t = l @ drop (gs_ti s) t" "gs_pi s = i + 1 + length l" "gs_ti s = j + length l"
        by (auto simp: glob_inv_def)
      let ?l = "l @ [p ! gs_pi s]"
      have "star \<notin> set ?l" using l(1) char(2) by simp
      moreover have "drop (i + 1) p = ?l @ drop (gs_pi s + 1) p" unfolding l(2) pd [OF char(1)] by simp
      moreover have "drop j t = ?l @ drop (gs_ti s + 1) t" unfolding l(3) td char(3) by simp
      moreover have "gs_pi s + 1 = i + 1 + length ?l" "gs_ti s + 1 = j + length ?l" using l by simp_all
      ultimately have "\<exists>l. star \<notin> set l \<and> drop (i + 1) p = l @ drop (gs_pi s + 1) p
          \<and> drop j t = l @ drop (gs_ti s + 1) t \<and> gs_pi s + 1 = i + 1 + length l \<and> gs_ti s + 1 = j + length l"
        by blast
      then show ?thesis using char assms(2) ij by (simp add: glob_inv_def)
    qed
  next
    case backtrack
    from backtrack(1) assms(1) have "i + 1 \<le> length p" "j \<le> gs_ti s" by (auto simp: glob_inv_def)
    then show ?thesis using backtrack assms(2) by (simp add: glob_inv_def)
  qed
qed


lemma glob_round_accepts:
  assumes "glob_inv p t s" "gs_ti s < length t" "glob_round p t s = Some s'"
  shows "accepts p t s' \<longleftrightarrow> accepts p t s"
proof -
  let ?P = "drop (gs_pi s) p" and ?T = "drop (gs_ti s) t"
  have pd: "?P = p ! gs_pi s # drop (gs_pi s + 1) p" if "gs_pi s < length p"
    using that by (simp add: Cons_nth_drop_Suc)
  have td: "?T = t ! gs_ti s # drop (gs_ti s + 1) t"
    using assms(2) by (simp add: Cons_nth_drop_Suc)
  consider (wild) "gs_pi s < length p" "p ! gs_pi s = star"
        "s' = s\<lparr>gs_star := Some (gs_pi s, gs_ti s), gs_pi := gs_pi s + 1\<rparr>"
    | (char) "gs_pi s < length p" "p ! gs_pi s \<noteq> star" "p ! gs_pi s = t ! gs_ti s"
        "s' = s\<lparr>gs_pi := gs_pi s + 1, gs_ti := gs_ti s + 1\<rparr>"
    | (backtrack) i j where "\<not> (gs_pi s < length p \<and> (p ! gs_pi s = star \<or> p ! gs_pi s = t ! gs_ti s))"
        "gs_star s = Some (i, j)"
        "s' = s\<lparr>gs_pi := i + 1, gs_ti := j + 1, gs_star := Some (i, j + 1)\<rparr>"
    using assms(3) by (auto simp: glob_round_def split: if_splits option.splits)
  then show ?thesis
  proof cases
    case wild
    have "open_star p t (gs_star s) \<Longrightarrow> glob ?P ?T"
      using open_star_inv [OF assms(1)] glob_star_drop unfolding pd [OF wild(1)] wild(2) by blast
    moreover have "glob ?P ?T \<longleftrightarrow> accepts p t s'"
      unfolding pd [OF wild(1)] wild(2) td glob_star_Cons accepts_def open_star_def wild(3)
      by (simp add: td)
    ultimately show ?thesis by (auto simp: accepts_def)
  next
    case char
    have "glob ?P ?T \<longleftrightarrow> glob (drop (gs_pi s + 1) p) (drop (gs_ti s + 1) t)"
      unfolding pd [OF char(1)] td using char(2,3) by (simp add: glob_char)
    then show ?thesis by (simp add: accepts_def char(4))
  next
    case backtrack
    have "\<not> glob ?P ?T"
    proof (cases "gs_pi s < length p")
      case True
      then show ?thesis using backtrack(1) unfolding pd [OF True] td by (auto simp: glob_char)
    qed (simp add: td)
    moreover have "open_star p t (Some (i, j)) \<longleftrightarrow>
        glob (drop (i + 1) p) (drop (j + 1) t) \<or> open_star p t (Some (i, j + 1))"
    proof -
      have "drop (j + 1 + 1) t = tl (drop (j + 1) t)" by (simp add: drop_Suc tl_drop)
      then show ?thesis
        by (cases "drop (j + 1) t") (simp_all add: open_star_def glob_star_Nil glob_star_Cons)
    qed
    ultimately show ?thesis by (simp add: accepts_def backtrack(2,3))
  qed
qed

lemma glob_loop_accepts: "glob_inv p t s \<Longrightarrow> glob_loop p t s \<longleftrightarrow> accepts p t s"
proof (induction p t s rule: glob_loop.induct)
  case (1 p t s)
  show ?case
  proof (cases "gs_ti s < length t")
    case True
    show ?thesis
    proof (cases "glob_round p t s")
      case None
      have "drop (gs_ti s) t = t ! gs_ti s # drop (gs_ti s + 1) t"
        using True by (simp add: Cons_nth_drop_Suc)
      then have "\<not> accepts p t s"
        using None by (cases "gs_pi s < length p")
          (auto simp: accepts_def open_star_def glob_round_def glob_char Cons_nth_drop_Suc [symmetric]
            split: if_splits option.splits)
      then show ?thesis by (simp add: glob_loop.simps [of p t s] True None)
    next
      case (Some s')
      then show ?thesis
        using 1 True glob_round_inv [of p t s s'] glob_round_accepts [of p t s s']
        by (simp add: glob_loop.simps [of p t s])
    qed
  next
    case False
    then have end_of_text: "drop (gs_ti s) t = []" and pi: "gs_pi s \<le> length p"
      using "1.prems" by (simp_all add: glob_inv_def)
    have "accepts p t s \<longleftrightarrow> glob (drop (gs_pi s) p) []"
      using open_star_inv [OF "1.prems"] by (auto simp: accepts_def end_of_text)
    then show ?thesis
      by (simp add: glob_loop.simps [of p t s] False glob_Nil_right skip_stars_all [OF pi])
  qed
qed

lemma glob_match_iff: "glob_match pattern txt \<longleftrightarrow> glob (as_bytes pattern) (as_bytes txt)"
  using glob_loop_accepts [of "as_bytes pattern" "as_bytes txt" glob_start]
  by (simp add: glob_match_def glob_start_def glob_inv_def accepts_def open_star_def)

section \<open>The number of rounds\<close>

definition glob_step :: "bytes \<Rightarrow> bytes \<Rightarrow> glob_state \<Rightarrow> glob_state \<Rightarrow> bool" where
  "glob_step p t s s' \<longleftrightarrow> gs_ti s < length t \<and> glob_round p t s = Some s'"

text \<open>The rank as one number, for the states the loop reaches.\<close>

definition glob_fuel :: "bytes \<Rightarrow> bytes \<Rightarrow> glob_state \<Rightarrow> nat" where
  "glob_fuel p t s = (case gs_star s of None \<Rightarrow> length t + 1 | Some (i, j) \<Rightarrow> length t - j) * (length p + 1)
     + (length p - gs_pi s)"

lemma glob_step_fuel:
  assumes "glob_inv p t s" "glob_step p t s s'"
  shows "glob_fuel p t s' < glob_fuel p t s"
proof -
  from assms(2) have ti: "gs_ti s < length t" and r: "glob_round p t s = Some s'"
    by (simp_all add: glob_step_def)
  consider (wild) "gs_pi s < length p" "s' = s\<lparr>gs_star := Some (gs_pi s, gs_ti s), gs_pi := gs_pi s + 1\<rparr>"
    | (char) "gs_pi s < length p" "s' = s\<lparr>gs_pi := gs_pi s + 1, gs_ti := gs_ti s + 1\<rparr>"
    | (backtrack) i j where "gs_star s = Some (i, j)"
        "s' = s\<lparr>gs_pi := i + 1, gs_ti := j + 1, gs_star := Some (i, j + 1)\<rparr>"
    using r by (auto simp: glob_round_def split: if_splits option.splits)
  then show ?thesis
  proof cases
    case wild
    have "length t - gs_ti s \<le> (case gs_star s of None \<Rightarrow> length t + 1 | Some (i, j) \<Rightarrow> length t - j)"
      using assms(1) by (auto simp: glob_inv_def split: option.splits)
    then have "(length t - gs_ti s) * (length p + 1)
        \<le> (case gs_star s of None \<Rightarrow> length t + 1 | Some (i, j) \<Rightarrow> length t - j) * (length p + 1)"
      by (rule mult_right_mono) simp
    then show ?thesis using wild(1) by (simp add: glob_fuel_def wild(2))
  next
    case char
    then show ?thesis by (simp add: glob_fuel_def)
  next
    case backtrack
    have "j < length t" using assms(1) backtrack(1) ti by (auto simp: glob_inv_def)
    then obtain d where "length t - j = Suc d" "length t - Suc j = d"
      by (metis Suc_diff_Suc)
    then show ?thesis by (simp add: glob_fuel_def backtrack)
  qed
qed

lemma glob_steps_bound: "(glob_step p t ^^ n) s s' \<Longrightarrow> glob_inv p t s \<Longrightarrow> n + glob_fuel p t s' \<le> glob_fuel p t s"
proof (induction n arbitrary: s)
  case (Suc n)
  then obtain u where u: "glob_step p t s u" "(glob_step p t ^^ n) u s'" by (metis relpowp_Suc_D2)
  have "glob_inv p t u" using u(1) Suc.prems(2) glob_round_inv by (auto simp: glob_step_def)
  with Suc.IH u(2) glob_step_fuel [OF Suc.prems(2) u(1)] show ?case by fastforce
qed simp

lemma glob_rounds_quadratic:
  assumes "(glob_step p t ^^ n) glob_start s"
  shows "n \<le> (length t + 2) * (length p + 1)"
  using glob_steps_bound [OF assms]
  by (simp add: glob_start_def glob_inv_def glob_fuel_def add_mult_distrib)

section \<open>Properties\<close>

text \<open>C16. The backtracking loop decides the wildcard relation: a star stands for any text, every other
  byte for itself.\<close>

theorem glob_match_decides: "glob_match pattern txt \<longleftrightarrow> glob (as_bytes pattern) (as_bytes txt)"
  by (rule glob_match_iff)

text \<open>C36. The loop is quadratic in the worst case: from its initial state it takes at most
  \<open>(|text| + 2) (|pattern| + 1)\<close> rounds, also on patterns full of stars.\<close>

theorem glob_match_rounds_bounded:
  assumes "(glob_step p t ^^ n) glob_start s"
  shows "n \<le> (length t + 2) * (length p + 1)"
  using assms by (rule glob_rounds_quadratic)

theorem glob_match_rounds_bounded_witness:
  "glob_step [star, 1] [2, 1] glob_start \<lparr>gs_pi = 1, gs_ti = 0, gs_star = Some (0, 0)\<rparr> \<and> (1 :: nat) \<le> (2 + 2) * (2 + 1)"
proof -
  have step: "glob_step [star, 1] [2, 1] glob_start \<lparr>gs_pi = 1, gs_ti = 0, gs_star = Some (0, 0)\<rparr>"
    by (simp add: glob_step_def glob_round_def glob_start_def)
  have run: "(glob_step [star, 1] [2, 1] ^^ 1) glob_start \<lparr>gs_pi = 1, gs_ti = 0, gs_star = Some (0, 0)\<rparr>"
    by (simp only: relpowp_1 step)
  show ?thesis using step glob_match_rounds_bounded [OF run] by simp
qed

end
