(* ===== verification/Policy_Match.thy ===== *)
theory Policy_Match
  imports Fulcio Glob Policies
begin

text \<open>
  \<open>src/src/policy_match.rs\<close>: the authenticated claims against the caller's policy. The two URI
  parsers are shown to invert the URIs they describe, and \<open>match_policy\<close> to accept exactly the
  claims that the declarative reading of a policy admits.
\<close>

section \<open>Constants and data\<close>

definition EXPECTED_ISSUER :: string where
  "EXPECTED_ISSUER = ''https://token.actions.githubusercontent.com''"
definition GITHUB_URI_PREFIX :: string where "GITHUB_URI_PREFIX = ''https://github.com/''"
definition WORKFLOW_PATH_PREFIX :: string where "WORKFLOW_PATH_PREFIX = ''.github/workflows/''"

record matched_identity =
  mi_issuer :: string
  mi_source_repository :: string
  mi_source_ref :: string
  mi_signer_repository :: string
  mi_signer_workflow_path :: string

record signer_uri_parts =
  su_owner :: string
  su_name :: string
  su_workflow_path :: string
  su_git_ref :: string

section \<open>Parsers\<close>

definition require_claim :: "string option \<Rightarrow> string \<Rightarrow> error + string" where
  "require_claim claim name = ok_or (Policy (MissingIdentityClaim name)) claim"

definition malformed_claim :: "string \<Rightarrow> string \<Rightarrow> error" where
  "malformed_claim claim reason = Policy (MalformedIdentityClaim claim reason)"

definition missing_prefix :: string where
  "missing_prefix = ''missing '' @ [CHR 0x22] @ GITHUB_URI_PREFIX @ [CHR 0x22] @ '' prefix''"

definition parse_github_repo_uri :: "string \<Rightarrow> string \<Rightarrow> error + (string \<times> string)" where
  "parse_github_repo_uri uri claim =
     res_bind (ok_or (malformed_claim claim missing_prefix) (strip_prefix GITHUB_URI_PREFIX uri)) (\<lambda>rest.
     res_bind (ok_or (malformed_claim claim (''missing '' @ [CHR 0x27] @ ''/'' @ [CHR 0x27]
                        @ '' between owner and repository name''))
                 (split_once CHR ''/'' rest)) (\<lambda>(owner, name).
     if owner = [] \<or> name = [] then Inl (malformed_claim claim ''empty owner or repository name'')
     else if CHR ''/'' \<in> set name
     then Inl (malformed_claim claim ''unexpected extra path segment after repository name'')
     else Inr (owner, name)))"

text \<open>\<open>parts.next()\<close> for the \<open>i\<close>-th time, and \<open>Option::filter\<close> with \<open>!s.is_empty()\<close>.\<close>

definition nth_part :: "string list \<Rightarrow> nat \<Rightarrow> string option" where
  "nth_part parts i = (if i < length parts then Some (parts ! i) else None)"

definition nonempty_part :: "string option \<Rightarrow> string option" where
  "nonempty_part m = (case m of Some s \<Rightarrow> if s \<noteq> [] then Some s else None | None \<Rightarrow> None)"

definition parse_signer_san_uri :: "string \<Rightarrow> error + signer_uri_parts" where
  "parse_signer_san_uri uri =
     (let CLAIM = ''san_uri'' in
      res_bind (ok_or (malformed_claim CLAIM missing_prefix) (strip_prefix GITHUB_URI_PREFIX uri)) (\<lambda>rest.
      res_bind (ok_or (malformed_claim CLAIM (''missing '' @ [CHR 0x27] @ ''@'' @ [CHR 0x27] @ '' revision separator''))
                  (split_once CHR ''@'' rest)) (\<lambda>(repo_and_path, git_ref).
      if CHR ''@'' \<in> set git_ref
      then Inl (malformed_claim CLAIM (''ambiguous additional '' @ [CHR 0x27] @ ''@'' @ [CHR 0x27]
                  @ '' in workflow identity''))
      else if git_ref = []
      then Inl (malformed_claim CLAIM (''empty revision after '' @ [CHR 0x27] @ ''@'' @ [CHR 0x27])) else
      (let parts = splitn 3 CHR ''/'' repo_and_path in
       res_bind (ok_or (malformed_claim CLAIM ''missing repository owner'')
                   (nonempty_part (nth_part parts 0))) (\<lambda>owner.
       res_bind (ok_or (malformed_claim CLAIM ''missing repository name'')
                   (nonempty_part (nth_part parts 1))) (\<lambda>name.
       res_bind (ok_or (malformed_claim CLAIM ''missing workflow path'') (nth_part parts 2)) (\<lambda>workflow_path.
       if \<not> starts_with WORKFLOW_PATH_PREFIX workflow_path
       then Inl (malformed_claim CLAIM (''workflow path does not start with '' @ [CHR 0x22]
                   @ WORKFLOW_PATH_PREFIX @ [CHR 0x22]))
       else Inr \<lparr>su_owner = owner, su_name = name, su_workflow_path = workflow_path,
                 su_git_ref = git_ref\<rparr>)))))))"

section \<open>Checks\<close>

definition check_repository_match ::
  "string \<Rightarrow> string \<Rightarrow> repository_identity \<Rightarrow> (string \<Rightarrow> string \<Rightarrow> policy_error) \<Rightarrow> error + unit" where
  "check_repository_match owner name expected make_err =
     (if eq_ignore_ascii_case owner (ri_owner expected) \<and> eq_ignore_ascii_case name (ri_name expected)
      then Inr ()
      else Inl (Policy (make_err (ri_owner expected @ ''/'' @ ri_name expected) (owner @ ''/'' @ name))))"

definition check_pinned_id ::
  "u64 option \<Rightarrow> string option \<Rightarrow> string \<Rightarrow> (string \<Rightarrow> string \<Rightarrow> policy_error) \<Rightarrow> error + unit" where
  "check_pinned_id expected found_claim claim_name make_err =
     (case expected of
        None \<Rightarrow> Inr ()
      | Some expected_id \<Rightarrow>
          res_bind (require_claim found_claim claim_name) (\<lambda>found.
          (let expected = dec (unat expected_id) in
           if found = expected then Inr () else Inl (Policy (make_err expected found)))))"

definition check_ref_policy :: "string \<Rightarrow> ref_policy \<Rightarrow> error + unit" where
  "check_ref_policy found_ref policy =
     (let (matched, expected) = (case policy of
            Exact expected \<Rightarrow> (found_ref = expected, expected)
          | Glob pattern \<Rightarrow> (glob_match pattern found_ref, pattern)) in
      if matched then Inr () else Inl (Policy (SourceRefMismatch expected found_ref)))"

definition check_signer_revision ::
  "('p, 'q, 's, 'n) crates \<Rightarrow> fulcio_claims \<Rightarrow> signer_uri_parts \<Rightarrow> workflow_revision_policy \<Rightarrow> error + unit" where
  "check_signer_revision E claims signer policy =
     (case policy of
        Any \<Rightarrow> Inr ()
      | Ref expected_ref \<Rightarrow>
          if su_git_ref signer = expected_ref then Inr ()
          else Inl (Policy (SignerRevisionMismatch expected_ref (su_git_ref signer)))
      | Sha expected_sha \<Rightarrow>
          res_bind (require_claim (fc_build_signer_digest claims) ''build_signer_digest'') (\<lambda>found.
          (let expected = commit_sha_to_hex E expected_sha in
           if eq_ignore_ascii_case found expected then Inr ()
           else Inl (Policy (SignerRevisionMismatch expected found)))))"

fun workflow_path_as_str :: "workflow_path \<Rightarrow> string" where
  "workflow_path_as_str (WorkflowPath path) = path"

text \<open>The pinned commit, an inline block of \<open>match_policy\<close>.\<close>

definition check_source_commit ::
  "('p, 'q, 's, 'n) crates \<Rightarrow> fulcio_claims \<Rightarrow> commit_sha option \<Rightarrow> error + unit" where
  "check_source_commit E claims commit =
     (case commit of
        None \<Rightarrow> Inr ()
      | Some expected_commit \<Rightarrow>
          res_bind (require_claim (fc_source_repository_digest claims) ''source_repository_digest'') (\<lambda>found.
          (let expected = commit_sha_to_hex E expected_commit in
           if \<not> eq_ignore_ascii_case found expected
           then Inl (Policy (SourceCommitMismatch expected found)) else Inr ())))"

definition match_policy ::
  "('p, 'q, 's, 'n) crates \<Rightarrow> fulcio_claims \<Rightarrow> github_policy \<Rightarrow> error + matched_identity" where
  "match_policy E claims policy =
     (let src = pol_source policy; sgr = pol_signer policy in
      res_bind (require_claim (fc_issuer claims) ''issuer'') (\<lambda>issuer.
      if issuer \<noteq> EXPECTED_ISSUER then Inl (Policy (IssuerMismatch EXPECTED_ISSUER issuer)) else
      res_bind (require_claim (fc_source_repository_uri claims) ''source_repository_uri'') (\<lambda>source_uri.
      res_bind (parse_github_repo_uri source_uri ''source_repository_uri'') (\<lambda>(source_owner, source_name).
      res_bind (check_repository_match source_owner source_name (sp_repository src) SourceRepositoryMismatch) (\<lambda>_.
      res_bind (check_pinned_id (ri_owner_id (sp_repository src)) (fc_source_repository_owner_id claims)
                  ''source_repository_owner_id'' SourceOwnerIdMismatch) (\<lambda>_.
      res_bind (check_pinned_id (ri_repository_id (sp_repository src)) (fc_source_repository_id claims)
                  ''source_repository_id'' SourceRepositoryIdMismatch) (\<lambda>_.
      res_bind (require_claim (fc_source_repository_ref claims) ''source_repository_ref'') (\<lambda>source_ref.
      res_bind (check_ref_policy source_ref (sp_git_ref src)) (\<lambda>_.
      res_bind (check_source_commit E claims (sp_commit src)) (\<lambda>_.
      res_bind (require_claim (fc_san_uri claims) ''san_uri'') (\<lambda>san_uri.
      res_bind (parse_signer_san_uri san_uri) (\<lambda>signer.
      res_bind (check_repository_match (su_owner signer) (su_name signer) (gp_repository sgr)
                  SignerRepositoryMismatch) (\<lambda>_.
      if su_workflow_path signer \<noteq> workflow_path_as_str (gp_path sgr)
      then Inl (Policy (SignerWorkflowPathMismatch (workflow_path_as_str (gp_path sgr)) (su_workflow_path signer))) else
      res_bind (check_signer_revision E claims signer (gp_revision sgr)) (\<lambda>_.
      Inr \<lparr>mi_issuer = issuer, mi_source_repository = source_owner @ ''/'' @ source_name,
           mi_source_ref = source_ref,
           mi_signer_repository = su_owner signer @ ''/'' @ su_name signer,
           mi_signer_workflow_path = su_workflow_path signer\<rparr>))))))))))))))"

section \<open>The URIs\<close>

definition github_repo_uri :: "string \<Rightarrow> string \<Rightarrow> string" where
  "github_repo_uri owner name = GITHUB_URI_PREFIX @ owner @ ''/'' @ name"

definition uri_segment :: "string \<Rightarrow> bool" where
  "uri_segment s \<longleftrightarrow> s \<noteq> [] \<and> CHR ''/'' \<notin> set s"

definition signer_san_uri :: "signer_uri_parts \<Rightarrow> string" where
  "signer_san_uri u = GITHUB_URI_PREFIX @ su_owner u @ ''/'' @ su_name u @ ''/'' @ su_workflow_path u
     @ ''@'' @ su_git_ref u"

definition signer_wf :: "signer_uri_parts \<Rightarrow> bool" where
  "signer_wf u \<longleftrightarrow> uri_segment (su_owner u) \<and> uri_segment (su_name u)
     \<and> CHR ''@'' \<notin> set (su_owner u) \<and> CHR ''@'' \<notin> set (su_name u)
     \<and> CHR ''@'' \<notin> set (su_workflow_path u) \<and> CHR ''@'' \<notin> set (su_git_ref u)
     \<and> su_git_ref u \<noteq> [] \<and> starts_with WORKFLOW_PATH_PREFIX (su_workflow_path u)"

lemma parse_github_repo_uri_iff:
  "parse_github_repo_uri uri claim = Inr (owner, name) \<longleftrightarrow>
     uri = github_repo_uri owner name \<and> uri_segment owner \<and> uri_segment name"
  by (auto simp: parse_github_repo_uri_def github_repo_uri_def uri_segment_def strip_prefix_Some
      split_once_Some split_paired_Ex)

lemma splitn_3:
  "nth_part (splitn 3 c s) 0 = Some a \<and> nth_part (splitn 3 c s) 1 = Some b \<and> nth_part (splitn 3 c s) 2 = Some r
     \<longleftrightarrow> s = a @ c # b @ c # r \<and> c \<notin> set a \<and> c \<notin> set b"
proof -
  have three: "3 = Suc (Suc (Suc 0))" by simp
  show ?thesis
  proof (cases "split_once c s")
    case None
    then have "splitn 3 c s = [s]" by (simp add: three)
    moreover have "c \<notin> set s" using None by (simp add: split_once_None)
    ultimately show ?thesis by (auto simp: nth_part_def)
  next
    case (Some p)
    then obtain a' t where p: "split_once c s = Some (a', t)" "s = a' @ c # t" "c \<notin> set a'"
      by (cases p) (simp add: split_once_Some)
    show ?thesis
    proof (cases "split_once c t")
      case None
      then have "c \<notin> set t" by (simp add: split_once_None)
      have "s \<noteq> a @ c # b @ c # r" if "c \<notin> set a"
        using \<open>c \<notin> set t\<close> sep_append_eq [OF p(3) that, of t "b @ c # r"] by (auto simp: p(2))
      moreover have "splitn 3 c s = [a', t]" by (simp add: three p(1) None)
      ultimately show ?thesis by (auto simp: nth_part_def)
    next
      case (Some q)
      then obtain b' r' where q: "split_once c t = Some (b', r')" "t = b' @ c # r'" "c \<notin> set b'"
        by (cases q) (simp add: split_once_Some)
      have "splitn 3 c s = [a', b', r']" by (simp add: three p(1) q(1))
      then show ?thesis
        using p(2,3) q(2,3) by (auto simp: nth_part_def sep_append_eq)
    qed
  qed
qed

lemma nonempty_part_Some: "nonempty_part m = Some s \<longleftrightarrow> m = Some s \<and> s \<noteq> []"
  by (auto simp: nonempty_part_def split: option.splits)

lemma splitn_parts:
  "nth_part (splitn 3 c s) (Suc 0) = Some b \<Longrightarrow> nth_part (splitn 3 c s) 2 = Some r \<Longrightarrow>
     nth_part (splitn 3 c s) 0 = Some a \<Longrightarrow> s = a @ c # b @ c # r \<and> c \<notin> set a \<and> c \<notin> set b"
  using splitn_3 [of c s a b r] by simp

lemma parse_signer_san_uri_sound:
  assumes "parse_signer_san_uri uri = Inr u"
  shows "signer_wf u \<and> uri = signer_san_uri u"
proof -
  from assms obtain rp gr ow nm w where
    uri: "uri = GITHUB_URI_PREFIX @ rp @ CHR ''@'' # gr" "CHR ''@'' \<notin> set rp"
    and gr: "CHR ''@'' \<notin> set gr" "gr \<noteq> []"
    and parts: "nth_part (splitn 3 CHR ''/'' rp) 0 = Some ow" "ow \<noteq> []"
      "nth_part (splitn 3 CHR ''/'' rp) 1 = Some nm" "nm \<noteq> []"
      "nth_part (splitn 3 CHR ''/'' rp) 2 = Some w"
    and w: "starts_with WORKFLOW_PATH_PREFIX w"
    and u: "u = \<lparr>su_owner = ow, su_name = nm, su_workflow_path = w, su_git_ref = gr\<rparr>"
    unfolding parse_signer_san_uri_def Let_def
    by (auto simp: strip_prefix_Some split_once_Some nonempty_part_Some split_paired_Ex)
  have rp: "rp = ow @ CHR ''/'' # nm @ CHR ''/'' # w" "CHR ''/'' \<notin> set ow" "CHR ''/'' \<notin> set nm"
    using splitn_3 [of "CHR ''/''" rp ow nm w] parts by auto
  with uri gr parts w show ?thesis
    by (auto simp: u signer_wf_def uri_segment_def signer_san_uri_def)
qed

lemma parse_signer_san_uri_complete:
  assumes "signer_wf u"
  shows "parse_signer_san_uri (signer_san_uri u) = Inr u"
proof -
  let ?rp = "su_owner u @ CHR ''/'' # su_name u @ CHR ''/'' # su_workflow_path u"
  have parts: "nth_part (splitn 3 CHR ''/'' ?rp) 0 = Some (su_owner u)"
    "nth_part (splitn 3 CHR ''/'' ?rp) 1 = Some (su_name u)"
    "nth_part (splitn 3 CHR ''/'' ?rp) 2 = Some (su_workflow_path u)"
    using splitn_3 [of "CHR ''/''" ?rp "su_owner u" "su_name u" "su_workflow_path u"] assms
    by (simp_all add: signer_wf_def uri_segment_def)
  have "signer_san_uri u = GITHUB_URI_PREFIX @ ?rp @ CHR ''@'' # su_git_ref u"
    by (simp add: signer_san_uri_def)
  moreover have "split_once CHR ''@'' (?rp @ CHR ''@'' # su_git_ref u) = Some (?rp, su_git_ref u)"
    using assms by (intro split_once_append) (simp add: signer_wf_def)
  ultimately show ?thesis
    using assms parts unfolding parse_signer_san_uri_def Let_def
    by (simp add: nonempty_part_def signer_wf_def uri_segment_def)
qed

lemma parse_signer_san_uri_iff: "parse_signer_san_uri uri = Inr u \<longleftrightarrow> signer_wf u \<and> uri = signer_san_uri u"
  using parse_signer_san_uri_sound parse_signer_san_uri_complete by blast

text \<open>No URI names two signers: the ambiguity that the additional \<open>@\<close> would open is closed.\<close>

lemma signer_san_uri_inject: "signer_wf u \<Longrightarrow> signer_wf v \<Longrightarrow> signer_san_uri u = signer_san_uri v \<longleftrightarrow> u = v"
  by (metis parse_signer_san_uri_complete sum.inject(2))

section \<open>The declarative reading of a policy\<close>

definition same_repository :: "repository_identity \<Rightarrow> string \<Rightarrow> string \<Rightarrow> bool" where
  "same_repository r owner name \<longleftrightarrow>
     eq_ignore_ascii_case owner (ri_owner r) \<and> eq_ignore_ascii_case name (ri_name r)"

definition pinned :: "u64 option \<Rightarrow> string option \<Rightarrow> bool" where
  "pinned pin claim = (case pin of None \<Rightarrow> True | Some i \<Rightarrow> claim = Some (dec (unat i)))"

definition ref_allowed :: "ref_policy \<Rightarrow> string \<Rightarrow> bool" where
  "ref_allowed p r = (case p of Exact e \<Rightarrow> r = e | Glob g \<Rightarrow> glob (as_bytes g) (as_bytes r))"

definition digest_pinned :: "('p, 'q, 's, 'n) crates \<Rightarrow> commit_sha option \<Rightarrow> string option \<Rightarrow> bool" where
  "digest_pinned E pin claim = (case pin of None \<Rightarrow> True
     | Some sha \<Rightarrow> (\<exists>found. claim = Some found \<and> eq_ignore_ascii_case found (commit_sha_to_hex E sha)))"

definition revision_allowed ::
  "('p, 'q, 's, 'n) crates \<Rightarrow> workflow_revision_policy \<Rightarrow> string \<Rightarrow> string option \<Rightarrow> bool" where
  "revision_allowed E p git_ref digest = (case p of Any \<Rightarrow> True | Ref r \<Rightarrow> git_ref = r
     | Sha sha \<Rightarrow> digest_pinned E (Some sha) digest)"

definition source_admits ::
  "('p, 'q, 's, 'n) crates \<Rightarrow> source_policy \<Rightarrow> fulcio_claims \<Rightarrow> string \<Rightarrow> string \<Rightarrow> string \<Rightarrow> bool" where
  "source_admits E src cl owner name git_ref \<longleftrightarrow>
     fc_source_repository_uri cl = Some (github_repo_uri owner name) \<and> uri_segment owner \<and> uri_segment name
     \<and> same_repository (sp_repository src) owner name
     \<and> pinned (ri_owner_id (sp_repository src)) (fc_source_repository_owner_id cl)
     \<and> pinned (ri_repository_id (sp_repository src)) (fc_source_repository_id cl)
     \<and> fc_source_repository_ref cl = Some git_ref \<and> ref_allowed (sp_git_ref src) git_ref
     \<and> digest_pinned E (sp_commit src) (fc_source_repository_digest cl)"

definition signer_admits ::
  "('p, 'q, 's, 'n) crates \<Rightarrow> signer_policy \<Rightarrow> fulcio_claims \<Rightarrow> signer_uri_parts \<Rightarrow> bool" where
  "signer_admits E sgr cl u \<longleftrightarrow> fc_san_uri cl = Some (signer_san_uri u) \<and> signer_wf u
     \<and> same_repository (gp_repository sgr) (su_owner u) (su_name u)
     \<and> WorkflowPath (su_workflow_path u) = gp_path sgr
     \<and> revision_allowed E (gp_revision sgr) (su_git_ref u) (fc_build_signer_digest cl)"

lemma check_repository_match_iff:
  "check_repository_match owner name r f = Inr u \<longleftrightarrow> same_repository r owner name"
  by (auto simp: check_repository_match_def same_repository_def)

lemma require_claim_iff [simp]: "require_claim c name = Inr s \<longleftrightarrow> c = Some s"
  by (simp add: require_claim_def)

lemma check_pinned_id_iff: "check_pinned_id pin claim name f = Inr u \<longleftrightarrow> pinned pin claim"
  by (cases pin) (auto simp: check_pinned_id_def pinned_def Let_def)

lemma check_ref_policy_iff: "check_ref_policy r p = Inr u \<longleftrightarrow> ref_allowed p r"
  by (cases p) (auto simp: check_ref_policy_def ref_allowed_def glob_match_iff)

lemma check_source_commit_iff:
  "check_source_commit E cl pin = Inr u \<longleftrightarrow> digest_pinned E pin (fc_source_repository_digest cl)"
  by (cases pin) (auto simp: check_source_commit_def digest_pinned_def Let_def)

lemma check_signer_revision_iff:
  "check_signer_revision E cl s p = Inr u \<longleftrightarrow> revision_allowed E p (su_git_ref s) (fc_build_signer_digest cl)"
  by (cases p) (auto simp: check_signer_revision_def revision_allowed_def digest_pinned_def Let_def)

lemma workflow_path_iff: "w = workflow_path_as_str p \<longleftrightarrow> WorkflowPath w = p"
  by (cases p) auto

lemma match_policy_iff:
  "match_policy E cl pol = Inr m \<longleftrightarrow>
     (\<exists>owner name git_ref u. fc_issuer cl = Some EXPECTED_ISSUER
        \<and> source_admits E (pol_source pol) cl owner name git_ref
        \<and> signer_admits E (pol_signer pol) cl u
        \<and> m = \<lparr>mi_issuer = EXPECTED_ISSUER, mi_source_repository = owner @ ''/'' @ name,
               mi_source_ref = git_ref, mi_signer_repository = su_owner u @ ''/'' @ su_name u,
               mi_signer_workflow_path = su_workflow_path u\<rparr>)"
  unfolding match_policy_def Let_def res_bind_eq_Inr require_claim_iff guard_eq_Inr split_paired_Ex
    prod.case parse_github_repo_uri_iff check_repository_match_iff check_pinned_id_iff check_ref_policy_iff
    check_source_commit_iff parse_signer_san_uri_iff check_signer_revision_iff not_not workflow_path_iff
    source_admits_def signer_admits_def
  by blast

section \<open>Properties\<close>

text \<open>C25. The SAN parser inverts the SAN printer: it accepts exactly the URIs of well-formed signers
  and returns the signer that the URI spells; ambiguous texts are outside.\<close>

theorem signer_san_uri_roundtrip:
  "parse_signer_san_uri uri = Inr u \<longleftrightarrow> signer_wf u \<and> uri = signer_san_uri u"
  by (rule parse_signer_san_uri_iff)

text \<open>C13. \<open>match_policy\<close> accepts exactly the claims that the policy admits: the pinned issuer, a source
  repository, pinned ids, ref and commit that the source half allows, and a signer repository,
  workflow path and revision that the signer half allows; what it reports is what it checked.\<close>

theorem match_policy_admits:
  "match_policy E cl pol = Inr m \<longleftrightarrow>
     (\<exists>owner name git_ref u. fc_issuer cl = Some EXPECTED_ISSUER
        \<and> source_admits E (pol_source pol) cl owner name git_ref
        \<and> signer_admits E (pol_signer pol) cl u
        \<and> m = \<lparr>mi_issuer = EXPECTED_ISSUER, mi_source_repository = owner @ ''/'' @ name,
               mi_source_ref = git_ref, mi_signer_repository = su_owner u @ ''/'' @ su_name u,
               mi_signer_workflow_path = su_workflow_path u\<rparr>)"
  by (rule match_policy_iff)

end
