(* ===== verification/Verifier.thy ===== *)
theory Verifier
  imports Policy_Match
begin

text \<open>
  \<open>src/src/verifier.rs\<close>: the builder and the eleven steps of \<open>verify_digest\<close> in their order.
\<close>

section \<open>Data\<close>

definition SUPPORTED_PREDICATE_TYPE :: string where
  "SUPPORTED_PREDICATE_TYPE = ''https://slsa.dev/provenance/v1''"
definition SUPPORTED_DSSE_PAYLOAD_TYPE :: string where
  "SUPPORTED_DSSE_PAYLOAD_TYPE = ''application/vnd.in-toto+json''"

record verifier =
  vr_trust_store :: trust_store
  vr_github_policy :: github_policy
  vr_checkpoint_origin_policy :: origin_policy

record verifier_builder =
  vb_trust_store :: "trust_store option"
  vb_github_policy :: "github_policy option"
  vb_checkpoint_origin_policy :: "origin_policy option"

record verified_subject =
  vs_digest :: subject_digest
  vs_name :: "string option"

record verified_certificate_identity =
  vi_issuer :: string
  vi_source_repository :: string
  vi_source_ref :: string
  vi_signer_repository :: string
  vi_signer_workflow_path :: string

record verified_transparency =
  vx_log_index :: u64
  vx_integrated_time :: u64

record verified_signed_statement =
  vst_predicate_type :: string
  vst_predicate :: jvalue

record trust_snapshot_info =
  tsi_fingerprint :: string
  tsi_source :: string

record verification_report =
  rep_subject :: verified_subject
  rep_signer :: verified_certificate_identity
  rep_transparency :: verified_transparency
  rep_statement :: verified_signed_statement
  rep_trust :: trust_snapshot_info

section \<open>The builder\<close>

definition verifier_builder_default :: verifier_builder where
  "verifier_builder_default =
     \<lparr>vb_trust_store = None, vb_github_policy = None, vb_checkpoint_origin_policy = None\<rparr>"

definition vb_set_trust_store :: "verifier_builder \<Rightarrow> trust_store \<Rightarrow> verifier_builder" where
  "vb_set_trust_store b ts = b\<lparr>vb_trust_store := Some ts\<rparr>"

definition vb_set_github_policy :: "verifier_builder \<Rightarrow> github_policy \<Rightarrow> verifier_builder" where
  "vb_set_github_policy b p = b\<lparr>vb_github_policy := Some p\<rparr>"

definition vb_set_checkpoint_origin_policy :: "verifier_builder \<Rightarrow> origin_policy \<Rightarrow> verifier_builder" where
  "vb_set_checkpoint_origin_policy b p = b\<lparr>vb_checkpoint_origin_policy := Some p\<rparr>"

definition sha256_spki :: "('p, 'q, 's, 'n) crates \<Rightarrow> bytes \<Rightarrow> bytes" where
  "sha256_spki E raw_spki = sha256 E raw_spki"

text \<open>The loop over the bindings of the origin policy.\<close>

fun check_bindings ::
  "('p, 'q, 's, 'n) crates \<Rightarrow> trust_store \<Rightarrow> origin_binding list \<Rightarrow> error + unit" where
  "check_bindings E ts [] = Inr ()"
| "check_bindings E ts (binding # bs) =
     (let known_key = list_ex (\<lambda>l. sha256_spki E (pk_raw_bytes (tl_public_key l)) = ob_key_id binding)
                        (ts_tlogs ts) in
      if \<not> known_key
      then Inl (Policy (InvalidConfiguration
             ''checkpoint origin policy references unknown trust-store log key''))
      else check_bindings E ts bs)"

definition verifier_build :: "('p, 'q, 's, 'n) crates \<Rightarrow> verifier_builder \<Rightarrow> error + verifier" where
  "verifier_build E b =
     res_bind (ok_or (Policy (InvalidConfiguration ''trust_store is required'')) (vb_trust_store b)) (\<lambda>ts.
     res_bind (ok_or (Policy (InvalidConfiguration ''github_policy is required'')) (vb_github_policy b)) (\<lambda>gp.
     res_bind (ok_or (Policy (InvalidConfiguration ''checkpoint_origin_policy is required''))
                 (vb_checkpoint_origin_policy b)) (\<lambda>cop.
     res_bind (reject_signer_id_pins (pol_signer gp)) (\<lambda>_.
     res_bind (check_bindings E ts (op_bindings cop)) (\<lambda>_.
     Inr \<lparr>vr_trust_store = ts, vr_github_policy = gp, vr_checkpoint_origin_policy = cop\<rparr>)))))"

section \<open>Verification\<close>

definition authenticated_time_of :: "u64 \<Rightarrow> int" where
  "authenticated_time_of w = (case i64_try_from w of Some t \<Rightarrow> t | None \<Rightarrow> I64_MAX)"

definition verify_digest ::
  "('p, 'q, 's, 'n) crates \<Rightarrow> verifier \<Rightarrow> subject_digest \<Rightarrow> sigstore_bundle \<Rightarrow> error + verification_report" where
  "verify_digest E self subject b =
     (if de_payload_type (bundle_dsse_envelope b) \<noteq> SUPPORTED_DSSE_PAYLOAD_TYPE
      then Inl (Unsupported (DssePayloadType (de_payload_type (bundle_dsse_envelope b)))) else
      res_bind (bundle_statement E b) (\<lambda>st.
      if predicate_type st \<noteq> SUPPORTED_PREDICATE_TYPE
      then Inl (Unsupported (PredicateType (predicate_type st))) else
      res_bind (ok_or (ContentBinding SubjectNotFound) (find_subject st subject)) (\<lambda>matched.
      (let matched_name = ss_name matched in
      res_bind (verify_tlog_entry E b (vr_trust_store self) (vr_checkpoint_origin_policy self)) (\<lambda>verified_timestamp.
      (let authenticated_time = authenticated_time_of (vt_integrated_time verified_timestamp);
           leaf_der = cert_raw_bytes (vm_certificate (bundle_verification_material b)) in
      res_bind (validate_chain E leaf_der (vr_trust_store self) authenticated_time) (\<lambda>validated_leaf.
      res_bind (from_spki_der E (vl_leaf_spki_der validated_leaf)) (\<lambda>leaf_key.
      res_bind (verify_envelope E (bundle_dsse_envelope b) leaf_key) (\<lambda>_.
      res_bind (verify_embedded_scts E validated_leaf (vr_trust_store self)) (\<lambda>_.
      res_bind (extract_claims E validated_leaf) (\<lambda>claims.
      res_bind (match_policy E claims (vr_github_policy self)) (\<lambda>mi.
      Inr \<lparr>rep_subject = \<lparr>vs_digest = subject, vs_name = matched_name\<rparr>,
           rep_signer = \<lparr>vi_issuer = mi_issuer mi, vi_source_repository = mi_source_repository mi,
             vi_source_ref = mi_source_ref mi, vi_signer_repository = mi_signer_repository mi,
             vi_signer_workflow_path = mi_signer_workflow_path mi\<rparr>,
           rep_transparency = \<lparr>vx_log_index = vt_log_index verified_timestamp,
             vx_integrated_time = vt_integrated_time verified_timestamp\<rparr>,
           rep_statement = \<lparr>vst_predicate_type = predicate_type st, vst_predicate = predicate st\<rparr>,
           rep_trust = \<lparr>tsi_fingerprint = ts_fingerprint (vr_trust_store self),
             tsi_source = ts_source (vr_trust_store self)\<rparr>\<rparr>))))))))))))"

definition verify_bytes ::
  "('p, 'q, 's, 'n) crates \<Rightarrow> verifier \<Rightarrow> bytes \<Rightarrow> sigstore_bundle \<Rightarrow> error + verification_report" where
  "verify_bytes E self bs b = (let subject = sha256_of E bs in verify_digest E self subject b)"

section \<open>Lemmas\<close>

text \<open>A key digest that the trust store knows.\<close>

definition known_log_key :: "('p, 'q, 's, 'n) crates \<Rightarrow> trust_store \<Rightarrow> bytes \<Rightarrow> bool" where
  "known_log_key E ts k \<longleftrightarrow> (\<exists>l \<in> set (ts_tlogs ts). sha256 E (pk_raw_bytes (tl_public_key l)) = k)"

lemma check_bindings_iff:
  "check_bindings E ts bs = Inr u \<longleftrightarrow> list_all (\<lambda>b. known_log_key E ts (ob_key_id b)) bs"
  by (induction bs) (auto simp: sha256_spki_def list_ex_iff Let_def known_log_key_def)

text \<open>What \<open>build\<close> guarantees of a verifier.\<close>

definition verifier_wf :: "('p, 'q, 's, 'n) crates \<Rightarrow> verifier \<Rightarrow> bool" where
  "verifier_wf E v \<longleftrightarrow>
     ri_owner_id (gp_repository (pol_signer (vr_github_policy v))) = None
     \<and> ri_repository_id (gp_repository (pol_signer (vr_github_policy v))) = None
     \<and> list_all (\<lambda>b. known_log_key E (vr_trust_store v) (ob_key_id b)) (op_bindings (vr_checkpoint_origin_policy v))"

lemma verifier_build_iff:
  "verifier_build E b = Inr v \<longleftrightarrow> verifier_wf E v \<and> vb_trust_store b = Some (vr_trust_store v)
     \<and> vb_github_policy b = Some (vr_github_policy v)
     \<and> vb_checkpoint_origin_policy b = Some (vr_checkpoint_origin_policy v)"
  by (cases v) (auto simp: verifier_build_def verifier_wf_def check_bindings_iff)

text \<open>The fallback of the conversion is never taken: the window check comes first.\<close>

lemma evidence_time: "log_evidence E ts pol b e \<Longrightarrow>
    authenticated_time_of (te_integrated_time e) = int (unat (te_integrated_time e))"
  by (auto simp: log_evidence_def time_in_windows_def authenticated_time_of_def i64_try_from_def I64_MAX_def)

section \<open>The attestation that a report stands for\<close>

text \<open>The statement the envelope carries names the digest under the supported types.\<close>

definition statement_names ::
  "('p, 'q, 's, 'n) crates \<Rightarrow> sigstore_bundle \<Rightarrow> subject_digest \<Rightarrow> statement \<Rightarrow> statement_subject \<Rightarrow> bool" where
  "statement_names E b d st s \<longleftrightarrow>
     de_payload_type (bundle_dsse_envelope b) = SUPPORTED_DSSE_PAYLOAD_TYPE
     \<and> from_payload E (de_payload (bundle_dsse_envelope b)) = Inr st
     \<and> predicate_type st = SUPPORTED_PREDICATE_TYPE \<and> find_subject st d = Some s"

text \<open>The leaf, vouched for at the time the log recorded, signed the envelope.\<close>

definition signer_evidence ::
  "('p, 'q, 's, 'n) crates \<Rightarrow> trust_store \<Rightarrow> sigstore_bundle \<Rightarrow> int \<Rightarrow> 'n validated_leaf \<Rightarrow> bool" where
  "signer_evidence E ts b t vl \<longleftrightarrow> (\<exists>leaf k.
     x509_from_der E (cert_raw_bytes (vm_certificate (bundle_verification_material b))) = Inr leaf
     \<and> first_voucher E t leaf (ts_certificate_authorities ts) vl
     \<and> from_spki_der E (vl_leaf_spki_der vl) = Inr k
     \<and> verify_der E k (pae (de_payload_type (bundle_dsse_envelope b)) (de_payload (bundle_dsse_envelope b)))
         (ds_sig (de_signature (bundle_dsse_envelope b))))"

definition sct_evidence :: "('p, 'q, 's, 'n) crates \<Rightarrow> trust_store \<Rightarrow> 'n validated_leaf \<Rightarrow> bool" where
  "sct_evidence E ts vl \<longleftrightarrow> (\<exists>scts tbs pre sct l. embeds_scts E (vl_leaf vl) scts
     \<and> cert_tbs_to_der (vl_leaf vl) = Inr tbs \<and> precertificate E tbs pre \<and> sct \<in> set scts
     \<and> sct_vouches E sct pre (sha256 E (vl_issuer_spki_der vl)) (ts_ctlogs ts) l)"

definition identity_evidence ::
  "('p, 'q, 's, 'n) crates \<Rightarrow> github_policy \<Rightarrow> 'n validated_leaf \<Rightarrow> verified_certificate_identity \<Rightarrow> bool" where
  "identity_evidence E pol vl i \<longleftrightarrow> (\<exists>cl owner name git_ref u. claims_of E (vl_leaf vl) cl
     \<and> fc_issuer cl = Some EXPECTED_ISSUER
     \<and> source_admits E (pol_source pol) cl owner name git_ref \<and> signer_admits E (pol_signer pol) cl u
     \<and> i = \<lparr>vi_issuer = EXPECTED_ISSUER, vi_source_repository = owner @ ''/'' @ name,
            vi_source_ref = git_ref, vi_signer_repository = su_owner u @ ''/'' @ su_name u,
            vi_signer_workflow_path = su_workflow_path u\<rparr>)"

definition report_of ::
  "verifier \<Rightarrow> subject_digest \<Rightarrow> statement_subject \<Rightarrow> verified_certificate_identity \<Rightarrow> tlog_entry \<Rightarrow> statement
    \<Rightarrow> verification_report" where
  "report_of v d s i e st = \<lparr>rep_subject = \<lparr>vs_digest = d, vs_name = ss_name s\<rparr>, rep_signer = i,
     rep_transparency = \<lparr>vx_log_index = te_log_index e, vx_integrated_time = te_integrated_time e\<rparr>,
     rep_statement = \<lparr>vst_predicate_type = predicate_type st, vst_predicate = predicate st\<rparr>,
     rep_trust = \<lparr>tsi_fingerprint = ts_fingerprint (vr_trust_store v), tsi_source = ts_source (vr_trust_store v)\<rparr>\<rparr>"

definition attested ::
  "('p, 'q, 's, 'n) crates \<Rightarrow> verifier \<Rightarrow> subject_digest \<Rightarrow> sigstore_bundle \<Rightarrow> verification_report \<Rightarrow> bool" where
  "attested E v d b r \<longleftrightarrow> (\<exists>st s e vl i. statement_names E b d st s
     \<and> log_evidence E (vr_trust_store v) (vr_checkpoint_origin_policy v) b e
     \<and> signer_evidence E (vr_trust_store v) b (int (unat (te_integrated_time e))) vl
     \<and> sct_evidence E (vr_trust_store v) vl
     \<and> identity_evidence E (vr_github_policy v) vl i
     \<and> r = report_of v d s i e st)"

lemma signer_evidence_iff:
  "signer_evidence E ts b t vl \<longleftrightarrow> (\<exists>k.
     validate_chain E (cert_raw_bytes (vm_certificate (bundle_verification_material b))) ts t = Inr vl
     \<and> from_spki_der E (vl_leaf_spki_der vl) = Inr k \<and> verify_envelope E (bundle_dsse_envelope b) k = Inr ())"
  unfolding signer_evidence_def validate_chain_iff verify_envelope_ok by blast

lemma sct_evidence_iff: "sct_evidence E ts vl \<longleftrightarrow> verify_embedded_scts E vl ts = Inr ()"
  unfolding sct_evidence_def verify_embedded_scts_iff by (rule refl)

definition identity_of :: "matched_identity \<Rightarrow> verified_certificate_identity" where
  "identity_of mi = \<lparr>vi_issuer = mi_issuer mi, vi_source_repository = mi_source_repository mi,
     vi_source_ref = mi_source_ref mi, vi_signer_repository = mi_signer_repository mi,
     vi_signer_workflow_path = mi_signer_workflow_path mi\<rparr>"

lemma identity_evidence_iff:
  "identity_evidence E pol vl i \<longleftrightarrow>
     (\<exists>cl mi. extract_claims E vl = Inr cl \<and> match_policy E cl pol = Inr mi \<and> i = identity_of mi)"
  unfolding identity_evidence_def extract_claims_iff match_policy_iff identity_of_def by force

lemma statement_names_iff:
  "statement_names E b d st s \<longleftrightarrow> de_payload_type (bundle_dsse_envelope b) = SUPPORTED_DSSE_PAYLOAD_TYPE
     \<and> bundle_statement E b = Inr st \<and> predicate_type st = SUPPORTED_PREDICATE_TYPE \<and> find_subject st d = Some s"
  by (simp add: statement_names_def bundle_statement_def)

lemma timestamp_of_simps:
  "vt_integrated_time (timestamp_of e) = te_integrated_time e" "vt_log_index (timestamp_of e) = te_log_index e"
  by (simp_all add: timestamp_of_def)

lemma ex_timestamp: "(\<exists>x. (\<exists>e. P e \<and> x = timestamp_of e) \<and> Q x) \<longleftrightarrow> (\<exists>e. P e \<and> Q (timestamp_of e))"
  by blast

lemma ex_unit: "(\<exists>u :: unit. P u) \<longleftrightarrow> P ()"
  by auto

lemma Inr_eq: "(Inr x :: 'a + 'b) = Inr y \<longleftrightarrow> y = x"
  by auto

lemma verify_digest_attested: "verify_digest E v d b = Inr r \<longleftrightarrow> attested E v d b r"
proof -
  have "verify_digest E v d b = Inr r \<longleftrightarrow> (\<exists>st s e vl k cl mi. statement_names E b d st s
      \<and> log_evidence E (vr_trust_store v) (vr_checkpoint_origin_policy v) b e
      \<and> validate_chain E (cert_raw_bytes (vm_certificate (bundle_verification_material b)))
          (vr_trust_store v) (authenticated_time_of (te_integrated_time e)) = Inr vl
      \<and> from_spki_der E (vl_leaf_spki_der vl) = Inr k \<and> verify_envelope E (bundle_dsse_envelope b) k = Inr ()
      \<and> verify_embedded_scts E vl (vr_trust_store v) = Inr ()
      \<and> extract_claims E vl = Inr cl \<and> match_policy E cl (vr_github_policy v) = Inr mi
      \<and> r = report_of v d s (identity_of mi) e st)"
    unfolding verify_digest_def Let_def statement_names_iff res_bind_eq_Inr guard_eq_Inr ok_or_eq_Inr
      verify_tlog_entry_evidence ex_timestamp timestamp_of_simps report_of_def identity_of_def not_not
      Inr_eq ex_unit
    by blast
  also have "\<dots> \<longleftrightarrow> attested E v d b r"
    unfolding attested_def signer_evidence_iff sct_evidence_iff identity_evidence_iff
    using evidence_time by fastforce
  finally show ?thesis .
qed

section \<open>What the steps read of the bundle and the trust store\<close>

lemma tlog_entry_reads:
  assumes "ts_tlogs ts' = ts_tlogs ts" "bundle_dsse_envelope b' = bundle_dsse_envelope b"
    "vm_tlog_entries (bundle_verification_material b') = vm_tlog_entries (bundle_verification_material b)"
    "vm_certificate (bundle_verification_material b') = vm_certificate (bundle_verification_material b)"
  shows "verify_tlog_entry E b' ts' pol = verify_tlog_entry E b ts pol"
  unfolding verify_tlog_entry_def select_log_key_def assms by (rule refl)

lemma validate_chain_reads:
  "ts_certificate_authorities ts' = ts_certificate_authorities ts \<Longrightarrow> validate_chain E der ts' t = validate_chain E der ts t"
  by (simp add: validate_chain_def)

lemma scts_reads:
  assumes "ts_ctlogs ts' = ts_ctlogs ts"
  shows "verify_embedded_scts E vl ts' = verify_embedded_scts E vl ts"
proof -
  have one: "verify_one_sct E sct tbs ikh ts' = verify_one_sct E sct tbs ikh ts" for sct tbs ikh
    by (simp add: verify_one_sct_def assms)
  have loop: "sct_loop E tbs ikh ts' scts err = sct_loop E tbs ikh ts scts err" for tbs ikh scts err
    by (induction scts arbitrary: err) (simp_all add: one split: sum.split)
  show ?thesis unfolding verify_embedded_scts_def loop by (rule refl)
qed

end
