(* ===== verification/Fuzzing.thy ===== *)
theory Fuzzing
  imports Verifier
begin

text \<open>
  \<open>src/src/fuzzing.rs\<close>: the adapters of the fuzz crate. Each bounds its input before it calls the
  parser of the same name; the checkpoint adapter also selects the log of the corpus in the
  embedded trust root. The \<open>OnceLock\<close> that caches the selected log holds a value that does not
  depend on the call, so the model computes it.
\<close>

definition CHECKPOINT_CORPUS_LOG_ID :: bytes where
  "CHECKPOINT_CORPUS_LOG_ID =
     [0xc0, 0xd2, 0x3d, 0x6a, 0xd4, 0x06, 0x97, 0x3f, 0x95, 0x59, 0xf3, 0xba, 0x2d, 0x1c, 0xa0, 0x1f,
      0x84, 0x14, 0x7d, 0x8f, 0xfc, 0x5b, 0x84, 0x45, 0xc2, 0x24, 0xf9, 0x8b, 0x95, 0x91, 0x80, 0x1d]"

definition fuzz_parse_rekor_canonicalized_body :: "('p, 'q, 's, 'n) crates \<Rightarrow> bytes \<Rightarrow> error + unit" where
  "fuzz_parse_rekor_canonicalized_body E bs =
     res_bind (map_err ResourceLimit (check_input_size bs)) (\<lambda>_.
     res_bind (parse_tlog_entry_body E bs) (\<lambda>_. Inr ()))"

definition fuzz_parse_checkpoint :: "('p, 'q, 's, 'n) crates \<Rightarrow> string \<Rightarrow> error + unit" where
  "fuzz_parse_checkpoint E envelope =
     res_bind (map_err ResourceLimit (check_input_size (as_bytes envelope))) (\<lambda>_.
     res_bind (parse_checkpoint E envelope) (\<lambda>_. Inr ()))"

text \<open>\<open>.ok()?\<close> drops the error of the trust root and of the selection.\<close>

definition result_ok :: "'e + 'a \<Rightarrow> 'a option" where
  "result_ok r = (case r of Inl _ \<Rightarrow> None | Inr x \<Rightarrow> Some x)"

definition embedded_rekor_v1_log ::
  "('p, 'q, 's, 'n) crates \<Rightarrow> error + (transparency_log \<times> ('p, 'q) ecdsa_key)" where
  "embedded_rekor_v1_log E =
     ok_or (Transparency UnknownLogKey)
       (Option.bind (result_ok (embedded_public_good E)) (\<lambda>ts.
        result_ok (select_log_key E ts CHECKPOINT_CORPUS_LOG_ID)))"

definition fuzz_verify_checkpoint :: "('p, 'q, 's, 'n) crates \<Rightarrow> string \<Rightarrow> error + unit" where
  "fuzz_verify_checkpoint E envelope =
     res_bind (map_err ResourceLimit (check_input_size (as_bytes envelope))) (\<lambda>_.
     res_bind (embedded_rekor_v1_log E) (\<lambda>(l, log_key).
     verify_checkpoint_self_anchored E envelope l log_key))"

definition fuzz_parse_sct_list :: "bytes \<Rightarrow> error + unit" where
  "fuzz_parse_sct_list bs =
     res_bind (map_err ResourceLimit (check_input_size bs)) (\<lambda>_.
     res_bind (parse_sct_list bs) (\<lambda>_. Inr ()))"

definition fuzz_parse_rfc3339 :: "string \<Rightarrow> error + int" where
  "fuzz_parse_rfc3339 timestamp =
     res_bind (map_err ResourceLimit (check_input_size (as_bytes timestamp))) (\<lambda>_.
     map_err Parse (parse_rfc3339 ''fuzzing.timestamp'' timestamp))"

lemma result_ok_Some [simp]: "result_ok r = Some x \<longleftrightarrow> r = Inr x"
  by (cases r) (auto simp: result_ok_def)

lemma bind_result_ok_Some:
  "Option.bind (result_ok r) f = Some y \<longleftrightarrow> (\<exists>x. r = Inr x \<and> f x = Some y)"
  by (cases r) (auto simp: result_ok_def)

text \<open>The log the adapter anchors to is the corpus log of the embedded root, whatever other
  logs the root lists and in whatever order.\<close>

lemma embedded_log_iff:
  "embedded_rekor_v1_log E = Inr (l, k) \<longleftrightarrow> (\<exists>ts. embedded_public_good E = Inr ts
     \<and> selected_log E ts CHECKPOINT_CORPUS_LOG_ID l \<and> from_spki_der E (pk_raw_bytes (tl_public_key l)) = Inr k)"
  by (auto simp: embedded_rekor_v1_log_def bind_result_ok_Some select_log_key_selected)

lemma fuzz_verify_checkpoint_iff:
  "fuzz_verify_checkpoint E env = Inr u \<longleftrightarrow> length env \<le> MAX_INPUT_BYTES
     \<and> (\<exists>l k. embedded_rekor_v1_log E = Inr (l, k) \<and> verify_checkpoint_self_anchored E env l k = Inr u)"
  by (auto simp: fuzz_verify_checkpoint_def)

lemma fuzz_parse_sct_list_iff:
  "fuzz_parse_sct_list bs = Inr u \<longleftrightarrow> length bs \<le> MAX_INPUT_BYTES \<and>
     (\<exists>ss. list_all sct_entry_wf ss \<and> length (sct_list_body ss) < 65536 \<and> bs = serialize_sct_list ss)"
  by (auto simp: fuzz_parse_sct_list_def parse_sct_list_iff)

end
