(* ===== verification/Fuzz_Targets.thy ===== *)
theory Fuzz_Targets
  imports Fuzzing
begin

text \<open>
  \<open>src/fuzz/fuzz_targets/*.rs\<close>: the functions that libFuzzer drives, each from arbitrary bytes
  to a result that the harness drops. Three of them read text and convert the bytes with
  \<open>String::from_utf8_lossy\<close> first; what that does to their coverage is the subject of the lemmas.
\<close>

section \<open>Lossy conversion\<close>

text \<open>The number of continuation bytes that a lead byte announces (\<open>0\<close> for a byte that is no
  lead byte), and the ones that the scanner consumes before it meets a byte it does not accept.\<close>

definition announced :: "u8 \<Rightarrow> nat" where
  "announced a = (if 0xC2 \<le> a \<and> a \<le> 0xDF then 1 else if 0xE0 \<le> a \<and> a \<le> 0xEF then 2
     else if 0xF0 \<le> a \<and> a \<le> 0xF4 then 3 else 0)"

definition second_byte :: "u8 \<Rightarrow> u8 \<Rightarrow> bool" where
  "second_byte a b = (if a = 0xE0 then 0xA0 \<le> b \<and> b \<le> 0xBF
     else if a = 0xED then 0x80 \<le> b \<and> b \<le> 0x9F
     else if a = 0xF0 then 0x90 \<le> b \<and> b \<le> 0xBF
     else if a = 0xF4 then 0x80 \<le> b \<and> b \<le> 0x8F else cont b)"

fun leading_conts :: "nat \<Rightarrow> bytes \<Rightarrow> nat" where
  "leading_conts (Suc n) (b # r) = (if cont b then Suc (leading_conts n r) else 0)"
| "leading_conts _ _ = 0"

definition consumed :: "u8 \<Rightarrow> bytes \<Rightarrow> nat" where
  "consumed a r = (case (announced a, r) of
       (Suc n, b # r') \<Rightarrow> if second_byte a b then Suc (leading_conts n r') else 0
     | _ \<Rightarrow> 0)"

text \<open>Every maximal ill-formed sequence becomes one U+FFFD.\<close>

definition REPLACEMENT_CHARACTER :: bytes where
  "REPLACEMENT_CHARACTER = [0xEF, 0xBF, 0xBD]"

function lossy_bytes :: "bytes \<Rightarrow> bytes" where
  "lossy_bytes [] = []"
| "lossy_bytes (a # r) =
     (if a \<le> 0x7F then a # lossy_bytes r
      else (let n = consumed a r in
        (if announced a \<noteq> 0 \<and> n = announced a then a # take n r else REPLACEMENT_CHARACTER)
          @ lossy_bytes (drop n r)))"
  by pat_completeness auto
termination by (relation "measure length") auto

declare lossy_bytes.simps(2) [simp del]

definition from_utf8_lossy :: "bytes \<Rightarrow> string" where
  "from_utf8_lossy bs = of_bytes (lossy_bytes bs)"

section \<open>The targets\<close>

definition target_bundle :: "('p, 'q, 's, 'n) crates \<Rightarrow> bytes \<Rightarrow> error + unit" where
  "target_bundle E bs = res_bind (bundle_from_json E bs) (\<lambda>_. Inr ())"

definition target_checkpoint :: "('p, 'q, 's, 'n) crates \<Rightarrow> bytes \<Rightarrow> error + unit" where
  "target_checkpoint E bs = (let txt = from_utf8_lossy bs in fuzz_parse_checkpoint E txt)"

definition target_checkpoint_verify :: "('p, 'q, 's, 'n) crates \<Rightarrow> bytes \<Rightarrow> error + unit" where
  "target_checkpoint_verify E bs = (let txt = from_utf8_lossy bs in fuzz_verify_checkpoint E txt)"

definition target_github_api :: "('p, 'q, 's, 'n) crates \<Rightarrow> bytes \<Rightarrow> error + unit" where
  "target_github_api E bs = res_bind (from_github_response E bs) (\<lambda>_. Inr ())"

definition target_jsonl :: "('p, 'q, 's, 'n) crates \<Rightarrow> bytes \<Rightarrow> error + unit" where
  "target_jsonl E bs = res_bind (from_json_lines E bs) (\<lambda>_. Inr ())"

definition target_rekor_body :: "('p, 'q, 's, 'n) crates \<Rightarrow> bytes \<Rightarrow> error + unit" where
  "target_rekor_body E bs = fuzz_parse_rekor_canonicalized_body E bs"

definition target_rfc3339 :: "bytes \<Rightarrow> error + unit" where
  "target_rfc3339 bs = (let txt = from_utf8_lossy bs in res_bind (fuzz_parse_rfc3339 txt) (\<lambda>_. Inr ()))"

definition target_sct :: "bytes \<Rightarrow> error + unit" where
  "target_sct bs = fuzz_parse_sct_list bs"

definition target_statement :: "('p, 'q, 's, 'n) crates \<Rightarrow> bytes \<Rightarrow> error + unit" where
  "target_statement E bs =
     res_bind (res_bind (bundle_from_json E bs) (\<lambda>b. bundle_statement E b)) (\<lambda>_. Inr ())"

definition target_trusted_root :: "('p, 'q, 's, 'n) crates \<Rightarrow> bytes \<Rightarrow> error + unit" where
  "target_trusted_root E bs = res_bind (trust_store_from_json E bs) (\<lambda>_. Inr ())"

section \<open>What the conversion keeps\<close>

lemma consumed_le: "consumed a r \<le> length r"
proof -
  have "leading_conts n s \<le> length s" for n s by (induction n s rule: leading_conts.induct) auto
  then show ?thesis by (auto simp: consumed_def split: nat.splits list.splits)
qed

lemma byte_above: "m \<le> a \<Longrightarrow> n < m \<Longrightarrow> \<not> a \<le> n" for a m n :: u8
  by auto

lemma utf8_valid_step:
  "utf8_valid (a # r) \<longleftrightarrow> (if a \<le> 0x7F then utf8_valid r
     else announced a \<noteq> 0 \<and> consumed a r = announced a \<and> utf8_valid (drop (announced a) r))"
proof -
  consider "a \<le> 0x7F" | "0xC2 \<le> a" "a \<le> 0xDF" | "0xE0 \<le> a" "a \<le> 0xEF" | "0xF0 \<le> a" "a \<le> 0xF4"
    | "\<not> a \<le> 0x7F" "announced a = 0" "\<not> utf8_valid (a # r)"
    by (fastforce simp: announced_def)
  then show ?thesis
  proof cases
    case 2
    then have "announced a = 1" "\<not> a \<le> 0x7F" "second_byte a b = cont b" for b
      using byte_above [OF 2(1), of "0x7F"] by (auto simp: announced_def second_byte_def)
    with 2 show ?thesis by (cases r) (simp_all add: consumed_def)
  next
    case 3
    then have a: "announced a = 2" "\<not> a \<le> 0x7F" "\<not> a \<le> 0xDF"
      and b: "second_byte a b = (if a = 0xE0 then 0xA0 \<le> b \<and> b \<le> 0xBF
        else if a = 0xED then 0x80 \<le> b \<and> b \<le> 0x9F else cont b)" for b
      using byte_above [OF 3(1)] by (auto simp: announced_def second_byte_def)
    show ?thesis
      by (cases r; cases "tl r") (simp_all add: a 3 consumed_def b [symmetric] numeral_2_eq_2)
  next
    case 4
    then have a: "announced a = 3" "\<not> a \<le> 0x7F" "\<not> a \<le> 0xDF" "\<not> a \<le> 0xEF"
      and b: "second_byte a b = (if a = 0xF0 then 0x90 \<le> b \<and> b \<le> 0xBF
        else if a = 0xF4 then 0x80 \<le> b \<and> b \<le> 0x8F else cont b)" for b
      using byte_above [OF 4(1)] by (auto simp: announced_def second_byte_def)
    show ?thesis
      by (cases r; cases "tl r"; cases "tl (tl r)")
        (simp_all add: a 4 consumed_def b [symmetric] numeral_3_eq_3)
  qed simp_all
qed

lemma consumed_append: "consumed a r = announced a \<Longrightarrow> consumed a (take (announced a) r @ s) = announced a"
proof -
  have conts: "leading_conts n u = n \<Longrightarrow> leading_conts n (take n u @ s) = n" for n u
    by (induction n u rule: leading_conts.induct) (auto split: if_splits)
  assume "consumed a r = announced a"
  with conts show ?thesis by (auto simp: consumed_def split: nat.splits list.splits if_splits)
qed

theorem lossy_valid: "utf8_valid (lossy_bytes bs)"
proof (induction bs rule: lossy_bytes.induct)
  case (2 a r)
  show ?case
  proof (cases "a \<le> 0x7F")
    case True
    with 2(1) show ?thesis by (simp add: lossy_bytes.simps(2))
  next
    case False
    note ih = 2(2) [OF False refl]
    show ?thesis
    proof (cases "announced a \<noteq> 0 \<and> consumed a r = announced a")
      case True
      then have "length (take (announced a) r) = announced a" using consumed_le [of a r] by simp
      with True False ih consumed_append [of a r "lossy_bytes (drop (announced a) r)"] show ?thesis
        by (simp add: lossy_bytes.simps(2) Let_def utf8_valid_step del: utf8_valid.simps(2))
    next
      case other: False
      with False ih show ?thesis
        by (auto simp: lossy_bytes.simps(2) Let_def REPLACEMENT_CHARACTER_def cont_def)
    qed
  qed
qed simp

lemma lossy_keeps: "utf8_valid bs \<Longrightarrow> lossy_bytes bs = bs"
proof (induction bs rule: lossy_bytes.induct)
  case (2 a r)
  then show ?case
    by (cases "a \<le> 0x7F") (auto simp: lossy_bytes.simps(2) Let_def utf8_valid_step simp del: utf8_valid.simps(2))
qed simp

lemma lossy_identity: "lossy_bytes bs = bs \<longleftrightarrow> utf8_valid bs"
  using lossy_valid [of bs] lossy_keeps [of bs] by auto

text \<open>Plain ASCII cannot come out of anything but itself: a replacement leaves a trace.\<close>

lemma lossy_ascii: "\<forall>b \<in> set (lossy_bytes bs). b \<le> 0x7F \<Longrightarrow> lossy_bytes bs = bs"
proof (induction bs rule: lossy_bytes.induct)
  case (2 a r)
  show ?case
  proof (cases "a \<le> 0x7F")
    case True
    with 2 show ?thesis by (simp add: lossy_bytes.simps(2))
  next
    case False
    with 2(3) show ?thesis
      by (auto simp: lossy_bytes.simps(2) Let_def REPLACEMENT_CHARACTER_def split: if_splits)
  qed
qed simp

lemma lossy_length: "length (lossy_bytes bs) \<le> 3 * length bs"
proof (induction bs rule: lossy_bytes.induct)
  case (2 a r)
  show ?case
  proof (cases "a \<le> 0x7F")
    case True
    with 2(1) show ?thesis by (simp add: lossy_bytes.simps(2))
  next
    case False
    with 2(2) [OF False refl] consumed_le [of a r] show ?thesis
      by (auto simp: lossy_bytes.simps(2) Let_def REPLACEMENT_CHARACTER_def)
  qed
qed simp

section \<open>What the targets reach\<close>

text \<open>A timestamp is plain ASCII.\<close>

abbreviation ascii :: "bytes \<Rightarrow> bool" where
  "ascii \<equiv> list_all (\<lambda>b. b \<le> 0x7F)"

lemma dig_ascii: "n < 10 \<Longrightarrow> dig n \<le> 0x7F"
proof -
  assume n: "n < 10"
  then have "unat (word_of_nat (48 + n) :: u8) = 48 + n" by (simp add: unat_of_nat del: of_nat_add)
  with n show ?thesis unfolding dig_def word_le_nat_alt by simp
qed

lemma digits_ascii: "n < 100 \<Longrightarrow> ascii (two_digits n)" "n < 10000 \<Longrightarrow> ascii (four_digits n)"
  by (auto simp: two_digits_def four_digits_def intro!: dig_ascii)

lemma zone_ascii: "valid_zone z \<Longrightarrow> ascii (zone_bytes z)"
  by (cases z) (auto simp: digits_ascii(1))

lemma fraction_ascii: "list_all (\<lambda>d. d < 10) fs \<Longrightarrow> ascii (fraction_bytes fs)"
  by (auto simp: fraction_bytes_def list_all_iff dig_ascii)

lemma stamp_ascii:
  assumes "valid_stamp st"
  shows "ascii (stamp_bytes st)"
proof -
  have "days_in_month (st_year st) (st_month st) < 100" by (simp add: days_in_month_def)
  with assms have "st_day st < 100" "st_month st < 100" "st_hour st < 100" "st_minute st < 100"
    "st_second st < 100" "st_year st < 10000" "st_separator st \<le> 0x7F"
    by (auto simp: valid_stamp_def)
  with assms show ?thesis
    by (simp add: stamp_bytes_def digits_ascii zone_ascii fraction_ascii valid_stamp_def)
qed

lemma ascii_valid: "ascii bs \<Longrightarrow> utf8_valid bs"
  by (induction bs) simp_all

lemma lossy_to_ascii: "ascii a \<Longrightarrow> lossy_bytes bs = a \<longleftrightarrow> bs = a"
  using lossy_ascii [of bs] lossy_keeps [OF ascii_valid, of a] by (auto simp: list_all_iff)

theorem target_rfc3339_reaches:
  "target_rfc3339 bs = Inr u \<longleftrightarrow> length bs \<le> MAX_INPUT_BYTES \<and> (\<exists>st. valid_stamp st \<and> bs = stamp_bytes st)"
proof -
  have st: "lossy_bytes bs = stamp_bytes st \<longleftrightarrow> bs = stamp_bytes st" if "valid_stamp st" for st
    by (rule lossy_to_ascii [OF stamp_ascii [OF that]])
  have "target_rfc3339 bs = Inr u \<longleftrightarrow> length (lossy_bytes bs) \<le> MAX_INPUT_BYTES
      \<and> (\<exists>st. valid_stamp st \<and> lossy_bytes bs = stamp_bytes st)"
    by (auto simp: target_rfc3339_def fuzz_parse_rfc3339_def from_utf8_lossy_def parse_rfc3339_exact)
  also have "\<dots> \<longleftrightarrow> (\<exists>st. valid_stamp st \<and> lossy_bytes bs = stamp_bytes st \<and> length (stamp_bytes st) \<le> MAX_INPUT_BYTES)"
    by auto
  also have "\<dots> \<longleftrightarrow> length bs \<le> MAX_INPUT_BYTES \<and> (\<exists>st. valid_stamp st \<and> bs = stamp_bytes st)"
    using st by blast
  finally show ?thesis .
qed

text \<open>The text targets see valid text as it is.\<close>

lemma from_utf8_lossy_valid: "from_utf8 bs = Some txt \<Longrightarrow> from_utf8_lossy bs = txt"
  by (auto simp: from_utf8_def from_utf8_lossy_def lossy_keeps split: if_splits)

text \<open>A third of the size limit is always enough room for the replacements.\<close>

lemma lossy_within_limit:
  "3 * length bs \<le> MAX_INPUT_BYTES \<Longrightarrow> length (from_utf8_lossy bs) \<le> MAX_INPUT_BYTES"
  using lossy_length [of bs] by (simp add: from_utf8_lossy_def of_bytes_def)

end
