(* ===== verification/Honest_Log.thy ===== *)
theory Honest_Log
  imports Rekor
begin

text \<open>
  The other direction of the transparency check: what an honest log hands out is accepted. The
  theory composes the completeness of the Merkle proof, the round trip of the checkpoint and the
  evidence that \<open>verify_tlog_entry\<close> asks for.
\<close>

section \<open>Digests of a log have 32 bytes\<close>

lemma mth_preserves:
  "hs \<noteq> [] \<Longrightarrow> list_all P hs \<Longrightarrow> (\<And>x y. P (node x y)) \<Longrightarrow> P (mth node hs)"
  by (subst mth.simps) (auto simp: Let_def neq_Nil_conv)

lemma merkle_path_preserves:
  "list_all P hs \<Longrightarrow> (\<And>x y. P (node x y)) \<Longrightarrow> list_all P (merkle_path node m hs)"
proof (induction node m hs rule: merkle_path.induct)
  case (1 node m hs)
  show ?case
  proof (cases "length hs \<le> 1")
    case True
    then show ?thesis by (simp add: merkle_path.simps)
  next
    case False
    let ?k = "split_point (length hs)"
    have k: "0 < ?k" "?k < length hs" using False split_point_bounds [of "length hs"] by auto
    have sub: "list_all P (take ?k hs)" "list_all P (drop ?k hs)"
      using "1.prems"(1) by (auto simp: list_all_iff dest: in_set_takeD in_set_dropD)
    have "take ?k hs \<noteq> []" "drop ?k hs \<noteq> []" using k by auto
    then have halves: "P (mth node (take ?k hs))" "P (mth node (drop ?k hs))"
      using mth_preserves [of "take ?k hs" P node] mth_preserves [of "drop ?k hs" P node] sub "1.prems"(2)
      by blast+
    show ?thesis
    proof (cases "m < ?k")
      case True
      have "list_all P (merkle_path node m (take ?k hs))"
        using "1.IH"(1) [OF False refl True sub(1)] "1.prems"(2) by blast
      with True False halves show ?thesis by (subst merkle_path.simps) (simp add: Let_def)
    next
      case right: False
      have "list_all P (merkle_path node (m - ?k) (drop ?k hs))"
        using "1.IH"(2) [OF False refl right sub(2)] "1.prems"(2) by blast
      with right False halves show ?thesis by (subst merkle_path.simps) (simp add: Let_def)
    qed
  qed
qed

lemma leaf_hashes32: "sha256_len E \<Longrightarrow> hashes32 (map (rfc6962_leaf_hash E) entries)"
  by (auto simp: list_all_iff rfc6962_leaf_hash_def)

lemma node_hash32: "sha256_len E \<Longrightarrow> length (rfc6962_node_hash E x y) = 32"
  by (simp add: rfc6962_node_hash_def)

lemma log_root32: "sha256_len E \<Longrightarrow> entries \<noteq> [] \<Longrightarrow> length (log_root E entries) = 32"
  unfolding log_root_def by (rule mth_preserves) (simp_all add: leaf_hashes32 node_hash32)

lemma audit_path32: "sha256_len E \<Longrightarrow> hashes32 (audit_path E m entries)"
  unfolding audit_path_def by (rule merkle_path_preserves) (simp_all add: leaf_hashes32 node_hash32)

section \<open>What an honest log hands out\<close>

text \<open>A tree head in the signed-note format, with one signature of the log, and the proof of the
  \<open>m\<close>-th entry against it.\<close>

definition honest_head ::
  "('p, 'q, 's, 'n) crates \<Rightarrow> bytes list \<Rightarrow> string \<Rightarrow> string list \<Rightarrow> checkpoint_signature \<Rightarrow> string" where
  "honest_head E entries origin exts s =
     print_checkpoint E origin (word_of_nat (length entries)) (log_root E entries) exts [s]"

definition honest_proof ::
  "('p, 'q, 's, 'n) crates \<Rightarrow> bytes list \<Rightarrow> nat \<Rightarrow> string \<Rightarrow> string list \<Rightarrow> checkpoint_signature \<Rightarrow> inclusion_proof" where
  "honest_proof E entries m origin exts s = \<lparr>ip_log_index = word_of_nat m, ip_root_hash = log_root E entries,
     ip_tree_size = word_of_nat (length entries), ip_hashes = audit_path E m entries,
     ip_checkpoint = \<lparr>cp_envelope = honest_head E entries origin exts s\<rparr>\<rparr>"

definition note_line :: "string \<Rightarrow> bool" where
  "note_line l \<longleftrightarrow> l \<noteq> [] \<and> CHR 0x0A \<notin> set l"

text \<open>\<open>s\<close> is a signature of the log \<open>l\<close> with key \<open>k\<close> on the head of its tree.\<close>

definition signs_head ::
  "('p, 'q, 's, 'n) crates \<Rightarrow> transparency_log \<Rightarrow> ('p, 'q) ecdsa_key \<Rightarrow> bytes list \<Rightarrow> string \<Rightarrow> string list
    \<Rightarrow> checkpoint_signature \<Rightarrow> bool" where
  "signs_head E l k entries origin exts s \<longleftrightarrow> note_line origin \<and> list_all note_line exts
     \<and> printable_signature s \<and> checkpoint_key_hint E l = Some (sl_key_hint s)
     \<and> verify_der E k (as_bytes (print_note_body E origin (word_of_nat (length entries)) (log_root E entries) exts))
          (sl_signature s)"

lemma honest_proof_in_tree:
  assumes "sha256_len E" "b64_roundtrip E" "b64_alphabet E" "b64_nonempty E"
    and m: "m < length entries" "length entries < 2 ^ 64" "te_canonicalized_body e = entries ! m"
    and pf: "te_inclusion_proof e = Some (honest_proof E entries m origin exts s)"
    and s: "signs_head E l k entries origin exts s"
    and "allows policy (te_log_id_key_id e) origin"
  shows "in_signed_tree E policy e l k"
proof -
  let ?n = "word_of_nat (length entries) :: u64" and ?root = "log_root E entries"
  let ?c = "\<lparr>pc_origin = origin, pc_tree_size = ?n, pc_root_hash = ?root,
     pc_note_body = print_note_body E origin ?n ?root exts, pc_signatures = [s]\<rparr>"
  have root: "length ?root = 32" using assms(1) m(1) by (intro log_root32) auto
  have "parse_checkpoint E (honest_head E entries origin exts s) = Inr ?c"
    unfolding honest_head_def
    by (rule parse_print_checkpoint)
      (use assms(2-4) s root in \<open>auto simp: signs_head_def note_line_def list_all_iff MAX_CHECKPOINT_SIGNATURES_def\<close>)
  then show ?thesis
    unfolding in_signed_tree_def
    using assms(1,10) s root audit_path32 recompute_root_audit_path [OF m(1,2), of E]
    by (intro exI [of _ "honest_proof E entries m origin exts s"] exI [of _ ?c] exI [of _ "sl_key_hint s"])
      (simp add: pf m(3) honest_proof_def signs_head_def)
qed

lemma honest_entry:
  assumes "sha256_len E" "b64_roundtrip E" "b64_alphabet E" "b64_nonempty E"
    and "vm_tlog_entries (bundle_verification_material b) = [e]" "body_describes E e b"
    and "selected_log E ts (te_log_id_key_id e) l" "from_spki_der E (pk_raw_bytes (tl_public_key l)) = Inr k"
    and "log_promised E e k" "time_in_windows E b l (te_integrated_time e)"
    and "m < length entries" "length entries < 2 ^ 64" "te_canonicalized_body e = entries ! m"
    and "te_inclusion_proof e = Some (honest_proof E entries m origin exts s)"
    and "signs_head E l k entries origin exts s" "allows policy (te_log_id_key_id e) origin"
  shows "verify_tlog_entry E b ts policy = Inr (timestamp_of e)"
proof -
  have "in_signed_tree E policy e l k" by (rule honest_proof_in_tree [OF assms(1-4,11-16)])
  with assms(5-10) have "log_evidence E ts policy b e" unfolding log_evidence_def by blast
  then show ?thesis unfolding verify_tlog_entry_evidence by blast
qed

end
