(* ===== verification/Command_Line.thy ===== *)
theory Command_Line
  imports Verifier
begin

text \<open>
  What the two command-line clients (\<open>src/examples/verify.rs\<close> and
  \<open>src/tools/conformance/src/main.rs\<close>) share: the boxed error, the reader of a flag's value,
  the exit code, and the view of the outside world. Both clients assemble a policy from their
  flags and hand it to the verifier; the last section says what an accepted run then certifies.
\<close>

section \<open>Errors, the outside world, arguments\<close>

text \<open>\<open>IntErrorKind\<close> of a failed \<open>str::parse::<u64>\<close>: the digits are read from the left, and the first
  one that is no digit or that overflows decides.\<close>

datatype int_error = Empty | InvalidDigit | PosOverflow

fun first_digit_error :: "nat \<Rightarrow> string \<Rightarrow> int_error option" where
  "first_digit_error acc [] = None"
| "first_digit_error acc (c # cs) =
     (if \<not> is_ascii_digit c then Some InvalidDigit
      else if 2 ^ 64 \<le> acc * 10 + digit_value c then Some PosOverflow
      else first_digit_error (acc * 10 + digit_value c) cs)"

definition u64_error :: "string \<Rightarrow> int_error option" where
  "u64_error s =
     (if s = [] then Some Empty
      else if s = ''+'' \<or> s = ''-'' then Some InvalidDigit
      else first_digit_error 0 (if hd s = CHR ''+'' then tl s else s))"

lemma first_digit_error_None:
  "acc < 2 ^ 64 \<Longrightarrow> first_digit_error acc cs = None \<longleftrightarrow>
     list_all is_ascii_digit cs \<and> foldl (\<lambda>a c. a * 10 + digit_value c) acc cs < 2 ^ 64"
proof (induction cs arbitrary: acc)
  case (Cons c cs)
  have grows: "a \<le> foldl (\<lambda>a c. a * 10 + digit_value c) a ds" for a ds
  proof (induction ds arbitrary: a)
    case (Cons d ds)
    from Cons.IH [of "a * 10 + digit_value d"] show ?case by simp
  qed simp
  show ?case
  proof (cases "acc * 10 + digit_value c < 2 ^ 64")
    case True
    with Cons.IH [OF True] show ?thesis by simp
  next
    case False
    with grows [of "acc * 10 + digit_value c" cs] show ?thesis by simp
  qed
qed simp

text \<open>An error is found exactly when the parse fails.\<close>

lemma u64_error_None: "u64_error s = None \<longleftrightarrow> parse_u64 s \<noteq> None"
proof (cases "s = [] \<or> s = ''+'' \<or> s = ''-''")
  case True
  then show ?thesis by (auto simp: u64_error_def parse_u64_def is_ascii_digit_def)
next
  case False
  let ?ds = "if hd s = CHR ''+'' then tl s else s"
  obtain c cs where s: "s = c # cs" using False by (cases s) auto
  have ne: "?ds \<noteq> []" using False by (auto simp: s)
  have ds: "(case s of c # d # r \<Rightarrow> if c = CHR ''+'' then d # r else s | _ \<Rightarrow> s) = ?ds"
    using False by (cases cs) (auto simp: s)
  have "parse_u64 s \<noteq> None \<longleftrightarrow> list_all is_ascii_digit ?ds \<and> digits_value ?ds < 2 ^ 64"
    unfolding parse_u64_def ds Let_def using ne by simp
  with False show ?thesis by (simp add: u64_error_def first_digit_error_None digits_value_def del: not_None_eq)
qed

text \<open>\<open>Box<dyn Error>\<close>: a message of the client, an error of the library, of \<open>std::fs\<close>, or of
  \<open>str::parse::<u64>\<close>.\<close>

datatype cli_error = Message string | Library error | Io_Error string | Parse_Int_Error int_error

text \<open>Files, and the queries on a loosely parsed JSON value, which belong to \<open>serde_json\<close>:
  \<open>from_slice::<Value>\<close>, \<open>Value::pointer\<close> and \<open>Value::get\<close>.\<close>

record host =
  read_file :: "string \<Rightarrow> string + bytes"
  json_from_slice :: "bytes \<Rightarrow> jvalue option"
  json_pointer :: "jvalue \<Rightarrow> string \<Rightarrow> jvalue option"
  json_get :: "jvalue \<Rightarrow> string \<Rightarrow> jvalue option"

definition fs_read :: "host \<Rightarrow> string \<Rightarrow> cli_error + bytes" where
  "fs_read H path = map_err Io_Error (read_file H path)"

text \<open>The value after a flag, and the arguments after it.\<close>

definition next_value :: "string list \<Rightarrow> string \<Rightarrow> cli_error + (string \<times> string list)" where
  "next_value args flag =
     (case args of [] \<Rightarrow> Inl (Message (flag @ '' requires a value'')) | v # rest \<Rightarrow> Inr (v, rest))"

text \<open>\<open>print_error_chain\<close>: the lines on standard error. Only a library error has a \<open>source\<close>, and
  what it wraps has none.\<close>

fun int_error_text :: "int_error \<Rightarrow> string" where
  "int_error_text Empty = ''cannot parse integer from empty string''"
| "int_error_text InvalidDigit = ''invalid digit found in string''"
| "int_error_text PosOverflow = ''number too large to fit in target type''"

fun cli_error_text :: "cli_error \<Rightarrow> string" where
  "cli_error_text (Message m) = m"
| "cli_error_text (Library e) = error_text e"
| "cli_error_text (Io_Error e) = e"
| "cli_error_text (Parse_Int_Error k) = int_error_text k"

fun cli_error_sources :: "cli_error \<Rightarrow> string list" where
  "cli_error_sources (Library e) = [source_text e]"
| "cli_error_sources _ = []"

definition error_chain :: "cli_error \<Rightarrow> string list" where
  "error_chain e = (''error: '' @ cli_error_text e) # map (\<lambda>cause. ''caused by: '' @ cause) (cli_error_sources e)"

definition stderr_of :: "cli_error + 'a \<Rightarrow> string list" where
  "stderr_of r = (case r of Inl e \<Rightarrow> error_chain e | Inr _ \<Rightarrow> [])"

datatype exit_code = ExitSuccess | ExitFailure

definition exit_of :: "cli_error + 'a \<Rightarrow> exit_code" where
  "exit_of r = (case r of Inl _ \<Rightarrow> ExitFailure | Inr _ \<Rightarrow> ExitSuccess)"

lemma next_value_iff [simp]: "next_value args flag = Inr (v, rest) \<longleftrightarrow> args = v # rest"
  by (auto simp: next_value_def split: list.splits)

lemma next_value_Cons [simp]: "next_value (v # rest) flag = Inr (v, rest)"
  by simp

lemma fs_read_iff [simp]: "fs_read H path = Inr bs \<longleftrightarrow> read_file H path = Inr bs"
  by (simp add: fs_read_def)

lemma stderr_of_Nil: "stderr_of r = [] \<longleftrightarrow> exit_of r = ExitSuccess"
  by (cases r) (simp_all add: stderr_of_def error_chain_def exit_of_def)

text \<open>The last line names the cause, without the stage that the first line puts in front.\<close>

lemma library_chain: "error_chain (Library e) =
    [''error: '' @ stage_text e @ '': '' @ source_text e, ''caused by: '' @ source_text e]"
  by (simp add: error_chain_def error_text_def)

lemma exit_of_iff: "exit_of r = ExitSuccess \<longleftrightarrow> is_ok r"
  by (cases r) (simp_all add: exit_of_def)

section \<open>What an accepted run certifies\<close>

text \<open>The bundle attests the digest \<open>d\<close>, and \<open>cl\<close> are the authenticated claims of its signer.\<close>

definition signer_claims ::
  "('p, 'q, 's, 'n) crates \<Rightarrow> trust_store \<Rightarrow> origin_policy \<Rightarrow> subject_digest \<Rightarrow> sigstore_bundle \<Rightarrow> fulcio_claims \<Rightarrow> bool" where
  "signer_claims E ts cop d b cl \<longleftrightarrow> (\<exists>st s e vl. statement_names E b d st s
     \<and> log_evidence E ts cop b e \<and> signer_evidence E ts b (int (unat (te_integrated_time e))) vl
     \<and> sct_evidence E ts vl \<and> claims_of E (vl_leaf vl) cl)"

lemma verify_digest_claims:
  "is_ok (verify_digest E v d b) \<longleftrightarrow> (\<exists>cl. signer_claims E (vr_trust_store v) (vr_checkpoint_origin_policy v) d b cl
     \<and> fc_issuer cl = Some EXPECTED_ISSUER
     \<and> (\<exists>owner name git_ref. source_admits E (pol_source (vr_github_policy v)) cl owner name git_ref)
     \<and> (\<exists>u. signer_admits E (pol_signer (vr_github_policy v)) cl u))"
  unfolding is_ok_iff verify_digest_attested attested_def identity_evidence_def signer_claims_def by blast

text \<open>The claims spell the wanted repository, up to the case of ASCII letters, and the rest
  exactly.\<close>

definition source_spells :: "fulcio_claims \<Rightarrow> string \<Rightarrow> string \<Rightarrow> string \<Rightarrow> bool" where
  "source_spells cl owner name git_ref \<longleftrightarrow> (\<exists>so sn. uri_segment so \<and> uri_segment sn
     \<and> fc_source_repository_uri cl = Some (github_repo_uri so sn)
     \<and> eq_ignore_ascii_case so owner \<and> eq_ignore_ascii_case sn name
     \<and> fc_source_repository_ref cl = Some git_ref)"

definition signer_spells :: "fulcio_claims \<Rightarrow> string \<Rightarrow> string \<Rightarrow> string \<Rightarrow> string \<Rightarrow> bool" where
  "signer_spells cl owner name path git_ref \<longleftrightarrow> (\<exists>u. signer_wf u \<and> fc_san_uri cl = Some (signer_san_uri u)
     \<and> eq_ignore_ascii_case (su_owner u) owner \<and> eq_ignore_ascii_case (su_name u) name
     \<and> su_workflow_path u = path \<and> su_git_ref u = git_ref)"

lemma source_admits_spells:
  "(\<exists>owner name git_ref. source_admits E \<lparr>sp_repository = r, sp_git_ref = g, sp_commit = None\<rparr> cl owner name git_ref)
     \<longleftrightarrow> (\<exists>git_ref. source_spells cl (ri_owner r) (ri_name r) git_ref \<and> ref_allowed g git_ref)
        \<and> pinned (ri_owner_id r) (fc_source_repository_owner_id cl)
        \<and> pinned (ri_repository_id r) (fc_source_repository_id cl)"
  unfolding source_admits_def source_spells_def same_repository_def by (auto simp: digest_pinned_def)

lemma signer_admits_any:
  "(\<exists>u. signer_admits E \<lparr>gp_repository = r, gp_path = WorkflowPath w, gp_revision = Any\<rparr> cl u)
     \<longleftrightarrow> (\<exists>git_ref. signer_spells cl (ri_owner r) (ri_name r) w git_ref)"
  unfolding signer_admits_def signer_spells_def same_repository_def by (auto simp: revision_allowed_def)

lemma signer_admits_ref:
  "(\<exists>u. signer_admits E \<lparr>gp_repository = r, gp_path = WorkflowPath w, gp_revision = Ref git_ref\<rparr> cl u)
     \<longleftrightarrow> signer_spells cl (ri_owner r) (ri_name r) w git_ref"
  unfolding signer_admits_def signer_spells_def same_repository_def by (auto simp: revision_allowed_def)

text \<open>The wildcard that both clients use for "any ref".\<close>

lemma any_ref_allowed [simp]: "ref_allowed (Glob ''*'') r"
  by (simp add: ref_allowed_def glob_any)

text \<open>Both clients bind one origin to the key of one log of their trust store.\<close>

definition one_origin_policy :: "('p, 'q, 's, 'n) crates \<Rightarrow> transparency_log \<Rightarrow> string \<Rightarrow> origin_policy" where
  "one_origin_policy E l u =
     \<lparr>op_bindings = [\<lparr>ob_key_id = sha256 E (pk_raw_bytes (tl_public_key l)), ob_origins = [u]\<rparr>]\<rparr>"

lemma one_origin_policy_iff:
  "(\<exists>b. allow_origin E origin_builder l u = Inr b \<and> origin_builder_build b = Inr p)
     \<longleftrightarrow> valid_origin u \<and> p = one_origin_policy E l u"
  by (auto simp: allow_origin_iff origin_builder_build_def origin_policy_new_def origin_builder_def
      one_origin_policy_def checkpoint_log_key_id_def)

lemma one_origin_verifier:
  assumes "l \<in> set (ts_tlogs ts)"
    and "ri_owner_id (gp_repository (pol_signer p)) = None" "ri_repository_id (gp_repository (pol_signer p)) = None"
  shows "verifier_build E (vb_set_checkpoint_origin_policy (vb_set_github_policy
       (vb_set_trust_store verifier_builder_default ts) p) (one_origin_policy E l u)) = Inr v
     \<longleftrightarrow> v = \<lparr>vr_trust_store = ts, vr_github_policy = p, vr_checkpoint_origin_policy = one_origin_policy E l u\<rparr>"
  using assms
  by (cases v) (auto simp: verifier_build_iff verifier_wf_def known_log_key_def one_origin_policy_def
      vb_set_checkpoint_origin_policy_def vb_set_github_policy_def vb_set_trust_store_def verifier_builder_default_def)

text \<open>A repository named on the command line carries no numeric ids.\<close>

definition named_repository :: "string \<Rightarrow> string \<Rightarrow> repository_identity" where
  "named_repository owner name = \<lparr>ri_owner = owner, ri_name = name, ri_owner_id = None, ri_repository_id = None\<rparr>"

lemma repository_parse_named:
  "repository_parse E s = Inr r \<longleftrightarrow> (\<exists>owner name. s = owner @ CHR ''/'' # name
     \<and> uri_segment owner \<and> uri_segment name \<and> r = named_repository owner name)"
  by (cases r) (auto simp: repository_parse_iff uri_segment_def named_repository_def)

lemma workflow_path_new_iff [simp]: "workflow_path_new w = Inr p \<longleftrightarrow> w \<noteq> [] \<and> p = WorkflowPath w"
  by (auto simp: workflow_path_new_def)

end
