(* ===== verification/Error_Classes.thy ===== *)
theory Error_Classes
  imports Command_Line
begin

text \<open>
  Which class of error (\<open>src/src/error.rs\<close>) each step of the verifier can report. The classes are
  what callers branch on: the theory shows that a step stays inside the classes its documentation
  names, and draws the conclusions for the composed \<open>verify_digest\<close>: a policy error is only ever
  reported about an attestation that is authentic in every other respect.
\<close>

section \<open>A calculus of raised errors\<close>

definition raises :: "(error \<Rightarrow> bool) \<Rightarrow> error + 'a \<Rightarrow> bool" where
  "raises K r \<longleftrightarrow> (case r of Inl e \<Rightarrow> K e | Inr _ \<Rightarrow> True)"

named_theorems raising \<comment> \<open>introduction rules of \<open>raises\<close>, one for each way to build a result\<close>

lemma raisesD: "raises K r \<Longrightarrow> r = Inl e \<Longrightarrow> K e"
  by (simp add: raises_def)

lemma raises_mono: "raises K r \<Longrightarrow> (\<And>e. K e \<Longrightarrow> L e) \<Longrightarrow> raises L r"
  by (auto simp: raises_def split: sum.splits)

lemma raises_Inr [raising]: "raises K (Inr x)"
  by (simp add: raises_def)

lemma raises_Inl [raising]: "K e \<Longrightarrow> raises K (Inl e)"
  by (simp add: raises_def)

lemma raises_bind [raising]: "raises K m \<Longrightarrow> (\<And>x. raises K (f x)) \<Longrightarrow> raises K (res_bind m f)"
  by (cases m) (auto simp: raises_def)

lemma raises_bind_result: "raises K m \<Longrightarrow> (\<And>x. m = Inr x \<Longrightarrow> raises K (f x)) \<Longrightarrow> raises K (res_bind m f)"
  by (cases m) (auto simp: raises_def)

lemma raises_map_err [raising]: "(\<And>e. K (g e)) \<Longrightarrow> raises K (map_err g r)"
  by (cases r) (auto simp: raises_def)

lemma raises_ok_or [raising]: "K e \<Longrightarrow> raises K (ok_or e x)"
  by (cases x) (auto simp: raises_def)

lemma raises_exactly_one [raising]: "(\<And>n. K (g n)) \<Longrightarrow> raises K (exactly_one g xs)"
  by (simp add: raises_def exactly_one_def)

lemma raises_if [raising]: "raises K r \<Longrightarrow> raises K s \<Longrightarrow> raises K (if c then r else s)"
  by simp

lemma raises_option [raising]: "raises K r \<Longrightarrow> (\<And>x. raises K (f x)) \<Longrightarrow> raises K (case v of None \<Rightarrow> r | Some x \<Rightarrow> f x)"
  by (cases v) simp_all

lemma raises_list [raising]: "raises K r \<Longrightarrow> (\<And>x xs. raises K (f x xs)) \<Longrightarrow> raises K (case v of [] \<Rightarrow> r | x # xs \<Rightarrow> f x xs)"
  by (cases v) simp_all

lemma raises_pair [raising]: "(\<And>x y. raises K (f x y)) \<Longrightarrow> raises K (case v of (x, y) \<Rightarrow> f x y)"
  by (cases v) simp

lemma raises_pair_result: "(\<And>x y. v = (x, y) \<Longrightarrow> raises K (f x y)) \<Longrightarrow> raises K (case v of (x, y) \<Rightarrow> f x y)"
  by (cases v) simp

lemma raises_Let [raising]: "raises K (f v) \<Longrightarrow> raises K (let x = v in f x)"
  by (simp add: Let_def)

lemma raises_collect [raising]: "(\<And>x. raises K (f x)) \<Longrightarrow> raises K (collect_results f xs)"
proof (induction xs)
  case (Cons x xs)
  then show ?case by (auto intro!: raising)
qed (simp add: raises_def)

section \<open>The classes\<close>

definition certificate_class :: "error \<Rightarrow> bool" where
  "certificate_class e \<longleftrightarrow> (\<exists>c. e = Certificate c)"

definition policy_class :: "error \<Rightarrow> bool" where
  "policy_class e \<longleftrightarrow> (\<exists>c. e = Policy c)"

definition document_class :: "error \<Rightarrow> bool" where
  "document_class e \<longleftrightarrow> (\<exists>c. e = Parse c) \<or> (\<exists>c. e = Unsupported c) \<or> (\<exists>c. e = ResourceLimit c)"

definition log_class :: "error \<Rightarrow> bool" where
  "log_class e \<longleftrightarrow> document_class e \<or> certificate_class e \<or> (\<exists>c. e = Transparency c)
     \<or> (\<exists>c. e = Timestamp c) \<or> (\<exists>c. e = ContentBinding c)"

lemmas error_classes = certificate_class_def policy_class_def document_class_def log_class_def

lemma document_log: "document_class e \<Longrightarrow> log_class e"
  and certificate_log: "certificate_class e \<Longrightarrow> log_class e"
  by (simp_all add: log_class_def)

section \<open>The steps\<close>

lemma raises_parse_strict: "raises document_class (parse_strict E bs)"
  unfolding parse_strict_def by (intro raising) (simp_all add: error_classes)

lemma raises_find_extension: "raises certificate_class (find_extension exts oid)"
  unfolding find_extension_def by (intro raising) (simp_all add: error_classes)

lemma raises_from_spki_der: "raises certificate_class (from_spki_der E spki)"
  unfolding from_spki_der_def by (intro raising) (simp_all add: error_classes)

lemmas [raising] = raises_parse_strict [THEN raises_mono] raises_find_extension [THEN raises_mono]
  raises_from_spki_der [THEN raises_mono]

lemma raises_find_extension_decoded: "raises certificate_class (find_extension_decoded f exts oid)"
  unfolding find_extension_decoded_def by (intro raising) (simp_all add: error_classes)

lemmas [raising] = raises_find_extension_decoded [THEN raises_mono]

lemma raises_from_payload: "raises document_class (from_payload E bs)"
  unfolding from_payload_def statement_from_raw_def statement_subject_from_raw_def
  by (intro raising) (simp_all add: error_classes)

text \<open>Path validation, embedded SCTs and claims stay inside the certificate class.\<close>

lemma raises_verify_time_window: "raises certificate_class (verify_time_window c t)"
  unfolding verify_time_window_def by (intro raising) (simp_all add: error_classes)

lemma raises_reject_unknown: "raises certificate_class (reject_unknown_critical_extensions exts known)"
  by (induction exts) (auto intro!: raising simp: error_classes)

lemmas [raising] = raises_verify_time_window [THEN raises_mono] raises_reject_unknown [THEN raises_mono]

lemma raises_profiles:
  "raises certificate_class (verify_leaf_profile E c)" "raises certificate_class (verify_ca_profile E c n)"
  unfolding verify_leaf_profile_def verify_ca_profile_def by (intro raising; simp add: error_classes)+

lemma raises_verify_signature: "raises certificate_class (verify_signature E c i)"
  unfolding verify_signature_def encode_certificate_error_def by (intro raising) (simp_all add: error_classes)

lemmas [raising] = raises_profiles [THEN raises_mono] raises_verify_signature [THEN raises_mono]

lemma raises_walk_chain: "raises certificate_class (walk_chain E t c i chain)"
  by (induction chain arbitrary: c i) (auto intro!: raising simp: error_classes)

lemmas [raising] = raises_walk_chain [THEN raises_mono]

lemma raises_try_validate: "raises certificate_class (try_validate_against_ca E c t ca)"
  unfolding try_validate_against_ca_def decode_certificate_def encode_certificate_error_def
  by (intro raising) (simp_all add: error_classes)

lemma raises_ca_loop: "pred_option certificate_class err \<Longrightarrow> raises certificate_class (ca_loop E c t cas err)"
proof (induction cas arbitrary: err)
  case Nil
  then show ?case by (auto intro!: raising simp: error_classes split: option.splits)
next
  case (Cons ca cas)
  from raises_try_validate [of E c t ca] have "try_validate_against_ca E c t ca = Inl e \<Longrightarrow> certificate_class e" for e
    by (rule raisesD)
  with Cons show ?case by (auto intro: raising split: sum.splits option.splits)
qed

lemma raises_validate_chain: "raises certificate_class (validate_chain E der ts t)"
  unfolding validate_chain_def by (intro raising raises_ca_loop) (simp_all add: error_classes)

lemma raises_extract_claims: "raises certificate_class (extract_claims E vl)"
  unfolding extract_claims_def extract_san_uri_def extract_utf8_claim_def
  by (intro raising) (simp_all add: error_classes)

lemma raises_cursor:
  "raises certificate_class (sct_take bs n)" "raises certificate_class (take_u8 bs)"
  "raises certificate_class (take_u16 bs)" "raises certificate_class (take_u64 bs)"
  "raises certificate_class (take_array32 bs)"
  unfolding take_u8_def take_u16_def take_u64_def take_array32_def sct_take_def
  by (intro raising; simp add: sct_invalid_def error_classes)+

lemmas [raising] = raises_cursor [THEN raises_mono]

lemma raises_single_sct: "raises certificate_class (parse_single_sct bs)"
  unfolding parse_single_sct_def by (intro raising) (simp_all add: sct_invalid_def error_classes)

lemmas [raising] = raises_single_sct [THEN raises_mono]

lemma raises_sct_list_loop: "raises certificate_class (sct_list_loop bs scts)"
proof (induction "length bs" arbitrary: bs scts rule: less_induct)
  case less
  have "raises certificate_class (sct_list_loop rest (scts @ [sct]))"
    if "take_u16 bs = Inr (n, bs1)" "sct_take bs1 (unat n) = Inr (b, rest)" for n bs1 b rest sct
    using that by (intro less) (auto simp: take_u16_def sct_take_def split: if_splits)
  then show ?case
    unfolding sct_list_loop.simps [of bs scts]
    by (intro raises_if raises_bind_result raises_pair_result raises_Inr raises_cursor raises_single_sct) simp_all
qed

lemma raises_sct_loop: "pred_option certificate_class err \<Longrightarrow> raises certificate_class (sct_loop E tbs ikh ts scts err)"
proof (induction scts arbitrary: err)
  case Nil
  then show ?case by (auto intro!: raising simp: error_classes split: option.splits)
next
  case (Cons sct scts)
  have "raises certificate_class (verify_one_sct E sct tbs ikh ts)"
    unfolding verify_one_sct_def digitally_signed_bytes_def
    by (intro raising) (simp_all add: sct_invalid_def error_classes)
  then have "verify_one_sct E sct tbs ikh ts = Inl e \<Longrightarrow> certificate_class e" for e by (rule raisesD)
  with Cons show ?case by (auto intro: raising split: sum.splits option.splits)
qed

lemma raises_verify_embedded_scts: "raises certificate_class (verify_embedded_scts E vl ts)"
  unfolding verify_embedded_scts_def extract_sct_list_bytes_def parse_sct_list_def precert_tbs_der_def
  by (intro raising raises_sct_list_loop raises_sct_loop) (simp_all add: sct_invalid_def error_classes)

text \<open>The log entry, with everything it parses.\<close>

lemma raises_parse_checkpoint: "raises document_class (parse_checkpoint E env)"
  unfolding parse_checkpoint_def parse_note_body_def read_size_and_root_def signature_loop_collect
    parse_signature_line_def malformed_def
  by (intro raising) (simp_all add: error_classes)

lemmas [raising] = raises_parse_checkpoint [THEN raises_mono]

lemma raises_verify_checkpoint: "raises log_class (verify_checkpoint E env n h l k)"
  unfolding verify_checkpoint_eq by (intro raising) (simp_all add: error_classes)

lemma raises_parse_tlog_entry_body: "raises document_class (parse_tlog_entry_body E bs)"
  unfolding parse_tlog_entry_body_def decode_b64_def by (intro raising) (simp_all add: error_classes)

lemma raises_verify_inclusion_proof: "raises log_class (verify_inclusion_proof E bs pf)"
  unfolding verify_inclusion_proof_def by (intro raising) (simp_all add: error_classes)

lemmas [raising] = raises_verify_checkpoint [THEN raises_mono] raises_parse_tlog_entry_body [THEN raises_mono]
  raises_verify_inclusion_proof [THEN raises_mono]

lemma raises_verify_tlog_entry: "raises log_class (verify_tlog_entry E b ts policy)"
  unfolding verify_tlog_entry_def the_tlog_entry_def check_entry_binding_def select_log_key_def verify_set_def
    leaf_info_from_certificate_def check_time_window_def
  by (intro raising) (simp_all add: error_classes)

text \<open>The policy stays inside its own class.\<close>

lemma raises_check_signer_revision: "raises policy_class (check_signer_revision E cl u r)"
  by (cases r)
    (auto simp: check_signer_revision_def require_claim_def error_classes intro!: raising)

lemmas [raising] = raises_check_signer_revision [THEN raises_mono]

lemma raises_match_policy: "raises policy_class (match_policy E cl pol)"
  unfolding match_policy_def require_claim_def parse_github_repo_uri_def parse_signer_san_uri_def malformed_claim_def
    check_repository_match_def check_pinned_id_def check_ref_policy_def check_source_commit_def
  by (intro raising) (simp_all add: error_classes)

section \<open>What a policy error tells\<close>

text \<open>No step in front of the policy reports one.\<close>

lemma no_policy_error:
  "from_payload E bs \<noteq> Inl (Policy p)" "verify_tlog_entry E b ts pol \<noteq> Inl (Policy p)"
  "validate_chain E der ts t \<noteq> Inl (Policy p)" "from_spki_der E bs \<noteq> Inl (Policy p)"
  "verify_envelope E env k \<noteq> Inl (Policy p)" "verify_embedded_scts E vl ts \<noteq> Inl (Policy p)"
  "extract_claims E vl \<noteq> Inl (Policy p)"
  using raisesD [OF raises_from_payload, of E bs] raisesD [OF raises_verify_tlog_entry, of E b ts pol]
    raisesD [OF raises_validate_chain, of E der ts t] raisesD [OF raises_from_spki_der, of E bs]
    raisesD [OF raises_verify_embedded_scts, of E vl ts] raisesD [OF raises_extract_claims, of E vl]
  by (auto simp: error_classes verify_envelope_def)

lemma res_bind_foreign: "m \<noteq> Inl e \<Longrightarrow> res_bind m f = Inl e \<longleftrightarrow> (\<exists>x. m = Inr x \<and> f x = Inl e)"
  by (auto simp: res_bind_eq_Inl)

lemmas before_policy = no_policy_error [THEN res_bind_foreign]

lemma foreign_guard: "(if c then Inl (Unsupported u) else m) = Inl (Policy p) \<longleftrightarrow> \<not> c \<and> m = Inl (Policy p)"
  by simp

lemma foreign_ok_or:
  "res_bind (ok_or (ContentBinding c) x) f = Inl (Policy p) \<longleftrightarrow> (\<exists>y. x = Some y \<and> f y = Inl (Policy p))"
  by (cases x) simp_all

lemma last_step: "res_bind m (\<lambda>x. Inr (f x)) = Inl e \<longleftrightarrow> m = Inl e"
  by (cases m) simp_all

lemma verify_digest_policy_error:
  "verify_digest E v d b = Inl (Policy p) \<longleftrightarrow> (\<exists>cl. signer_claims E (vr_trust_store v) (vr_checkpoint_origin_policy v) d b cl
     \<and> match_policy E cl (vr_github_policy v) = Inl (Policy p))"
proof -
  have "verify_digest E v d b = Inl (Policy p) \<longleftrightarrow> (\<exists>st s e vl k cl. statement_names E b d st s
      \<and> log_evidence E (vr_trust_store v) (vr_checkpoint_origin_policy v) b e
      \<and> validate_chain E (cert_raw_bytes (vm_certificate (bundle_verification_material b)))
          (vr_trust_store v) (authenticated_time_of (te_integrated_time e)) = Inr vl
      \<and> from_spki_der E (vl_leaf_spki_der vl) = Inr k \<and> verify_envelope E (bundle_dsse_envelope b) k = Inr ()
      \<and> verify_embedded_scts E vl (vr_trust_store v) = Inr ()
      \<and> extract_claims E vl = Inr cl \<and> match_policy E cl (vr_github_policy v) = Inl (Policy p))"
    unfolding verify_digest_def Let_def statement_names_iff bundle_statement_def before_policy foreign_guard
      foreign_ok_or last_step verify_tlog_entry_evidence ex_timestamp timestamp_of_simps not_not ex_unit
    by blast
  also have "\<dots> \<longleftrightarrow> (\<exists>cl. signer_claims E (vr_trust_store v) (vr_checkpoint_origin_policy v) d b cl
     \<and> match_policy E cl (vr_github_policy v) = Inl (Policy p))"
    unfolding signer_claims_def signer_evidence_iff sct_evidence_iff extract_claims_iff
    using evidence_time by fastforce
  finally show ?thesis .
qed

text \<open>Any other error is decided before the identity policy is consulted.\<close>

lemma other_error_ignores_policy:
  assumes "verify_digest E v d b = Inl e" "\<not> policy_class e"
  shows "verify_digest E (v\<lparr>vr_github_policy := pol\<rparr>) d b = Inl e"
proof -
  have ts: "vr_trust_store (v\<lparr>vr_github_policy := pol\<rparr>) = vr_trust_store v"
    "vr_checkpoint_origin_policy (v\<lparr>vr_github_policy := pol\<rparr>) = vr_checkpoint_origin_policy v" by simp_all
  have "match_policy E cl q \<noteq> Inl e" for cl q
    using raisesD [OF raises_match_policy, of E cl q e] assms(2) by blast
  then have "res_bind (match_policy E cl q) (\<lambda>x. Inr (f x)) \<noteq> Inl e" for cl q f
    by (simp add: last_step)
  with assms(1) show ?thesis unfolding verify_digest_def Let_def ts res_bind_eq_Inl guard_eq_Inl by metis
qed

section \<open>Properties\<close>

text \<open>C32. A policy error is the last word on an authentic attestation: \<open>verify_digest\<close> reports one if
  and only if the bundle attests the digest with every piece of evidence (statement, log, certificate
  path, signature, SCTs), and the comparison of the authenticated claims of its signer with the
  identity policy fails with that error.\<close>

theorem policy_error_is_authentic:
  "verify_digest E v d b = Inl (Policy p) \<longleftrightarrow> (\<exists>cl. signer_claims E (vr_trust_store v) (vr_checkpoint_origin_policy v) d b cl
     \<and> match_policy E cl (vr_github_policy v) = Inl (Policy p))"
  by (rule verify_digest_policy_error)

end
