(* ===== verification/Monotonicity.thy ===== *)
theory Monotonicity
  imports Verifier
begin

text \<open>
  How the answer of the verifier depends on what the caller configures (\<open>src/src/policy.rs\<close>,
  \<open>src/src/trust.rs\<close>). The policies are ordered by what they admit: a more permissive one never
  refuses what a stricter one accepts. A trust root grows at its end, as key rotation does it:
  what the shorter one supports stays accepted, with the same report.
\<close>

section \<open>Ordering the policies\<close>

text \<open>A ref policy is below another when every ref it allows is allowed by the other. Different
  patterns can allow the same refs, so this is a preorder.\<close>

instantiation ref_policy :: preorder
begin

definition less_eq_ref_policy :: "ref_policy \<Rightarrow> ref_policy \<Rightarrow> bool" where
  "less_eq_ref_policy p q \<longleftrightarrow> (\<forall>r. ref_allowed p r \<longrightarrow> ref_allowed q r)"

definition less_ref_policy :: "ref_policy \<Rightarrow> ref_policy \<Rightarrow> bool" where
  "less_ref_policy p q \<longleftrightarrow> p \<le> q \<and> \<not> q \<le> p"

instance
  by standard (auto simp: less_eq_ref_policy_def less_ref_policy_def)

end

text \<open>The revision policies have one top element and are otherwise incomparable.\<close>

instantiation workflow_revision_policy :: order_top
begin

definition top_workflow_revision_policy :: workflow_revision_policy where
  "top_workflow_revision_policy = Any"

definition less_eq_workflow_revision_policy :: "workflow_revision_policy \<Rightarrow> workflow_revision_policy \<Rightarrow> bool" where
  "less_eq_workflow_revision_policy p q \<longleftrightarrow> q = Any \<or> p = q"

definition less_workflow_revision_policy :: "workflow_revision_policy \<Rightarrow> workflow_revision_policy \<Rightarrow> bool" where
  "less_workflow_revision_policy p q \<longleftrightarrow> p \<le> q \<and> \<not> q \<le> p"

instance
  by standard
    (auto simp: less_eq_workflow_revision_policy_def less_workflow_revision_policy_def
      top_workflow_revision_policy_def)

end

text \<open>An optional pin may be dropped, a repository may change the case of its letters.\<close>

definition pin_le :: "'a option \<Rightarrow> 'a option \<Rightarrow> bool" where
  "pin_le p q \<longleftrightarrow> q = None \<or> p = q"

definition repository_le :: "repository_identity \<Rightarrow> repository_identity \<Rightarrow> bool" where
  "repository_le r s \<longleftrightarrow> eq_ignore_ascii_case (ri_owner r) (ri_owner s)
     \<and> eq_ignore_ascii_case (ri_name r) (ri_name s)
     \<and> pin_le (ri_owner_id r) (ri_owner_id s) \<and> pin_le (ri_repository_id r) (ri_repository_id s)"

definition source_le :: "source_policy \<Rightarrow> source_policy \<Rightarrow> bool" where
  "source_le p q \<longleftrightarrow> repository_le (sp_repository p) (sp_repository q)
     \<and> sp_git_ref p \<le> sp_git_ref q \<and> pin_le (sp_commit p) (sp_commit q)"

definition signer_le :: "signer_policy \<Rightarrow> signer_policy \<Rightarrow> bool" where
  "signer_le p q \<longleftrightarrow> repository_le (gp_repository p) (gp_repository q)
     \<and> gp_path p = gp_path q \<and> gp_revision p \<le> gp_revision q"

definition github_policy_le :: "github_policy \<Rightarrow> github_policy \<Rightarrow> bool" where
  "github_policy_le p q \<longleftrightarrow> source_le (pol_source p) (pol_source q) \<and> signer_le (pol_signer p) (pol_signer q)"

definition origin_policy_le :: "origin_policy \<Rightarrow> origin_policy \<Rightarrow> bool" where
  "origin_policy_le p q \<longleftrightarrow> (\<forall>k u. allows p k u \<longrightarrow> allows q k u)"

lemma any_ref_top: "p \<le> Glob ''*''"
  by (simp add: less_eq_ref_policy_def ref_allowed_def glob_any)

lemma exact_le_glob: "Exact r \<le> Glob g \<longleftrightarrow> glob (as_bytes g) (as_bytes r)"
  by (simp add: less_eq_ref_policy_def ref_allowed_def)

section \<open>What each order preserves\<close>

lemma same_repository_le: "repository_le r s \<Longrightarrow> same_repository r ow n \<Longrightarrow> same_repository s ow n"
  by (simp add: repository_le_def same_repository_def eq_ignore_ascii_case_def)

lemma pinned_le: "pin_le p q \<Longrightarrow> pinned p c \<Longrightarrow> pinned q c"
  by (auto simp: pin_le_def pinned_def)

lemma digest_pinned_le: "pin_le p q \<Longrightarrow> digest_pinned E p c \<Longrightarrow> digest_pinned E q c"
  by (auto simp: pin_le_def digest_pinned_def)

lemma revision_allowed_le: "p \<le> q \<Longrightarrow> revision_allowed E p r c \<Longrightarrow> revision_allowed E q r c"
  by (auto simp: less_eq_workflow_revision_policy_def revision_allowed_def)

lemma source_admits_le: "source_le p q \<Longrightarrow> source_admits E p cl ow n r \<Longrightarrow> source_admits E q cl ow n r"
  using same_repository_le pinned_le digest_pinned_le
  unfolding source_le_def source_admits_def less_eq_ref_policy_def repository_le_def by blast

lemma signer_admits_le: "signer_le p q \<Longrightarrow> signer_admits E p cl u \<Longrightarrow> signer_admits E q cl u"
  using same_repository_le revision_allowed_le unfolding signer_le_def signer_admits_def by metis

lemma identity_evidence_le:
  "github_policy_le p q \<Longrightarrow> identity_evidence E p vl i \<Longrightarrow> identity_evidence E q vl i"
  using source_admits_le signer_admits_le unfolding github_policy_le_def identity_evidence_def by blast

lemma in_signed_tree_le:
  "origin_policy_le p q \<Longrightarrow> in_signed_tree E p e l k \<Longrightarrow> in_signed_tree E q e l k"
  unfolding in_signed_tree_def origin_policy_le_def by blast

section \<open>Growing the trust root\<close>

definition grown :: "trust_store \<Rightarrow> trust_store \<Rightarrow> bool" where
  "grown ts ts' \<longleftrightarrow> (\<exists>tlogs. ts_tlogs ts' = ts_tlogs ts @ tlogs)
     \<and> (\<exists>cas. ts_certificate_authorities ts' = ts_certificate_authorities ts @ cas)
     \<and> (\<exists>ctlogs. ts_ctlogs ts' = ts_ctlogs ts @ ctlogs)"

lemma selected_log_grown: "grown ts ts' \<Longrightarrow> selected_log E ts w l \<Longrightarrow> selected_log E ts' w l"
  unfolding grown_def selected_log_def by (metis append.assoc append_Cons)

lemma log_evidence_le:
  assumes "grown ts ts'" "origin_policy_le p q" "log_evidence E ts p b e"
  shows "log_evidence E ts' q b e"
  using assms(3) selected_log_grown [OF assms(1)] in_signed_tree_le [OF assms(2)] unfolding log_evidence_def by blast

lemma first_voucher_append: "first_voucher E t leaf cas vl \<Longrightarrow> first_voucher E t leaf (cas @ cas') vl"
  unfolding first_voucher_def by (metis append.assoc append_Cons)

lemma sct_vouches_append: "sct_vouches E sct tbs h logs l \<Longrightarrow> sct_vouches E sct tbs h (logs @ logs') l"
  unfolding sct_vouches_def by (metis append.assoc append_Cons)

lemma signer_evidence_grown: "grown ts ts' \<Longrightarrow> signer_evidence E ts b t vl \<Longrightarrow> signer_evidence E ts' b t vl"
  using first_voucher_append unfolding grown_def signer_evidence_def by metis

lemma sct_evidence_grown: "grown ts ts' \<Longrightarrow> sct_evidence E ts vl \<Longrightarrow> sct_evidence E ts' vl"
  using sct_vouches_append unfolding grown_def sct_evidence_def by metis

section \<open>The verifier\<close>

lemma verify_digest_le:
  assumes "verify_digest E v d b = Inr r" "grown (vr_trust_store v) ts'"
    and "origin_policy_le (vr_checkpoint_origin_policy v) q" "github_policy_le (vr_github_policy v) p"
  shows "verify_digest E \<lparr>vr_trust_store = ts', vr_github_policy = p, vr_checkpoint_origin_policy = q\<rparr> d b
    = Inr (r\<lparr>rep_trust := \<lparr>tsi_fingerprint = ts_fingerprint ts', tsi_source = ts_source ts'\<rparr>\<rparr>)"
proof -
  obtain st s e vl i where ev: "statement_names E b d st s"
    "log_evidence E (vr_trust_store v) (vr_checkpoint_origin_policy v) b e"
    "signer_evidence E (vr_trust_store v) b (int (unat (te_integrated_time e))) vl"
    "sct_evidence E (vr_trust_store v) vl" "identity_evidence E (vr_github_policy v) vl i"
    and r: "r = report_of v d s i e st"
    using assms(1) unfolding verify_digest_attested attested_def by blast
  note ev' = ev(1) log_evidence_le [OF assms(2,3) ev(2)] signer_evidence_grown [OF assms(2) ev(3)]
    sct_evidence_grown [OF assms(2) ev(4)] identity_evidence_le [OF assms(4) ev(5)]
  have "r\<lparr>rep_trust := \<lparr>tsi_fingerprint = ts_fingerprint ts', tsi_source = ts_source ts'\<rparr>\<rparr>
      = report_of \<lparr>vr_trust_store = ts', vr_github_policy = p, vr_checkpoint_origin_policy = q\<rparr> d s i e st"
    by (simp add: r report_of_def)
  then show ?thesis unfolding verify_digest_attested attested_def using ev' by fastforce
qed

lemma grown_refl: "grown ts ts"
  by (simp add: grown_def)

lemma github_policy_le_refl: "github_policy_le p p"
  by (simp add: github_policy_le_def source_le_def signer_le_def repository_le_def pin_le_def)

lemma origin_policy_le_refl: "origin_policy_le p p"
  by (simp add: origin_policy_le_def)

end
