(* ===== verification/Log_Position.thy ===== *)
theory Log_Position
  imports Verifier
begin

text \<open>
  What two accepted bundles can share. Both carry a proof for the same position of the same tree
  (\<open>src/src/rekor.rs\<close>): then they carry the same signed content, or the two proofs together
  exhibit a SHA-256 collision. No list of entries is assumed: the log may have handed out the two
  proofs without ever fixing a tree.
\<close>

section \<open>Two proofs with one root\<close>

text \<open>Walks both proofs side by side from two different leaves until the hashes meet.\<close>

function fork_collision ::
  "('p, 'q, 's, 'n) crates \<Rightarrow> bytes \<Rightarrow> bytes \<Rightarrow> u64 \<Rightarrow> u64 \<Rightarrow> bytes list \<Rightarrow> bytes list \<Rightarrow> (bytes \<times> bytes) option" where
  "fork_collision E c d idx lst hs gs =
     (if lst = 0 then None
      else if idx mod 2 = 1 then
        (case (hs, gs) of
           (h # hs', g # gs') \<Rightarrow>
             (if rfc6962_node_hash E h c = rfc6962_node_hash E g d
              then Some (NODE_HASH_PREFIX # h @ c, NODE_HASH_PREFIX # g @ d)
              else fork_collision E (rfc6962_node_hash E h c) (rfc6962_node_hash E g d)
                     (idx div 2) (lst div 2) hs' gs')
         | _ \<Rightarrow> None)
      else if idx < lst then
        (case (hs, gs) of
           (h # hs', g # gs') \<Rightarrow>
             (if rfc6962_node_hash E c h = rfc6962_node_hash E d g
              then Some (NODE_HASH_PREFIX # c @ h, NODE_HASH_PREFIX # d @ g)
              else fork_collision E (rfc6962_node_hash E c h) (rfc6962_node_hash E d g)
                     (idx div 2) (lst div 2) hs' gs')
         | _ \<Rightarrow> None)
      else fork_collision E c d (idx div 2) (lst div 2) hs gs)"
  by pat_completeness auto
termination
  by (relation "measure (\<lambda>(_, _, _, _, lst, _, _). unat lst)")
    (auto simp: unat_div unat_gt_0 intro!: div_less_dividend)

declare fork_collision.simps [simp del]

lemma fork_collision_found:
  assumes "sha256_len E" "length c = 32" "length d = 32" "hashes32 hs" "hashes32 gs" "c \<noteq> d"
    and "recompute_loop E c idx lst hs = Some r" "recompute_loop E d idx lst gs = Some r"
  shows "is_collision E (fork_collision E c d idx lst hs gs)"
  using assms
proof (induction E c d idx lst hs gs rule: fork_collision.induct)
  case (1 E c d idx lst hs gs)
  let ?node = "rfc6962_node_hash E"
  note run = "1.prems"(7,8) [unfolded recompute_loop.simps [of E _ idx lst]]
  have "lst \<noteq> 0" using run "1.prems"(6) by (auto split: if_splits)
  then have pos: "0 < lst" by (simp add: word_gt_0)
  consider (left) "idx mod 2 = 1" | (right) "idx mod 2 \<noteq> 1" "idx < lst" | (promoted) "idx mod 2 \<noteq> 1" "\<not> idx < lst"
    by blast
  then show ?case
  proof cases
    case left
    then obtain h hs' g gs' where l: "hs = h # hs'" "gs = g # gs'"
      and next_run: "recompute_loop E (?node h c) (idx div 2) (lst div 2) hs' = Some r"
        "recompute_loop E (?node g d) (idx div 2) (lst div 2) gs' = Some r"
      using run pos by (auto split: list.splits)
    show ?thesis
    proof (cases "?node h c = ?node g d")
      case True
      then have "is_collision E (Some (NODE_HASH_PREFIX # h @ c, NODE_HASH_PREFIX # g @ d))"
        using "1.prems" l by (intro node_hash_collision) auto
      with True left l \<open>lst \<noteq> 0\<close> show ?thesis by (subst fork_collision.simps) simp
    next
      case False
      have "is_collision E (fork_collision E (?node h c) (?node g d) (idx div 2) (lst div 2) hs' gs')"
        by (rule "1.IH"(1) [OF \<open>lst \<noteq> 0\<close> left _ l(1) l(2) False]) (use "1.prems" l False next_run in simp_all)
      with False left l \<open>lst \<noteq> 0\<close> show ?thesis by (subst fork_collision.simps) simp
    qed
  next
    case right
    then obtain h hs' g gs' where l: "hs = h # hs'" "gs = g # gs'"
      and next_run: "recompute_loop E (?node c h) (idx div 2) (lst div 2) hs' = Some r"
        "recompute_loop E (?node d g) (idx div 2) (lst div 2) gs' = Some r"
      using run pos by (auto split: list.splits)
    show ?thesis
    proof (cases "?node c h = ?node d g")
      case True
      then have "is_collision E (Some (NODE_HASH_PREFIX # c @ h, NODE_HASH_PREFIX # d @ g))"
        using "1.prems" l by (intro node_hash_collision) auto
      with True right l \<open>lst \<noteq> 0\<close> show ?thesis by (subst fork_collision.simps) simp
    next
      case False
      have "is_collision E (fork_collision E (?node c h) (?node d g) (idx div 2) (lst div 2) hs' gs')"
        by (rule "1.IH"(2) [OF \<open>lst \<noteq> 0\<close> right _ l(1) l(2) False]) (use "1.prems" l False next_run in simp_all)
      with False right l \<open>lst \<noteq> 0\<close> show ?thesis by (subst fork_collision.simps) simp
    qed
  next
    case promoted
    then have "recompute_loop E c (idx div 2) (lst div 2) hs = Some r"
      "recompute_loop E d (idx div 2) (lst div 2) gs = Some r"
      using run pos by auto
    then have "is_collision E (fork_collision E c d (idx div 2) (lst div 2) hs gs)"
      using "1.IH"(3) [OF \<open>lst \<noteq> 0\<close> promoted] "1.prems" by simp
    with promoted \<open>lst \<noteq> 0\<close> show ?thesis by (subst fork_collision.simps) simp
  qed
qed

text \<open>The same position: index, size and root.\<close>

definition same_position :: "inclusion_proof \<Rightarrow> inclusion_proof \<Rightarrow> bool" where
  "same_position p q \<longleftrightarrow> ip_log_index p = ip_log_index q \<and> ip_tree_size p = ip_tree_size q
     \<and> ip_root_hash p = ip_root_hash q"

definition body_fork ::
  "('p, 'q, 's, 'n) crates \<Rightarrow> bytes \<Rightarrow> inclusion_proof \<Rightarrow> bytes \<Rightarrow> inclusion_proof \<Rightarrow> (bytes \<times> bytes) option" where
  "body_fork E body p body' q =
     (if rfc6962_leaf_hash E body = rfc6962_leaf_hash E body'
      then Some (LEAF_HASH_PREFIX # body, LEAF_HASH_PREFIX # body')
      else fork_collision E (rfc6962_leaf_hash E body) (rfc6962_leaf_hash E body')
             (ip_log_index p) (ip_tree_size p - 1) (ip_hashes p) (ip_hashes q))"

lemma body_fork_found:
  assumes "sha256_len E" "same_position p q" "body \<noteq> body'"
    and "verify_inclusion_proof E body p = Inr u" "verify_inclusion_proof E body' q = Inr w"
  shows "is_collision E (body_fork E body p body' q)"
proof (cases "rfc6962_leaf_hash E body = rfc6962_leaf_hash E body'")
  case True
  with assms(3) show ?thesis by (simp add: body_fork_def is_collision_def rfc6962_leaf_hash_def)
next
  case False
  have "is_collision E (fork_collision E (rfc6962_leaf_hash E body) (rfc6962_leaf_hash E body')
      (ip_log_index p) (ip_tree_size p - 1) (ip_hashes p) (ip_hashes q))"
    using assms False unfolding verify_inclusion_proof_ok same_position_def recompute_root_def
    by (intro fork_collision_found [where r = "ip_root_hash p"])
      (auto simp: rfc6962_leaf_hash_def split: if_splits)
  with False show ?thesis by (simp add: body_fork_def)
qed

section \<open>Two accepted bundles\<close>

text \<open>The signed content: what the signer's key signed, the signature, and the certificate.\<close>

definition same_content :: "sigstore_bundle \<Rightarrow> sigstore_bundle \<Rightarrow> bool" where
  "same_content b c \<longleftrightarrow>
     de_payload (bundle_dsse_envelope b) = de_payload (bundle_dsse_envelope c)
     \<and> de_payload_type (bundle_dsse_envelope b) = de_payload_type (bundle_dsse_envelope c)
     \<and> ds_sig (de_signature (bundle_dsse_envelope b)) = ds_sig (de_signature (bundle_dsse_envelope c))
     \<and> vm_certificate (bundle_verification_material b) = vm_certificate (bundle_verification_material c)"

text \<open>The collision, from the two bundles alone.\<close>

definition bundle_fork ::
  "('p, 'q, 's, 'n) crates \<Rightarrow> sigstore_bundle \<Rightarrow> tlog_entry \<Rightarrow> inclusion_proof
    \<Rightarrow> sigstore_bundle \<Rightarrow> tlog_entry \<Rightarrow> inclusion_proof \<Rightarrow> (bytes \<times> bytes) option" where
  "bundle_fork E b e p c f q =
     (if te_canonicalized_body e \<noteq> te_canonicalized_body f
      then body_fork E (te_canonicalized_body e) p (te_canonicalized_body f) q
      else Some (de_payload (bundle_dsse_envelope b), de_payload (bundle_dsse_envelope c)))"

text \<open>What acceptance puts on record for the log entry.\<close>

lemma accepted_entry:
  assumes "verify_digest E v d b = Inr r" "vm_tlog_entries (bundle_verification_material b) = [e]"
    "te_inclusion_proof e = Some pf"
  shows "de_payload_type (bundle_dsse_envelope b) = SUPPORTED_DSSE_PAYLOAD_TYPE" "body_describes E e b"
    "verify_inclusion_proof E (te_canonicalized_body e) pf = Inr ()"
  using assms unfolding verify_digest_attested attested_def log_evidence_def statement_names_def
  by (auto simp: in_signed_tree_iff)

lemma one_content_per_body:
  assumes "body_describes E e b" "body_describes E f c" "te_canonicalized_body e = te_canonicalized_body f"
  shows "ds_sig (de_signature (bundle_dsse_envelope b)) = ds_sig (de_signature (bundle_dsse_envelope c))"
    "vm_certificate (bundle_verification_material b) = vm_certificate (bundle_verification_material c)"
    "sha256 E (de_payload (bundle_dsse_envelope b)) = sha256 E (de_payload (bundle_dsse_envelope c))"
  using assms unfolding body_describes_def by (auto intro: certificate.equality)

lemma one_content_per_position:
  assumes len: "sha256_len E" and pos: "same_position p q"
    and b: "verify_digest E v d b = Inr r" "vm_tlog_entries (bundle_verification_material b) = [e]"
      "te_inclusion_proof e = Some p"
    and c: "verify_digest E v' d' c = Inr r'" "vm_tlog_entries (bundle_verification_material c) = [f]"
      "te_inclusion_proof f = Some q"
  shows "same_content b c \<or> is_collision E (bundle_fork E b e p c f q)"
proof (cases "te_canonicalized_body e = te_canonicalized_body f")
  case True
  note same = one_content_per_body [OF accepted_entry(2) [OF b] accepted_entry(2) [OF c] True]
  show ?thesis
  proof (cases "de_payload (bundle_dsse_envelope b) = de_payload (bundle_dsse_envelope c)")
    case payload: True
    with same accepted_entry(1) [OF b] accepted_entry(1) [OF c] show ?thesis by (simp add: same_content_def)
  next
    case False
    with True same(3) show ?thesis by (simp add: bundle_fork_def is_collision_def)
  qed
next
  case False
  with body_fork_found [OF len pos False accepted_entry(3) [OF b] accepted_entry(3) [OF c]]
  show ?thesis by (simp add: bundle_fork_def)
qed

text \<open>Equal content names the same subjects.\<close>

lemma same_content_statement: "same_content b c \<Longrightarrow> bundle_statement E b = bundle_statement E c"
  by (simp add: same_content_def bundle_statement_def)

end
