(* ===== verification/Verify_Example.thy ===== *)
theory Verify_Example
  imports Command_Line
begin

text \<open>
  \<open>src/examples/verify.rs\<close>: the example client. It reads its flags, the artifact and the bundle,
  pins the repository in both halves of the policy and prints the report. Standard output is the
  list of lines that a successful run returns.
\<close>

section \<open>Arguments\<close>

record verify_args =
  va_artifact :: "string option"
  va_digest :: "string option"
  va_bundle_path :: "string option"
  va_repo :: "string option"
  va_owner_id :: "u64 option"
  va_repo_id :: "u64 option"
  va_source_ref :: "string option"
  va_signer_workflow :: "string option"
  va_checkpoint_origin :: "string option"

definition no_verify_args :: verify_args where
  "no_verify_args = \<lparr>va_artifact = None, va_digest = None, va_bundle_path = None, va_repo = None,
     va_owner_id = None, va_repo_id = None, va_source_ref = None, va_signer_workflow = None,
     va_checkpoint_origin = None\<rparr>"

text \<open>The arms of the \<open>match\<close> on a flag: what its value does to the variables.\<close>

definition parse_id :: "string \<Rightarrow> cli_error + u64" where
  "parse_id s = (case u64_error s of
       Some kind \<Rightarrow> Inl (Parse_Int_Error kind)
     | None \<Rightarrow> (case parse_u64 s of Some i \<Rightarrow> Inr i | None \<Rightarrow> Inl (Parse_Int_Error InvalidDigit)))"

lemma parse_id_dec [simp]: "parse_id (dec (unat i)) = Inr i"
  using u64_error_None [of "dec (unat i)"] by (simp add: parse_id_def)

definition verify_flag :: "string \<Rightarrow> (string \<Rightarrow> verify_args \<Rightarrow> cli_error + verify_args) option" where
  "verify_flag flag =
     (if flag = ''--artifact'' then Some (\<lambda>v a. Inr (a\<lparr>va_artifact := Some v\<rparr>))
      else if flag = ''--digest'' then Some (\<lambda>v a. Inr (a\<lparr>va_digest := Some v\<rparr>))
      else if flag = ''--bundle'' then Some (\<lambda>v a. Inr (a\<lparr>va_bundle_path := Some v\<rparr>))
      else if flag = ''--repo'' then Some (\<lambda>v a. Inr (a\<lparr>va_repo := Some v\<rparr>))
      else if flag = ''--owner-id''
      then Some (\<lambda>v a. res_bind (parse_id v) (\<lambda>i. Inr (a\<lparr>va_owner_id := Some i\<rparr>)))
      else if flag = ''--repo-id''
      then Some (\<lambda>v a. res_bind (parse_id v) (\<lambda>i. Inr (a\<lparr>va_repo_id := Some i\<rparr>)))
      else if flag = ''--source-ref'' then Some (\<lambda>v a. Inr (a\<lparr>va_source_ref := Some v\<rparr>))
      else if flag = ''--signer-workflow'' then Some (\<lambda>v a. Inr (a\<lparr>va_signer_workflow := Some v\<rparr>))
      else if flag = ''--checkpoint-origin'' then Some (\<lambda>v a. Inr (a\<lparr>va_checkpoint_origin := Some v\<rparr>))
      else None)"

function verify_args_loop :: "verify_args \<Rightarrow> string list \<Rightarrow> cli_error + verify_args" where
  "verify_args_loop a [] = Inr a"
| "verify_args_loop a (flag # args) =
     (case verify_flag flag of
        None \<Rightarrow> Inl (Message (''unknown argument: '' @ flag))
      | Some store \<Rightarrow>
          res_bind (next_value args flag) (\<lambda>(v, rest).
          res_bind (store v a) (\<lambda>a'. verify_args_loop a' rest)))"
  by pat_completeness auto
termination by (relation "measure (\<lambda>(_, args). length args)") auto

section \<open>The run\<close>

definition verify_subject :: "('p, 'q, 's, 'n) crates \<Rightarrow> host \<Rightarrow> verify_args \<Rightarrow> cli_error + subject_digest" where
  "verify_subject E H a =
     (case (va_artifact a, va_digest a) of
        (Some path, None) \<Rightarrow> res_bind (fs_read H path) (\<lambda>bs. Inr (sha256_of E bs))
      | (None, Some hex) \<Rightarrow> map_err Library (from_digest_hex E hex)
      | (Some _, Some _) \<Rightarrow> Inl (Message ''pass exactly one of --artifact or --digest, not both'')
      | (None, None) \<Rightarrow> Inl (Message ''pass one of --artifact <path> or --digest <hex>''))"

definition load_bundle :: "('p, 'q, 's, 'n) crates \<Rightarrow> bytes \<Rightarrow> cli_error + sigstore_bundle" where
  "load_bundle E bs =
     (case bundle_from_json E bs of
        Inr b \<Rightarrow> Inr b
      | Inl _ \<Rightarrow>
          res_bind (map_err Library (from_json_lines E bs)) (\<lambda>s.
          exactly_one (\<lambda>n. Message (''expected exactly 1 bundle in JSONL --bundle input, got '' @ dec n))
            (bs_bundles s)))"

text \<open>The identity policy: numeric ids are pinned in the source half only.\<close>

definition verify_policy ::
  "('p, 'q, 's, 'n) crates \<Rightarrow> verify_args \<Rightarrow> string \<Rightarrow> string \<Rightarrow> cli_error + github_policy" where
  "verify_policy E a repo signer_workflow =
     res_bind (map_err Library (repository_parse E repo)) (\<lambda>signer_repository.
     res_bind (map_err Library (repository_parse E repo)) (\<lambda>repository.
     (let repository = (case va_owner_id a of Some i \<Rightarrow> with_owner_id repository i | None \<Rightarrow> repository);
          repository = (case va_repo_id a of Some i \<Rightarrow> with_repository_id repository i | None \<Rightarrow> repository);
          git_ref = (case va_source_ref a of None \<Rightarrow> Glob ''*'' | Some r \<Rightarrow> Exact r);
          builder = builder_source github_builder
            \<lparr>sp_repository = repository, sp_git_ref = git_ref, sp_commit = None\<rparr> in
      res_bind (map_err Library (workflow_path_new signer_workflow)) (\<lambda>path.
      map_err Library (github_policy_build (builder_signer builder
        \<lparr>gp_repository = signer_repository, gp_path = path, gp_revision = Any\<rparr>))))))"

definition report_lines :: "('p, 'q, 's, 'n) crates \<Rightarrow> verification_report \<Rightarrow> string list" where
  "report_lines E r =
     (let name_suffix = (case vs_name (rep_subject r) of Some name \<Rightarrow> '' ('' @ name @ '')'' | None \<Rightarrow> []) in
      [''verified: subject '' @ subject_to_hex E (vs_digest (rep_subject r)) @ name_suffix,
       ''  source:  '' @ vi_source_repository (rep_signer r) @ '' @ '' @ vi_source_ref (rep_signer r),
       ''  signer:  '' @ vi_signer_repository (rep_signer r) @ '' '' @ vi_signer_workflow_path (rep_signer r),
       ''  transparency: integratedTime='' @ dec (unat (vx_integrated_time (rep_transparency r)))
         @ '' logIndex='' @ dec (unat (vx_log_index (rep_transparency r))),
       ''  trust root:   '' @ tsi_source (rep_trust r) @ '' '' @ tsi_fingerprint (rep_trust r)])"

text \<open>The embedded root, the first of its logs and the origin from the flag make the verifier.\<close>

definition verify_verifier ::
  "('p, 'q, 's, 'n) crates \<Rightarrow> github_policy \<Rightarrow> string \<Rightarrow> cli_error + verifier" where
  "verify_verifier E policy checkpoint_origin =
     res_bind (map_err Library (embedded_public_good E)) (\<lambda>ts.
     res_bind (ok_or (Message ''embedded trust root has no Rekor log'')
                 (case ts_tlogs ts of [] \<Rightarrow> None | l # _ \<Rightarrow> Some l)) (\<lambda>l.
     res_bind (map_err Library (allow_origin E origin_builder l checkpoint_origin)) (\<lambda>builder.
     res_bind (map_err Library (origin_builder_build builder)) (\<lambda>cop.
     map_err Library (verifier_build E (vb_set_checkpoint_origin_policy (vb_set_github_policy
       (vb_set_trust_store verifier_builder_default ts) policy) cop))))))"

definition verify_run :: "('p, 'q, 's, 'n) crates \<Rightarrow> host \<Rightarrow> string list \<Rightarrow> cli_error + string list" where
  "verify_run E H args =
     res_bind (verify_args_loop no_verify_args args) (\<lambda>a.
     res_bind (verify_subject E H a) (\<lambda>subject.
     res_bind (ok_or (Message ''missing required --bundle <path>'') (va_bundle_path a)) (\<lambda>bundle_path.
     res_bind (ok_or (Message ''missing required --repo <owner/name>'') (va_repo a)) (\<lambda>repo.
     res_bind (ok_or (Message ''missing required --signer-workflow <path>'') (va_signer_workflow a)) (\<lambda>signer_workflow.
     res_bind (ok_or (Message ''missing required --checkpoint-origin <origin>'') (va_checkpoint_origin a))
       (\<lambda>checkpoint_origin.
     res_bind (fs_read H bundle_path) (\<lambda>bs.
     res_bind (load_bundle E bs) (\<lambda>b.
     res_bind (verify_policy E a repo signer_workflow) (\<lambda>policy.
     res_bind (verify_verifier E policy checkpoint_origin) (\<lambda>verifier.
     res_bind (map_err Library (verify_digest E verifier subject b)) (\<lambda>report.
     Inr (report_lines E report))))))))))))"

definition verify_stderr :: "('p, 'q, 's, 'n) crates \<Rightarrow> host \<Rightarrow> string list \<Rightarrow> string list" where
  "verify_stderr E H args = stderr_of (verify_run E H args)"

definition verify_main :: "('p, 'q, 's, 'n) crates \<Rightarrow> host \<Rightarrow> string list \<Rightarrow> exit_code" where
  "verify_main E H args = exit_of (verify_run E H args)"

section \<open>Lemmas\<close>

lemma load_bundle_iff:
  "load_bundle E bs = Inr b \<longleftrightarrow> bundle_from_json E bs = Inr b
     \<or> (\<not> is_ok (bundle_from_json E bs) \<and> (\<exists>s. from_json_lines E bs = Inr s \<and> bs_bundles s = [b]))"
  by (cases "bundle_from_json E bs") (auto simp: load_bundle_def)

definition policy_of :: "verify_args \<Rightarrow> string \<Rightarrow> string \<Rightarrow> string \<Rightarrow> github_policy" where
  "policy_of a owner name w = \<lparr>
     pol_source = \<lparr>sp_repository = \<lparr>ri_owner = owner, ri_name = name, ri_owner_id = va_owner_id a,
         ri_repository_id = va_repo_id a\<rparr>,
       sp_git_ref = (case va_source_ref a of None \<Rightarrow> Glob ''*'' | Some r \<Rightarrow> Exact r), sp_commit = None\<rparr>,
     pol_signer = \<lparr>gp_repository = named_repository owner name, gp_path = WorkflowPath w, gp_revision = Any\<rparr>\<rparr>"

lemma verify_policy_iff:
  "verify_policy E a repo w = Inr p \<longleftrightarrow> (\<exists>owner name. repo = owner @ CHR ''/'' # name
     \<and> uri_segment owner \<and> uri_segment name \<and> w \<noteq> [] \<and> p = policy_of a owner name w)"
proof (cases "repository_parse E repo")
  case (Inl e)
  then have "\<not> (\<exists>owner name. repo = owner @ CHR ''/'' # name \<and> uri_segment owner \<and> uri_segment name)"
    using repository_parse_named [of E repo] by fastforce
  with Inl show ?thesis by (auto simp: verify_policy_def)
next
  case (Inr r)
  then obtain owner name where r: "repo = owner @ CHR ''/'' # name" "uri_segment owner" "uri_segment name"
    "r = named_repository owner name"
    by (auto simp: repository_parse_named)
  have "verify_policy E a repo w = Inr p \<longleftrightarrow> w \<noteq> [] \<and> p = policy_of a owner name w"
    by (cases p, cases "va_owner_id a"; cases "va_repo_id a")
      (auto simp: verify_policy_def Let_def Inr r(4) github_policy_build_iff builder_source_def
        builder_signer_def github_builder_def policy_of_def named_repository_def with_owner_id_def
        with_repository_id_def)
  moreover have "repo = o' @ CHR ''/'' # n' \<and> uri_segment o' \<and> uri_segment n' \<longleftrightarrow> o' = owner \<and> n' = name"
    for o' n' using r(1-3) sep_append_eq [of "CHR ''/''" o' owner n' name] by (auto simp: uri_segment_def)
  ultimately show ?thesis by metis
qed

lemma verify_verifier_iff:
  assumes "ri_owner_id (gp_repository (pol_signer p)) = None" "ri_repository_id (gp_repository (pol_signer p)) = None"
  shows "verify_verifier E p u = Inr v \<longleftrightarrow> (\<exists>ts l ls. embedded_public_good E = Inr ts \<and> ts_tlogs ts = l # ls
     \<and> valid_origin u
     \<and> v = \<lparr>vr_trust_store = ts, vr_github_policy = p, vr_checkpoint_origin_policy = one_origin_policy E l u\<rparr>)"
    (is "?l \<longleftrightarrow> ?r")
proof -
  have head: "(case xs of [] \<Rightarrow> None | l # _ \<Rightarrow> Some l) = Some l \<longleftrightarrow> (\<exists>ls. xs = l # ls)" for xs :: "'x list" and l
    by (cases xs) auto
  have "?l \<longleftrightarrow> (\<exists>ts l ls cop. embedded_public_good E = Inr ts \<and> ts_tlogs ts = l # ls
      \<and> (\<exists>b. allow_origin E origin_builder l u = Inr b \<and> origin_builder_build b = Inr cop)
      \<and> verifier_build E (vb_set_checkpoint_origin_policy (vb_set_github_policy
          (vb_set_trust_store verifier_builder_default ts) p) cop) = Inr v)"
    unfolding verify_verifier_def res_bind_eq_Inr map_err_eq_Inr ok_or_eq_Inr head by blast
  also have "\<dots> \<longleftrightarrow> ?r"
    unfolding one_origin_policy_iff using one_origin_verifier [OF _ assms] by (metis list.set_intros(1))
  finally show ?thesis .
qed

lemma policy_of_simps:
  "pol_source (policy_of a owner name w) = \<lparr>sp_repository = \<lparr>ri_owner = owner, ri_name = name,
       ri_owner_id = va_owner_id a, ri_repository_id = va_repo_id a\<rparr>,
     sp_git_ref = (case va_source_ref a of None \<Rightarrow> Glob ''*'' | Some r \<Rightarrow> Exact r), sp_commit = None\<rparr>"
  "pol_signer (policy_of a owner name w) =
     \<lparr>gp_repository = named_repository owner name, gp_path = WorkflowPath w, gp_revision = Any\<rparr>"
  by (simp_all add: policy_of_def)

lemma source_ref_allowed:
  "ref_allowed (case m of None \<Rightarrow> Glob ''*'' | Some r \<Rightarrow> Exact r) git_ref \<longleftrightarrow> m = None \<or> m = Some git_ref"
  by (cases m) (auto simp: ref_allowed_def [of "Exact _"])

section \<open>The flags are read back\<close>

definition flag_opt :: "string \<Rightarrow> string option \<Rightarrow> string list" where
  "flag_opt flag m = (case m of None \<Rightarrow> [] | Some v \<Rightarrow> [flag, v])"

definition spell_verify_args :: "verify_args \<Rightarrow> string list" where
  "spell_verify_args a =
     flag_opt ''--artifact'' (va_artifact a) @ flag_opt ''--digest'' (va_digest a)
     @ flag_opt ''--bundle'' (va_bundle_path a) @ flag_opt ''--repo'' (va_repo a)
     @ flag_opt ''--owner-id'' (map_option (\<lambda>i. dec (unat i)) (va_owner_id a))
     @ flag_opt ''--repo-id'' (map_option (\<lambda>i. dec (unat i)) (va_repo_id a))
     @ flag_opt ''--source-ref'' (va_source_ref a) @ flag_opt ''--signer-workflow'' (va_signer_workflow a)
     @ flag_opt ''--checkpoint-origin'' (va_checkpoint_origin a)"

lemma verify_args_step:
  "va_artifact a = None \<Longrightarrow> verify_args_loop a (flag_opt ''--artifact'' m @ args) = verify_args_loop (a\<lparr>va_artifact := m\<rparr>) args"
  "va_digest a = None \<Longrightarrow> verify_args_loop a (flag_opt ''--digest'' m @ args) = verify_args_loop (a\<lparr>va_digest := m\<rparr>) args"
  "va_bundle_path a = None \<Longrightarrow> verify_args_loop a (flag_opt ''--bundle'' m @ args) = verify_args_loop (a\<lparr>va_bundle_path := m\<rparr>) args"
  "va_repo a = None \<Longrightarrow> verify_args_loop a (flag_opt ''--repo'' m @ args) = verify_args_loop (a\<lparr>va_repo := m\<rparr>) args"
  "va_owner_id a = None \<Longrightarrow> verify_args_loop a (flag_opt ''--owner-id'' (map_option (\<lambda>i. dec (unat i)) n) @ args)
     = verify_args_loop (a\<lparr>va_owner_id := n\<rparr>) args"
  "va_repo_id a = None \<Longrightarrow> verify_args_loop a (flag_opt ''--repo-id'' (map_option (\<lambda>i. dec (unat i)) n) @ args)
     = verify_args_loop (a\<lparr>va_repo_id := n\<rparr>) args"
  "va_source_ref a = None \<Longrightarrow> verify_args_loop a (flag_opt ''--source-ref'' m @ args) = verify_args_loop (a\<lparr>va_source_ref := m\<rparr>) args"
  "va_signer_workflow a = None \<Longrightarrow> verify_args_loop a (flag_opt ''--signer-workflow'' m @ args)
     = verify_args_loop (a\<lparr>va_signer_workflow := m\<rparr>) args"
  "va_checkpoint_origin a = None \<Longrightarrow> verify_args_loop a (flag_opt ''--checkpoint-origin'' m @ args)
     = verify_args_loop (a\<lparr>va_checkpoint_origin := m\<rparr>) args"
  by (cases a; cases m; cases n; simp add: flag_opt_def verify_flag_def)+

lemma verify_args_read_back: "verify_args_loop no_verify_args (spell_verify_args a) = Inr a"
  unfolding spell_verify_args_def no_verify_args_def
  using verify_args_step(9) [of _ _ "[]"] by (cases a) (simp add: verify_args_step)

section \<open>Properties\<close>

text \<open>The request that the flags and the files state: the digest, the bundle and the names.\<close>

definition verify_request ::
  "('p, 'q, 's, 'n) crates \<Rightarrow> host \<Rightarrow> string list \<Rightarrow> verify_args \<Rightarrow> subject_digest \<Rightarrow> sigstore_bundle
    \<Rightarrow> string \<Rightarrow> string \<Rightarrow> string \<Rightarrow> string \<Rightarrow> bool" where
  "verify_request E H args a d b owner name w u \<longleftrightarrow>
     verify_args_loop no_verify_args args = Inr a \<and> verify_subject E H a = Inr d
     \<and> (\<exists>path bs. va_bundle_path a = Some path \<and> read_file H path = Inr bs \<and> load_bundle E bs = Inr b)
     \<and> va_repo a = Some (owner @ CHR ''/'' # name) \<and> uri_segment owner \<and> uri_segment name
     \<and> va_signer_workflow a = Some w \<and> w \<noteq> [] \<and> va_checkpoint_origin a = Some u \<and> valid_origin u"

lemma verify_run_ok:
  "is_ok (verify_run E H args) \<longleftrightarrow> (\<exists>a d b owner name w u ts l ls. verify_request E H args a d b owner name w u
     \<and> embedded_public_good E = Inr ts \<and> ts_tlogs ts = l # ls
     \<and> is_ok (verify_digest E \<lparr>vr_trust_store = ts, vr_github_policy = policy_of a owner name w,
          vr_checkpoint_origin_policy = one_origin_policy E l u\<rparr> d b))"
    (is "?l \<longleftrightarrow> ?r")
proof -
  have pins: "ri_owner_id (gp_repository (pol_signer (policy_of a owner name w))) = None"
    "ri_repository_id (gp_repository (pol_signer (policy_of a owner name w))) = None" for a owner name w
    by (simp_all add: policy_of_def named_repository_def)
  have "?l \<longleftrightarrow> (\<exists>a d path repo w u bs b policy v. verify_args_loop no_verify_args args = Inr a
      \<and> verify_subject E H a = Inr d \<and> va_bundle_path a = Some path \<and> va_repo a = Some repo
      \<and> va_signer_workflow a = Some w \<and> va_checkpoint_origin a = Some u \<and> read_file H path = Inr bs
      \<and> load_bundle E bs = Inr b \<and> verify_policy E a repo w = Inr policy \<and> verify_verifier E policy u = Inr v
      \<and> is_ok (verify_digest E v d b))"
    unfolding is_ok_iff verify_run_def res_bind_eq_Inr ok_or_eq_Inr map_err_eq_Inr fs_read_iff by blast
  also have "\<dots> \<longleftrightarrow> (\<exists>a d path w u bs b owner name v. verify_args_loop no_verify_args args = Inr a
      \<and> verify_subject E H a = Inr d \<and> va_bundle_path a = Some path \<and> va_repo a = Some (owner @ CHR ''/'' # name)
      \<and> va_signer_workflow a = Some w \<and> va_checkpoint_origin a = Some u \<and> read_file H path = Inr bs
      \<and> load_bundle E bs = Inr b \<and> uri_segment owner \<and> uri_segment name \<and> w \<noteq> []
      \<and> verify_verifier E (policy_of a owner name w) u = Inr v \<and> is_ok (verify_digest E v d b))"
    unfolding verify_policy_iff by blast
  also have "\<dots> \<longleftrightarrow> ?r"
    unfolding verify_verifier_iff [OF pins] verify_request_def by blast
  finally show ?thesis .
qed

text \<open>The flags of the example client are read back from their spelling, whichever of them are given:
  no flag is lost, swapped or taken for the value of another.\<close>

theorem verify_args_roundtrip: "verify_args_loop no_verify_args (spell_verify_args a) = Inr a"
  by (rule verify_args_read_back)

text \<open>C11. The example client exits with success if and only if the bundle of the request attests its
  digest under the embedded trust root and the one origin of the request, and the authenticated
  claims of the signer spell the wanted repository as source and as signer, the wanted workflow,
  and the ref and the numeric ids where the flags give them.\<close>

theorem verify_example_accepts:
  "verify_main E H args = ExitSuccess \<longleftrightarrow> (\<exists>a d b owner name w u ts l ls cl git_ref r.
     verify_request E H args a d b owner name w u \<and> embedded_public_good E = Inr ts \<and> ts_tlogs ts = l # ls
     \<and> signer_claims E ts (one_origin_policy E l u) d b cl \<and> fc_issuer cl = Some EXPECTED_ISSUER
     \<and> source_spells cl owner name git_ref \<and> va_source_ref a \<in> {None, Some git_ref}
     \<and> pinned (va_owner_id a) (fc_source_repository_owner_id cl)
     \<and> pinned (va_repo_id a) (fc_source_repository_id cl) \<and> signer_spells cl owner name w r)"
proof -
  have spells: "is_ok (verify_digest E \<lparr>vr_trust_store = ts, vr_github_policy = policy_of a owner name w,
        vr_checkpoint_origin_policy = cop\<rparr> d b) \<longleftrightarrow> (\<exists>cl git_ref r. signer_claims E ts cop d b cl
      \<and> fc_issuer cl = Some EXPECTED_ISSUER \<and> source_spells cl owner name git_ref
      \<and> va_source_ref a \<in> {None, Some git_ref} \<and> pinned (va_owner_id a) (fc_source_repository_owner_id cl)
      \<and> pinned (va_repo_id a) (fc_source_repository_id cl) \<and> signer_spells cl owner name w r)" for ts a owner name w cop d b
    unfolding verify_digest_claims verifier.simps policy_of_simps source_admits_spells signer_admits_any
      source_ref_allowed repository_identity.simps named_repository_def by blast
  show ?thesis unfolding verify_main_def exit_of_iff verify_run_ok spells by blast
qed

end
