(* ===== verification/Conformance.thy ===== *)
theory Conformance
  imports Command_Line
begin

text \<open>
  \<open>src/tools/conformance/src/main.rs\<close>: the client of the conformance suite. The protocol passes
  one certificate identity, the SAN URI of the workflow; the client splits it into the policy and
  verifies under the trust root of the call or the embedded one.
\<close>

section \<open>Constants and arguments\<close>

definition GITHUB_IDENTITY_PREFIX :: string where
  "GITHUB_IDENTITY_PREFIX = ''https://github.com/''"
definition PUBLIC_GOOD_CHECKPOINT_ORIGIN :: string where
  "PUBLIC_GOOD_CHECKPOINT_ORIGIN = ''rekor.sigstore.dev - 1193050959916656506''"

text \<open>The client repeats two constants of the library under the same names.\<close>

definition CLIENT_EXPECTED_ISSUER :: string where
  "CLIENT_EXPECTED_ISSUER = ''https://token.actions.githubusercontent.com''"
definition CLIENT_WORKFLOW_PATH_PREFIX :: string where
  "CLIENT_WORKFLOW_PATH_PREFIX = ''.github/workflows/''"

lemma client_constants: "CLIENT_EXPECTED_ISSUER = EXPECTED_ISSUER"
  "CLIENT_WORKFLOW_PATH_PREFIX = WORKFLOW_PATH_PREFIX" "GITHUB_IDENTITY_PREFIX = GITHUB_URI_PREFIX"
  by (simp_all add: CLIENT_EXPECTED_ISSUER_def EXPECTED_ISSUER_def CLIENT_WORKFLOW_PATH_PREFIX_def
      WORKFLOW_PATH_PREFIX_def GITHUB_IDENTITY_PREFIX_def GITHUB_URI_PREFIX_def)

record conf_args =
  ca_staging :: bool
  ca_bundle_path :: "string option"
  ca_identity :: "string option"
  ca_issuer :: "string option"
  ca_key_path :: "string option"
  ca_trusted_root_path :: "string option"
  ca_artifact_or_digest :: "string option"

definition no_conf_args :: conf_args where
  "no_conf_args = \<lparr>ca_staging = False, ca_bundle_path = None, ca_identity = None, ca_issuer = None,
     ca_key_path = None, ca_trusted_root_path = None, ca_artifact_or_digest = None\<rparr>"

text \<open>The arms that take a value.\<close>

definition conf_flag :: "string \<Rightarrow> (string \<Rightarrow> conf_args \<Rightarrow> conf_args) option" where
  "conf_flag flag =
     (if flag = ''--bundle'' then Some (\<lambda>v a. a\<lparr>ca_bundle_path := Some v\<rparr>)
      else if flag = ''--certificate-identity'' then Some (\<lambda>v a. a\<lparr>ca_identity := Some v\<rparr>)
      else if flag = ''--certificate-oidc-issuer'' then Some (\<lambda>v a. a\<lparr>ca_issuer := Some v\<rparr>)
      else if flag = ''--key'' then Some (\<lambda>v a. a\<lparr>ca_key_path := Some v\<rparr>)
      else if flag = ''--trusted-root'' then Some (\<lambda>v a. a\<lparr>ca_trusted_root_path := Some v\<rparr>)
      else None)"

function conf_args_loop :: "('p, 'q, 's, 'n) crates \<Rightarrow> conf_args \<Rightarrow> string list \<Rightarrow> cli_error + conf_args" where
  "conf_args_loop E a [] = Inr a"
| "conf_args_loop E a (argument # args) =
     (if argument = ''--staging'' then conf_args_loop E (a\<lparr>ca_staging := True\<rparr>) args
      else (case conf_flag argument of
        Some store \<Rightarrow>
          res_bind (next_value args argument) (\<lambda>(v, rest). conf_args_loop E (store v a) rest)
      | None \<Rightarrow>
          if starts_with ''-'' argument
          then Inl (Message (''unsupported or unknown conformance option '' @ debug_str E argument))
          else if ca_artifact_or_digest a = None
          then conf_args_loop E (a\<lparr>ca_artifact_or_digest := Some argument\<rparr>) args
          else Inl (Message (''unexpected extra positional argument '' @ debug_str E argument))))"
  by pat_completeness auto
termination by (relation "measure (\<lambda>(_, _, args). length args)") auto

section \<open>The identity\<close>

record github_identity =
  gi_repository :: string
  gi_workflow_path :: string
  gi_workflow_ref :: string

definition parse_github_identity ::
  "('p, 'q, 's, 'n) crates \<Rightarrow> string \<Rightarrow> cli_error + github_identity" where
  "parse_github_identity E identity =
     res_bind (ok_or (Message (''unsupported certificate identity '' @ debug_str E identity
                        @ '': expected a GitHub workflow URI''))
                 (strip_prefix GITHUB_IDENTITY_PREFIX identity)) (\<lambda>rest.
     res_bind (ok_or (Message ''certificate identity is missing the workflow @revision separator'')
                 (split_once CHR ''@'' rest)) (\<lambda>(repository_and_path, workflow_ref).
     if workflow_ref = [] then Inl (Message ''certificate identity has an empty workflow revision'') else
     (let components = splitn 3 CHR ''/'' repository_and_path in
      res_bind (ok_or (Message ''certificate identity is missing the GitHub repository owner'')
                  (nonempty_part (nth_part components 0))) (\<lambda>owner.
      res_bind (ok_or (Message ''certificate identity is missing the GitHub repository name'')
                  (nonempty_part (nth_part components 1))) (\<lambda>name.
      res_bind (ok_or (Message ''certificate identity is missing a .github/workflows/ path'')
                  (case nth_part components 2 of
                     None \<Rightarrow> None
                   | Some value \<Rightarrow> if starts_with CLIENT_WORKFLOW_PATH_PREFIX value
                       \<and> length value > length CLIENT_WORKFLOW_PATH_PREFIX then Some value else None))
        (\<lambda>workflow_path.
      Inr \<lparr>gi_repository = owner @ ''/'' @ name, gi_workflow_path = workflow_path,
           gi_workflow_ref = workflow_ref\<rparr>))))))"

section \<open>The bundles the client refuses by name\<close>

text \<open>\<open>Value::as_str\<close> and \<open>Value::is_null\<close>.\<close>

definition as_str :: "jvalue \<Rightarrow> string option" where
  "as_str v = (case v of JString s \<Rightarrow> Some s | _ \<Rightarrow> None)"

definition reject_unsupported_bundle_shape ::
  "('p, 'q, 's, 'n) crates \<Rightarrow> host \<Rightarrow> bytes \<Rightarrow> cli_error + unit" where
  "reject_unsupported_bundle_shape E H bs =
     (case json_from_slice H bs of
        None \<Rightarrow> Inr ()
      | Some value \<Rightarrow>
          if (case json_pointer H value ''/verificationMaterial/publicKey'' of
                Some key \<Rightarrow> key \<noteq> JNull | None \<Rightarrow> False)
          then Inl (Message (''unsupported: this bundle uses managed-key verification, ''
                 @ ''which this crate does not implement'')) else
          (let tlog_entry = json_pointer H value ''/verificationMaterial/tlogEntries/0'';
               kind = Option.bind (Option.bind tlog_entry (\<lambda>e. json_pointer H e ''/kindVersion/kind'')) as_str;
               version = Option.bind (Option.bind tlog_entry (\<lambda>e. json_pointer H e ''/kindVersion/version'')) as_str;
               has_integrated_time = Option.bind tlog_entry (\<lambda>e. json_get H e ''integratedTime'') \<noteq> None in
           if version = Some ''0.0.2'' \<and> \<not> has_integrated_time
           then Inl (Message (''unsupported: this bundle uses Rekor v2/TSA verification, ''
                  @ ''but this crate implements Rekor v1 only''))
           else if kind = Some ''hashedrekord''
           then Inl (Message (''unsupported: this bundle uses a hashedrekord entry, ''
                  @ ''but this crate models DSSE entries only''))
           else (case Option.bind (json_get H value ''mediaType'') as_str of
               None \<Rightarrow> Inr ()
             | Some media_type \<Rightarrow>
                 if media_type \<noteq> BUNDLE_MEDIA_TYPE
                 then Inl (Message (''unsupported: bundle media type '' @ debug_str E media_type
                        @ ''; this crate accepts '' @ debug_str E BUNDLE_MEDIA_TYPE @ '' only''))
                 else Inr ())))"

section \<open>Policy and digest\<close>

text \<open>\<open>str::contains\<close>.\<close>

definition contains_str :: "string \<Rightarrow> string \<Rightarrow> bool" where
  "contains_str s p \<longleftrightarrow> find_sub p s \<noteq> None"

definition public_good_origin_policy ::
  "('p, 'q, 's, 'n) crates \<Rightarrow> trust_store \<Rightarrow> cli_error + origin_policy" where
  "public_good_origin_policy E ts =
     res_bind (ok_or (Message ''trusted root has no supported Rekor v1 log key'')
        (find (\<lambda>l. \<not> contains_str (pk_key_details (tl_public_key l)) ''ED25519'') (ts_tlogs ts))) (\<lambda>l.
     res_bind (map_err Library (allow_origin E origin_builder l PUBLIC_GOOD_CHECKPOINT_ORIGIN)) (\<lambda>b.
     map_err Library (origin_builder_build b)))"

definition identity_policy ::
  "('p, 'q, 's, 'n) crates \<Rightarrow> github_identity \<Rightarrow> cli_error + github_policy" where
  "identity_policy E identity =
     res_bind (map_err Library (repository_parse E (gi_repository identity))) (\<lambda>repository.
     (let builder = builder_source github_builder
        \<lparr>sp_repository = repository, sp_git_ref = Glob ''*'', sp_commit = None\<rparr> in
      res_bind (map_err Library (workflow_path_new (gi_workflow_path identity))) (\<lambda>path.
      map_err Library (github_policy_build (builder_signer builder
        \<lparr>gp_repository = repository, gp_path = path, gp_revision = Ref (gi_workflow_ref identity)\<rparr>)))))"

definition is_ascii_hexdigit :: "char \<Rightarrow> bool" where
  "is_ascii_hexdigit c \<longleftrightarrow> is_ascii_digit c \<or> (let n = (of_char c :: nat) in (65 \<le> n \<and> n \<le> 70) \<or> (97 \<le> n \<and> n \<le> 102))"

text \<open>The last step: the operand is a digest or the path of an artifact.\<close>

definition verify_operand ::
  "('p, 'q, 's, 'n) crates \<Rightarrow> host \<Rightarrow> verifier \<Rightarrow> string \<Rightarrow> sigstore_bundle \<Rightarrow> cli_error + verification_report" where
  "verify_operand E H verifier artifact_or_digest b =
     (case strip_prefix ''sha256:'' artifact_or_digest of
        Some digest \<Rightarrow>
          if length digest = 64 \<and> list_all is_ascii_hexdigit digest
          then res_bind (map_err Library (from_digest_hex E digest)) (\<lambda>subject.
               map_err Library (verify_digest E verifier subject b))
          else res_bind (fs_read H artifact_or_digest) (\<lambda>bs. map_err Library (verify_bytes E verifier bs b))
      | None \<Rightarrow> res_bind (fs_read H artifact_or_digest) (\<lambda>bs. map_err Library (verify_bytes E verifier bs b)))"

section \<open>The run\<close>

definition load_trust_store ::
  "('p, 'q, 's, 'n) crates \<Rightarrow> host \<Rightarrow> string option \<Rightarrow> cli_error + trust_store" where
  "load_trust_store E H trusted_root_path =
     (case trusted_root_path of
        Some path \<Rightarrow> res_bind (fs_read H path) (\<lambda>bs. map_err Library (trust_store_from_json E bs))
      | None \<Rightarrow> map_err Library (embedded_public_good E))"

definition run_verify :: "('p, 'q, 's, 'n) crates \<Rightarrow> host \<Rightarrow> string list \<Rightarrow> cli_error + unit" where
  "run_verify E H args =
     res_bind (conf_args_loop E no_conf_args args) (\<lambda>a.
     if ca_staging a
     then Inl (Message (''unsupported: --staging selects online Sigstore staging infrastructure, ''
            @ ''but this verifier is offline''))
     else if ca_key_path a \<noteq> None
     then Inl (Message (''unsupported: --key requests managed-key/cosign verification, ''
            @ ''which this crate does not implement''))
     else if ca_identity a = None \<or> ca_issuer a = None
     then Inl (Message (''verify-bundle requires --certificate-identity and --certificate-oidc-issuer ''
            @ ''(or an unsupported --key path)'')) else
     res_bind (ok_or (Message ''verify-bundle requires --bundle FILE'') (ca_bundle_path a)) (\<lambda>bundle_path.
     res_bind (ok_or (Message (''verify-bundle requires an artifact path or a ''
            @ ''sha256:<64-hex-character-digest> operand'')) (ca_artifact_or_digest a)) (\<lambda>artifact_or_digest.
     res_bind (ok_or (Message ''missing certificate identity'') (ca_identity a)) (\<lambda>certificate_identity.
     res_bind (ok_or (Message ''missing certificate OIDC issuer'') (ca_issuer a)) (\<lambda>certificate_issuer.
     if certificate_issuer \<noteq> CLIENT_EXPECTED_ISSUER
     then Inl (Message (''unsupported certificate OIDC issuer '' @ debug_str E certificate_issuer
            @ ''; this crate only verifies GitHub Actions issuer '' @ debug_str E CLIENT_EXPECTED_ISSUER)) else
     res_bind (parse_github_identity E certificate_identity) (\<lambda>identity.
     res_bind (identity_policy E identity) (\<lambda>policy.
     res_bind (load_trust_store E H (ca_trusted_root_path a)) (\<lambda>ts.
     res_bind (public_good_origin_policy E ts) (\<lambda>cop.
     res_bind (fs_read H bundle_path) (\<lambda>bundle_bytes.
     res_bind (reject_unsupported_bundle_shape E H bundle_bytes) (\<lambda>_.
     res_bind (map_err Library (bundle_from_json E bundle_bytes)) (\<lambda>b.
     res_bind (map_err Library (verifier_build E (vb_set_checkpoint_origin_policy (vb_set_github_policy
       (vb_set_trust_store verifier_builder_default ts) policy) cop))) (\<lambda>verifier.
     res_bind (verify_operand E H verifier artifact_or_digest b) (\<lambda>_.
     Inr ()))))))))))))))"

definition conf_run :: "('p, 'q, 's, 'n) crates \<Rightarrow> host \<Rightarrow> string list \<Rightarrow> cli_error + unit" where
  "conf_run E H args =
     (case args of
        [] \<Rightarrow> Inl (Message ''missing conformance subcommand'')
      | subcommand # rest \<Rightarrow>
          if subcommand = ''sign-bundle''
          then Inl (Message (''unsupported: this client is verification-only; ''
                 @ ''run sigstore-conformance with --skip-signing''))
          else if subcommand = ''verify-bundle'' then run_verify E H rest
          else Inl (Message (''unsupported conformance subcommand '' @ debug_str E subcommand
                 @ ''; expected sign-bundle or verify-bundle'')))"

definition conf_stderr :: "('p, 'q, 's, 'n) crates \<Rightarrow> host \<Rightarrow> string list \<Rightarrow> string list" where
  "conf_stderr E H args = stderr_of (conf_run E H args)"

definition conf_main :: "('p, 'q, 's, 'n) crates \<Rightarrow> host \<Rightarrow> string list \<Rightarrow> exit_code" where
  "conf_main E H args = exit_of (conf_run E H args)"

section \<open>The identity and the SAN URI\<close>

text \<open>The identity spelled by its parts.\<close>

definition identity_uri :: "string \<Rightarrow> string \<Rightarrow> string \<Rightarrow> string \<Rightarrow> string" where
  "identity_uri owner name path git_ref =
     GITHUB_URI_PREFIX @ owner @ ''/'' @ name @ ''/'' @ path @ ''@'' @ git_ref"

definition identity_wf :: "string \<Rightarrow> string \<Rightarrow> string \<Rightarrow> string \<Rightarrow> bool" where
  "identity_wf owner name path git_ref \<longleftrightarrow> uri_segment owner \<and> uri_segment name
     \<and> CHR ''@'' \<notin> set owner \<and> CHR ''@'' \<notin> set name \<and> CHR ''@'' \<notin> set path
     \<and> starts_with WORKFLOW_PATH_PREFIX path \<and> path \<noteq> WORKFLOW_PATH_PREFIX \<and> git_ref \<noteq> []"

lemma identity_uri_san: "identity_uri (su_owner u) (su_name u) (su_workflow_path u) (su_git_ref u) = signer_san_uri u"
  by (simp add: identity_uri_def signer_san_uri_def)

lemma longer_than_prefix: "starts_with p s \<Longrightarrow> length p < length s \<longleftrightarrow> s \<noteq> p"
  by (metis append_take_drop_id drop_eq_Nil linorder_not_less append_Nil2 order_less_irrefl starts_with_def)

lemma parse_github_identity_sound:
  assumes "parse_github_identity E idn = Inr g"
  shows "\<exists>owner name. identity_wf owner name (gi_workflow_path g) (gi_workflow_ref g)
    \<and> gi_repository g = owner @ ''/'' @ name \<and> idn = identity_uri owner name (gi_workflow_path g) (gi_workflow_ref g)"
proof -
  from assms obtain rp gr ow nm w where
    idn: "idn = GITHUB_URI_PREFIX @ rp @ CHR ''@'' # gr" "CHR ''@'' \<notin> set rp" and gr: "gr \<noteq> []"
    and parts: "nth_part (splitn 3 CHR ''/'' rp) 0 = Some ow" "ow \<noteq> []"
      "nth_part (splitn 3 CHR ''/'' rp) 1 = Some nm" "nm \<noteq> []"
      "nth_part (splitn 3 CHR ''/'' rp) 2 = Some w"
    and w: "starts_with WORKFLOW_PATH_PREFIX w" "length WORKFLOW_PATH_PREFIX < length w"
    and g: "g = \<lparr>gi_repository = ow @ ''/'' @ nm, gi_workflow_path = w, gi_workflow_ref = gr\<rparr>"
    unfolding parse_github_identity_def Let_def client_constants
    by (auto simp: strip_prefix_Some split_once_Some nonempty_part_Some split_paired_Ex
        split: option.splits if_splits)
  have "rp = ow @ CHR ''/'' # nm @ CHR ''/'' # w" "CHR ''/'' \<notin> set ow" "CHR ''/'' \<notin> set nm"
    using splitn_3 [of "CHR ''/''" rp ow nm w] parts by auto
  with idn gr parts w g show ?thesis
    by (intro exI [of _ ow] exI [of _ nm])
      (auto simp: identity_wf_def uri_segment_def identity_uri_def longer_than_prefix)
qed

lemma parse_github_identity_complete:
  assumes "identity_wf owner name path git_ref"
  shows "parse_github_identity E (identity_uri owner name path git_ref)
    = Inr \<lparr>gi_repository = owner @ ''/'' @ name, gi_workflow_path = path, gi_workflow_ref = git_ref\<rparr>"
proof -
  let ?rp = "owner @ CHR ''/'' # name @ CHR ''/'' # path"
  have parts: "nth_part (splitn 3 CHR ''/'' ?rp) 0 = Some owner"
    "nth_part (splitn 3 CHR ''/'' ?rp) 1 = Some name" "nth_part (splitn 3 CHR ''/'' ?rp) 2 = Some path"
    using splitn_3 [of "CHR ''/''" ?rp owner name path] assms by (simp_all add: identity_wf_def uri_segment_def)
  have "identity_uri owner name path git_ref = GITHUB_URI_PREFIX @ ?rp @ CHR ''@'' # git_ref"
    by (simp add: identity_uri_def)
  moreover have "split_once CHR ''@'' (?rp @ CHR ''@'' # git_ref) = Some (?rp, git_ref)"
    using assms by (intro split_once_append) (simp add: identity_wf_def)
  ultimately show ?thesis
    using assms parts unfolding parse_github_identity_def Let_def client_constants
    by (simp add: nonempty_part_def identity_wf_def uri_segment_def longer_than_prefix)
qed

lemma parse_github_identity_iff:
  "parse_github_identity E idn = Inr g \<longleftrightarrow> (\<exists>owner name path git_ref. identity_wf owner name path git_ref
     \<and> idn = identity_uri owner name path git_ref
     \<and> g = \<lparr>gi_repository = owner @ ''/'' @ name, gi_workflow_path = path, gi_workflow_ref = git_ref\<rparr>)"
  using parse_github_identity_sound [of E idn g] parse_github_identity_complete [where E = E] by (cases g) auto

text \<open>The library's parser reads the same parts from a SAN URI, and refuses an \<open>@\<close> in the
  revision, which the client lets pass: such an identity never matches a certificate.\<close>

lemma identity_wf_signer:
  "signer_wf \<lparr>su_owner = owner, su_name = name, su_workflow_path = path, su_git_ref = git_ref\<rparr>
     \<and> path \<noteq> WORKFLOW_PATH_PREFIX \<longleftrightarrow> identity_wf owner name path git_ref \<and> CHR ''@'' \<notin> set git_ref"
  by (auto simp: signer_wf_def identity_wf_def)

lemma signer_spells_unambiguous: "signer_spells cl owner name path git_ref \<Longrightarrow> CHR ''@'' \<notin> set git_ref"
  by (auto simp: signer_spells_def signer_wf_def)

lemma signer_spells_identity:
  assumes "signer_spells cl owner name path git_ref"
  shows "\<exists>san. fc_san_uri cl = Some san \<and> eq_ignore_ascii_case san (identity_uri owner name path git_ref)"
  using assms by (auto simp: signer_spells_def signer_san_uri_def identity_uri_def eq_ignore_ascii_case_def)

section \<open>What a run decides\<close>

definition operand_names :: "('p, 'q, 's, 'n) crates \<Rightarrow> host \<Rightarrow> string \<Rightarrow> subject_digest \<Rightarrow> bool" where
  "operand_names E H operand d \<longleftrightarrow>
     (if \<exists>digest. operand = ''sha256:'' @ digest \<and> length digest = 64 \<and> list_all is_ascii_hexdigit digest
      then from_digest_hex E (drop 7 operand) = Inr d
      else (\<exists>bs. read_file H operand = Inr bs \<and> d = sha256_of E bs))"

lemma verify_operand_iff:
  "verify_operand E H v operand b = Inr r \<longleftrightarrow> (\<exists>d. operand_names E H operand d \<and> verify_digest E v d b = Inr r)"
proof (cases "strip_prefix ''sha256:'' operand")
  case None
  then have "\<not> (\<exists>digest. operand = ''sha256:'' @ digest)" using strip_prefix_Some [of "''sha256:''" operand] by auto
  then show ?thesis by (auto simp: verify_operand_def None operand_names_def verify_bytes_def Let_def)
next
  case (Some digest)
  then have op: "operand = ''sha256:'' @ digest" by (simp add: strip_prefix_Some)
  let ?hex = "length digest = 64 \<and> list_all is_ascii_hexdigit digest"
  have "(\<exists>x. operand = ''sha256:'' @ x \<and> length x = 64 \<and> list_all is_ascii_hexdigit x) \<longleftrightarrow> ?hex"
    by (simp add: op)
  moreover have "drop 7 operand = digest" by (simp add: op)
  ultimately have names: "operand_names E H operand d \<longleftrightarrow> (if ?hex then from_digest_hex E digest = Inr d
      else \<exists>bs. read_file H operand = Inr bs \<and> d = sha256_of E bs)" for d
    by (simp add: operand_names_def)
  show ?thesis
    unfolding names verify_operand_def Some option.case verify_bytes_def Let_def by (cases ?hex) auto
qed

definition rekor_v1_log :: "trust_store \<Rightarrow> transparency_log option" where
  "rekor_v1_log ts = find (\<lambda>l. \<not> contains_str (pk_key_details (tl_public_key l)) ''ED25519'') (ts_tlogs ts)"

lemma public_good_origin_policy_iff:
  "public_good_origin_policy E ts = Inr p \<longleftrightarrow>
     (\<exists>l. rekor_v1_log ts = Some l \<and> p = one_origin_policy E l PUBLIC_GOOD_CHECKPOINT_ORIGIN)"
proof -
  have v: "valid_origin PUBLIC_GOOD_CHECKPOINT_ORIGIN"
    by (simp add: valid_origin_def PUBLIC_GOOD_CHECKPOINT_ORIGIN_def)
  show ?thesis
    unfolding public_good_origin_policy_def rekor_v1_log_def res_bind_eq_Inr map_err_eq_Inr ok_or_eq_Inr
      one_origin_policy_iff using v by blast
qed

definition policy_for :: "string \<Rightarrow> string \<Rightarrow> string \<Rightarrow> string \<Rightarrow> github_policy" where
  "policy_for owner name path git_ref = \<lparr>
     pol_source = \<lparr>sp_repository = named_repository owner name, sp_git_ref = Glob ''*'', sp_commit = None\<rparr>,
     pol_signer = \<lparr>gp_repository = named_repository owner name, gp_path = WorkflowPath path,
       gp_revision = Ref git_ref\<rparr>\<rparr>"

lemma identity_policy_iff:
  assumes "identity_wf owner name path git_ref"
  shows "identity_policy E \<lparr>gi_repository = owner @ ''/'' @ name, gi_workflow_path = path, gi_workflow_ref = git_ref\<rparr>
    = Inr p \<longleftrightarrow> p = policy_for owner name path git_ref"
proof -
  have "repository_parse E (owner @ ''/'' @ name) = Inr (named_repository owner name)"
    using assms by (auto simp: repository_parse_named identity_wf_def)
  moreover have "path \<noteq> []" using assms by (auto simp: identity_wf_def starts_with_def WORKFLOW_PATH_PREFIX_def)
  ultimately show ?thesis
    by (cases p) (auto simp: identity_policy_def Let_def github_policy_build_iff builder_source_def
        builder_signer_def github_builder_def policy_for_def named_repository_def)
qed

text \<open>The request: flags that the client supports, an identity of the right form, and the files.\<close>

definition conf_request ::
  "('p, 'q, 's, 'n) crates \<Rightarrow> host \<Rightarrow> string list \<Rightarrow> string \<Rightarrow> trust_store \<Rightarrow> sigstore_bundle \<Rightarrow> subject_digest \<Rightarrow> bool" where
  "conf_request E H args idn ts b d \<longleftrightarrow> (\<exists>a path bs operand. conf_args_loop E no_conf_args args = Inr a
     \<and> \<not> ca_staging a \<and> ca_key_path a = None \<and> ca_identity a = Some idn \<and> ca_issuer a = Some EXPECTED_ISSUER
     \<and> load_trust_store E H (ca_trusted_root_path a) = Inr ts
     \<and> ca_bundle_path a = Some path \<and> read_file H path = Inr bs
     \<and> reject_unsupported_bundle_shape E H bs = Inr () \<and> bundle_from_json E bs = Inr b
     \<and> ca_artifact_or_digest a = Some operand \<and> operand_names E H operand d)"

lemma policy_for_simps:
  "pol_source (policy_for owner name path git_ref) =
     \<lparr>sp_repository = named_repository owner name, sp_git_ref = Glob ''*'', sp_commit = None\<rparr>"
  "pol_signer (policy_for owner name path git_ref) =
     \<lparr>gp_repository = named_repository owner name, gp_path = WorkflowPath path, gp_revision = Ref git_ref\<rparr>"
  by (simp_all add: policy_for_def)

lemma conf_verifier:
  assumes "rekor_v1_log ts = Some l"
  shows "verifier_build E (vb_set_checkpoint_origin_policy (vb_set_github_policy
       (vb_set_trust_store verifier_builder_default ts) (policy_for owner name path git_ref))
       (one_origin_policy E l PUBLIC_GOOD_CHECKPOINT_ORIGIN)) = Inr v
     \<longleftrightarrow> v = \<lparr>vr_trust_store = ts, vr_github_policy = policy_for owner name path git_ref,
          vr_checkpoint_origin_policy = one_origin_policy E l PUBLIC_GOOD_CHECKPOINT_ORIGIN\<rparr>"
proof (rule one_origin_verifier)
  show "l \<in> set (ts_tlogs ts)" using assms by (auto simp: rekor_v1_log_def find_Some_first)
qed (simp_all add: policy_for_simps named_repository_def)

text \<open>The verifier that an identity and a trust store determine.\<close>

definition verifier_for ::
  "('p, 'q, 's, 'n) crates \<Rightarrow> trust_store \<Rightarrow> transparency_log \<Rightarrow> string \<Rightarrow> string \<Rightarrow> string \<Rightarrow> string \<Rightarrow> verifier" where
  "verifier_for E ts l owner name path git_ref = \<lparr>vr_trust_store = ts,
     vr_github_policy = policy_for owner name path git_ref,
     vr_checkpoint_origin_policy = one_origin_policy E l PUBLIC_GOOD_CHECKPOINT_ORIGIN\<rparr>"

lemma verifier_steps:
  "(\<exists>g p cop. parse_github_identity E idn = Inr g \<and> identity_policy E g = Inr p
      \<and> public_good_origin_policy E ts = Inr cop
      \<and> verifier_build E (vb_set_checkpoint_origin_policy (vb_set_github_policy
          (vb_set_trust_store verifier_builder_default ts) p) cop) = Inr v)
   \<longleftrightarrow> (\<exists>owner name path git_ref l. idn = identity_uri owner name path git_ref
      \<and> identity_wf owner name path git_ref \<and> rekor_v1_log ts = Some l \<and> v = verifier_for E ts l owner name path git_ref)"
    (is "?l \<longleftrightarrow> ?r")
proof
  assume ?l
  then obtain owner name path git_ref p l where w: "identity_wf owner name path git_ref"
    "idn = identity_uri owner name path git_ref" and l: "rekor_v1_log ts = Some l"
    and p: "identity_policy E \<lparr>gi_repository = owner @ ''/'' @ name, gi_workflow_path = path,
      gi_workflow_ref = git_ref\<rparr> = Inr p"
    and v: "verifier_build E (vb_set_checkpoint_origin_policy (vb_set_github_policy
      (vb_set_trust_store verifier_builder_default ts) p)
      (one_origin_policy E l PUBLIC_GOOD_CHECKPOINT_ORIGIN)) = Inr v"
    unfolding parse_github_identity_iff public_good_origin_policy_iff by blast
  from p have "p = policy_for owner name path git_ref" by (simp only: identity_policy_iff [OF w(1)])
  with v have "v = verifier_for E ts l owner name path git_ref"
    by (simp only: conf_verifier [OF l] verifier_for_def)
  with w l show ?r by blast
next
  assume ?r
  then obtain owner name path git_ref l where w: "idn = identity_uri owner name path git_ref"
    "identity_wf owner name path git_ref" and l: "rekor_v1_log ts = Some l"
    and v: "v = verifier_for E ts l owner name path git_ref" by blast
  have "identity_policy E \<lparr>gi_repository = owner @ ''/'' @ name, gi_workflow_path = path,
      gi_workflow_ref = git_ref\<rparr> = Inr (policy_for owner name path git_ref)"
    by (simp only: identity_policy_iff [OF w(2)])
  moreover have "verifier_build E (vb_set_checkpoint_origin_policy (vb_set_github_policy
      (vb_set_trust_store verifier_builder_default ts) (policy_for owner name path git_ref))
      (one_origin_policy E l PUBLIC_GOOD_CHECKPOINT_ORIGIN)) = Inr v"
    by (simp only: conf_verifier [OF l] v verifier_for_def)
  moreover have "parse_github_identity E idn = Inr \<lparr>gi_repository = owner @ ''/'' @ name, gi_workflow_path = path,
      gi_workflow_ref = git_ref\<rparr>" unfolding w(1) by (rule parse_github_identity_complete [OF w(2)])
  moreover have "public_good_origin_policy E ts = Inr (one_origin_policy E l PUBLIC_GOOD_CHECKPOINT_ORIGIN)"
    using l by (simp add: public_good_origin_policy_iff)
  ultimately show ?l by blast
qed

lemma run_verify_ok:
  "run_verify E H args = Inr () \<longleftrightarrow> (\<exists>idn ts b d owner name path git_ref l. conf_request E H args idn ts b d
     \<and> idn = identity_uri owner name path git_ref \<and> identity_wf owner name path git_ref
     \<and> rekor_v1_log ts = Some l \<and> is_ok (verify_digest E (verifier_for E ts l owner name path git_ref) d b))"
    (is "?l \<longleftrightarrow> ?r")
proof -
  have "?l \<longleftrightarrow> (\<exists>a fp operand idn ts bs b v r. conf_args_loop E no_conf_args args = Inr a
      \<and> \<not> ca_staging a \<and> ca_key_path a = None \<and> ca_bundle_path a = Some fp
      \<and> ca_artifact_or_digest a = Some operand \<and> ca_identity a = Some idn \<and> ca_issuer a = Some EXPECTED_ISSUER
      \<and> load_trust_store E H (ca_trusted_root_path a) = Inr ts
      \<and> read_file H fp = Inr bs \<and> reject_unsupported_bundle_shape E H bs = Inr ()
      \<and> bundle_from_json E bs = Inr b
      \<and> (\<exists>g p cop. parse_github_identity E idn = Inr g \<and> identity_policy E g = Inr p
         \<and> public_good_origin_policy E ts = Inr cop
         \<and> verifier_build E (vb_set_checkpoint_origin_policy (vb_set_github_policy
             (vb_set_trust_store verifier_builder_default ts) p) cop) = Inr v)
      \<and> verify_operand E H v operand b = Inr r)"
    unfolding run_verify_def res_bind_eq_Inr guard_eq_Inr ok_or_eq_Inr map_err_eq_Inr fs_read_iff client_constants
    by auto
  also have "\<dots> \<longleftrightarrow> ?r"
    unfolding verifier_steps verify_operand_iff conf_request_def is_ok_iff by blast
  finally show ?thesis .
qed

lemma conf_main_run:
  "conf_main E H args = ExitSuccess \<longleftrightarrow> (\<exists>rest. args = ''verify-bundle'' # rest \<and> run_verify E H rest = Inr ())"
  unfolding conf_main_def exit_of_iff
  by (auto simp: conf_run_def is_ok_iff split: list.splits)

section \<open>Properties\<close>

text \<open>The identity parser of the conformance client inverts the spelling of an identity: it
  accepts exactly the GitHub workflow URIs with two nonempty path segments, a file below the
  workflow directory and a nonempty revision, split at the first at-sign.\<close>

theorem github_identity_roundtrip:
  "parse_github_identity E idn = Inr g \<longleftrightarrow> (\<exists>owner name path git_ref. identity_wf owner name path git_ref
     \<and> idn = identity_uri owner name path git_ref
     \<and> g = \<lparr>gi_repository = owner @ ''/'' @ name, gi_workflow_path = path, gi_workflow_ref = git_ref\<rparr>)"
  by (rule parse_github_identity_iff)

text \<open>C10. The conformance client exits with success if and only if it was asked to verify, with
  supported flags and a well-formed identity, and the bundle attests the digest of the operand
  under the trust root of the call and the public-good origin, by a GitHub-issued certificate
  whose source repository is the one of the identity and whose SAN spells the identity, up to
  the case of ASCII letters in owner and name.\<close>

theorem conformance_accepts:
  "conf_main E H args = ExitSuccess \<longleftrightarrow> (\<exists>rest idn ts b d owner name path git_ref l cl source_ref.
     args = ''verify-bundle'' # rest \<and> conf_request E H rest idn ts b d
     \<and> idn = identity_uri owner name path git_ref \<and> identity_wf owner name path git_ref
     \<and> rekor_v1_log ts = Some l
     \<and> signer_claims E ts (one_origin_policy E l PUBLIC_GOOD_CHECKPOINT_ORIGIN) d b cl
     \<and> fc_issuer cl = Some EXPECTED_ISSUER
     \<and> source_spells cl owner name source_ref \<and> signer_spells cl owner name path git_ref)"
proof -
  have spells: "is_ok (verify_digest E (verifier_for E ts l owner name path git_ref) d b)
      \<longleftrightarrow> (\<exists>cl source_ref. signer_claims E ts (one_origin_policy E l PUBLIC_GOOD_CHECKPOINT_ORIGIN) d b cl
        \<and> fc_issuer cl = Some EXPECTED_ISSUER
        \<and> source_spells cl owner name source_ref \<and> signer_spells cl owner name path git_ref)"
    for ts l owner name path git_ref d b
    unfolding verifier_for_def verify_digest_claims verifier.simps policy_for_simps source_admits_spells
      signer_admits_ref repository_identity.simps named_repository_def pinned_def option.case
    using any_ref_allowed by blast
  show ?thesis unfolding conf_main_run run_verify_ok spells by blast
qed

end
