(* ===== verification/Tests_Time.thy ===== *)
theory Tests_Time
  imports Timestamps
begin

text \<open>
  The unit tests of \<open>src/src/time.rs\<close>, run on the model: each test function is a truth value, true
  when the test returns \<open>Ok\<close>. Its reference values come from another implementation, so they
  check the translation independently of the specification in theory Timestamps_Spec.
\<close>

definition parses_to :: "string \<Rightarrow> int \<Rightarrow> bool" where
  "parses_to input t \<longleftrightarrow> parse_rfc3339 ''f'' input = Inr t"

definition expect_rfc3339_error :: "string \<Rightarrow> bool" where
  "expect_rfc3339_error input = (case parse_rfc3339 ''f'' input of Inl (Rfc3339 _ _) \<Rightarrow> True | _ \<Rightarrow> False)"

definition test_parses_unix_epoch :: bool where
  "test_parses_unix_epoch \<longleftrightarrow> parses_to ''1970-01-01T00:00:00Z'' 0"
definition test_parses_pre_epoch_instant :: bool where
  "test_parses_pre_epoch_instant \<longleftrightarrow> parses_to ''1969-12-31T23:59:59Z'' (-1)"
definition test_parses_real_fixture_timestamp :: bool where
  "test_parses_real_fixture_timestamp \<longleftrightarrow> parses_to ''2021-03-07T03:20:29Z'' 1615087229"
definition test_rounds_fractional_seconds_up :: bool where
  "test_rounds_fractional_seconds_up \<longleftrightarrow> parses_to ''2022-12-31T23:59:59.999Z'' 1672531200"
definition test_all_zero_fraction_unchanged :: bool where
  "test_all_zero_fraction_unchanged \<longleftrightarrow> parses_to ''2022-12-31T23:59:59.000Z'' 1672531199"
definition test_single_digit_fraction_rounds_up :: bool where
  "test_single_digit_fraction_rounds_up \<longleftrightarrow> parses_to ''2022-12-31T23:59:59.001Z'' 1672531200"
definition test_many_digit_fraction_rounds_up :: bool where
  "test_many_digit_fraction_rounds_up \<longleftrightarrow> parses_to ''2022-12-31T23:59:59.0000001Z'' 1672531200"
definition test_parses_far_future_timestamp :: bool where
  "test_parses_far_future_timestamp \<longleftrightarrow> parses_to ''2025-09-23T00:00:00Z'' 1758585600"
definition test_accepts_leap_day_on_leap_year :: bool where
  "test_accepts_leap_day_on_leap_year \<longleftrightarrow> parses_to ''2000-02-29T00:00:00Z'' 951782400"
definition test_accepts_century_leap_year_2400 :: bool where
  "test_accepts_century_leap_year_2400 \<longleftrightarrow> parses_to ''2400-01-01T00:00:00Z'' 13569465600"
definition test_rejects_leap_day_on_non_leap_year :: bool where
  "test_rejects_leap_day_on_non_leap_year \<longleftrightarrow> expect_rfc3339_error ''2021-02-29T00:00:00Z''"
definition test_rejects_leap_day_on_century_non_leap_year :: bool where
  "test_rejects_leap_day_on_century_non_leap_year \<longleftrightarrow> expect_rfc3339_error ''1900-02-29T00:00:00Z''"
definition test_accepts_positive_numeric_offset :: bool where
  "test_accepts_positive_numeric_offset \<longleftrightarrow> parses_to ''2021-01-01T00:00:00+09:00'' 1609426800"
definition test_accepts_negative_numeric_offset :: bool where
  "test_accepts_negative_numeric_offset \<longleftrightarrow> parses_to ''2021-01-01T00:00:00-05:00'' 1609477200"
definition test_rejects_april_31 :: bool where
  "test_rejects_april_31 \<longleftrightarrow> expect_rfc3339_error ''2021-04-31T00:00:00Z''"
definition test_rejects_month_zero :: bool where
  "test_rejects_month_zero \<longleftrightarrow> expect_rfc3339_error ''2021-00-01T00:00:00Z''"
definition test_rejects_month_thirteen :: bool where
  "test_rejects_month_thirteen \<longleftrightarrow> expect_rfc3339_error ''2021-13-01T00:00:00Z''"
definition test_rejects_hour_24 :: bool where
  "test_rejects_hour_24 \<longleftrightarrow> expect_rfc3339_error ''2021-01-01T24:00:00Z''"
definition test_rejects_missing_timezone :: bool where
  "test_rejects_missing_timezone \<longleftrightarrow> expect_rfc3339_error ''2021-01-01T00:00:00''"
definition test_rejects_bad_offset_minutes :: bool where
  "test_rejects_bad_offset_minutes \<longleftrightarrow> expect_rfc3339_error ''2021-01-01T00:00:00+09:60''"
definition test_rejects_trailing_garbage :: bool where
  "test_rejects_trailing_garbage \<longleftrightarrow> expect_rfc3339_error ''2021-01-01T00:00:00Zgarbage''"
definition test_rejects_empty_string :: bool where
  "test_rejects_empty_string \<longleftrightarrow> expect_rfc3339_error ''''"

text \<open>Four digits of another script, three bytes each.\<close>

definition test_rejects_non_ascii_digits :: bool where
  "test_rejects_non_ascii_digits \<longleftrightarrow> expect_rfc3339_error
     (of_bytes [0xE0, 0xA5, 0xA8, 0xE0, 0xA5, 0xA6, 0xE0, 0xA5, 0xA8, 0xE0, 0xA5, 0xA7] @ ''-01-01T00:00:00Z'')"

lemma time_tests_instants:
  test_parses_unix_epoch test_parses_pre_epoch_instant test_parses_real_fixture_timestamp
  test_parses_far_future_timestamp test_accepts_leap_day_on_leap_year test_accepts_century_leap_year_2400
  by code_simp+

lemma time_tests_fractions:
  test_rounds_fractional_seconds_up test_all_zero_fraction_unchanged
  test_single_digit_fraction_rounds_up test_many_digit_fraction_rounds_up
  by code_simp+

lemma time_tests_offsets:
  test_accepts_positive_numeric_offset test_accepts_negative_numeric_offset
  test_rejects_bad_offset_minutes test_rejects_missing_timezone
  by code_simp+

lemma time_tests_fields:
  test_rejects_leap_day_on_non_leap_year test_rejects_leap_day_on_century_non_leap_year
  test_rejects_april_31 test_rejects_month_zero test_rejects_month_thirteen test_rejects_hour_24
  by code_simp+

lemma time_tests_shape:
  test_rejects_trailing_garbage test_rejects_empty_string test_rejects_non_ascii_digits
  by code_simp+

end
