(* ===== verification/Tests_Policy.thy ===== *)
theory Tests_Policy
  imports Policy_Match Sample_Crates
begin

text \<open>
  The unit tests of \<open>src/src/policy.rs\<close> and \<open>src/src/policy_match.rs\<close>, run on the model. A test is a
  truth value, true when the Rust function returns \<open>Ok\<close>; one that uses \<open>?\<close> goes through
  \<open>passes\<close>, where an early error fails it. The crates are those of theory Sample_Crates, whose
  hexadecimal codec is the lowercase one of the tests.
\<close>

definition passes :: "error + bool \<Rightarrow> bool" where
  "passes r \<longleftrightarrow> (case r of Inl _ \<Rightarrow> False | Inr ok \<Rightarrow> ok)"

definition expect_policy_error :: "error + 'a \<Rightarrow> bool" where
  "expect_policy_error result = (case result of Inl (Policy (InvalidConfiguration _)) \<Rightarrow> True | _ \<Rightarrow> False)"

definition expect_malformed :: "error + 'a \<Rightarrow> bool" where
  "expect_malformed result = (case result of Inl (Policy (MalformedIdentityClaim _ _)) \<Rightarrow> True | _ \<Rightarrow> False)"

section \<open>Origin and identity policies\<close>

definition synthetic_log :: transparency_log where
  "synthetic_log = \<lparr>tl_base_url = ''https://example.test'', tl_hash_algorithm = ''SHA2_256'',
     tl_public_key = \<lparr>pk_raw_bytes = [1, 2, 3], pk_key_details = ''PKIX_ECDSA_P256_SHA_256'',
       pk_valid_for = \<lparr>vp_start = 0, vp_end = None\<rparr>\<rparr>,
     tl_log_id_key_id = [], tl_checkpoint_key_id = None\<rparr>"

definition test_repository_identity_parses_owner_slash_name :: bool where
  "test_repository_identity_parses_owner_slash_name \<longleftrightarrow> passes (
     res_bind (repository_parse sample ''combinatrix-ai/dlgt'') (\<lambda>repo.
     Inr (\<not> (ri_owner repo \<noteq> ''combinatrix-ai'' \<or> ri_name repo \<noteq> ''dlgt''))))"

definition test_repository_identity_with_ids_round_trips :: bool where
  "test_repository_identity_with_ids_round_trips \<longleftrightarrow> passes (
     res_bind (repository_new ''combinatrix-ai'' ''dlgt'') (\<lambda>r.
     let repo = with_repository_id (with_owner_id r 1) 2 in
     Inr (\<not> (ri_owner_id repo \<noteq> Some 1 \<or> ri_repository_id repo \<noteq> Some 2))))"

definition test_repository_identity_rejects_empty_owner :: bool where
  "test_repository_identity_rejects_empty_owner \<longleftrightarrow> expect_policy_error (repository_new '''' ''dlgt'')"
definition test_repository_identity_rejects_empty_name :: bool where
  "test_repository_identity_rejects_empty_name \<longleftrightarrow> expect_policy_error (repository_new ''combinatrix-ai'' '''')"
definition test_repository_identity_parse_rejects_missing_slash :: bool where
  "test_repository_identity_parse_rejects_missing_slash \<longleftrightarrow>
     expect_policy_error (repository_parse sample ''no-slash-here'')"
definition test_repository_identity_parse_rejects_extra_slash :: bool where
  "test_repository_identity_parse_rejects_extra_slash \<longleftrightarrow>
     expect_policy_error (repository_parse sample ''owner/name/extra'')"
definition test_repository_identity_parse_rejects_empty_owner :: bool where
  "test_repository_identity_parse_rejects_empty_owner \<longleftrightarrow> expect_policy_error (repository_parse sample ''/name'')"
definition test_workflow_path_rejects_empty :: bool where
  "test_workflow_path_rejects_empty \<longleftrightarrow> expect_policy_error (workflow_path_new '''')"
definition test_commit_sha_rejects_wrong_length :: bool where
  "test_commit_sha_rejects_wrong_length \<longleftrightarrow> expect_policy_error (commit_sha_new sample (replicate 39 CHR ''a''))"

definition test_commit_sha_round_trips_hex :: bool where
  "test_commit_sha_round_trips_hex \<longleftrightarrow> passes (
     let sha_hex = replicate 40 CHR ''a'' in
     res_bind (commit_sha_new sample sha_hex) (\<lambda>sha.
     Inr (\<not> commit_sha_to_hex sample sha \<noteq> sha_hex)))"

definition test_github_policy_builder_requires_both_halves :: bool where
  "test_github_policy_builder_requires_both_halves \<longleftrightarrow> expect_policy_error (github_policy_build github_builder)"

definition test_github_policy_builder_builds_with_both_halves :: bool where
  "test_github_policy_builder_builds_with_both_halves \<longleftrightarrow> passes (
     res_bind (repository_parse sample ''combinatrix-ai/dlgt'') (\<lambda>source_repo.
     res_bind (repository_parse sample ''combinatrix-ai/dlgt'') (\<lambda>signer_repo.
     res_bind (workflow_path_new ''.github/workflows/release.yml'') (\<lambda>path.
     let src = \<lparr>sp_repository = with_repository_id (with_owner_id source_repo 1) 2,
           sp_git_ref = Exact ''refs/tags/v0.4.0'', sp_commit = None\<rparr>;
         sgr = \<lparr>gp_repository = signer_repo, gp_path = path, gp_revision = Any\<rparr> in
     res_bind (github_policy_build (builder_signer (builder_source github_builder src) sgr)) (\<lambda>_.
     Inr True)))))"

definition unpinned_source :: "error + source_policy" where
  "unpinned_source = res_bind (repository_parse sample ''combinatrix-ai/dlgt'') (\<lambda>repo.
     Inr \<lparr>sp_repository = repo, sp_git_ref = Exact ''refs/tags/v0.4.0'', sp_commit = None\<rparr>)"

definition pinned_signer :: "(repository_identity \<Rightarrow> repository_identity) \<Rightarrow> error + signer_policy" where
  "pinned_signer pin = res_bind (repository_parse sample ''combinatrix-ai/dlgt'') (\<lambda>repo.
     res_bind (workflow_path_new ''.github/workflows/release.yml'') (\<lambda>path.
     Inr \<lparr>gp_repository = pin repo, gp_path = path, gp_revision = Any\<rparr>))"

definition test_github_policy_builder_rejects_signer_owner_id_pin :: bool where
  "test_github_policy_builder_rejects_signer_owner_id_pin \<longleftrightarrow> passes (
     res_bind unpinned_source (\<lambda>src. res_bind (pinned_signer (\<lambda>r. with_owner_id r 1)) (\<lambda>sgr.
     Inr (expect_policy_error (github_policy_build (builder_signer (builder_source github_builder src) sgr))))))"

definition test_github_policy_builder_rejects_signer_repository_id_pin :: bool where
  "test_github_policy_builder_rejects_signer_repository_id_pin \<longleftrightarrow> passes (
     res_bind unpinned_source (\<lambda>src. res_bind (pinned_signer (\<lambda>r. with_repository_id r 2)) (\<lambda>sgr.
     Inr (expect_policy_error (github_policy_build (builder_signer (builder_source github_builder src) sgr))))))"

definition test_checkpoint_origin_policy_requires_a_binding :: bool where
  "test_checkpoint_origin_policy_requires_a_binding \<longleftrightarrow> expect_policy_error (origin_builder_build origin_builder)"
definition test_checkpoint_origin_policy_rejects_empty_origin :: bool where
  "test_checkpoint_origin_policy_rejects_empty_origin \<longleftrightarrow>
     expect_policy_error (allow_origin sample origin_builder synthetic_log '''')"
definition test_checkpoint_origin_policy_rejects_cr_lf_origin :: bool where
  "test_checkpoint_origin_policy_rejects_cr_lf_origin \<longleftrightarrow>
     expect_policy_error (allow_origin sample origin_builder synthetic_log (''rekor'' @ [CHR 0x0A] @ ''attacker''))"

lemma policy_tests_identities:
  test_repository_identity_parses_owner_slash_name test_repository_identity_with_ids_round_trips
  test_repository_identity_rejects_empty_owner test_repository_identity_rejects_empty_name
  test_repository_identity_parse_rejects_missing_slash test_repository_identity_parse_rejects_extra_slash
  test_repository_identity_parse_rejects_empty_owner test_workflow_path_rejects_empty
  test_commit_sha_rejects_wrong_length test_commit_sha_round_trips_hex
  by code_simp+

lemma policy_tests_builders:
  test_github_policy_builder_requires_both_halves test_github_policy_builder_builds_with_both_halves
  test_github_policy_builder_rejects_signer_owner_id_pin
  test_github_policy_builder_rejects_signer_repository_id_pin
  test_checkpoint_origin_policy_requires_a_binding test_checkpoint_origin_policy_rejects_empty_origin
  test_checkpoint_origin_policy_rejects_cr_lf_origin
  by code_simp+

section \<open>Reference policies and identity URIs\<close>

definition test_glob_star_alone_matches_anything :: bool where
  "test_glob_star_alone_matches_anything \<longleftrightarrow>
     list_all (glob_match ''*'') ['''', ''a'', ''refs/heads/trunk'', ''a/b/c'']"
definition test_glob_prefix_star_matches_suffix_including_slashes :: bool where
  "test_glob_prefix_star_matches_suffix_including_slashes \<longleftrightarrow>
     glob_match ''refs/tags/*'' ''refs/tags/v0.4.0'' \<and> glob_match ''refs/tags/*'' ''refs/tags/nested/v0.4.0''
     \<and> \<not> glob_match ''refs/tags/*'' ''refs/heads/trunk''"
definition test_glob_star_in_the_middle_requires_trailing_literal :: bool where
  "test_glob_star_in_the_middle_requires_trailing_literal \<longleftrightarrow>
     glob_match ''refs/*/v1'' ''refs/heads/v1'' \<and> glob_match ''refs/*/v1'' ''refs/heads/extra/v1''
     \<and> \<not> glob_match ''refs/*/v1'' ''refs/heads/v2'' \<and> \<not> glob_match ''refs/*/v1'' ''refs/v1''"
definition test_glob_exact_pattern_with_no_star_requires_exact_match :: bool where
  "test_glob_exact_pattern_with_no_star_requires_exact_match \<longleftrightarrow>
     glob_match ''refs/heads/trunk'' ''refs/heads/trunk'' \<and> \<not> glob_match ''refs/heads/trunk'' ''refs/heads/trunk2''"
definition test_glob_rejects_when_no_star_can_absorb_the_difference :: bool where
  "test_glob_rejects_when_no_star_can_absorb_the_difference \<longleftrightarrow> \<not> glob_match ''refs/tags/*'' ''refs/heads/v1''"
definition test_glob_empty_pattern_only_matches_empty_text :: bool where
  "test_glob_empty_pattern_only_matches_empty_text \<longleftrightarrow> glob_match '''' '''' \<and> \<not> glob_match '''' ''x''"
definition test_glob_adversarial_repeated_stars_do_not_blow_up :: bool where
  "test_glob_adversarial_repeated_stars_do_not_blow_up \<longleftrightarrow>
     (let pattern = ''*a*a*a*a*a*a*a*a*a*a*a*a*a*a*a*a*a*a*a*b''; all_as = replicate 40 CHR ''a'' in
      \<not> glob_match pattern all_as \<and> glob_match pattern (all_as @ ''b''))"

definition test_ref_policy_exact_matches_byte_for_byte :: bool where
  "test_ref_policy_exact_matches_byte_for_byte \<longleftrightarrow>
     passes (res_bind (check_ref_policy ''refs/heads/trunk'' (Exact ''refs/heads/trunk'')) (\<lambda>_. Inr True))"

definition is_ref_mismatch :: "error + unit \<Rightarrow> bool" where
  "is_ref_mismatch r = (case r of Inl (Policy (SourceRefMismatch _ _)) \<Rightarrow> True | _ \<Rightarrow> False)"

definition test_ref_policy_exact_rejects_mismatch :: bool where
  "test_ref_policy_exact_rejects_mismatch \<longleftrightarrow>
     is_ref_mismatch (check_ref_policy ''refs/heads/trunk'' (Exact ''refs/tags/v2.96.0''))"
definition test_ref_policy_glob_delegates_to_glob_match :: bool where
  "test_ref_policy_glob_delegates_to_glob_match \<longleftrightarrow> passes (
     res_bind (check_ref_policy ''refs/heads/trunk'' (Glob ''refs/heads/*'')) (\<lambda>_.
     Inr (is_ref_mismatch (check_ref_policy ''refs/heads/trunk'' (Glob ''refs/tags/*'')))))"

definition test_parses_bare_repo_uri :: bool where
  "test_parses_bare_repo_uri \<longleftrightarrow> passes (
     res_bind (parse_github_repo_uri ''https://github.com/cli/cli'' ''x'') (\<lambda>(owner, name).
     Inr (\<not> (owner \<noteq> ''cli'' \<or> name \<noteq> ''cli''))))"
definition test_rejects_repo_uri_missing_prefix :: bool where
  "test_rejects_repo_uri_missing_prefix \<longleftrightarrow>
     expect_malformed (parse_github_repo_uri ''http://github.com/cli/cli'' ''x'')"
definition test_rejects_repo_uri_with_extra_segment :: bool where
  "test_rejects_repo_uri_with_extra_segment \<longleftrightarrow>
     expect_malformed (parse_github_repo_uri ''https://github.com/cli/cli/extra'' ''x'')"
definition test_rejects_repo_uri_missing_name :: bool where
  "test_rejects_repo_uri_missing_name \<longleftrightarrow> expect_malformed (parse_github_repo_uri ''https://github.com/cli'' ''x'')"

definition test_parses_real_shaped_san_uri :: bool where
  "test_parses_real_shaped_san_uri \<longleftrightarrow> passes (
     res_bind (parse_signer_san_uri
        ''https://github.com/cli/cli/.github/workflows/deployment.yml@refs/heads/trunk'') (\<lambda>u.
     Inr (\<not> (su_owner u \<noteq> ''cli'' \<or> su_name u \<noteq> ''cli'')
        \<and> \<not> su_workflow_path u \<noteq> ''.github/workflows/deployment.yml''
        \<and> \<not> su_git_ref u \<noteq> ''refs/heads/trunk'')))"
definition test_rejects_san_uri_with_ambiguous_additional_at :: bool where
  "test_rejects_san_uri_with_ambiguous_additional_at \<longleftrightarrow> expect_malformed (parse_signer_san_uri
     ''https://github.com/cli/cli/.github/workflows/deployment.yml@refs/heads/weird@name'')"
definition test_rejects_san_uri_missing_workflow_prefix :: bool where
  "test_rejects_san_uri_missing_workflow_prefix \<longleftrightarrow> expect_malformed (parse_signer_san_uri
     ''https://github.com/cli/cli/not-a-workflow-path@refs/heads/trunk'')"
definition test_rejects_san_uri_missing_revision :: bool where
  "test_rejects_san_uri_missing_revision \<longleftrightarrow> expect_malformed (parse_signer_san_uri
     ''https://github.com/cli/cli/.github/workflows/deployment.yml'')"
definition test_malformed_claim_helper_wraps_reason :: bool where
  "test_malformed_claim_helper_wraps_reason \<longleftrightarrow> (case malformed_claim ''x'' ''reason'' of
      Policy (MalformedIdentityClaim claim reason) \<Rightarrow> \<not> (claim \<noteq> ''x'' \<or> reason \<noteq> ''reason'')
    | _ \<Rightarrow> False)"

lemma policy_match_tests_glob:
  test_glob_star_alone_matches_anything test_glob_prefix_star_matches_suffix_including_slashes
  test_glob_star_in_the_middle_requires_trailing_literal
  test_glob_exact_pattern_with_no_star_requires_exact_match
  test_glob_rejects_when_no_star_can_absorb_the_difference test_glob_empty_pattern_only_matches_empty_text
  by code_simp+

lemma policy_match_test_adversarial: test_glob_adversarial_repeated_stars_do_not_blow_up
  by code_simp

lemma policy_match_tests_refs:
  test_ref_policy_exact_matches_byte_for_byte test_ref_policy_exact_rejects_mismatch
  test_ref_policy_glob_delegates_to_glob_match
  by code_simp+

lemma policy_match_tests_uris:
  test_parses_bare_repo_uri test_rejects_repo_uri_missing_prefix test_rejects_repo_uri_with_extra_segment
  test_rejects_repo_uri_missing_name test_parses_real_shaped_san_uri
  test_rejects_san_uri_with_ambiguous_additional_at test_rejects_san_uri_missing_workflow_prefix
  test_rejects_san_uri_missing_revision test_malformed_claim_helper_wraps_reason
  by code_simp+

section \<open>Claims against a policy\<close>

definition SIGNER_DIGEST :: string where "SIGNER_DIGEST = ''b300f2ec7ec9dc9addc39b2ad88c54097ded7ca0''"
definition SOURCE_DIGEST :: string where "SOURCE_DIGEST = ''b300f2ec7ec9dc9addc39b2ad88c54097ded7ca1''"

definition synthetic_claims :: fulcio_claims where
  "synthetic_claims = \<lparr>
     fc_san_uri = Some ''https://github.com/cli/cli/.github/workflows/deployment.yml@refs/heads/trunk'',
     fc_issuer = Some EXPECTED_ISSUER, fc_build_signer_uri = None, fc_build_signer_digest = Some SIGNER_DIGEST,
     fc_runner_environment = None, fc_source_repository_uri = Some ''https://github.com/cli/cli'',
     fc_source_repository_digest = Some SOURCE_DIGEST, fc_source_repository_ref = Some ''refs/heads/trunk'',
     fc_source_repository_id = Some ''212613049'', fc_source_repository_owner_uri = None,
     fc_source_repository_owner_id = Some ''59704711'', fc_build_config_uri = None,
     fc_build_config_digest = None, fc_build_trigger = None, fc_run_invocation_uri = None\<rparr>"

definition synthetic_policy :: "workflow_revision_policy \<Rightarrow> error + github_policy" where
  "synthetic_policy revision =
     res_bind (repository_parse sample ''cli/cli'') (\<lambda>source_repo.
     let src = \<lparr>sp_repository = with_repository_id (with_owner_id source_repo 59704711) 212613049,
           sp_git_ref = Exact ''refs/heads/trunk'', sp_commit = None\<rparr> in
     res_bind (repository_parse sample ''cli/cli'') (\<lambda>signer_repo.
     res_bind (workflow_path_new ''.github/workflows/deployment.yml'') (\<lambda>path.
     github_policy_build (builder_signer (builder_source github_builder src)
       \<lparr>gp_repository = signer_repo, gp_path = path, gp_revision = revision\<rparr>))))"

text \<open>The shape of most of the tests: build the policy, match the claims, inspect the result.\<close>

definition check_match ::
  "fulcio_claims \<Rightarrow> error + github_policy \<Rightarrow> (error + matched_identity \<Rightarrow> bool) \<Rightarrow> bool" where
  "check_match claims policy inspect \<longleftrightarrow>
     passes (res_bind policy (\<lambda>p. Inr (inspect (match_policy sample claims p))))"

definition is_matched :: "error + matched_identity \<Rightarrow> bool" where
  "is_matched r = (case r of Inl _ \<Rightarrow> False | Inr _ \<Rightarrow> True)"

definition is_revision_mismatch :: "error + matched_identity \<Rightarrow> bool" where
  "is_revision_mismatch r = (case r of Inl (Policy (SignerRevisionMismatch _ _)) \<Rightarrow> True | _ \<Rightarrow> False)"

definition sha_policy :: "string \<Rightarrow> error + github_policy" where
  "sha_policy sha = res_bind (commit_sha_new sample sha) (\<lambda>c. synthetic_policy (Sha c))"

definition pin_commit :: "string \<Rightarrow> error + github_policy" where
  "pin_commit sha = res_bind (synthetic_policy Any) (\<lambda>policy.
     res_bind (commit_sha_new sample sha) (\<lambda>c.
     Inr (policy\<lparr>pol_source := (pol_source policy)\<lparr>sp_commit := Some c\<rparr>\<rparr>)))"

definition test_match_policy_succeeds_with_synthetic_claims_and_any_revision :: bool where
  "test_match_policy_succeeds_with_synthetic_claims_and_any_revision \<longleftrightarrow>
     check_match synthetic_claims (synthetic_policy Any) (\<lambda>r. case r of Inl _ \<Rightarrow> False
       | Inr m \<Rightarrow> \<not> (mi_source_repository m \<noteq> ''cli/cli'' \<or> mi_signer_repository m \<noteq> ''cli/cli''))"
definition test_match_policy_rejects_ambiguous_workflow_identity_with_any_revision :: bool where
  "test_match_policy_rejects_ambiguous_workflow_identity_with_any_revision \<longleftrightarrow>
     check_match (synthetic_claims\<lparr>fc_san_uri :=
         Some ''https://github.com/cli/cli/.github/workflows/deployment.yml@evil.yaml@refs/heads/trunk''\<rparr>)
       (synthetic_policy Any) expect_malformed"
definition test_match_policy_ref_revision_matches :: bool where
  "test_match_policy_ref_revision_matches \<longleftrightarrow>
     check_match synthetic_claims (synthetic_policy (Ref ''refs/heads/trunk'')) is_matched"
definition test_match_policy_ref_revision_mismatch_is_rejected :: bool where
  "test_match_policy_ref_revision_mismatch_is_rejected \<longleftrightarrow>
     check_match synthetic_claims (synthetic_policy (Ref ''refs/heads/other''))
       (\<lambda>r. r = Inl (Policy (SignerRevisionMismatch ''refs/heads/other'' ''refs/heads/trunk'')))"
definition test_match_policy_sha_revision_matches_build_signer_digest :: bool where
  "test_match_policy_sha_revision_matches_build_signer_digest \<longleftrightarrow>
     check_match synthetic_claims (sha_policy SIGNER_DIGEST) is_matched"
definition test_match_policy_sha_revision_mismatch_is_rejected :: bool where
  "test_match_policy_sha_revision_mismatch_is_rejected \<longleftrightarrow>
     check_match synthetic_claims (sha_policy (replicate 40 CHR ''c'')) is_revision_mismatch"
definition test_match_policy_missing_issuer_claim_is_rejected :: bool where
  "test_match_policy_missing_issuer_claim_is_rejected \<longleftrightarrow>
     check_match (synthetic_claims\<lparr>fc_issuer := None\<rparr>) (synthetic_policy Any)
       (\<lambda>r. r = Inl (Policy (MissingIdentityClaim ''issuer'')))"
definition test_match_policy_signer_repository_mismatch_is_rejected :: bool where
  "test_match_policy_signer_repository_mismatch_is_rejected \<longleftrightarrow>
     check_match (synthetic_claims\<lparr>fc_san_uri := Some
         ''https://github.com/other-org/other-repo/.github/workflows/deployment.yml@refs/heads/trunk''\<rparr>)
       (synthetic_policy Any)
       (\<lambda>r. r = Inl (Policy (SignerRepositoryMismatch ''cli/cli'' ''other-org/other-repo'')))"
definition test_match_policy_repository_id_mismatch_is_rejected :: bool where
  "test_match_policy_repository_id_mismatch_is_rejected \<longleftrightarrow>
     check_match (synthetic_claims\<lparr>fc_source_repository_id := Some ''1''\<rparr>) (synthetic_policy Any)
       (\<lambda>r. r = Inl (Policy (SourceRepositoryIdMismatch ''212613049'' ''1'')))"
definition test_match_policy_source_commit_matches_when_pinned :: bool where
  "test_match_policy_source_commit_matches_when_pinned \<longleftrightarrow>
     check_match synthetic_claims (pin_commit SOURCE_DIGEST) is_matched"
definition test_match_policy_source_commit_mismatch_is_rejected :: bool where
  "test_match_policy_source_commit_mismatch_is_rejected \<longleftrightarrow>
     check_match synthetic_claims (pin_commit (replicate 40 CHR ''d''))
       (\<lambda>r. case r of Inl (Policy (SourceCommitMismatch _ _)) \<Rightarrow> True | _ \<Rightarrow> False)"

lemma policy_match_tests_accepted:
  test_match_policy_succeeds_with_synthetic_claims_and_any_revision test_match_policy_ref_revision_matches
  test_match_policy_sha_revision_matches_build_signer_digest
  test_match_policy_source_commit_matches_when_pinned
  by code_simp+

lemma policy_match_tests_signer_rejected:
  test_match_policy_rejects_ambiguous_workflow_identity_with_any_revision
  test_match_policy_ref_revision_mismatch_is_rejected test_match_policy_sha_revision_mismatch_is_rejected
  test_match_policy_signer_repository_mismatch_is_rejected
  by code_simp+

lemma policy_match_tests_source_rejected:
  test_match_policy_missing_issuer_claim_is_rejected test_match_policy_repository_id_mismatch_is_rejected
  test_match_policy_source_commit_mismatch_is_rejected
  by code_simp+

end
