(* ===== verification/Tests_Wire.thy ===== *)
theory Tests_Wire
  imports Tests_Policy Verifier
begin

text \<open>
  The unit tests of \<open>src/src/sct.rs\<close>, \<open>dsse.rs\<close>, \<open>parse_util.rs\<close>, \<open>subject.rs\<close>, \<open>fulcio.rs\<close>, \<open>rekor.rs\<close>
  and \<open>verifier.rs\<close> that need no recorded certificate or log entry, run on the model. The
  synthetic SCTs are built byte by byte as the tests build them.
\<close>

section \<open>Synthetic SCT lists\<close>

definition u16_prefix :: "bytes \<Rightarrow> bytes" where
  "u16_prefix bs = be_bytes 2 (if length bs \<le> 65535 then length bs else 0)"

definition build_synthetic_sct :: "bytes \<Rightarrow> u64 \<Rightarrow> bytes \<Rightarrow> u8 \<Rightarrow> u8 \<Rightarrow> bytes \<Rightarrow> bytes" where
  "build_synthetic_sct log_id timestamp_ms extensions hash_algorithm signature_algorithm signature =
     [0] @ log_id @ be_bytes 8 (unat timestamp_ms) @ u16_prefix extensions @ extensions
     @ [hash_algorithm] @ [signature_algorithm] @ u16_prefix signature @ signature"

definition wrap_sct_list :: "bytes list \<Rightarrow> bytes" where
  "wrap_sct_list scts = (let list_body = concat (map (\<lambda>s. u16_prefix s @ s) scts) in
     u16_prefix list_body @ list_body)"

definition is_sct_invalid :: "error + 'a \<Rightarrow> bool" where
  "is_sct_invalid r = (case r of Inl (Certificate SctInvalid) \<Rightarrow> True | _ \<Rightarrow> False)"

definition test_parses_synthetic_sct_list_with_two_entries :: bool where
  "test_parses_synthetic_sct_list_with_two_entries \<longleftrightarrow> (
     let sct_a = build_synthetic_sct (replicate 32 0xAA) 1000 [] 4 3 [0x30, 0x02, 0x01, 0x00];
         sct_b = build_synthetic_sct (replicate 32 0xBB) 2000 [0x01, 0x02] 4 3 [0x30, 0x00];
         scts = wrap_sct_list [sct_a, sct_b] in
     passes (res_bind (parse_sct_list scts) (\<lambda>parsed.
       Inr (\<not> length parsed \<noteq> 2
         \<and> \<not> (sct_log_id (parsed ! 0) \<noteq> replicate 32 0xAA \<or> sct_timestamp_ms (parsed ! 0) \<noteq> 1000)
         \<and> \<not> (sct_log_id (parsed ! 1) \<noteq> replicate 32 0xBB \<or> sct_timestamp_ms (parsed ! 1) \<noteq> 2000
              \<or> sct_extensions (parsed ! 1) \<noteq> [0x01, 0x02])))))"

definition test_rejects_sct_list_with_wrong_total_length_prefix :: bool where
  "test_rejects_sct_list_with_wrong_total_length_prefix \<longleftrightarrow> (
     let sct_a = build_synthetic_sct (replicate 32 0xAA) 1000 [] 4 3 [0x30, 0x00];
         scts = wrap_sct_list [sct_a] in
     is_sct_invalid (parse_sct_list (scts[1 := scts ! 1 + 1])))"

definition test_rejects_sct_with_trailing_bytes :: bool where
  "test_rejects_sct_with_trailing_bytes \<longleftrightarrow> (
     let sct_a = build_synthetic_sct (replicate 32 0xAA) 1000 [] 4 3 [0x30, 0x00] @ [0xFF] in
     is_sct_invalid (parse_sct_list (wrap_sct_list [sct_a])))"

definition test_rejects_truncated_sct :: bool where
  "test_rejects_truncated_sct \<longleftrightarrow> is_sct_invalid (parse_sct_list [0x00, 0x02, 0x00, 0x05, 0xAA])"

definition test_digitally_signed_bytes_matches_hand_computed_vector :: bool where
  "test_digitally_signed_bytes_matches_hand_computed_vector \<longleftrightarrow> (
     let issuer_key_hash = replicate 32 0x11; tbs = [0xAA, 0xBB, 0xCC]; ct_extensions = [0xDD, 0xEE] in
     digitally_signed_bytes 0x0102030405060708 issuer_key_hash tbs ct_extensions =
     Inr ([0] @ [0] @ [0x01, 0x02, 0x03, 0x04, 0x05, 0x06, 0x07, 0x08] @ [0x00, 0x01]
       @ issuer_key_hash @ [0x00, 0x00, 0x03] @ tbs @ [0x00, 0x02] @ ct_extensions))"

lemma sct_tests:
  test_parses_synthetic_sct_list_with_two_entries test_rejects_sct_list_with_wrong_total_length_prefix
  test_rejects_sct_with_trailing_bytes test_rejects_truncated_sct
  test_digitally_signed_bytes_matches_hand_computed_vector
  by code_simp+

text \<open>The builders are instances of the specification's serializer: what the tests check on two
  lists, \<open>sct_list_roundtrip\<close> has for every list.\<close>

lemma build_synthetic_sct_serializes:
  "length ext \<le> 65535 \<Longrightarrow> length sg \<le> 65535 \<Longrightarrow>
     build_synthetic_sct l t ext h s sg =
       serialize_sct \<lparr>sct_version = 0, sct_log_id = l, sct_timestamp_ms = t, sct_extensions = ext,
         sct_hash_algorithm = h, sct_signature_algorithm = s, sct_signature = sg\<rparr>"
  by (simp add: build_synthetic_sct_def serialize_sct_def u16_prefix_def vec16_def)

section \<open>Pre-authentication encoding\<close>

definition test_pae_matches_hand_computed_vector :: bool where
  "test_pae_matches_hand_computed_vector \<longleftrightarrow>
     pae ''application/vnd.in-toto+json'' (as_bytes ''hello'')
       = as_bytes ''DSSEv1 28 application/vnd.in-toto+json 5 hello''"

text \<open>The second letter of the payload takes two bytes.\<close>

definition hello_accented :: bytes where
  "hello_accented = as_bytes ''h'' @ [0xC3, 0xA9] @ as_bytes ''llo''"

definition test_pae_uses_byte_length_not_char_count :: bool where
  "test_pae_uses_byte_length_not_char_count \<longleftrightarrow>
     pae ''x'' hello_accented = as_bytes ''DSSEv1 1 x 6 '' @ hello_accented"

lemma pae_tests: test_pae_matches_hand_computed_vector test_pae_uses_byte_length_not_char_count
  by code_simp+

section \<open>Strict decoders and limits\<close>

definition is_hex_error :: "parse_error + 'a \<Rightarrow> bool" where
  "is_hex_error r = (case r of Inl (Hex _ _) \<Rightarrow> True | _ \<Rightarrow> False)"
definition is_not_an_integer :: "parse_error + 'a \<Rightarrow> bool" where
  "is_not_an_integer r = (case r of Inl (NotAnInteger _ _) \<Rightarrow> True | _ \<Rightarrow> False)"

definition test_strict_hex_round_trips :: bool where
  "test_strict_hex_round_trips \<longleftrightarrow> strict_hex sample 2 ''field'' ''0aff'' = Inr [0x0A, 0xFF]"
definition test_strict_hex_rejects_wrong_length :: bool where
  "test_strict_hex_rejects_wrong_length \<longleftrightarrow> is_hex_error (strict_hex sample 32 ''field'' ''abcd'')"
definition test_strict_hex_rejects_non_hex_chars :: bool where
  "test_strict_hex_rejects_non_hex_chars \<longleftrightarrow> is_hex_error (strict_hex sample 2 ''field'' ''zz'')"
definition test_strict_stringified_u64_parses_digits :: bool where
  "test_strict_stringified_u64_parses_digits \<longleftrightarrow> strict_stringified_u64 ''field'' ''2049189324'' = Inr 2049189324"
definition test_strict_stringified_u64_rejects_non_numeric :: bool where
  "test_strict_stringified_u64_rejects_non_numeric \<longleftrightarrow> is_not_an_integer (strict_stringified_u64 ''field'' ''12abc'')"
definition test_strict_stringified_u64_rejects_negative :: bool where
  "test_strict_stringified_u64_rejects_negative \<longleftrightarrow> is_not_an_integer (strict_stringified_u64 ''field'' ''-5'')"
definition test_check_input_size_allows_small_input :: bool where
  "test_check_input_size_allows_small_input \<longleftrightarrow> check_input_size (as_bytes ''small'') = Inr ()"
definition test_check_input_size_rejects_oversized_input :: bool where
  "test_check_input_size_rejects_oversized_input \<longleftrightarrow>
     (case check_input_size (replicate (MAX_INPUT_BYTES + 1) 0) of Inl (InputTooLarge _ _) \<Rightarrow> True | _ \<Rightarrow> False)"
definition test_check_count_allows_within_limit :: bool where
  "test_check_count_allows_within_limit \<longleftrightarrow> check_count [1::int, 2, 3] 3 TooManyBundles = Inr ()"
definition test_check_count_rejects_over_limit :: bool where
  "test_check_count_rejects_over_limit \<longleftrightarrow> check_count [1::int, 2, 3, 4] 3 TooManyBundles = Inl (TooManyBundles 4 3)"

lemma decoder_tests:
  test_strict_hex_round_trips test_strict_hex_rejects_wrong_length test_strict_hex_rejects_non_hex_chars
  test_strict_stringified_u64_parses_digits test_strict_stringified_u64_rejects_non_numeric
  test_strict_stringified_u64_rejects_negative
  by code_simp+

lemma limit_tests:
  test_check_input_size_allows_small_input test_check_input_size_rejects_oversized_input
  test_check_count_allows_within_limit test_check_count_rejects_over_limit
  unfolding test_check_input_size_allows_small_input_def test_check_input_size_rejects_oversized_input_def
    test_check_count_allows_within_limit_def test_check_count_rejects_over_limit_def
  by (simp_all add: check_input_size_def MAX_INPUT_BYTES_def check_count_def as_bytes_def)

definition expect_malformed_digest :: "string \<Rightarrow> bool" where
  "expect_malformed_digest input =
     (case from_digest_hex sample input of Inl (Parse (MalformedDigest _)) \<Rightarrow> True | _ \<Rightarrow> False)"

definition SHA256_EMPTY :: string where
  "SHA256_EMPTY = ''e3b0c44298fc1c149afbf4c8996fb92427ae41e4649b934ca495991b7852b855''"

definition test_from_digest_hex_round_trips :: bool where
  "test_from_digest_hex_round_trips \<longleftrightarrow> passes (
     res_bind (from_digest_hex sample SHA256_EMPTY) (\<lambda>subject.
     Inr (\<not> subject_to_hex sample subject \<noteq> SHA256_EMPTY)))"
definition test_from_digest_hex_rejects_63_chars :: bool where
  "test_from_digest_hex_rejects_63_chars \<longleftrightarrow> expect_malformed_digest (replicate 63 CHR ''a'')"
definition test_from_digest_hex_rejects_65_chars :: bool where
  "test_from_digest_hex_rejects_65_chars \<longleftrightarrow> expect_malformed_digest (replicate 65 CHR ''a'')"
definition test_from_digest_hex_rejects_non_hex :: bool where
  "test_from_digest_hex_rejects_non_hex \<longleftrightarrow> expect_malformed_digest (replicate 64 CHR ''z'')"

lemma subject_tests:
  test_from_digest_hex_round_trips test_from_digest_hex_rejects_63_chars
  test_from_digest_hex_rejects_65_chars test_from_digest_hex_rejects_non_hex
  by code_simp+

section \<open>Extensions, key names and the builder\<close>

definition test_find_extension_rejects_synthetic_duplicate :: bool where
  "test_find_extension_rejects_synthetic_duplicate \<longleftrightarrow> (
     let one = \<lparr>extn_id = ''1.2.3.4'', critical = False, extn_value = [0x0C, 0x01, 0x78]\<rparr> in
     case find_extension [one, one] ''1.2.3.4'' of Inl (Certificate DuplicateExtension) \<Rightarrow> True | _ \<Rightarrow> False)"

text \<open>The test looks its log up by base URL in the embedded trust root; any log of that URL does.\<close>

definition test_checkpoint_key_name_priority :: "transparency_log \<Rightarrow> bool" where
  "test_checkpoint_key_name_priority tlog \<longleftrightarrow>
     list_all (checkpoint_key_name_matches tlog) [''rekor.sigstore.dev'', ''https://rekor.sigstore.dev'']
     \<and> list_all (\<lambda>rejected. \<not> checkpoint_key_name_matches tlog rejected)
        [''Rekor.Sigstore.Dev'', ''rekor.sigstore.dev/'', ''https://rekor.sigstore.dev/'',
         ''http://rekor.sigstore.dev'', ''https://https://rekor.sigstore.dev'', ''rekor.sigstore.dev.'',
         '' rekor.sigstore.dev'', '''']"

lemma checkpoint_key_name_test:
  assumes "tl_base_url tlog = ''https://rekor.sigstore.dev''"
  shows "test_checkpoint_key_name_priority tlog"
  unfolding test_checkpoint_key_name_priority_def checkpoint_key_name_matches_def assms by code_simp

definition test_builder_rejects_directly_constructed_signer_id_pins :: bool where
  "test_builder_rejects_directly_constructed_signer_id_pins \<longleftrightarrow> passes (
     res_bind (embedded_public_good sample) (\<lambda>trust_store.
     case ts_tlogs trust_store of [] \<Rightarrow> Inr False | tlog # _ \<Rightarrow>
     res_bind (origin_policy_for_log sample tlog [''rekor.sigstore.dev - 1'']) (\<lambda>origin_policy.
     res_bind unpinned_source (\<lambda>src.
     res_bind (pinned_signer (\<lambda>r. with_repository_id (with_owner_id r 1) 2)) (\<lambda>sgr.
     let result = verifier_build sample
           (vb_set_checkpoint_origin_policy
             (vb_set_github_policy (vb_set_trust_store verifier_builder_default trust_store)
               \<lparr>pol_source = src, pol_signer = sgr\<rparr>) origin_policy) in
     Inr (expect_policy_error result))))))"

lemma find_extension_test: test_find_extension_rejects_synthetic_duplicate
  by code_simp

lemma builder_test: test_builder_rejects_directly_constructed_signer_id_pins
  by code_simp

end
