(* ===== verification/Spec2Isabelle.thy ===== *)
theory Spec2Isabelle
  imports Fuzz_Targets Honest_Log Error_Classes Monotonicity Log_Position Verify_Example Conformance
    Tests_Time Tests_Policy Tests_Wire
begin

text \<open>
  A model of \<open>attestation-verify\<close>, the Rust library that verifies GitHub artifact attestations
  (Sigstore bundles) offline, with the theorems that make it correct. This theory is the root: it
  imports all others and holds the properties that span components.

  \<^bold>\<open>The program.\<close> A caller parses a bundle (\<open>Bundle::from_json\<close>, or a \<open>BundleSet\<close> of several) and
  a trust root (\<open>TrustStore::from_json\<close> or the embedded one), builds a checkpoint-origin policy and
  an identity policy, hands the three to \<open>Verifier::builder\<close>, and calls \<open>verify_digest\<close> or
  \<open>verify_bytes\<close>. That runs eleven steps: the statement and the wanted subject, the Rekor entry
  with its signed promise, its binding to the bundle, its Merkle inclusion proof and its
  checkpoint, the path validation of the signing certificate at the logged time, the DSSE
  signature, the embedded SCTs, the claims of the certificate, and the policy. There is no state
  that outlives a call and no concurrency; the first failing step decides the error. Two
  command-line clients wrap the library.

  \<^bold>\<open>Theories and sources.\<close> Every file is under \<open>src/src\<close> unless a path is given; a definition has
  the name of the function it models, with the type in front for a method (\<open>bundle_from_raw\<close> is
  \<open>Bundle::from_raw\<close>), and a helper for a loop or a block ends in \<open>_loop\<close> or says what the block
  reads.

  \<^item> \<open>Prelude\<close>, \<open>Std_Lib\<close>: machine integers, the result type \<open>error + 'a\<close> with its bind, and the
    functions of the Rust standard library that the crate calls on strings, slices and integers.
  \<^item> \<open>Errors\<close> (\<open>error.rs\<close>, \<open>limits.rs\<close>), \<open>Error_Text\<close> (the message of each error), \<open>Wire_Types\<close> (the \<open>Raw*\<close> structs), \<open>Crates\<close> (the
    third-party functions as a parameter), \<open>Sample_Crates\<close> (an instance of them for witnesses).
  \<^item> \<open>Parse_Util\<close> (\<open>parse_util.rs\<close>, \<open>subject.rs\<close>), \<open>Timestamps\<close> and \<open>Timestamps_Spec\<close> (\<open>time.rs\<close>),
    \<open>Strict_Json\<close> (\<open>strict_json.rs\<close>): the strict decoders everything else parses with.
  \<^item> \<open>Statement\<close>, \<open>Bundle\<close>, \<open>Trust\<close> (\<open>statement.rs\<close>, \<open>bundle.rs\<close>, \<open>trust.rs\<close>): the hardened models
    of the three documents and their conversion from the raw ones.
  \<^item> \<open>Policies\<close> (\<open>policy.rs\<close>), \<open>Glob\<close> and \<open>Policy_Match\<close> (\<open>policy_match.rs\<close>): the two policies,
    their builders, and the comparison with authenticated claims.
  \<^item> \<open>Dsse\<close> (\<open>dsse.rs\<close>), \<open>X509\<close> (\<open>x509.rs\<close>), \<open>Sct\<close> (\<open>sct.rs\<close>), \<open>Fulcio\<close> (\<open>fulcio.rs\<close>): signature,
    path validation, embedded SCTs, claims.
  \<^item> \<open>Merkle\<close>, \<open>Signed_Note\<close>, \<open>Rekor\<close> (all \<open>rekor.rs\<close>): inclusion proof, checkpoint, and the log
    entry that uses both.
  \<^item> \<open>Verifier\<close> (\<open>verifier.rs\<close>) composes the steps; \<open>Fuzzing\<close> (\<open>fuzzing.rs\<close>) bounds and forwards, and
    \<open>Fuzz_Targets\<close> (\<open>src/fuzz/fuzz_targets\<close>) converts bytes to text for it.
  \<^item> \<open>Command_Line\<close>, \<open>Verify_Example\<close> (\<open>src/examples/verify.rs\<close>), \<open>Conformance\<close>
    (\<open>src/tools/conformance/src/main.rs\<close>): the two clients, from arguments to exit code.
  \<^item> \<open>Interfaces\<close> holds locales; \<open>Honest_Log\<close> the entry that an honest log hands out; \<open>Error_Classes\<close>
    which class of error each step can report; \<open>Monotonicity\<close> the order of policies and the growth of a
    trust root; \<open>Log_Position\<close> two bundles at one position of one log.
  \<^item> \<open>Tests_Time\<close>, \<open>Tests_Policy\<close>, \<open>Tests_Wire\<close>: the unit tests of the sources that need no recorded
    file, as truth values with the name of the test, each shown to hold of the model.

  \<^bold>\<open>Conventions.\<close> A struct is a record, an enum a datatype, \<open>u8\<close> and \<open>u64\<close> are words, \<open>i64\<close> values
  are integers with their range proved, \<open>usize\<close> positions are naturals, \<open>&str\<close> is the list of its
  UTF-8 bytes as characters, an early return or \<open>?\<close> is a branch that returns \<open>Inl\<close>. Functions of
  third-party crates (SHA-256, base64, hex, ECDSA, DER and X.509 decoding, \<open>serde_json\<close>) are the
  fields of the record \<open>crates\<close>, an argument \<open>E\<close> of every definition that calls one; nothing is
  assumed of them but where a theorem names a law, such as \<open>sha256_len E\<close> or \<open>b64_roundtrip E\<close>.
  Files and loosely typed JSON queries of the clients are the record \<open>host\<close>.

  \<^bold>\<open>What the lemmas show.\<close> For every parser: the exact set of inputs it accepts and what it reads
  (RFC 3339, strict JSON, SCT list, checkpoint, repository and signer URIs, client identities), as
  a round trip with a printer or as a declarative predicate. For every signed structure: two
  messages with the same signed bytes agree (DSSE, signed entry promise, digitally-signed struct).
  For the Merkle proof: agreement with the tree hash and audit path of RFC 6962, and a collision
  extracted from any wrong acceptance. For path validation, log entry, policy and verifier: success
  is equivalent to a conjunction of pieces of evidence (\<open>attested\<close> for the whole run, over
  \<open>statement_names\<close>, \<open>log_evidence\<close>, \<open>signer_evidence\<close>, \<open>sct_evidence\<close>, \<open>identity_evidence\<close>), and
  the error is the first failure (\<open>first_failure\<close> lists the checks of path validation in order); a policy error is only reported when all other evidence
  is there. \<open>honest_entry_accepted\<close> is the converse direction for
  the log: an honest one is believed at every tree size below \<open>2 ^ 64\<close>. For two runs: a policy
  that asks for less, or a trust root with logs and authorities added at the end, accepts what was
  accepted before, and two bundles at one position of one log name the same digests or exhibit a
  collision. For the clients: exit success is equivalent to an attestation with the claims that the
  arguments spell, and standard error is empty exactly then. For the messages: the text of a failed
  check identifies the error among all errors.

  \<^bold>\<open>Interfaces.\<close> \<open>half_open_window\<close> (trust windows, interpreted for certificate authorities and CT
  logs), \<open>first_success\<close> (a search that keeps the first error, for the authorities and the SCTs),
  \<open>wire_field\<close> with \<open>field_pair\<close> (readers of one field, for the cursor functions of the SCT code),
  \<open>strict_document\<close> (a parser behind the strict JSON layer, for the statement, bundle, GitHub
  response and trust root), \<open>origin_relation\<close> (the relation that the origin builder grows). The policies
  are instances of the library's order classes: \<open>ref_policy\<close> a preorder, \<open>workflow_revision_policy\<close> an
  order with top \<open>Any\<close>.

  \<^bold>\<open>Termination.\<close> No definition uses fuel. The loops that are not structural have a measure: a
  lexicographic rank of the matcher state (\<open>glob_rank\<close>) in \<open>glob_loop\<close>, the remaining bytes in \<open>sct_list_loop\<close> and
  \<open>fraction_loop\<close> and \<open>lossy_bytes\<close>, the index of the last node in \<open>recompute_loop\<close>, the remaining arguments in the clients.

  \<^bold>\<open>Not modelled.\<close> \<open>lib.rs\<close> (module declarations and re-exports), getters that return a field,
  \<open>Debug\<close>, the libFuzzer harness, the tests that run on recorded bundles and certificates or on a
  real SHA-256, base64 or JSON engine, fixtures and shell scripts. The bodies of the third-party
  crates and the embedded JSON asset are parameters.
\<close>

section \<open>An accepted attestation\<close>

definition the_ok :: "'a \<Rightarrow> 'e + 'a \<Rightarrow> 'a" where
  "the_ok d r = (case r of Inl _ \<Rightarrow> d | Inr x \<Rightarrow> x)"

definition sample_digest :: subject_digest where
  "sample_digest = \<lparr>subject_bytes = replicate 32 0\<rparr>"

definition sample_repository :: repository_identity where
  "sample_repository = \<lparr>ri_owner = ''Acme'', ri_name = ''tool'', ri_owner_id = None, ri_repository_id = None\<rparr>"

definition sample_github_policy :: github_policy where
  "sample_github_policy = \<lparr>pol_source = \<lparr>sp_repository = sample_repository\<lparr>ri_owner_id := Some 42\<rparr>,
       sp_git_ref = Glob ''refs/*'', sp_commit = None\<rparr>,
     pol_signer = \<lparr>gp_repository = sample_repository, gp_path = WorkflowPath ''.github/workflows/release.yml'',
       gp_revision = Any\<rparr>\<rparr>"

text \<open>Everything from bytes to the report: parse the bundle and the trust root, build the origin
  policy and the verifier, verify.\<close>

definition sample_bundle :: "error + sigstore_bundle" where
  "sample_bundle = bundle_from_json sample [0x7B]"

definition sample_verifier :: "error + verifier" where
  "sample_verifier =
     res_bind (trust_store_from_json sample [0x7B]) (\<lambda>ts.
     res_bind (origin_policy_for_log sample (hd (ts_tlogs ts)) [''log'']) (\<lambda>pol.
     verifier_build sample (vb_set_checkpoint_origin_policy
       (vb_set_github_policy (vb_set_trust_store verifier_builder_default ts) sample_github_policy) pol)))"

definition sample_run :: "error + verification_report" where
  "sample_run = res_bind sample_bundle (\<lambda>b. res_bind sample_verifier (\<lambda>v.
     verify_digest sample v sample_digest b))"

lemma sample_run_ok: "is_ok sample_run"
  by code_simp

lemma sample_accepted:
  "\<exists>b v r. sample_bundle = Inr b \<and> sample_verifier = Inr v \<and> verify_digest sample v sample_digest b = Inr r"
  using sample_run_ok by (auto simp: sample_run_def is_ok_iff)

text \<open>The log behind it is honest and has one entry, the canonicalized body.\<close>

definition sample_head_signature :: checkpoint_signature where
  "sample_head_signature = \<lparr>sl_name = ''log'', sl_key_hint = [7, 0, 0, 0], sl_signature = [7]\<rparr>"

definition logged_once :: "sigstore_bundle \<Rightarrow> bool" where
  "logged_once b = (case vm_tlog_entries (bundle_verification_material b) of
     [e] \<Rightarrow> te_canonicalized_body e = [0x7B]
       \<and> te_inclusion_proof e = Some (honest_proof sample [[0x7B]] 0 ''log'' [] sample_head_signature)
   | _ \<Rightarrow> False)"

lemma sample_logged_once: "logged_once (the_ok undefined sample_bundle)"
  by code_simp

section \<open>Properties that span the components\<close>

text \<open>C1. End to end: \<open>verify_digest\<close> reports \<open>r\<close> if and only if the bundle attests the digest: its
  signed statement names the digest under the supported types, the log evidence is complete, the
  first authority that vouches for the leaf at the logged time makes it the signer of the envelope,
  a trusted CT log vouches for its issuance, and its claims satisfy the policy; and \<open>r\<close> says so.\<close>

theorem verify_digest_refines_attestation:
  "verify_digest E v d b = Inr r \<longleftrightarrow> attested E v d b r"
  by (rule verify_digest_attested)

text \<open>C3. An accepted envelope is in the log: when the root of its proof is the root of a log with
  those entries, the logged entry at that index is the body that describes this envelope and
  certificate, or the proof exhibits a SHA-256 collision.\<close>

theorem accepted_envelope_is_logged:
  assumes "sha256_len E" and "verify_digest E v d b = Inr r"
    and "vm_tlog_entries (bundle_verification_material b) = [e]" and "te_inclusion_proof e = Some pf"
    and "ip_root_hash pf = log_root E entries" and "unat (ip_tree_size pf) = length entries"
  shows "body_describes E e b
    \<and> (te_canonicalized_body e = entries ! unat (ip_log_index pf)
       \<or> is_collision E (inclusion_collision E entries (te_canonicalized_body e) (unat (ip_log_index pf)) (ip_hashes pf)))"
proof -
  obtain e' where "log_evidence E (vr_trust_store v) (vr_checkpoint_origin_policy v) b e'"
    using assms(2) unfolding verify_digest_attested attested_def by blast
  then obtain l k where d: "body_describes E e b"
    and t: "in_signed_tree E (vr_checkpoint_origin_policy v) e l k"
    using assms(3) by (auto simp: log_evidence_def)
  from t assms(4) have "verify_inclusion_proof E (te_canonicalized_body e) pf = Inr ()"
    by (auto simp: in_signed_tree_iff)
  from inclusion_sound [OF assms(1) this assms(5,6)] d show ?thesis by blast
qed

theorem accepted_envelope_is_logged_witness:
  "\<exists>b v r e. sample_bundle = Inr b \<and> verify_digest sample v sample_digest b = Inr r
     \<and> vm_tlog_entries (bundle_verification_material b) = [e] \<and> body_describes sample e b"
proof -
  obtain b v r where run: "sample_bundle = Inr b" "verify_digest sample v sample_digest b = Inr r"
    using sample_accepted by blast
  have "logged_once b" using sample_logged_once by (simp add: run(1) the_ok_def)
  then obtain e pf where e: "vm_tlog_entries (bundle_verification_material b) = [e]" "te_inclusion_proof e = Some pf"
    "ip_root_hash pf = log_root sample [[0x7B]]" "unat (ip_tree_size pf) = length [[0x7B :: u8]]"
    by (auto simp: logged_once_def honest_proof_def split: list.splits)
  from accepted_envelope_is_logged [OF sample_sha256_len run(2) e] run e(1) show ?thesis by blast
qed

text \<open>Half-open windows of trusted keys, and the validity of a certificate by the seconds it states,
  before any conversion to a signed integer. At the last second of that range a start beyond it
  would be taken for the second itself.\<close>

definition open_at :: "validity_period \<Rightarrow> int \<Rightarrow> bool" where
  "open_at w t \<longleftrightarrow> vp_start w \<le> t \<and> (\<forall>x. vp_end w = Some x \<longrightarrow> t < x)"

definition stated_valid :: "'n x509_cert \<Rightarrow> int \<Rightarrow> bool" where
  "stated_valid c t \<longleftrightarrow> (int (unat (cert_not_before c)) \<le> t \<or> t = 2 ^ 63 - 1)
     \<and> t \<le> int (unat (cert_not_after c))"

lemma valid_at_stated: "valid_at c t \<Longrightarrow> stated_valid c t"
  by (auto simp: valid_at_def stated_valid_def unix_seconds_def I64_MAX_def split: if_splits)

text \<open>C23. All time decisions of an accepted verification are taken at one instant, the logged one: it
  is inside the window of the log key that the entry's log id selects, inside the window of the
  authority that the search selects, the first that vouches for the leaf, and inside the validity
  that the leaf and every certificate of that authority's path state. The logged time fits a
  signed integer, and no certificate passes because the conversion of its bounds saturates, but
  for a start beyond the very last second.\<close>

theorem accepted_time_consistent:
  assumes "verify_digest E v d b = Inr r"
  shows "\<exists>e l leaf us ca vs chain t. vm_tlog_entries (bundle_verification_material b) = [e]
    \<and> vx_integrated_time (rep_transparency r) = te_integrated_time e
    \<and> t = int (unat (te_integrated_time e)) \<and> t < 2 ^ 63
    \<and> selected_log E (vr_trust_store v) (te_log_id_key_id e) l \<and> open_at (pk_valid_for (tl_public_key l)) t
    \<and> x509_from_der E (cert_raw_bytes (vm_certificate (bundle_verification_material b))) = Inr leaf
    \<and> ts_certificate_authorities (vr_trust_store v) = us @ ca # vs
    \<and> vouches E t leaf ca chain \<and> (\<forall>u \<in> set us. \<nexists>w. vouched_by E t leaf u w)
    \<and> open_at (ca_valid_for ca) t \<and> chain \<noteq> []
    \<and> list_all2 (\<lambda>c d. x509_from_der E (cert_raw_bytes c) = Inr d) (ca_certificates ca) chain
    \<and> list_all (\<lambda>c. stated_valid c t) (leaf # chain)"
proof -
  obtain st s e vl i where ev: "log_evidence E (vr_trust_store v) (vr_checkpoint_origin_policy v) b e"
    and sg: "signer_evidence E (vr_trust_store v) b (int (unat (te_integrated_time e))) vl"
    and r: "r = report_of v d s i e st"
    using assms unfolding verify_digest_attested attested_def by blast
  let ?t = "int (unat (te_integrated_time e))"
  obtain l where l: "vm_tlog_entries (bundle_verification_material b) = [e]"
      "selected_log E (vr_trust_store v) (te_log_id_key_id e) l"
    and w: "time_in_windows E b l (te_integrated_time e)"
    using ev unfolding log_evidence_def by blast
  have t: "?t < 2 ^ 63" "open_at (pk_valid_for (tl_public_key l)) ?t"
    using w by (auto simp: time_in_windows_def open_at_def)
  obtain leaf us ca vs chain where ca:
      "x509_from_der E (cert_raw_bytes (vm_certificate (bundle_verification_material b))) = Inr leaf"
      "ts_certificate_authorities (vr_trust_store v) = us @ ca # vs"
      "vouches E ?t leaf ca chain" "\<forall>u \<in> set us. \<nexists>w. vouched_by E ?t leaf u w"
    using sg unfolding signer_evidence_def first_voucher_def vouched_by_def [of E _ _ _ vl] by blast
  have "list_all (\<lambda>c. valid_at c ?t) (leaf # chain)"
    using ca(3) trusted_path_valid by (auto simp: vouches_def)
  then have "list_all (\<lambda>c. stated_valid c ?t) (leaf # chain)" by (rule list.pred_mono_strong) (rule valid_at_stated)
  moreover have "open_at (ca_valid_for ca) ?t" "chain \<noteq> []"
    "list_all2 (\<lambda>c d. x509_from_der E (cert_raw_bytes c) = Inr d) (ca_certificates ca) chain"
    using ca(3) by (auto simp: vouches_def open_at_def ca_window.inside_iff)
  moreover have "vx_integrated_time (rep_transparency r) = te_integrated_time e" by (simp add: r report_of_def)
  ultimately show ?thesis using l t ca by blast
qed

theorem accepted_time_consistent_witness:
  "\<exists>v b r (leaf :: nat x509_cert) ca. verify_digest sample v sample_digest b = Inr r
     \<and> stated_valid leaf (int (unat (vx_integrated_time (rep_transparency r))))
     \<and> ca \<in> set (ts_certificate_authorities (vr_trust_store v))
     \<and> open_at (ca_valid_for ca) (int (unat (vx_integrated_time (rep_transparency r))))"
proof -
  obtain b v r where run: "verify_digest sample v sample_digest b = Inr r"
    using sample_accepted by blast
  from accepted_time_consistent [OF run, unfolded list.pred_inject]
  obtain e :: tlog_entry and us vs t and ca :: certificate_authority and leaf :: "nat x509_cert" where
    "vx_integrated_time (rep_transparency r) = te_integrated_time e" "t = int (unat (te_integrated_time e))"
    "ts_certificate_authorities (vr_trust_store v) = us @ ca # vs" "open_at (ca_valid_for ca) t"
    "stated_valid leaf t" by blast
  then have "stated_valid leaf (int (unat (vx_integrated_time (rep_transparency r))))"
    "ca \<in> set (ts_certificate_authorities (vr_trust_store v))"
    "open_at (ca_valid_for ca) (int (unat (vx_integrated_time (rep_transparency r))))" by simp_all
  with run show ?thesis by blast
qed

text \<open>What \<open>build\<close> checks, and that it keeps the parts.\<close>

theorem verifier_build_checks:
  "verifier_build E b = Inr v \<longleftrightarrow> verifier_wf E v \<and> vb_trust_store b = Some (vr_trust_store v)
     \<and> vb_github_policy b = Some (vr_github_policy v)
     \<and> vb_checkpoint_origin_policy b = Some (vr_checkpoint_origin_policy v)"
  by (rule verifier_build_iff)

text \<open>C40. What nobody signed has no influence: the outcome, reports and errors alike, does not depend
  on the media type, on the RFC 3161 timestamps, or on the keys that the trust root lists for
  timestamp authorities.\<close>

theorem verify_digest_ignores_unauthenticated:
  "verify_digest E (v\<lparr>vr_trust_store := (vr_trust_store v)\<lparr>ts_timestamp_authorities := tas\<rparr>\<rparr>) d
     (b\<lparr>bundle_media_type := m, bundle_verification_material :=
          (bundle_verification_material b)\<lparr>vm_timestamp_verification_data := x\<rparr>\<rparr>)
   = verify_digest E v d b"
  (is "verify_digest E ?v d ?b = _")
proof -
  have v: "vr_trust_store ?v = (vr_trust_store v)\<lparr>ts_timestamp_authorities := tas\<rparr>"
    "vr_github_policy ?v = vr_github_policy v" "vr_checkpoint_origin_policy ?v = vr_checkpoint_origin_policy v"
    by simp_all
  have b: "bundle_dsse_envelope ?b = bundle_dsse_envelope b"
    "vm_certificate (bundle_verification_material ?b) = vm_certificate (bundle_verification_material b)"
    by simp_all
  have ts: "ts_fingerprint ((vr_trust_store v)\<lparr>ts_timestamp_authorities := tas\<rparr>) = ts_fingerprint (vr_trust_store v)"
    "ts_source ((vr_trust_store v)\<lparr>ts_timestamp_authorities := tas\<rparr>) = ts_source (vr_trust_store v)"
    by simp_all
  have steps: "verify_tlog_entry E ?b ((vr_trust_store v)\<lparr>ts_timestamp_authorities := tas\<rparr>) pol
      = verify_tlog_entry E b (vr_trust_store v) pol"
    "validate_chain E der ((vr_trust_store v)\<lparr>ts_timestamp_authorities := tas\<rparr>) t = validate_chain E der (vr_trust_store v) t"
    "verify_embedded_scts E vl ((vr_trust_store v)\<lparr>ts_timestamp_authorities := tas\<rparr>) = verify_embedded_scts E vl (vr_trust_store v)"
    for pol der t vl
    by (rule tlog_entry_reads, simp_all, rule validate_chain_reads, simp, rule scts_reads, simp)
  show ?thesis unfolding verify_digest_def bundle_statement_def v b ts steps by (rule refl)
qed

text \<open>C2. An honest log is believed: when the entry describes the bundle, the log promised it, the time is
  inside the windows, and the proof and the signed head are the ones an honest log hands out for
  any of its fewer than \<open>2 ^ 64\<close> entries, \<open>verify_tlog_entry\<close> accepts.\<close>

theorem honest_entry_accepted:
  assumes "sha256_len E" "b64_roundtrip E" "b64_alphabet E" "b64_nonempty E"
    and "vm_tlog_entries (bundle_verification_material b) = [e]" "body_describes E e b"
    and "selected_log E ts (te_log_id_key_id e) l" "from_spki_der E (pk_raw_bytes (tl_public_key l)) = Inr k"
    and "log_promised E e k" "time_in_windows E b l (te_integrated_time e)"
    and "m < length entries" "length entries < 2 ^ 64" "te_canonicalized_body e = entries ! m"
    and "te_inclusion_proof e = Some (honest_proof E entries m origin exts s)"
    and "signs_head E l k entries origin exts s" "allows policy (te_log_id_key_id e) origin"
  shows "verify_tlog_entry E b ts policy = Inr (timestamp_of e)"
  using assms by (rule honest_entry)

lemma sample_head_signed:
  assumes "in_signed_tree sample policy e l k"
    and "te_inclusion_proof e = Some (honest_proof sample [[0x7B]] 0 ''log'' [] sample_head_signature)"
  shows "signs_head sample l k [[0x7B]] ''log'' [] sample_head_signature \<and> allows policy (te_log_id_key_id e) ''log''"
proof -
  have s: "printable_signature sample_head_signature"
    by (simp add: sample_head_signature_def printable_signature_def)
  have "length (log_root sample [[0x7B]]) = 32" by (rule log_root32 [OF sample_sha256_len]) simp
  then have "log_root sample [[0x7B]] \<noteq> []" by auto
  then have "parse_checkpoint sample (honest_head sample [[0x7B]] ''log'' [] sample_head_signature) =
    Inr \<lparr>pc_origin = ''log'', pc_tree_size = word_of_nat (length [[0x7B :: u8]]),
      pc_root_hash = log_root sample [[0x7B]],
      pc_note_body = print_note_body sample ''log'' (word_of_nat (length [[0x7B :: u8]])) (log_root sample [[0x7B]]) [],
      pc_signatures = [sample_head_signature]\<rparr>"
    unfolding honest_head_def
    by (intro parse_print_checkpoint sample_b64_roundtrip sample_b64_alphabet sample_b64_nonempty)
      (simp_all add: s MAX_CHECKPOINT_SIGNATURES_def)
  with assms s show ?thesis
    by (auto simp: in_signed_tree_def honest_proof_def signs_head_def note_line_def)
qed

theorem honest_entry_accepted_witness:
  "\<exists>b ts policy e. verify_tlog_entry sample b ts policy = Inr (timestamp_of e)
     \<and> te_inclusion_proof e = Some (honest_proof sample [[0x7B]] 0 ''log'' [] sample_head_signature)"
proof -
  obtain b v r where run: "sample_bundle = Inr b" "verify_digest sample v sample_digest b = Inr r"
    using sample_accepted by blast
  have "logged_once b" using sample_logged_once by (simp add: run(1) the_ok_def)
  then obtain e where e: "vm_tlog_entries (bundle_verification_material b) = [e]"
    "te_canonicalized_body e = [0x7B]"
    "te_inclusion_proof e = Some (honest_proof sample [[0x7B]] 0 ''log'' [] sample_head_signature)"
    by (auto simp: logged_once_def split: list.splits)
  let ?ts = "vr_trust_store v" and ?policy = "vr_checkpoint_origin_policy v"
  obtain l k where ev: "body_describes sample e b" "selected_log sample ?ts (te_log_id_key_id e) l"
    "from_spki_der sample (pk_raw_bytes (tl_public_key l)) = Inr k" "log_promised sample e k"
    "time_in_windows sample b l (te_integrated_time e)" and t: "in_signed_tree sample ?policy e l k"
    using run(2) e(1) unfolding verify_digest_attested attested_def log_evidence_def by auto
  note h = sample_head_signed [OF t e(3)]
  have "verify_tlog_entry sample b ?ts ?policy = Inr (timestamp_of e)"
    by (rule honest_entry_accepted [OF sample_sha256_len sample_b64_roundtrip sample_b64_alphabet
          sample_b64_nonempty e(1) ev(1-5) _ _ _ e(3) conjunct1 [OF h] conjunct2 [OF h]])
      (simp_all add: e(2))
  with e(3) show ?thesis by blast
qed

text \<open>C4. A position in the log holds one content: when two accepted bundles, for whatever verifiers and
  digests, carry proofs for the same index of a tree of the same size and root, their payload,
  signature and certificate are the same, or the two bundles exhibit a SHA-256 collision.\<close>

theorem log_position_fixes_content:
  assumes "sha256_len E" and "same_position p q"
    and "verify_digest E v d b = Inr r" "vm_tlog_entries (bundle_verification_material b) = [e]"
      "te_inclusion_proof e = Some p"
    and "verify_digest E v' d' c = Inr r'" "vm_tlog_entries (bundle_verification_material c) = [f]"
      "te_inclusion_proof f = Some q"
  shows "same_content b c \<or> is_collision E (bundle_fork E b e p c f q)"
  using assms by (rule one_content_per_position)

theorem log_position_fixes_content_witness:
  "\<exists>b v r e p. sample_bundle = Inr b \<and> verify_digest sample v sample_digest b = Inr r
     \<and> te_inclusion_proof e = Some p \<and> (same_content b b \<or> is_collision sample (bundle_fork sample b e p b e p))"
proof -
  obtain b v r where run: "sample_bundle = Inr b" "verify_digest sample v sample_digest b = Inr r"
    using sample_accepted by blast
  have "logged_once b" using sample_logged_once by (simp add: run(1) the_ok_def)
  then obtain e pf where e: "vm_tlog_entries (bundle_verification_material b) = [e]" "te_inclusion_proof e = Some pf"
    by (auto simp: logged_once_def split: list.splits)
  have "same_position pf pf" by (simp add: same_position_def)
  from log_position_fixes_content [OF sample_sha256_len this run(2) e run(2) e] run e(2) show ?thesis by blast
qed

text \<open>C5. A more permissive pair of policies never refuses what a stricter pair accepts, and the report
  stays the same: dropping a pin, admitting more refs or any revision, spelling a repository in
  another case, or allowing further checkpoint origins.\<close>

theorem relaxed_policy_accepts:
  assumes "verify_digest E v d b = Inr r"
    and "github_policy_le (vr_github_policy v) p" and "origin_policy_le (vr_checkpoint_origin_policy v) q"
  shows "verify_digest E (v\<lparr>vr_github_policy := p, vr_checkpoint_origin_policy := q\<rparr>) d b = Inr r"
proof -
  have "r\<lparr>rep_trust := \<lparr>tsi_fingerprint = ts_fingerprint (vr_trust_store v), tsi_source = ts_source (vr_trust_store v)\<rparr>\<rparr> = r"
    using assms(1) unfolding verify_digest_attested attested_def by (auto simp: report_of_def)
  with verify_digest_le [OF assms(1) grown_refl assms(3,2)] show ?thesis by (cases v) simp
qed

definition unpinned :: "github_policy \<Rightarrow> github_policy" where
  "unpinned p = p\<lparr>pol_source := \<lparr>sp_repository = (sp_repository (pol_source p))\<lparr>ri_owner_id := None, ri_repository_id := None\<rparr>,
     sp_git_ref = Glob ''*'', sp_commit = None\<rparr>,
     pol_signer := (pol_signer p)\<lparr>gp_revision := top\<rparr>\<rparr>"

lemma unpinned_le: "github_policy_le p (unpinned p)"
  by (simp add: unpinned_def github_policy_le_def source_le_def signer_le_def repository_le_def pin_le_def any_ref_top)

theorem relaxed_policy_accepts_witness:
  "\<exists>b v r. sample_bundle = Inr b \<and> verify_digest sample v sample_digest b = Inr r
     \<and> verify_digest sample (v\<lparr>vr_github_policy := unpinned (vr_github_policy v),
          vr_checkpoint_origin_policy := vr_checkpoint_origin_policy v\<rparr>) sample_digest b = Inr r"
proof -
  obtain b v r where run: "sample_bundle = Inr b" "verify_digest sample v sample_digest b = Inr r"
    using sample_accepted by blast
  from relaxed_policy_accepts [OF run(2) unpinned_le origin_policy_le_refl] run show ?thesis by blast
qed

text \<open>C6. A trust root may grow at the end of its lists: with logs, authorities or CT logs appended,
  every bundle accepted before is accepted with the same report, but for the fingerprint and
  source of the trust root that the report names.\<close>

theorem grown_trust_root_accepts:
  assumes "verify_digest E v d b = Inr r" and "grown (vr_trust_store v) ts"
  shows "verify_digest E (v\<lparr>vr_trust_store := ts\<rparr>) d b
    = Inr (r\<lparr>rep_trust := \<lparr>tsi_fingerprint = ts_fingerprint ts, tsi_source = ts_source ts\<rparr>\<rparr>)"
  using verify_digest_le [OF assms origin_policy_le_refl github_policy_le_refl] by (cases v) simp

theorem grown_trust_root_accepts_witness:
  "\<exists>b v r. sample_bundle = Inr b \<and> verify_digest sample v sample_digest b = Inr r
     \<and> is_ok (verify_digest sample (v\<lparr>vr_trust_store := (vr_trust_store v)\<lparr>ts_tlogs :=
          ts_tlogs (vr_trust_store v) @ rev (ts_tlogs (vr_trust_store v))\<rparr>\<rparr>) sample_digest b)"
proof -
  obtain b v r where run: "sample_bundle = Inr b" "verify_digest sample v sample_digest b = Inr r"
    using sample_accepted by blast
  have "grown (vr_trust_store v) ((vr_trust_store v)\<lparr>ts_tlogs :=
      ts_tlogs (vr_trust_store v) @ rev (ts_tlogs (vr_trust_store v))\<rparr>)" by (simp add: grown_def)
  from grown_trust_root_accepts [OF run(2) this] run show ?thesis by (auto simp: is_ok_iff)
qed

end
